(* ===== verification/BT_Prelude.thy ===== *)
theory BT_Prelude
  imports Main "HOL-Library.Word"
begin

text \<open>
  Shared vocabulary of the development: the machine integer types the C and Go sources use,
  little- and big-endian byte codecs with both round-trip directions, lemmas on list slices
  and on list updates, and the collections that the component theories extend.
\<close>

unbundle bit_operations_syntax

section \<open>Machine integers\<close>

type_synonym u8 = "8 word"
type_synonym u16 = "16 word"
type_synonym s16 = "16 word"
type_synonym u32 = "32 word"
type_synonym u64 = "64 word"

named_theorems layout_simps \<open>evaluation of C type layouts\<close>
named_theorems codec_simps \<open>byte codecs: lengths and round trips\<close>
named_theorems frame_simps \<open>state components that an operation leaves unchanged\<close>

section \<open>Byte codecs\<close>

text \<open>Byte number 0 of a little-endian run is the least significant one.\<close>

primrec le_bytes :: "nat \<Rightarrow> 'a::len word \<Rightarrow> u8 list" where
  "le_bytes 0 w = []"
| "le_bytes (Suc n) w = ucast w # le_bytes n (drop_bit 8 w)"

primrec of_le :: "u8 list \<Rightarrow> 'a::len word" where
  "of_le [] = 0"
| "of_le (b # bs) = ucast b OR push_bit 8 (of_le bs)"

definition be_bytes :: "nat \<Rightarrow> 'a::len word \<Rightarrow> u8 list" where
  "be_bytes n w = rev (le_bytes n w)"

definition of_be :: "u8 list \<Rightarrow> 'a::len word" where
  "of_be bs = of_le (rev bs)"

text \<open>The bytes at offset \<open>off\<close> of a buffer, as a read of \<open>n\<close> bytes sees them.\<close>

definition slice_at :: "nat \<Rightarrow> nat \<Rightarrow> 'b list \<Rightarrow> 'b list" where
  "slice_at off n bs = take n (drop off bs)"

text \<open>A store of the bytes \<open>bs\<close> at offset \<open>off\<close> of a buffer.\<close>

definition write_at :: "nat \<Rightarrow> 'b list \<Rightarrow> 'b list \<Rightarrow> 'b list" where
  "write_at off bs buf = take off buf @ bs @ drop (off + length bs) buf"

text \<open>Several stores, one after the other.\<close>

definition writes :: "(nat \<times> 'b list) list \<Rightarrow> 'b list \<Rightarrow> 'b list" where
  "writes ws buf = fold (\<lambda>(off, bs) b. write_at off bs b) ws buf"

section \<open>Lemmas on byte codecs\<close>

lemma length_le_bytes [simp, codec_simps]: "length (le_bytes n w) = n"
  by (induction n arbitrary: w) auto

lemma length_be_bytes [simp, codec_simps]: "length (be_bytes n w) = n"
  by (simp add: be_bytes_def)

lemma nth_le_bytes: "j < n \<Longrightarrow> le_bytes n w ! j = ucast (drop_bit (8 * j) w)"
proof (induction n arbitrary: w j)
  case 0
  then show ?case by simp
next
  case (Suc n)
  then show ?case
    by (cases j) (simp_all add: drop_bit_drop_bit add.commute)
qed

lemma bit_of_le:
  "bit (of_le bs :: 'a::len word) i \<longleftrightarrow>
     i < LENGTH('a) \<and> i div 8 < length bs \<and> bit (bs ! (i div 8)) (i mod 8)"
proof (induction bs arbitrary: i)
  case Nil
  then show ?case by simp
next
  case (Cons b bs)
  have low: "bit (ucast b :: 'a word) i \<longleftrightarrow> i < LENGTH('a) \<and> i < 8 \<and> bit b i"
    by (auto simp: bit_ucast_iff dest: bit_imp_le_length)
  have high: "bit (push_bit 8 (of_le bs) :: 'a word) i \<longleftrightarrow>
      i < LENGTH('a) \<and> 8 \<le> i \<and> bit (of_le bs :: 'a word) (i - 8)"
    by (auto simp: bit_push_bit_iff)
  show ?case
  proof (cases "i < 8")
    case True
    then show ?thesis
      by (simp add: bit_or_iff low high)
  next
    case False
    then have "i div 8 = Suc ((i - 8) div 8)" and "i mod 8 = (i - 8) mod 8"
      by (simp_all add: le_div_geq le_mod_geq)
    with False show ?thesis
      by (simp add: bit_or_iff low high Cons.IH) (metis diff_le_self le_less_trans)
  qed
qed

lemma bit_le_bytes_nth:
  "j < n \<Longrightarrow> bit (le_bytes n w ! j) k \<longleftrightarrow> k < 8 \<and> bit (w :: 'a::len word) (8 * j + k)"
  by (auto simp: nth_le_bytes bit_simps add.commute)

lemma of_le_le_bytes [codec_simps]:
  assumes "LENGTH('a) \<le> 8 * n"
  shows "of_le (le_bytes n (w :: 'a::len word)) = w"
proof (rule bit_word_eqI)
  fix i
  assume i: "i < LENGTH('a)"
  with assms have "i div 8 < n"
    by (simp add: less_mult_imp_div_less mult.commute)
  with i show "bit (of_le (le_bytes n w) :: 'a word) i \<longleftrightarrow> bit w i"
    by (simp add: bit_of_le bit_le_bytes_nth)
qed

lemma le_bytes_of_le [codec_simps]:
  assumes "8 * length bs \<le> LENGTH('a)" and "n = length bs"
  shows "le_bytes n (of_le bs :: 'a::len word) = bs"
proof (rule nth_equalityI)
  show "length (le_bytes n (of_le bs :: 'a word)) = length bs"
    using assms by simp
next
  fix j
  assume "j < length (le_bytes n (of_le bs :: 'a word))"
  then have j: "j < length bs"
    using assms by simp
  show "le_bytes n (of_le bs :: 'a word) ! j = bs ! j"
  proof (rule bit_word_eqI)
    fix k
    assume "k < LENGTH(8)"
    then have k: "k < 8" by simp
    with j assms have "8 * j + k < LENGTH('a)"
      by simp
    with j k assms show "bit (le_bytes n (of_le bs :: 'a word) ! j) k = bit (bs ! j) k"
      by (simp add: bit_le_bytes_nth bit_of_le)
  qed
qed

lemma of_be_be_bytes [codec_simps]:
  "LENGTH('a) \<le> 8 * n \<Longrightarrow> of_be (be_bytes n (w :: 'a::len word)) = w"
  by (simp add: of_be_def be_bytes_def of_le_le_bytes)

lemma be_bytes_of_be [codec_simps]:
  "8 * length bs \<le> LENGTH('a) \<Longrightarrow> n = length bs \<Longrightarrow> be_bytes n (of_be bs :: 'a::len word) = bs"
  by (simp add: of_be_def be_bytes_def le_bytes_of_le)

section \<open>Lemmas on slices\<close>

lemma length_slice_at [simp]: "length (slice_at off n bs) = min n (length bs - off)"
  by (simp add: slice_at_def min.commute)

lemma slice_at_append_left: "off + n \<le> length xs \<Longrightarrow> slice_at off n (xs @ ys) = slice_at off n xs"
  by (simp add: slice_at_def)

lemma slice_at_append_right: "length xs \<le> off \<Longrightarrow> slice_at off n (xs @ ys) = slice_at (off - length xs) n ys"
  by (simp add: slice_at_def)

lemma slice_at_append_exact: "off = length xs \<Longrightarrow> n = length ys \<Longrightarrow> slice_at off n (xs @ ys @ zs) = ys"
  by (simp add: slice_at_def)

lemma slice_at_zero_all: "length bs \<le> n \<Longrightarrow> slice_at 0 n bs = bs"
  by (simp add: slice_at_def)

lemma nth_slice_at: "i < n \<Longrightarrow> off + i < length bs \<Longrightarrow> slice_at off n bs ! i = bs ! (off + i)"
  by (simp add: slice_at_def)

section \<open>Lemmas on stores\<close>

lemma length_write_at [simp]: "off + length bs \<le> length buf \<Longrightarrow> length (write_at off bs buf) = length buf"
  by (simp add: write_at_def)

lemma slice_at_write_at_same:
  "off + length bs \<le> length buf \<Longrightarrow> n = length bs \<Longrightarrow> slice_at off n (write_at off bs buf) = bs"
  by (simp add: slice_at_def write_at_def)

lemma slice_at_write_at_before:
  assumes "off + n \<le> woff" and "woff + length bs \<le> length buf"
  shows "slice_at off n (write_at woff bs buf) = slice_at off n buf"
proof -
  have "slice_at off n (write_at woff bs buf) = slice_at off n (take woff buf)"
    unfolding write_at_def using assms by (intro slice_at_append_left) simp
  also have "\<dots> = slice_at off n buf"
    using assms by (simp add: slice_at_def drop_take)
  finally show ?thesis .
qed

lemma slice_at_write_at_after:
  assumes "woff + length bs \<le> off" and "woff + length bs \<le> length buf"
  shows "slice_at off n (write_at woff bs buf) = slice_at off n buf"
proof -
  have "drop off (write_at woff bs buf) = drop off buf"
    using assms by (simp add: write_at_def)
  then show ?thesis by (simp add: slice_at_def)
qed

lemmas read_write_simps = slice_at_write_at_same slice_at_write_at_before slice_at_write_at_after

text \<open>
  After several stores within the buffer, each of which hits a slice exactly or not at all, the
  slice holds the last store that hit it.
\<close>

lemma length_writes:
  "list_all (\<lambda>(w, bs). w + length bs \<le> length buf) ws \<Longrightarrow> length (writes ws buf) = length buf"
  by (induction ws arbitrary: buf) (auto simp: writes_def)

lemma slice_at_writes:
  assumes "list_all (\<lambda>(w, bs). w + length bs \<le> length buf \<and>
      (w = off \<and> length bs = n \<or> off + n \<le> w \<or> w + length bs \<le> off)) ws"
  shows "slice_at off n (writes ws buf) =
    fold (\<lambda>(w, bs) d. if w = off \<and> length bs = n then bs else d) ws (slice_at off n buf)"
  using assms
proof (induction ws arbitrary: buf)
  case (Cons x ws)
  obtain w bs where x: "x = (w, bs)" by fastforce
  have "slice_at off n (write_at w bs buf) = (if w = off \<and> length bs = n then bs else slice_at off n buf)"
    using Cons.prems x
    by (auto simp: slice_at_write_at_same slice_at_write_at_before slice_at_write_at_after)
  moreover have "length (write_at w bs buf) = length buf" using Cons.prems x by simp
  ultimately show ?case using Cons x by (simp add: writes_def)
qed (simp add: writes_def)

lemma slice_at_write_at_prefix:
  assumes "off + n \<le> length buf" "length bs \<le> n"
  shows "slice_at off n (write_at off bs buf) = bs @ drop (length bs) (slice_at off n buf)"
  using assms by (simp add: slice_at_def write_at_def drop_take add.commute)

section \<open>Words of another width\<close>

lemma unat_ucast_mod: "unat (ucast (w :: 'a::len word) :: 'b::len word) = unat w mod 2 ^ LENGTH('b)"
  by transfer (simp add: take_bit_eq_mod nat_mod_distrib nat_power_eq)

section \<open>Concatenation of blocks of one size\<close>

lemma length_concat_blocks:
  "(\<And>k. k < m \<Longrightarrow> length (c k) = n) \<Longrightarrow> length (concat (map c [0..<m])) = m * n"
  by (induction m) auto

lemma nth_concat_blocks:
  assumes "\<And>k. k < m \<Longrightarrow> length (c k) = n" "j < m * n"
  shows "concat (map c [0..<m]) ! j = c (j div n) ! (j mod n)"
  using assms
proof (induction m)
  case (Suc m)
  have len: "length (concat (map c [0..<m])) = m * n" using Suc.prems by (intro length_concat_blocks) simp
  show ?case
  proof (cases "j < m * n")
    case True
    then show ?thesis using Suc len by (simp add: nth_append)
  next
    case False
    then have d: "j div n = m" using Suc.prems(2) by (auto simp: div_nat_eqI mult.commute)
    then have "j - m * n = j mod n" by (simp add: modulo_nat_def mult.commute)
    with d show ?thesis using False len by (simp add: nth_append)
  qed
qed simp

text \<open>Blocks that agree with a list up to its end give the list back.\<close>

lemma take_concat_blocks:
  assumes "\<And>k. k < m \<Longrightarrow> length (c k) = n" "length p \<le> m * n"
    "\<And>k q. k < m \<Longrightarrow> q < n \<Longrightarrow> k * n + q < length p \<Longrightarrow> c k ! q = p ! (k * n + q)"
  shows "take (length p) (concat (map c [0..<m])) = p"
proof (rule nth_equalityI)
  show len: "length (take (length p) (concat (map c [0..<m]))) = length p"
    using assms(1,2) by (simp add: length_concat_blocks)
  fix j assume "j < length (take (length p) (concat (map c [0..<m])))"
  then have j: "j < length p" "j < m * n" using len assms(2) by auto
  then have n: "0 < n" by (cases n) auto
  have "take (length p) (concat (map c [0..<m])) ! j = c (j div n) ! (j mod n)"
    using nth_concat_blocks [of m c n j] assms(1) j by simp
  also have "\<dots> = p ! (j div n * n + j mod n)"
    using j n by (intro assms(3)) (auto simp: less_mult_imp_div_less)
  finally show "take (length p) (concat (map c [0..<m])) ! j = p ! j" by simp
qed

end
