(* ===== verification/BT_BpfEndian.thy ===== *)
theory BT_BpfEndian
  imports BT_Prelude
begin

text \<open>
  The byte order macros of \<^verbatim>\<open>headers/bpf_endian.h\<close>. \<^verbatim>\<open>___bpf_mvb\<close> isolates a byte and moves it
  by shifts at the width of its type; the swaps are unions of such moves. The compiler
  builtins \<^verbatim>\<open>__builtin_bswapN\<close> are arguments of the definitions that call them.
\<close>

section \<open>Definitions\<close>

definition bpf_mvb :: "'a::len word \<Rightarrow> nat \<Rightarrow> nat \<Rightarrow> 'a word" where
  "bpf_mvb x n m =
     push_bit (m * 8) (drop_bit (LENGTH('a) - 8) (push_bit (LENGTH('a) - (n + 1) * 8) x))"

definition bpf_swab16 :: "u16 \<Rightarrow> u16" where
  "bpf_swab16 x = bpf_mvb x 0 1 OR bpf_mvb x 1 0"

definition bpf_swab32 :: "u32 \<Rightarrow> u32" where
  "bpf_swab32 x = bpf_mvb x 0 3 OR bpf_mvb x 1 2 OR bpf_mvb x 2 1 OR bpf_mvb x 3 0"

definition bpf_swab64 :: "u64 \<Rightarrow> u64" where
  "bpf_swab64 x =
     bpf_mvb x 0 7 OR bpf_mvb x 1 6 OR bpf_mvb x 2 5 OR bpf_mvb x 3 4 OR
     bpf_mvb x 4 3 OR bpf_mvb x 5 2 OR bpf_mvb x 6 1 OR bpf_mvb x 7 0"

datatype byte_order = LittleEndian | BigEndian

text \<open>
  The six macros that client code uses. \<open>const\<close> is \<^verbatim>\<open>__builtin_constant_p(x)\<close>, \<open>bswap\<close> the
  builtin of the width at hand.
\<close>

definition bpf_host_net :: "byte_order \<Rightarrow> ('a \<Rightarrow> 'a) \<Rightarrow> ('a \<Rightarrow> 'a) \<Rightarrow> bool \<Rightarrow> 'a \<Rightarrow> 'a" where
  "bpf_host_net order swab bswap const x =
     (case order of
        LittleEndian \<Rightarrow> (if const then swab x else bswap x)
      | BigEndian \<Rightarrow> x)"

definition bpf_htons :: "byte_order \<Rightarrow> (u16 \<Rightarrow> u16) \<Rightarrow> bool \<Rightarrow> u16 \<Rightarrow> u16" where
  "bpf_htons order bswap16 = bpf_host_net order bpf_swab16 bswap16"

definition bpf_ntohs :: "byte_order \<Rightarrow> (u16 \<Rightarrow> u16) \<Rightarrow> bool \<Rightarrow> u16 \<Rightarrow> u16" where
  "bpf_ntohs order bswap16 = bpf_host_net order bpf_swab16 bswap16"

definition bpf_htonl :: "byte_order \<Rightarrow> (u32 \<Rightarrow> u32) \<Rightarrow> bool \<Rightarrow> u32 \<Rightarrow> u32" where
  "bpf_htonl order bswap32 = bpf_host_net order bpf_swab32 bswap32"

definition bpf_ntohl :: "byte_order \<Rightarrow> (u32 \<Rightarrow> u32) \<Rightarrow> bool \<Rightarrow> u32 \<Rightarrow> u32" where
  "bpf_ntohl order bswap32 = bpf_host_net order bpf_swab32 bswap32"

definition bpf_cpu_to_be64 :: "byte_order \<Rightarrow> (u64 \<Rightarrow> u64) \<Rightarrow> bool \<Rightarrow> u64 \<Rightarrow> u64" where
  "bpf_cpu_to_be64 order bswap64 = bpf_host_net order bpf_swab64 bswap64"

definition bpf_be64_to_cpu :: "byte_order \<Rightarrow> (u64 \<Rightarrow> u64) \<Rightarrow> bool \<Rightarrow> u64 \<Rightarrow> u64" where
  "bpf_be64_to_cpu order bswap64 = bpf_host_net order bpf_swab64 bswap64"

text \<open>Byte \<open>q\<close> of a word of \<open>k\<close> bytes becomes byte \<open>k - 1 - q\<close>.\<close>

definition reverses_bytes :: "nat \<Rightarrow> ('a::len word \<Rightarrow> 'a word) \<Rightarrow> bool" where
  "reverses_bytes k f \<longleftrightarrow>
     (\<forall>x q r. q < k \<longrightarrow> r < 8 \<longrightarrow> bit (f x) (q * 8 + r) = bit x ((k - 1 - q) * 8 + r))"

lemmas endian_defs =
  bpf_htons_def bpf_ntohs_def bpf_htonl_def bpf_ntohl_def bpf_cpu_to_be64_def
  bpf_be64_to_cpu_def bpf_host_net_def

section \<open>A move of one byte\<close>

text \<open>Where \<open>n\<close> and \<open>m\<close> are byte positions of the word, byte \<open>n\<close> ends up as byte \<open>m\<close>, alone.\<close>

lemma bit_bpf_mvb:
  fixes x :: "'a::len word"
  assumes "(n + 1) * 8 \<le> LENGTH('a)" and "(m + 1) * 8 \<le> LENGTH('a)"
  shows "bit (bpf_mvb x n m) i \<longleftrightarrow> m * 8 \<le> i \<and> i < (m + 1) * 8 \<and> bit x (n * 8 + (i - m * 8))"
proof -
  have "LENGTH('a) - 8 + (i - m * 8) - (LENGTH('a) - (n + 1) * 8) = n * 8 + (i - m * 8)"
    using assms by simp
  then show ?thesis
    using assms unfolding bpf_mvb_def
    by (auto simp: bit_push_bit_iff bit_drop_bit_eq add.commute dest: bit_imp_le_length)
qed

section \<open>The swaps reverse the bytes\<close>

lemma reverses_bytes_le_bytes:
  assumes "reverses_bytes k f"
  shows "le_bytes k (f x) = rev (le_bytes k x)"
proof (rule nth_equalityI)
  fix q
  assume "q < length (le_bytes k (f x))"
  then have q: "q < k" by simp
  show "le_bytes k (f x) ! q = rev (le_bytes k x) ! q"
  proof (rule bit_word_eqI)
    fix r
    assume "r < LENGTH(8)"
    then have "r < 8" by simp
    with q assms show "bit (le_bytes k (f x) ! q) r = bit (rev (le_bytes k x) ! q) r"
      by (simp add: reverses_bytes_def bit_le_bytes_nth rev_nth mult.commute)
  qed
qed simp

lemma reverses_bytes_involution:
  fixes f :: "'a::len word \<Rightarrow> 'a word"
  assumes "reverses_bytes k f" and "LENGTH('a) = 8 * k"
  shows "f (f x) = x"
proof -
  have "le_bytes k (f (f x)) = le_bytes k x"
    using reverses_bytes_le_bytes [OF assms(1)] by simp
  then have "of_le (le_bytes k (f (f x))) = (of_le (le_bytes k x) :: 'a word)"
    by simp
  then show ?thesis
    using assms(2) by (simp add: of_le_le_bytes)
qed

lemma bpf_swab16_reverses: "reverses_bytes 2 bpf_swab16"
  unfolding reverses_bytes_def
proof (intro allI impI)
  fix x :: u16 and q r :: nat
  assume "q < 2" and r: "r < 8"
  then consider "q = 0" | "q = 1" by linarith
  then show "bit (bpf_swab16 x) (q * 8 + r) = bit x ((2 - 1 - q) * 8 + r)"
    using r by cases (simp_all add: bpf_swab16_def bit_or_iff bit_bpf_mvb)
qed

lemma bpf_swab32_reverses: "reverses_bytes 4 bpf_swab32"
  unfolding reverses_bytes_def
proof (intro allI impI)
  fix x :: u32 and q r :: nat
  assume "q < 4" and r: "r < 8"
  then consider "q = 0" | "q = 1" | "q = 2" | "q = 3" by linarith
  then show "bit (bpf_swab32 x) (q * 8 + r) = bit x ((4 - 1 - q) * 8 + r)"
    using r by cases (simp_all add: bpf_swab32_def bit_or_iff bit_bpf_mvb)
qed

lemma bpf_swab64_reverses: "reverses_bytes 8 bpf_swab64"
  unfolding reverses_bytes_def
proof (intro allI impI)
  fix x :: u64 and q r :: nat
  assume "q < 8" and r: "r < 8"
  then consider "q = 0" | "q = 1" | "q = 2" | "q = 3" | "q = 4" | "q = 5" | "q = 6" | "q = 7"
    by linarith
  then show "bit (bpf_swab64 x) (q * 8 + r) = bit x ((8 - 1 - q) * 8 + r)"
    using r by cases (simp_all add: bpf_swab64_def bit_or_iff bit_bpf_mvb)
qed

lemma bpf_swab_be_bytes:
  "le_bytes 2 (bpf_swab16 a) = be_bytes 2 a"
  "le_bytes 4 (bpf_swab32 b) = be_bytes 4 b"
  "le_bytes 8 (bpf_swab64 c) = be_bytes 8 c"
  using reverses_bytes_le_bytes [OF bpf_swab16_reverses]
    reverses_bytes_le_bytes [OF bpf_swab32_reverses]
    reverses_bytes_le_bytes [OF bpf_swab64_reverses]
  by (simp_all add: be_bytes_def)

lemma bpf_swab_involutions:
  "bpf_swab16 (bpf_swab16 a) = a" "bpf_swab32 (bpf_swab32 b) = b" "bpf_swab64 (bpf_swab64 c) = c"
  using reverses_bytes_involution [OF bpf_swab16_reverses]
    reverses_bytes_involution [OF bpf_swab32_reverses]
    reverses_bytes_involution [OF bpf_swab64_reverses]
  by simp_all

section \<open>Properties\<close>

lemma host_net_inverse:
  fixes swab bswap :: "'a::len word \<Rightarrow> 'a word"
  assumes "reverses_bytes k swab" "reverses_bytes k bswap" "LENGTH('a) = 8 * k"
  shows "bpf_host_net order swab bswap c (bpf_host_net order swab bswap c' x) = x"
proof -
  have "swab y = bswap y" for y
  proof -
    have "of_le (le_bytes k (swab y)) = (of_le (le_bytes k (bswap y)) :: 'a word)"
      by (simp add: reverses_bytes_le_bytes [OF assms(1)] reverses_bytes_le_bytes [OF assms(2)])
    then show ?thesis using assms(3) by (simp add: of_le_le_bytes)
  qed
  then show ?thesis
    using reverses_bytes_involution [OF assms(2,3)] by (simp add: bpf_host_net_def split: byte_order.split)
qed

text \<open>The conversions to and from network order are inverse to each other, in the variant for constants and in
  the one for variables, on both kinds of machines; and on a little-endian machine the converted
  word lies in memory with its most significant byte first. The compiler's byte swap is assumed
  to reverse the bytes.\<close>

lemma network_order:
  assumes "reverses_bytes 2 bswap16" "reverses_bytes 4 bswap32" "reverses_bytes 8 bswap64"
  shows "bpf_ntohs order bswap16 c (bpf_htons order bswap16 c' a) = a
    \<and> bpf_ntohl order bswap32 c (bpf_htonl order bswap32 c' b) = b
    \<and> bpf_be64_to_cpu order bswap64 c (bpf_cpu_to_be64 order bswap64 c' d) = d
    \<and> le_bytes 4 (bpf_htonl LittleEndian bswap32 c b) = be_bytes 4 b
    \<and> le_bytes 8 (bpf_cpu_to_be64 LittleEndian bswap64 c d) = be_bytes 8 d"
  using host_net_inverse [OF bpf_swab16_reverses assms(1)] host_net_inverse [OF bpf_swab32_reverses assms(2)]
    host_net_inverse [OF bpf_swab64_reverses assms(3)] reverses_bytes_le_bytes [OF assms(2)]
    reverses_bytes_le_bytes [OF assms(3)] bpf_swab_be_bytes
  by (simp add: bpf_htons_def bpf_ntohs_def bpf_htonl_def bpf_ntohl_def bpf_cpu_to_be64_def bpf_be64_to_cpu_def)
    (simp add: bpf_host_net_def be_bytes_def)

lemma network_order_witness:
  "bpf_ntohl LittleEndian bpf_swab32 True (bpf_htonl LittleEndian bpf_swab32 False 0x01020304) = 0x01020304"
  using network_order [OF bpf_swab16_reverses bpf_swab32_reverses bpf_swab64_reverses] by simp

end
