(* ===== verification/BT_CTypes.thy ===== *)
theory BT_CTypes
  imports BT_Prelude
begin

text \<open>
  C types of the BPF target (64-bit little endian, LP64) and their memory layout: sizes,
  alignments, member offsets and bit-field placement, as the C compiler lays out the structs
  of \<^verbatim>\<open>binder_transaction.byte.c\<close> and \<^verbatim>\<open>vmlinux.h\<close>. A type is data, so that the struct
  declarations of the headers are values that layouts are computed from.
\<close>

section \<open>Types\<close>

text \<open>
  \<open>TInt n s\<close> is an integer of \<open>n\<close> bytes, signed when \<open>s\<close>; enums are \<open>TInt 4 False\<close>.
  \<open>TPtr tag\<close> is a pointer, with the tag of the struct it points to (empty for any other
  pointee). \<open>TBits n w\<close> is a bit-field of \<open>w\<close> bits declared with an integer type of \<open>n\<close>
  bytes and occurs as a member only. A member with an empty name is an anonymous struct or
  union, or unnamed padding.
\<close>

datatype ctype =
    TInt nat bool
  | TPtr string
  | TArr nat ctype
  | TBits nat nat
  | TStruct string "(string \<times> ctype) list"
  | TUnion string "(string \<times> ctype) list"

type_synonym members = "(string \<times> ctype) list"
type_synonym type_table = "string \<Rightarrow> ctype option"

section \<open>Layout\<close>

text \<open>What a struct needs to know of a member: size and alignment, or base size and width.\<close>

datatype minfo = MPlain nat nat | MBits nat nat

definition align_up :: "nat \<Rightarrow> nat \<Rightarrow> nat" where
  "align_up a n = (if n mod a = 0 then n else n + (a - n mod a))"

definition larger :: "nat \<Rightarrow> nat \<Rightarrow> nat" where
  "larger a b = (if a < b then b else a)"

text \<open>Positions are in bits. A bit-field that would cross a unit of its base type starts the next unit.\<close>

fun place :: "nat \<Rightarrow> minfo \<Rightarrow> nat" where
  "place pos (MPlain sz al) = align_up (8 * al) pos"
| "place pos (MBits n w) =
     (if pos mod (8 * n) + w \<le> 8 * n then pos else align_up (8 * n) pos)"

fun after :: "nat \<Rightarrow> minfo \<Rightarrow> nat" where
  "after pos (MPlain sz al) = place pos (MPlain sz al) + 8 * sz"
| "after pos (MBits n w) = place pos (MBits n w) + w"

primrec info_align :: "minfo \<Rightarrow> nat" where
  "info_align (MPlain sz al) = al"
| "info_align (MBits n w) = n"

primrec info_size :: "minfo \<Rightarrow> nat" where
  "info_size (MPlain sz al) = sz"
| "info_size (MBits n w) = n"

primrec member_positions :: "nat \<Rightarrow> minfo list \<Rightarrow> nat list" where
  "member_positions pos [] = []"
| "member_positions pos (m # ms) = place pos m # member_positions (after pos m) ms"

primrec end_position :: "nat \<Rightarrow> minfo list \<Rightarrow> nat" where
  "end_position pos [] = pos"
| "end_position pos (m # ms) = end_position (after pos m) ms"

primrec max_align :: "minfo list \<Rightarrow> nat" where
  "max_align [] = 1"
| "max_align (m # ms) = larger (info_align m) (max_align ms)"

primrec max_size :: "minfo list \<Rightarrow> nat" where
  "max_size [] = 0"
| "max_size (m # ms) = larger (info_size m) (max_size ms)"

definition struct_info :: "minfo list \<Rightarrow> minfo" where
  "struct_info ms =
     MPlain (align_up (max_align ms) ((end_position 0 ms + 7) div 8)) (max_align ms)"

definition union_info :: "minfo list \<Rightarrow> minfo" where
  "union_info ms = MPlain (align_up (max_align ms) (max_size ms)) (max_align ms)"

fun info :: "ctype \<Rightarrow> minfo" where
  "info (TInt n s) = MPlain n n"
| "info (TPtr tag) = MPlain 8 8"
| "info (TArr n t) = MPlain (n * info_size (info t)) (info_align (info t))"
| "info (TBits n w) = MBits n w"
| "info (TStruct tag ms) = struct_info (map (\<lambda>m. info (snd m)) ms)"
| "info (TUnion tag ms) = union_info (map (\<lambda>m. info (snd m)) ms)"

definition csize :: "ctype \<Rightarrow> nat" where
  "csize t = info_size (info t)"

definition calign :: "ctype \<Rightarrow> nat" where
  "calign t = info_align (info t)"

section \<open>Member lookup\<close>

text \<open>
  The bit position and the type of the member called \<open>f\<close>; members of anonymous structs and
  unions are found as members of the enclosing type, as in C.
\<close>

function (sequential) find_field :: "string \<Rightarrow> ctype \<Rightarrow> (nat \<times> ctype) option"
  and find_in :: "string \<Rightarrow> nat list \<Rightarrow> members \<Rightarrow> (nat \<times> ctype) option" where
  "find_field f (TStruct tag ms) = find_in f (member_positions 0 (map (\<lambda>m. info (snd m)) ms)) ms"
| "find_field f (TUnion tag ms) = find_in f (map (\<lambda>m. 0) ms) ms"
| "find_field f t = None"
| "find_in f (p # ps) ((n, t) # ms) =
     (if n = f \<and> n \<noteq> [] then Some (p, t)
      else if n = [] then
        (case find_field f t of Some (q, u) \<Rightarrow> Some (p + q, u) | None \<Rightarrow> find_in f ps ms)
      else find_in f ps ms)"
| "find_in f ps ms = None"
  by pat_completeness auto
termination
  by (relation "measure (\<lambda>x. case x of Inl (f, t) \<Rightarrow> 2 * size t
        | Inr (f, ps, ms) \<Rightarrow> 2 * size_list (size_prod (\<lambda>_. 0) size) ms + 1)") auto

text \<open>A dotted accessor such as \<^verbatim>\<open>euid.val\<close> is the list of its member names.\<close>

fun find_path :: "string list \<Rightarrow> ctype \<Rightarrow> (nat \<times> ctype) option" where
  "find_path [] t = Some (0, t)"
| "find_path (f # fs) t =
     (case find_field f t of None \<Rightarrow> None
      | Some (p, u) \<Rightarrow> (case find_path fs u of None \<Rightarrow> None | Some (q, v) \<Rightarrow> Some (p + q, v)))"

text \<open>\<^verbatim>\<open>offsetof(TYPE, MEMBER)\<close> in bytes.\<close>

definition offsetof :: "ctype \<Rightarrow> string list \<Rightarrow> nat option" where
  "offsetof t path = map_option (\<lambda>(p, _). p div 8) (find_path path t)"

text \<open>The number of bits that a member occupies.\<close>

primrec width :: "minfo \<Rightarrow> nat" where
  "width (MPlain sz al) = 8 * sz"
| "width (MBits n w) = w"

lemmas layout_defs [layout_simps] =
  csize_def calign_def struct_info_def union_info_def align_up_def larger_def offsetof_def

section \<open>Layouts are sound\<close>

lemma align_up_ge [simp]: "n \<le> align_up a n"
  by (simp add: align_up_def)

lemma align_up_dvd: "0 < a \<Longrightarrow> a dvd align_up a n"
proof (cases "n mod a = 0")
  case False
  assume "0 < a"
  then have "n + (a - n mod a) = a * (n div a) + a"
    using mult_div_mod_eq [of a n] mod_le_divisor [of a n] by linarith
  with False show ?thesis by (simp add: align_up_def)
qed (simp add: align_up_def mod_eq_0_iff_dvd)

lemma place_ge: "pos \<le> place pos m"
  by (cases m) auto

lemma after_eq: "after pos m = place pos m + width m"
  by (cases m) simp_all

lemma length_member_positions [simp]: "length (member_positions pos ms) = length ms"
  by (induction ms arbitrary: pos) auto

lemma member_positions_ge: "k < length ms \<Longrightarrow> pos \<le> member_positions pos ms ! k"
proof (induction ms arbitrary: pos k)
  case (Cons m ms)
  show ?case
  proof (cases k)
    case (Suc j)
    then have "after pos m \<le> member_positions (after pos m) ms ! j" using Cons by simp
    then show ?thesis using Suc place_ge [of pos m] by (simp add: after_eq)
  qed (simp add: place_ge)
qed simp

lemma end_position_ge: "pos \<le> end_position pos ms"
proof (induction ms arbitrary: pos)
  case (Cons m ms)
  show ?case using Cons.IH [of "after pos m"] place_ge [of pos m] by (simp add: after_eq)
qed simp

lemma member_before_end:
  "k < length ms \<Longrightarrow> member_positions pos ms ! k + width (ms ! k) \<le> end_position pos ms"
proof (induction ms arbitrary: pos k)
  case (Cons m ms)
  then show ?case
    using end_position_ge [of "after pos m" ms] by (cases k) (simp_all add: after_eq)
qed simp

lemma member_before_next:
  "i < j \<Longrightarrow> j < length ms \<Longrightarrow>
     member_positions pos ms ! i + width (ms ! i) \<le> member_positions pos ms ! j"
proof (induction ms arbitrary: pos i j)
  case (Cons m ms)
  then obtain j' where j: "j = Suc j'" "j' < length ms" by (cases j) auto
  show ?case
  proof (cases i)
    case 0
    then show ?thesis using j member_positions_ge [of j' ms "after pos m"] by (simp add: after_eq)
  qed (use Cons j in simp)
qed simp

lemma member_aligned:
  "k < length ms \<Longrightarrow> ms ! k = MPlain sz al \<Longrightarrow> 0 < al \<Longrightarrow> 8 * al dvd member_positions pos ms ! k"
proof (induction ms arbitrary: pos k)
  case (Cons m ms)
  then show ?case by (cases k) (auto intro: align_up_dvd)
qed simp

lemma struct_end: "end_position 0 (map (\<lambda>m. info (snd m)) ms) \<le> width (info (TStruct tag ms))"
proof -
  let ?e = "end_position 0 (map (\<lambda>m. info (snd m)) ms)"
  have "?e \<le> 8 * ((?e + 7) div 8)" by linarith
  also have "\<dots> \<le> width (info (TStruct tag ms))" by (simp add: struct_info_def)
  finally show ?thesis .
qed

lemma max_size_ge: "m \<in> set ms \<Longrightarrow> info_size m \<le> max_size ms"
  by (induction ms) (auto simp: larger_def)

text \<open>Bit-fields of a union fit their base type when every declared width does.\<close>

fun bits_fit :: "ctype \<Rightarrow> bool" where
  "bits_fit (TBits n w) = (w \<le> 8 * n)"
| "bits_fit (TStruct tag ms) = (\<forall>(f, t) \<in> set ms. bits_fit t)"
| "bits_fit (TUnion tag ms) = (\<forall>(f, t) \<in> set ms. bits_fit t)"
| "bits_fit t = True"

lemma width_le_size: "bits_fit t \<Longrightarrow> width (info t) \<le> 8 * csize t"
  by (cases t) (auto simp: csize_def struct_info_def union_info_def)

lemma width_aggregate: "width (info (TStruct tag ms)) = 8 * csize (TStruct tag ms)"
  "width (info (TUnion tag ms)) = 8 * csize (TUnion tag ms)"
  by (simp_all add: csize_def struct_info_def union_info_def)

lemma find_in_bounds:
  "(find_field f t = Some (p, u) \<longrightarrow> bits_fit t \<longrightarrow> p + width (info u) \<le> width (info t) \<and> bits_fit u)"
  "(find_in f ps ms = Some (p, u) \<longrightarrow> (\<forall>(g, t) \<in> set ms. bits_fit t) \<longrightarrow>
     list_all2 (\<lambda>q m. q + width (info (snd m)) \<le> b) ps ms \<longrightarrow> p + width (info u) \<le> b \<and> bits_fit u)"
proof (induction f t and f ps ms arbitrary: p u and p u b rule: find_field_find_in.induct)
  case (1 f tag ms)
  let ?is = "map (\<lambda>m. info (snd m)) ms"
  have "member_positions 0 ?is ! k + width (info (snd (ms ! k))) \<le> width (info (TStruct tag ms))"
    if "k < length ms" for k
    using member_before_end [of k ?is 0] struct_end [of ms tag] that by simp
  then have "list_all2 (\<lambda>q m. q + width (info (snd m)) \<le> width (info (TStruct tag ms))) (member_positions 0 ?is) ms"
    by (simp add: list_all2_conv_all_nth)
  then show ?case using "1" [where p = p and u = u and b = "width (info (TStruct tag ms))"] by simp
next
  case (2 f tag ms)
  have "width (info (snd (ms ! k))) \<le> width (info (TUnion tag ms))"
    if "k < length ms" "bits_fit (TUnion tag ms)" for k
  proof -
    have "ms ! k \<in> set ms" using that(1) by simp
    then have "bits_fit (snd (ms ! k))" using that(2) by (simp add: case_prod_beta)
    then have "width (info (snd (ms ! k))) \<le> 8 * info_size (info (snd (ms ! k)))"
      using width_le_size by (simp add: csize_def)
    also have "\<dots> \<le> 8 * max_size (map (\<lambda>m. info (snd m)) ms)"
      using that(1) by (intro mult_le_mono2 max_size_ge) auto
    also have "\<dots> \<le> width (info (TUnion tag ms))" by (simp add: union_info_def)
    finally show ?thesis .
  qed
  then have "list_all2 (\<lambda>q m. q + width (info (snd m)) \<le> width (info (TUnion tag ms))) (map (\<lambda>m. 0) ms) ms"
    if "bits_fit (TUnion tag ms)" using that by (simp add: list_all2_conv_all_nth)
  then show ?case using "2" [where p = p and u = u and b = "width (info (TUnion tag ms))"] by simp
next
  case (4 f p0 ps n t ms)
  show ?case
  proof (cases "n = [] \<and> find_field f t \<noteq> None")
    case True
    then obtain q v where "find_field f t = Some (q, v)" by fastforce
    then show ?thesis using "4"(1) [where p = q and u = v] True by auto
  next
    case False
    then show ?thesis using 4 by (auto split: if_splits option.splits)
  qed
qed auto

text \<open>The member that an accessor names lies within the object.\<close>

lemma find_path_bounds:
  "find_path path t = Some (p, u) \<Longrightarrow> bits_fit t \<Longrightarrow> p + width (info u) \<le> width (info t) \<and> bits_fit u"
proof (induction path arbitrary: t p u)
  case (Cons f fs)
  from Cons.prems(1) obtain p1 u1 q v where
    s: "find_field f t = Some (p1, u1)" "find_path fs u1 = Some (q, v)" "p = p1 + q" "u = v"
    by (auto split: option.splits)
  then show ?case
    using find_in_bounds(1) [of f t p1 u1] Cons.prems(2) Cons.IH [of u1 q v] by auto
qed simp

text \<open>The members of a struct do not overlap and come in the order of their declaration, and every
  member that is no bit-field starts at a multiple of its alignment.\<close>

lemma struct_members_disjoint:
  assumes "ps = member_positions 0 (map (\<lambda>m. info (snd m)) ms)" "i < j" "j < length ms"
  shows "ps ! i + width (info (snd (ms ! i))) \<le> ps ! j
    \<and> ps ! j + width (info (snd (ms ! j))) \<le> 8 * csize (TStruct tag ms)
    \<and> (\<forall>sz al. info (snd (ms ! i)) = MPlain sz al \<longrightarrow> 0 < al \<longrightarrow> 8 * al dvd ps ! i)"
  using assms member_before_next [of i j "map (\<lambda>m. info (snd m)) ms" 0]
    member_before_end [of j "map (\<lambda>m. info (snd m)) ms" 0] struct_end [of ms tag, unfolded width_aggregate]
    member_aligned [of i "map (\<lambda>m. info (snd m)) ms" _ _ 0]
  by auto

section \<open>Properties\<close>

text \<open>The bytes that an accessor names lie within the object: the offset of a member plus its size is at
  most the size of the type, through any nesting of structs, unions and anonymous members.\<close>

lemma accessor_in_bounds:
  assumes "bits_fit t" "offsetof t path = Some off" "find_path path t = Some (p, u)" "width (info u) = 8 * csize u"
  shows "off + csize u \<le> csize t"
proof -
  have "p + 8 * csize u \<le> width (info t)" using find_path_bounds [OF assms(3,1)] assms(4) by simp
  also have "\<dots> \<le> 8 * csize t" using width_le_size [OF assms(1)] .
  finally show ?thesis using assms(2,3) by (simp add: offsetof_def)
qed

lemma accessor_in_bounds_witness:
  "the (offsetof (TStruct [] [(''a'', TInt 1 False), (''b'', TInt 4 False)]) [''b'']) + 4
     \<le> csize (TStruct [] [(''a'', TInt 1 False), (''b'', TInt 4 False)])"
  using accessor_in_bounds [of "TStruct [] [(''a'', TInt 1 False), (''b'', TInt 4 False)]" "[''b'']" 4 32 "TInt 4 False"]
  by (simp add: layout_simps)

end
