(* ===== verification/BT_Records.thy ===== *)
theory BT_Records
  imports BT_CTypes
begin

text \<open>
  The record structs that the BPF programs share with the daemon through the ring buffer
  (\<^verbatim>\<open>binder_transaction.byte.c\<close>): their C declarations as layouts, the record a reader sees,
  the field-by-field store that the programs perform into reserved ring buffer memory, and
  the read of a record at its C offsets.
\<close>

section \<open>Constants of the program\<close>

definition CHUNK_SIZE :: nat where "CHUNK_SIZE = 0x400"
definition MAX_CHUNKS :: nat where "MAX_CHUNKS = 16"

definition BINDER_DEV_UNKNOWN :: u8 where "BINDER_DEV_UNKNOWN = 0"
definition BINDER_DEV_BINDER :: u8 where "BINDER_DEV_BINDER = 1"
definition BINDER_DEV_HWBINDER :: u8 where "BINDER_DEV_HWBINDER = 2"
definition BINDER_DEV_VNDBINDER :: u8 where "BINDER_DEV_VNDBINDER = 3"

definition TARGET_KIND_UNKNOWN :: u8 where "TARGET_KIND_UNKNOWN = 0"

definition EVT_KIND_MAIN :: u8 where "EVT_KIND_MAIN = 1"
definition EVT_KIND_SIDEBAND :: u8 where "EVT_KIND_SIDEBAND = 2"
definition EVT_KIND_COOKIE :: u8 where "EVT_KIND_COOKIE = 3"

definition RB_OVF_SLOT_MAIN :: u32 where "RB_OVF_SLOT_MAIN = 0"
definition RB_OVF_SLOT_SIDEBAND :: u32 where "RB_OVF_SLOT_SIDEBAND = 1"
definition RB_OVF_SLOT_COUNT :: nat where "RB_OVF_SLOT_COUNT = 2"

definition KSTACK_MAX_DEPTH :: nat where "KSTACK_MAX_DEPTH = 32"
definition USTACK_MAX_DEPTH :: nat where "USTACK_MAX_DEPTH = 32"
definition STACK_RECORD_MAGIC :: u64 where "STACK_RECORD_MAGIC = 0xDEADBEEFDEADBEEF"

section \<open>Declarations\<close>

abbreviation C_u8 :: ctype where "C_u8 \<equiv> TInt 1 False"
abbreviation C_s16 :: ctype where "C_s16 \<equiv> TInt 2 True"
abbreviation C_u32 :: ctype where "C_u32 \<equiv> TInt 4 False"
abbreviation C_u64 :: ctype where "C_u64 \<equiv> TInt 8 False"

definition binder_trace_event_t :: ctype where
  "binder_trace_event_t = TStruct ''binder_trace_event''
     [(''kind'', C_u8), (''is_reply'', C_u8), (''binder_dev'', C_u8), (''target_kind'', C_u8),
      (''pid'', C_u32), (''uid'', C_u32), (''code'', C_u32), (''flags'', C_u32),
      (''data_size'', C_u64), (''transaction_id'', C_u64), (''chunk_index'', C_u64),
      (''cookie'', C_u64), (''to_pid'', C_u32), (''to_uid'', C_u32), (''reserved2'', C_u32),
      (''target_ref'', C_u64), (''pair_id'', C_u64), (''chunk_data'', TArr CHUNK_SIZE C_u8)]"

definition binder_sideband_event_t :: ctype where
  "binder_sideband_event_t = TStruct ''binder_sideband_event''
     [(''kind'', C_u8), (''to_uid_unsupported'', C_u8), (''reserved0'', C_u8),
      (''reserved1'', C_u8), (''reserved2'', C_u32), (''cookie'', C_u64),
      (''kernel_debug_id'', C_u64), (''to_pid'', C_u32), (''to_uid'', C_u32)]"

definition binder_cookie_sideband_t :: ctype where
  "binder_cookie_sideband_t = TStruct ''binder_cookie_sideband''
     [(''kind'', C_u8), (''reserved0'', C_u8), (''reserved1'', C_u8), (''reserved2'', C_u8),
      (''reserved3'', C_u32), (''cookie'', C_u64), (''transaction_id_hint'', C_u64),
      (''tid'', C_u32), (''reserved4'', C_u32)]"

definition trace_config_t :: ctype where
  "trace_config_t = TStruct ''trace_config'' [(''uid'', C_u32)]"

definition stack_trace_event_t :: ctype where
  "stack_trace_event_t = TStruct ''stack_trace_event''
     [(''magic'', C_u64), (''transaction_id'', C_u64), (''pid'', C_u32), (''tid'', C_u32),
      (''kstack_depth'', C_s16), (''ustack_depth'', C_s16), (''reserved'', C_u32),
      (''kstack'', TArr KSTACK_MAX_DEPTH C_u64), (''ustack'', TArr USTACK_MAX_DEPTH C_u64)]"

section \<open>Record values\<close>

record binder_trace_event =
  bte_kind :: u8
  bte_is_reply :: u8
  bte_binder_dev :: u8
  bte_target_kind :: u8
  bte_pid :: u32
  bte_uid :: u32
  bte_code :: u32
  bte_flags :: u32
  bte_data_size :: u64
  bte_transaction_id :: u64
  bte_chunk_index :: u64
  bte_cookie :: u64
  bte_to_pid :: u32
  bte_to_uid :: u32
  bte_reserved2 :: u32
  bte_target_ref :: u64
  bte_pair_id :: u64
  bte_chunk_data :: "u8 list"

record binder_sideband_event =
  sbe_kind :: u8
  sbe_to_uid_unsupported :: u8
  sbe_reserved0 :: u8
  sbe_reserved1 :: u8
  sbe_reserved2 :: u32
  sbe_cookie :: u64
  sbe_kernel_debug_id :: u64
  sbe_to_pid :: u32
  sbe_to_uid :: u32

record binder_cookie_sideband =
  bcs_kind :: u8
  bcs_reserved0 :: u8
  bcs_reserved1 :: u8
  bcs_reserved2 :: u8
  bcs_reserved3 :: u32
  bcs_cookie :: u64
  bcs_transaction_id_hint :: u64
  bcs_tid :: u32
  bcs_reserved4 :: u32

record trace_config =
  tc_uid :: u32

record stack_trace_event =
  ste_magic :: u64
  ste_transaction_id :: u64
  ste_pid :: u32
  ste_tid :: u32
  ste_kstack_depth :: s16
  ste_ustack_depth :: s16
  ste_reserved :: u32
  ste_kstack :: "u64 list"
  ste_ustack :: "u64 list"

section \<open>Stores and loads at the C offsets\<close>

text \<open>The assignment \<^verbatim>\<open>p->f = v\<close> into the memory \<open>buf\<close> of a struct of type \<open>t\<close>.\<close>

definition assign :: "ctype \<Rightarrow> string \<Rightarrow> u8 list \<Rightarrow> u8 list \<Rightarrow> u8 list" where
  "assign t f bs buf = (case offsetof t [f] of Some off \<Rightarrow> write_at off bs buf | None \<Rightarrow> buf)"

text \<open>The bytes of the member \<open>f\<close> in the memory \<open>buf\<close> of a struct of type \<open>t\<close>.\<close>

definition fetch :: "ctype \<Rightarrow> string \<Rightarrow> u8 list \<Rightarrow> u8 list" where
  "fetch t f buf = (case find_field f t of
      Some (p, u) \<Rightarrow> slice_at (p div 8) (csize u) buf
    | None \<Rightarrow> [])"

fun words8 :: "nat \<Rightarrow> u8 list \<Rightarrow> u64 list" where
  "words8 0 bs = []"
| "words8 (Suc n) bs = of_le (take 8 bs) # words8 n (drop 8 bs)"

definition load_trace_event :: "u8 list \<Rightarrow> binder_trace_event" where
  "load_trace_event b =
     (let g = (\<lambda>f. fetch binder_trace_event_t f b)
      in \<lparr>bte_kind = of_le (g ''kind''), bte_is_reply = of_le (g ''is_reply''),
          bte_binder_dev = of_le (g ''binder_dev''), bte_target_kind = of_le (g ''target_kind''),
          bte_pid = of_le (g ''pid''), bte_uid = of_le (g ''uid''),
          bte_code = of_le (g ''code''), bte_flags = of_le (g ''flags''),
          bte_data_size = of_le (g ''data_size''),
          bte_transaction_id = of_le (g ''transaction_id''),
          bte_chunk_index = of_le (g ''chunk_index''), bte_cookie = of_le (g ''cookie''),
          bte_to_pid = of_le (g ''to_pid''), bte_to_uid = of_le (g ''to_uid''),
          bte_reserved2 = of_le (g ''reserved2''), bte_target_ref = of_le (g ''target_ref''),
          bte_pair_id = of_le (g ''pair_id''), bte_chunk_data = g ''chunk_data''\<rparr>)"

definition load_sideband_event :: "u8 list \<Rightarrow> binder_sideband_event" where
  "load_sideband_event b =
     (let g = (\<lambda>f. fetch binder_sideband_event_t f b)
      in \<lparr>sbe_kind = of_le (g ''kind''), sbe_to_uid_unsupported = of_le (g ''to_uid_unsupported''),
          sbe_reserved0 = of_le (g ''reserved0''), sbe_reserved1 = of_le (g ''reserved1''),
          sbe_reserved2 = of_le (g ''reserved2''), sbe_cookie = of_le (g ''cookie''),
          sbe_kernel_debug_id = of_le (g ''kernel_debug_id''),
          sbe_to_pid = of_le (g ''to_pid''), sbe_to_uid = of_le (g ''to_uid'')\<rparr>)"

definition load_cookie_sideband :: "u8 list \<Rightarrow> binder_cookie_sideband" where
  "load_cookie_sideband b =
     (let g = (\<lambda>f. fetch binder_cookie_sideband_t f b)
      in \<lparr>bcs_kind = of_le (g ''kind''), bcs_reserved0 = of_le (g ''reserved0''),
          bcs_reserved1 = of_le (g ''reserved1''), bcs_reserved2 = of_le (g ''reserved2''),
          bcs_reserved3 = of_le (g ''reserved3''), bcs_cookie = of_le (g ''cookie''),
          bcs_transaction_id_hint = of_le (g ''transaction_id_hint''),
          bcs_tid = of_le (g ''tid''), bcs_reserved4 = of_le (g ''reserved4'')\<rparr>)"

definition load_stack_event :: "u8 list \<Rightarrow> stack_trace_event" where
  "load_stack_event b =
     (let g = (\<lambda>f. fetch stack_trace_event_t f b)
      in \<lparr>ste_magic = of_le (g ''magic''), ste_transaction_id = of_le (g ''transaction_id''),
          ste_pid = of_le (g ''pid''), ste_tid = of_le (g ''tid''),
          ste_kstack_depth = of_le (g ''kstack_depth''),
          ste_ustack_depth = of_le (g ''ustack_depth''), ste_reserved = of_le (g ''reserved''),
          ste_kstack = words8 KSTACK_MAX_DEPTH (g ''kstack''),
          ste_ustack = words8 USTACK_MAX_DEPTH (g ''ustack'')\<rparr>)"

section \<open>The layouts the compiler produces\<close>

lemmas record_types [layout_simps] =
  binder_trace_event_t_def binder_sideband_event_t_def binder_cookie_sideband_t_def
  stack_trace_event_t_def trace_config_t_def CHUNK_SIZE_def KSTACK_MAX_DEPTH_def
  USTACK_MAX_DEPTH_def

lemma trace_event_size: "csize binder_trace_event_t = 1112"
  by (simp add: layout_simps)

lemma sideband_size: "csize binder_sideband_event_t = 32"
  by (simp add: layout_simps)

lemma cookie_sideband_size: "csize binder_cookie_sideband_t = 32"
  by (simp add: layout_simps)

lemma stack_event_size: "csize stack_trace_event_t = 544"
  by (simp add: layout_simps)

lemma trace_event_offsets:
  "map (\<lambda>f. offsetof binder_trace_event_t [f])
     [''kind'', ''is_reply'', ''binder_dev'', ''target_kind'', ''pid'', ''uid'', ''code'',
      ''flags'', ''data_size'', ''transaction_id'', ''chunk_index'', ''cookie'', ''to_pid'',
      ''to_uid'', ''reserved2'', ''target_ref'', ''pair_id'', ''chunk_data'']
   = map Some [0, 1, 2, 3, 4, 8, 12, 16, 24, 32, 40, 48, 56, 60, 64, 72, 80, 88]"
  by (simp add: layout_simps)

section \<open>Stores and loads of each record\<close>

lemma trace_event_assign [codec_simps]:
  "assign binder_trace_event_t ''kind'' bs buf = write_at 0 bs buf"
  "assign binder_trace_event_t ''is_reply'' bs buf = write_at 1 bs buf"
  "assign binder_trace_event_t ''binder_dev'' bs buf = write_at 2 bs buf"
  "assign binder_trace_event_t ''target_kind'' bs buf = write_at 3 bs buf"
  "assign binder_trace_event_t ''pid'' bs buf = write_at 4 bs buf"
  "assign binder_trace_event_t ''uid'' bs buf = write_at 8 bs buf"
  "assign binder_trace_event_t ''code'' bs buf = write_at 12 bs buf"
  "assign binder_trace_event_t ''flags'' bs buf = write_at 16 bs buf"
  "assign binder_trace_event_t ''data_size'' bs buf = write_at 24 bs buf"
  "assign binder_trace_event_t ''transaction_id'' bs buf = write_at 32 bs buf"
  "assign binder_trace_event_t ''chunk_index'' bs buf = write_at 40 bs buf"
  "assign binder_trace_event_t ''cookie'' bs buf = write_at 48 bs buf"
  "assign binder_trace_event_t ''to_pid'' bs buf = write_at 56 bs buf"
  "assign binder_trace_event_t ''to_uid'' bs buf = write_at 60 bs buf"
  "assign binder_trace_event_t ''reserved2'' bs buf = write_at 64 bs buf"
  "assign binder_trace_event_t ''target_ref'' bs buf = write_at 72 bs buf"
  "assign binder_trace_event_t ''pair_id'' bs buf = write_at 80 bs buf"
  "assign binder_trace_event_t ''chunk_data'' bs buf = write_at 88 bs buf"
  by (simp_all add: assign_def offsetof_def layout_simps)

lemma trace_event_fetch [codec_simps]:
  "fetch binder_trace_event_t ''kind'' buf = slice_at 0 1 buf"
  "fetch binder_trace_event_t ''is_reply'' buf = slice_at 1 1 buf"
  "fetch binder_trace_event_t ''binder_dev'' buf = slice_at 2 1 buf"
  "fetch binder_trace_event_t ''target_kind'' buf = slice_at 3 1 buf"
  "fetch binder_trace_event_t ''pid'' buf = slice_at 4 4 buf"
  "fetch binder_trace_event_t ''uid'' buf = slice_at 8 4 buf"
  "fetch binder_trace_event_t ''code'' buf = slice_at 12 4 buf"
  "fetch binder_trace_event_t ''flags'' buf = slice_at 16 4 buf"
  "fetch binder_trace_event_t ''data_size'' buf = slice_at 24 8 buf"
  "fetch binder_trace_event_t ''transaction_id'' buf = slice_at 32 8 buf"
  "fetch binder_trace_event_t ''chunk_index'' buf = slice_at 40 8 buf"
  "fetch binder_trace_event_t ''cookie'' buf = slice_at 48 8 buf"
  "fetch binder_trace_event_t ''to_pid'' buf = slice_at 56 4 buf"
  "fetch binder_trace_event_t ''to_uid'' buf = slice_at 60 4 buf"
  "fetch binder_trace_event_t ''reserved2'' buf = slice_at 64 4 buf"
  "fetch binder_trace_event_t ''target_ref'' buf = slice_at 72 8 buf"
  "fetch binder_trace_event_t ''pair_id'' buf = slice_at 80 8 buf"
  "fetch binder_trace_event_t ''chunk_data'' buf = slice_at 88 1024 buf"
  by (simp_all add: fetch_def layout_simps)

lemma sideband_event_assign [codec_simps]:
  "assign binder_sideband_event_t ''kind'' bs buf = write_at 0 bs buf"
  "assign binder_sideband_event_t ''to_uid_unsupported'' bs buf = write_at 1 bs buf"
  "assign binder_sideband_event_t ''reserved0'' bs buf = write_at 2 bs buf"
  "assign binder_sideband_event_t ''reserved1'' bs buf = write_at 3 bs buf"
  "assign binder_sideband_event_t ''reserved2'' bs buf = write_at 4 bs buf"
  "assign binder_sideband_event_t ''cookie'' bs buf = write_at 8 bs buf"
  "assign binder_sideband_event_t ''kernel_debug_id'' bs buf = write_at 16 bs buf"
  "assign binder_sideband_event_t ''to_pid'' bs buf = write_at 24 bs buf"
  "assign binder_sideband_event_t ''to_uid'' bs buf = write_at 28 bs buf"
  by (simp_all add: assign_def offsetof_def layout_simps)

lemma sideband_event_fetch [codec_simps]:
  "fetch binder_sideband_event_t ''kind'' buf = slice_at 0 1 buf"
  "fetch binder_sideband_event_t ''to_uid_unsupported'' buf = slice_at 1 1 buf"
  "fetch binder_sideband_event_t ''reserved0'' buf = slice_at 2 1 buf"
  "fetch binder_sideband_event_t ''reserved1'' buf = slice_at 3 1 buf"
  "fetch binder_sideband_event_t ''reserved2'' buf = slice_at 4 4 buf"
  "fetch binder_sideband_event_t ''cookie'' buf = slice_at 8 8 buf"
  "fetch binder_sideband_event_t ''kernel_debug_id'' buf = slice_at 16 8 buf"
  "fetch binder_sideband_event_t ''to_pid'' buf = slice_at 24 4 buf"
  "fetch binder_sideband_event_t ''to_uid'' buf = slice_at 28 4 buf"
  by (simp_all add: fetch_def layout_simps)

lemma cookie_sideband_assign [codec_simps]:
  "assign binder_cookie_sideband_t ''kind'' bs buf = write_at 0 bs buf"
  "assign binder_cookie_sideband_t ''reserved0'' bs buf = write_at 1 bs buf"
  "assign binder_cookie_sideband_t ''reserved1'' bs buf = write_at 2 bs buf"
  "assign binder_cookie_sideband_t ''reserved2'' bs buf = write_at 3 bs buf"
  "assign binder_cookie_sideband_t ''reserved3'' bs buf = write_at 4 bs buf"
  "assign binder_cookie_sideband_t ''cookie'' bs buf = write_at 8 bs buf"
  "assign binder_cookie_sideband_t ''transaction_id_hint'' bs buf = write_at 16 bs buf"
  "assign binder_cookie_sideband_t ''tid'' bs buf = write_at 24 bs buf"
  "assign binder_cookie_sideband_t ''reserved4'' bs buf = write_at 28 bs buf"
  by (simp_all add: assign_def offsetof_def layout_simps)

lemma cookie_sideband_fetch [codec_simps]:
  "fetch binder_cookie_sideband_t ''kind'' buf = slice_at 0 1 buf"
  "fetch binder_cookie_sideband_t ''reserved0'' buf = slice_at 1 1 buf"
  "fetch binder_cookie_sideband_t ''reserved1'' buf = slice_at 2 1 buf"
  "fetch binder_cookie_sideband_t ''reserved2'' buf = slice_at 3 1 buf"
  "fetch binder_cookie_sideband_t ''reserved3'' buf = slice_at 4 4 buf"
  "fetch binder_cookie_sideband_t ''cookie'' buf = slice_at 8 8 buf"
  "fetch binder_cookie_sideband_t ''transaction_id_hint'' buf = slice_at 16 8 buf"
  "fetch binder_cookie_sideband_t ''tid'' buf = slice_at 24 4 buf"
  "fetch binder_cookie_sideband_t ''reserved4'' buf = slice_at 28 4 buf"
  by (simp_all add: fetch_def layout_simps)

lemma stack_event_assign [codec_simps]:
  "assign stack_trace_event_t ''magic'' bs buf = write_at 0 bs buf"
  "assign stack_trace_event_t ''transaction_id'' bs buf = write_at 8 bs buf"
  "assign stack_trace_event_t ''pid'' bs buf = write_at 16 bs buf"
  "assign stack_trace_event_t ''tid'' bs buf = write_at 20 bs buf"
  "assign stack_trace_event_t ''kstack_depth'' bs buf = write_at 24 bs buf"
  "assign stack_trace_event_t ''ustack_depth'' bs buf = write_at 26 bs buf"
  "assign stack_trace_event_t ''reserved'' bs buf = write_at 28 bs buf"
  "assign stack_trace_event_t ''kstack'' bs buf = write_at 32 bs buf"
  "assign stack_trace_event_t ''ustack'' bs buf = write_at 288 bs buf"
  by (simp_all add: assign_def offsetof_def layout_simps)

lemma stack_event_fetch [codec_simps]:
  "fetch stack_trace_event_t ''magic'' buf = slice_at 0 8 buf"
  "fetch stack_trace_event_t ''transaction_id'' buf = slice_at 8 8 buf"
  "fetch stack_trace_event_t ''pid'' buf = slice_at 16 4 buf"
  "fetch stack_trace_event_t ''tid'' buf = slice_at 20 4 buf"
  "fetch stack_trace_event_t ''kstack_depth'' buf = slice_at 24 2 buf"
  "fetch stack_trace_event_t ''ustack_depth'' buf = slice_at 26 2 buf"
  "fetch stack_trace_event_t ''reserved'' buf = slice_at 28 4 buf"
  "fetch stack_trace_event_t ''kstack'' buf = slice_at 32 256 buf"
  "fetch stack_trace_event_t ''ustack'' buf = slice_at 288 256 buf"
  by (simp_all add: fetch_def layout_simps)

end
