(* ===== verification/BT_CoreRead.thy ===== *)
theory BT_CoreRead
  imports BT_CTypes
begin

text \<open>
  The macros of \<^verbatim>\<open>headers/bpf_core_read.h\<close>: relocatable ("compile once, run everywhere") reads
  of kernel structures. The program is compiled against the types of \<^verbatim>\<open>vmlinux.h\<close> (the local
  types \<open>loc\<close>) and loaded on a kernel with types of its own (the target types \<open>btf\<close>); a
  member access takes its size from the local types and its offset, found by name, from the
  target types. The functions that read memory, \<^verbatim>\<open>bpf_probe_read_kernel\<close> and its variants,
  belong to the kernel: they are arguments of the definitions.
\<close>

section \<open>Relocations\<close>

datatype bpf_field_info_kind =
    BPF_FIELD_BYTE_OFFSET | BPF_FIELD_BYTE_SIZE | BPF_FIELD_EXISTS | BPF_FIELD_SIGNED
  | BPF_FIELD_LSHIFT_U64 | BPF_FIELD_RSHIFT_U64

datatype bpf_type_id_kind = BPF_TYPE_ID_LOCAL | BPF_TYPE_ID_TARGET

datatype bpf_type_info_kind = BPF_TYPE_EXISTS | BPF_TYPE_SIZE | BPF_TYPE_MATCHES

datatype bpf_enum_value_kind = BPF_ENUMVAL_EXISTS | BPF_ENUMVAL_VALUE

text \<open>An accessor such as \<^verbatim>\<open>a.b.c\<close> is the list of its names.\<close>

type_synonym accessor = "string list"

definition member_in :: "type_table \<Rightarrow> string \<Rightarrow> accessor \<Rightarrow> (nat \<times> ctype) option" where
  "member_in types tag acc = (case types tag of None \<Rightarrow> None | Some t \<Rightarrow> find_path acc t)"

text \<open>\<^verbatim>\<open>__builtin_preserve_access_index(&p->acc)\<close>: the byte offset in the target.\<close>

definition core_offset :: "type_table \<Rightarrow> string \<Rightarrow> accessor \<Rightarrow> nat option" where
  "core_offset btf tag acc = map_option (\<lambda>(p, _). p div 8) (member_in btf tag acc)"

definition bpf_core_field_exists :: "type_table \<Rightarrow> string \<Rightarrow> accessor \<Rightarrow> u32" where
  "bpf_core_field_exists btf tag acc = (if member_in btf tag acc = None then 0 else 1)"

definition bpf_core_field_size :: "type_table \<Rightarrow> string \<Rightarrow> accessor \<Rightarrow> nat option" where
  "bpf_core_field_size btf tag acc = map_option (\<lambda>(_, t). csize t) (member_in btf tag acc)"

definition bpf_core_field_offset :: "type_table \<Rightarrow> string \<Rightarrow> accessor \<Rightarrow> nat option" where
  "bpf_core_field_offset btf tag acc = core_offset btf tag acc"

definition bpf_core_type_exists :: "type_table \<Rightarrow> string \<Rightarrow> u32" where
  "bpf_core_type_exists btf tag = (if btf tag = None then 0 else 1)"

definition bpf_core_type_size :: "type_table \<Rightarrow> string \<Rightarrow> nat" where
  "bpf_core_type_size btf tag = (case btf tag of None \<Rightarrow> 0 | Some t \<Rightarrow> csize t)"

text \<open>\<open>enums\<close> gives the value of an enumerator in the target, where it has one.\<close>

definition bpf_core_enum_value_exists :: "(string \<Rightarrow> string \<Rightarrow> u64 option) \<Rightarrow> string \<Rightarrow> string \<Rightarrow> u32" where
  "bpf_core_enum_value_exists enums e v = (if enums e v = None then 0 else 1)"

definition bpf_core_enum_value :: "(string \<Rightarrow> string \<Rightarrow> u64 option) \<Rightarrow> string \<Rightarrow> string \<Rightarrow> u64" where
  "bpf_core_enum_value enums e v = (case enums e v of None \<Rightarrow> 0 | Some x \<Rightarrow> x)"

section \<open>Lists of macro arguments\<close>

text \<open>
  \<^verbatim>\<open>___narg\<close>, \<^verbatim>\<open>___last\<close>, \<^verbatim>\<open>___nolast\<close> are defined by the count of their arguments up to ten;
  \<open>None\<close> is a call that no numbered macro matches.
\<close>

definition macro_narg :: "'a list \<Rightarrow> nat option" where
  "macro_narg xs = (if length xs \<le> 10 then Some (length xs) else None)"

definition macro_last :: "'a list \<Rightarrow> 'a option" where
  "macro_last xs = (if 1 \<le> length xs \<and> length xs \<le> 10 then Some (last xs) else None)"

definition macro_nolast :: "'a list \<Rightarrow> 'a list option" where
  "macro_nolast xs = (if 2 \<le> length xs \<and> length xs \<le> 10 then Some (butlast xs) else None)"

text \<open>\<^verbatim>\<open>___type(src, a, b, ...)\<close>: the type of \<^verbatim>\<open>src->a->b...\<close>; inner members are pointers.\<close>

fun arrow_type :: "type_table \<Rightarrow> string \<Rightarrow> accessor list \<Rightarrow> ctype option" where
  "arrow_type loc tag [] = Some (TPtr tag)"
| "arrow_type loc tag (a # as) =
     (case member_in loc tag a of
        None \<Rightarrow> None
      | Some (_, t) \<Rightarrow>
          (if as = [] then Some t
           else case t of TPtr tag' \<Rightarrow> arrow_type loc tag' as | _ \<Rightarrow> None))"

text \<open>
  The numbered macros behind \<^verbatim>\<open>___type\<close> end at ten arguments, the source and nine accessors; \<open>None\<close> is
  a chain that has no type or no macro.
\<close>

definition chain_type :: "type_table \<Rightarrow> string \<Rightarrow> accessor list \<Rightarrow> ctype option" where
  "chain_type loc tag accs = (if length accs \<le> 9 then arrow_type loc tag accs else None)"

lemma chain_type_short [simp]: "length accs \<le> 9 \<Longrightarrow> chain_type loc tag accs = arrow_type loc tag accs"
  by (simp add: chain_type_def)

section \<open>Pointer chasing\<close>

text \<open>What a read function leaves in a destination of \<open>n\<close> bytes, for a source address.\<close>

type_synonym reader = "u64 \<Rightarrow> nat \<Rightarrow> u8 list"

text \<open>\<^verbatim>\<open>___read(read_fn, dst, src_type, src, accessor)\<close> with \<open>n = sizeof(*dst)\<close>.\<close>

definition macro_read :: "reader \<Rightarrow> type_table \<Rightarrow> nat \<Rightarrow> string \<Rightarrow> u64 \<Rightarrow> accessor \<Rightarrow> u8 list option" where
  "macro_read fn btf n tag src acc =
     (case core_offset btf tag acc of None \<Rightarrow> None | Some off \<Rightarrow> Some (fn (src + of_nat off) n))"

text \<open>
  \<^verbatim>\<open>___rd_pN\<close> reads the inner pointers into the variable \<^verbatim>\<open>__t\<close>: the numbered macro for \<open>N\<close>
  accessors expands to the one for all but the last, followed by \<^verbatim>\<open>___rd_last\<close>. The accessors
  are given in reverse here, so that the last one is the head.
\<close>

fun rd_p :: "reader \<Rightarrow> type_table \<Rightarrow> type_table \<Rightarrow> string \<Rightarrow> u64 \<Rightarrow> accessor list \<Rightarrow> u64 option" where
  "rd_p fn loc btf tag src [] = None"
| "rd_p fn loc btf tag src [a] = map_option of_le (macro_read fn btf 8 tag src a)"
| "rd_p fn loc btf tag src (a # b # as) =
     (case rd_p fn loc btf tag src (b # as) of
        None \<Rightarrow> None
      | Some t \<Rightarrow>
          (case arrow_type loc tag (rev (b # as)) of
             Some (TPtr tag') \<Rightarrow> map_option of_le (macro_read fn btf 8 tag' t a)
           | _ \<Rightarrow> None))"

text \<open>\<^verbatim>\<open>___core_read0\<close> for one accessor, \<^verbatim>\<open>___core_readN\<close> for more. \<^verbatim>\<open>___nolast\<close> and
  \<^verbatim>\<open>___last\<close> take at most ten accessors, which leaves nine for \<^verbatim>\<open>___rd_p9\<close>.\<close>

definition core_read ::
  "reader \<Rightarrow> reader \<Rightarrow> type_table \<Rightarrow> type_table \<Rightarrow> nat \<Rightarrow> string \<Rightarrow> u64 \<Rightarrow> accessor list \<Rightarrow> u8 list option" where
  "core_read fn fn_ptr loc btf n tag src accs =
     (case accs of
        [] \<Rightarrow> None
      | [a] \<Rightarrow> macro_read fn btf n tag src a
      | _ \<Rightarrow>
          (case (macro_nolast accs, macro_last accs) of
             (Some inner, Some z) \<Rightarrow>
               (case (rd_p fn_ptr loc btf tag src (rev inner), chain_type loc tag inner) of
                  (Some t, Some (TPtr tag')) \<Rightarrow> macro_read fn btf n tag' t z
                | _ \<Rightarrow> None)
           | _ \<Rightarrow> None))"

text \<open>
  The variants differ in the read functions and in the offsets: the \<^verbatim>\<open>PROBE\<close> ones take the
  offsets of the local types. \<open>kread\<close>, \<open>uread\<close>, \<open>kstr\<close> and \<open>ustr\<close> are the kernel's
  \<^verbatim>\<open>bpf_probe_read_kernel\<close>, \<^verbatim>\<open>bpf_probe_read_user\<close>, \<^verbatim>\<open>bpf_probe_read_kernel_str\<close> and
  \<^verbatim>\<open>bpf_probe_read_user_str\<close>.
\<close>

definition BPF_CORE_READ_INTO ::
  "reader \<Rightarrow> type_table \<Rightarrow> type_table \<Rightarrow> nat \<Rightarrow> string \<Rightarrow> u64 \<Rightarrow> accessor list \<Rightarrow> u8 list option" where
  "BPF_CORE_READ_INTO kread loc btf n tag src accs = core_read kread kread loc btf n tag src accs"

definition BPF_CORE_READ_USER_INTO ::
  "reader \<Rightarrow> type_table \<Rightarrow> type_table \<Rightarrow> nat \<Rightarrow> string \<Rightarrow> u64 \<Rightarrow> accessor list \<Rightarrow> u8 list option" where
  "BPF_CORE_READ_USER_INTO uread loc btf n tag src accs = core_read uread uread loc btf n tag src accs"

definition BPF_PROBE_READ_INTO ::
  "reader \<Rightarrow> type_table \<Rightarrow> nat \<Rightarrow> string \<Rightarrow> u64 \<Rightarrow> accessor list \<Rightarrow> u8 list option" where
  "BPF_PROBE_READ_INTO kread loc n tag src accs = core_read kread kread loc loc n tag src accs"

definition BPF_PROBE_READ_USER_INTO ::
  "reader \<Rightarrow> type_table \<Rightarrow> nat \<Rightarrow> string \<Rightarrow> u64 \<Rightarrow> accessor list \<Rightarrow> u8 list option" where
  "BPF_PROBE_READ_USER_INTO uread loc n tag src accs = core_read uread uread loc loc n tag src accs"

definition BPF_CORE_READ_STR_INTO ::
  "reader \<Rightarrow> reader \<Rightarrow> type_table \<Rightarrow> type_table \<Rightarrow> nat \<Rightarrow> string \<Rightarrow> u64 \<Rightarrow> accessor list \<Rightarrow> u8 list option" where
  "BPF_CORE_READ_STR_INTO kstr kread loc btf n tag src accs = core_read kstr kread loc btf n tag src accs"

definition BPF_CORE_READ_USER_STR_INTO ::
  "reader \<Rightarrow> reader \<Rightarrow> type_table \<Rightarrow> type_table \<Rightarrow> nat \<Rightarrow> string \<Rightarrow> u64 \<Rightarrow> accessor list \<Rightarrow> u8 list option" where
  "BPF_CORE_READ_USER_STR_INTO ustr uread loc btf n tag src accs = core_read ustr uread loc btf n tag src accs"

definition BPF_PROBE_READ_STR_INTO ::
  "reader \<Rightarrow> reader \<Rightarrow> type_table \<Rightarrow> nat \<Rightarrow> string \<Rightarrow> u64 \<Rightarrow> accessor list \<Rightarrow> u8 list option" where
  "BPF_PROBE_READ_STR_INTO kstr kread loc n tag src accs = core_read kstr kread loc loc n tag src accs"

definition BPF_PROBE_READ_USER_STR_INTO ::
  "reader \<Rightarrow> reader \<Rightarrow> type_table \<Rightarrow> nat \<Rightarrow> string \<Rightarrow> u64 \<Rightarrow> accessor list \<Rightarrow> u8 list option" where
  "BPF_PROBE_READ_USER_STR_INTO ustr uread loc n tag src accs = core_read ustr uread loc loc n tag src accs"

text \<open>The expression forms: the result variable \<^verbatim>\<open>__r\<close> has the type of the whole chain.\<close>

definition BPF_CORE_READ ::
  "reader \<Rightarrow> type_table \<Rightarrow> type_table \<Rightarrow> string \<Rightarrow> u64 \<Rightarrow> accessor list \<Rightarrow> u8 list option" where
  "BPF_CORE_READ kread loc btf tag src accs =
     (case chain_type loc tag accs of
        None \<Rightarrow> None
      | Some t \<Rightarrow> BPF_CORE_READ_INTO kread loc btf (csize t) tag src accs)"

definition BPF_CORE_READ_USER ::
  "reader \<Rightarrow> type_table \<Rightarrow> type_table \<Rightarrow> string \<Rightarrow> u64 \<Rightarrow> accessor list \<Rightarrow> u8 list option" where
  "BPF_CORE_READ_USER uread loc btf tag src accs =
     (case chain_type loc tag accs of
        None \<Rightarrow> None
      | Some t \<Rightarrow> BPF_CORE_READ_USER_INTO uread loc btf (csize t) tag src accs)"

definition BPF_PROBE_READ :: "reader \<Rightarrow> type_table \<Rightarrow> string \<Rightarrow> u64 \<Rightarrow> accessor list \<Rightarrow> u8 list option" where
  "BPF_PROBE_READ kread loc tag src accs =
     (case chain_type loc tag accs of
        None \<Rightarrow> None
      | Some t \<Rightarrow> BPF_PROBE_READ_INTO kread loc (csize t) tag src accs)"

definition BPF_PROBE_READ_USER :: "reader \<Rightarrow> type_table \<Rightarrow> string \<Rightarrow> u64 \<Rightarrow> accessor list \<Rightarrow> u8 list option" where
  "BPF_PROBE_READ_USER uread loc tag src accs =
     (case chain_type loc tag accs of
        None \<Rightarrow> None
      | Some t \<Rightarrow> BPF_PROBE_READ_USER_INTO uread loc (csize t) tag src accs)"

section \<open>Reference: one dereference after the other\<close>

text \<open>The statement sequence of the header's comment: \<^verbatim>\<open>t = s->a; t = t->b; ...; return t->z\<close>.\<close>

fun chase :: "reader \<Rightarrow> reader \<Rightarrow> type_table \<Rightarrow> type_table \<Rightarrow> nat \<Rightarrow> string \<Rightarrow> u64 \<Rightarrow> accessor list \<Rightarrow> u8 list option" where
  "chase fn fn_ptr loc btf n tag src [] = None"
| "chase fn fn_ptr loc btf n tag src [a] = macro_read fn btf n tag src a"
| "chase fn fn_ptr loc btf n tag src (a # b # as) =
     (case (member_in loc tag a, macro_read fn_ptr btf 8 tag src a) of
        (Some (_, TPtr tag'), Some bs) \<Rightarrow> chase fn fn_ptr loc btf n tag' (of_le bs) (b # as)
      | _ \<Rightarrow> None)"

section \<open>Bit-fields\<close>

text \<open>The relocated constants of a bit-field access.\<close>

record bitfield_relo =
  bf_byte_offset :: nat
  bf_byte_size :: nat
  bf_signed :: bool
  bf_lshift :: nat
  bf_rshift :: nat

text \<open>
  \<^verbatim>\<open>__CORE_BITFIELD_PROBE_READ\<close> fills the low-order bytes of a zero \<^verbatim>\<open>unsigned long long\<close>: at its
  start on a little-endian machine, at its end on a big-endian one.
\<close>

definition core_bitfield_probe_read :: "bool \<Rightarrow> reader \<Rightarrow> bitfield_relo \<Rightarrow> u64 \<Rightarrow> u64" where
  "core_bitfield_probe_read little kread r src =
     (let bs = kread (src + of_nat (bf_byte_offset r)) (bf_byte_size r);
          pad = replicate (8 - bf_byte_size r) 0
      in if little then of_le (bs @ pad) else of_be (pad @ bs))"

definition bitfield_shift :: "bitfield_relo \<Rightarrow> u64 \<Rightarrow> u64" where
  "bitfield_shift r val =
     (let v = push_bit (bf_lshift r) val
      in if bf_signed r then signed_drop_bit (bf_rshift r) v else drop_bit (bf_rshift r) v)"

definition BPF_CORE_READ_BITFIELD_PROBED :: "bool \<Rightarrow> reader \<Rightarrow> bitfield_relo \<Rightarrow> u64 \<Rightarrow> u64" where
  "BPF_CORE_READ_BITFIELD_PROBED little kread r src =
     bitfield_shift r (core_bitfield_probe_read little kread r src)"

text \<open>
  \<^verbatim>\<open>BPF_CORE_READ_BITFIELD\<close> loads directly; \<open>garbage\<close> is the uninitialised variable that remains
  when the size is none of the four cases.
\<close>

definition direct_load :: "u64 \<Rightarrow> u8 list \<Rightarrow> nat \<Rightarrow> u64" where
  "direct_load garbage bs n = (if n \<in> {1, 2, 4, 8} then of_le (take n bs) else garbage)"

definition BPF_CORE_READ_BITFIELD :: "u64 \<Rightarrow> bitfield_relo \<Rightarrow> u8 list \<Rightarrow> u64" where
  "BPF_CORE_READ_BITFIELD garbage r obj =
     bitfield_shift r (direct_load garbage (drop (bf_byte_offset r) obj) (bf_byte_size r))"

definition bitfield_mask :: "bitfield_relo \<Rightarrow> u64" where
  "bitfield_mask r = drop_bit (bf_lshift r) (push_bit (bf_rshift r) (NOT 0))"

definition BPF_CORE_WRITE_BITFIELD :: "u64 \<Rightarrow> bitfield_relo \<Rightarrow> u64 \<Rightarrow> u8 list \<Rightarrow> u8 list" where
  "BPF_CORE_WRITE_BITFIELD garbage r new_val obj =
     (let n = bf_byte_size r; mask = bitfield_mask r; rpad = bf_rshift r - bf_lshift r;
          val = direct_load garbage (drop (bf_byte_offset r) obj) n;
          val' = (val AND NOT mask) OR (push_bit rpad new_val AND mask)
      in if n \<in> {1, 2, 4, 8} then write_at (bf_byte_offset r) (le_bytes n val') obj else obj)"

text \<open>
  What the loader writes for a field of \<open>w\<close> bits that starts at bit \<open>lo\<close> of a storage unit of
  \<open>n\<close> bytes at offset \<open>off\<close>.
\<close>

definition relo_of_field :: "nat \<Rightarrow> nat \<Rightarrow> nat \<Rightarrow> nat \<Rightarrow> bool \<Rightarrow> bitfield_relo" where
  "relo_of_field off n lo w sgnd =
     \<lparr>bf_byte_offset = off, bf_byte_size = n, bf_signed = sgnd,
      bf_lshift = 64 - (lo + w), bf_rshift = 64 - w\<rparr>"

section \<open>The macros chase pointers one after the other\<close>

text \<open>The inner pointers, read from the left: the structure reached and its address.\<close>

fun follow :: "reader \<Rightarrow> type_table \<Rightarrow> type_table \<Rightarrow> string \<Rightarrow> u64 \<Rightarrow> accessor list \<Rightarrow> (string \<times> u64) option" where
  "follow fn loc btf tag src [] = Some (tag, src)"
| "follow fn loc btf tag src (a # as) =
     (case (member_in loc tag a, macro_read fn btf 8 tag src a) of
        (Some (_, TPtr tag'), Some bs) \<Rightarrow> follow fn loc btf tag' (of_le bs) as
      | _ \<Rightarrow> None)"

lemma arrow_type_snoc:
  "arrow_type loc tag (as @ [a]) =
     (case arrow_type loc tag as of Some (TPtr tag') \<Rightarrow> map_option snd (member_in loc tag' a) | _ \<Rightarrow> None)"
  by (induction as arbitrary: tag) (auto split: option.splits ctype.splits)

lemma follow_snoc:
  "follow fn loc btf tag src (as @ [a]) =
     (case follow fn loc btf tag src as of
        None \<Rightarrow> None
      | Some (g, t) \<Rightarrow>
          (case (member_in loc g a, macro_read fn btf 8 g t a) of
             (Some (_, TPtr g'), Some bs) \<Rightarrow> Some (g', of_le bs)
           | _ \<Rightarrow> None))"
  by (induction as arbitrary: tag src) (auto split: option.splits ctype.splits)

lemma chase_follow:
  "chase fn fn_ptr loc btf n tag src (as @ [z]) =
     (case follow fn_ptr loc btf tag src as of None \<Rightarrow> None | Some (g, t) \<Rightarrow> macro_read fn btf n g t z)"
proof (induction as arbitrary: tag src)
  case (Cons a as)
  then show ?case by (cases as) (auto split: option.splits ctype.splits)
qed simp

lemma rd_p_Cons:
  "as \<noteq> [] \<Longrightarrow> rd_p fn loc btf tag src (a # as) =
     (case (rd_p fn loc btf tag src as, arrow_type loc tag (rev as)) of
        (Some t, Some (TPtr g)) \<Rightarrow> map_option of_le (macro_read fn btf 8 g t a)
      | _ \<Rightarrow> None)"
  by (cases as) (auto split: option.splits ctype.splits)

lemma follow_rd_p:
  "accs \<noteq> [] \<Longrightarrow> follow fn loc btf tag src accs =
     (case (rd_p fn loc btf tag src (rev accs), arrow_type loc tag accs) of
        (Some t, Some (TPtr g)) \<Rightarrow> Some (g, t)
      | _ \<Rightarrow> None)"
proof (induction accs rule: rev_induct)
  case (snoc a as)
  show ?case
  proof (cases "as = []")
    case True
    then show ?thesis by (auto split: option.splits ctype.splits)
  next
    case False
    then show ?thesis
      using snoc.IH by (auto simp: rd_p_Cons follow_snoc arrow_type_snoc split: option.splits ctype.splits)
  qed
qed simp

lemma core_read_chase:
  assumes "length accs \<le> 10"
  shows "core_read fn fn_ptr loc btf n tag src accs = chase fn fn_ptr loc btf n tag src accs"
proof (cases accs rule: rev_cases)
  case (snoc as z)
  show ?thesis
  proof (cases as)
    case (Cons b bs)
    then have ne: "as \<noteq> []" by simp
    from Cons have "core_read fn fn_ptr loc btf n tag src accs =
       (case (rd_p fn_ptr loc btf tag src (rev as), arrow_type loc tag as) of
          (Some t, Some (TPtr g)) \<Rightarrow> macro_read fn btf n g t z | _ \<Rightarrow> None)"
      using assms snoc by (cases bs) (auto simp: core_read_def macro_nolast_def macro_last_def split: option.splits ctype.splits)
    also have "\<dots> = chase fn fn_ptr loc btf n tag src accs"
      using follow_rd_p [of as fn_ptr loc btf tag src] ne unfolding snoc chase_follow
      by (simp split: option.splits ctype.splits)
    finally show ?thesis .
  qed (simp add: core_read_def snoc)
qed (simp add: core_read_def)

section \<open>Bit-field reads and writes\<close>

lemma bitfield_shift_unsigned:
  assumes "0 < w" "lo + w \<le> 64"
  shows "bitfield_shift (relo_of_field off n lo w False) val = take_bit w (drop_bit lo val)"
  using assms
  by (auto simp: bitfield_shift_def relo_of_field_def Let_def bit_eq_iff bit_drop_bit_eq bit_take_bit_iff
      bit_push_bit_iff add.commute)

lemma bitfield_shift_signed:
  assumes "0 < w" "lo + w \<le> 64"
  shows "bitfield_shift (relo_of_field off n lo w True) val = signed_take_bit (w - 1) (drop_bit lo val)"
proof (rule bit_word_eqI)
  fix i assume "i < LENGTH(64)"
  then have i: "i < 64" by simp
  consider "i < w - 1" | "i = w - 1" | "w \<le> i" by linarith
  then show "bit (bitfield_shift (relo_of_field off n lo w True) val) i =
        bit (signed_take_bit (w - 1) (drop_bit lo val)) i"
    using assms i
    by cases (auto simp: bitfield_shift_def relo_of_field_def Let_def bit_signed_drop_bit_iff
        bit_signed_take_bit_iff bit_drop_bit_eq bit_push_bit_iff add.commute min_def)
qed

lemma bit_bitfield_mask:
  assumes "0 < w" "lo + w \<le> 64"
  shows "bit (bitfield_mask (relo_of_field off n lo w s)) i \<longleftrightarrow> lo \<le> i \<and> i < lo + w"
  using assms
  by (auto simp: bitfield_mask_def relo_of_field_def bit_drop_bit_eq bit_push_bit_iff bit_not_iff bit_mask_iff)

lemma direct_load_write_at:
  assumes "n \<in> {1, 2, 4, 8}" "off + n \<le> length obj"
  shows "direct_load garbage (drop off (write_at off (le_bytes n v) obj)) n = take_bit (8 * n) v"
proof -
  have "take n (drop off (write_at off (le_bytes n v) obj)) = le_bytes n v"
    using slice_at_write_at_same [of off "le_bytes n v" obj] assms by (simp add: slice_at_def)
  then have "direct_load garbage (drop off (write_at off (le_bytes n v) obj)) n = of_le (le_bytes n v)"
    using assms(1) by (simp add: direct_load_def)
  also have "\<dots> = take_bit (8 * n) v"
    by (rule bit_word_eqI) (simp add: bit_of_le bit_take_bit_iff bit_le_bytes_nth div_less_iff_less_mult mult.commute cong: conj_cong)
  finally show ?thesis .
qed

text \<open>What a write leaves in the storage unit: the new value in the field, the old bits around it.\<close>

lemma bit_write_bitfield_unit:
  fixes sgnd :: bool
  assumes "n \<in> {1, 2, 4, 8}" "off + n \<le> length obj" "0 < w" "lo + w \<le> 8 * n"
  defines "r \<equiv> relo_of_field off n lo w sgnd"
  shows "bit (direct_load garbage (drop off (BPF_CORE_WRITE_BITFIELD garbage' r v obj)) n) i \<longleftrightarrow>
     (if lo \<le> i \<and> i < lo + w then bit v (i - lo) else bit (direct_load garbage (drop off obj) n) i)"
proof -
  let ?m = "bitfield_mask r" and ?u = "direct_load garbage' (drop off obj) n"
  let ?val = "(?u AND NOT ?m) OR (push_bit lo v AND ?m)"
  have w: "lo + w \<le> 64" using assms by auto
  have load: "direct_load garbage (drop off obj) n = ?u" using assms(1) by (simp add: direct_load_def)
  have high: "bit ?u i \<Longrightarrow> i < 8 * n"
    using assms(1) by (auto simp: direct_load_def bit_of_le div_less_iff_less_mult)
  have "BPF_CORE_WRITE_BITFIELD garbage' r v obj = write_at off (le_bytes n ?val) obj"
    using assms(1,3) w by (auto simp: BPF_CORE_WRITE_BITFIELD_def r_def relo_of_field_def Let_def)
  then have "direct_load garbage (drop off (BPF_CORE_WRITE_BITFIELD garbage' r v obj)) n = take_bit (8 * n) ?val"
    using assms(1,2) by (simp only: direct_load_write_at)
  then show ?thesis unfolding load
    using assms(4) w high
    by (auto simp: bit_take_bit_iff bit_or_iff bit_and_iff bit_not_iff bit_push_bit_iff
        bit_bitfield_mask [OF assms(3) w] r_def dest: bit_imp_le_length)
qed

lemma read_write_bitfield_unsigned:
  assumes "n \<in> {1, 2, 4, 8}" "off + n \<le> length obj" "0 < w" "lo + w \<le> 8 * n"
  defines "r \<equiv> relo_of_field off n lo w False"
  shows "BPF_CORE_READ_BITFIELD garbage r (BPF_CORE_WRITE_BITFIELD garbage' r v obj) = take_bit w v"
proof -
  have w: "lo + w \<le> 64" using assms by auto
  have "BPF_CORE_READ_BITFIELD garbage r (BPF_CORE_WRITE_BITFIELD garbage' r v obj) =
    take_bit w (drop_bit lo (direct_load garbage (drop off (BPF_CORE_WRITE_BITFIELD garbage' r v obj)) n))"
    using bitfield_shift_unsigned [OF assms(3) w] by (simp add: BPF_CORE_READ_BITFIELD_def r_def relo_of_field_def)
  also have "\<dots> = take_bit w v"
    by (rule bit_word_eqI)
      (simp add: bit_take_bit_iff bit_drop_bit_eq bit_write_bitfield_unit [OF assms(1-4)] r_def cong: conj_cong)
  finally show ?thesis .
qed

lemma read_write_bitfield_signed:
  assumes "n \<in> {1, 2, 4, 8}" "off + n \<le> length obj" "0 < w" "lo + w \<le> 8 * n"
  defines "r \<equiv> relo_of_field off n lo w True"
  shows "BPF_CORE_READ_BITFIELD garbage r (BPF_CORE_WRITE_BITFIELD garbage' r v obj) = signed_take_bit (w - 1) v"
proof -
  have w: "lo + w \<le> 64" using assms by auto
  let ?u = "direct_load garbage (drop off (BPF_CORE_WRITE_BITFIELD garbage' r v obj)) n"
  have "BPF_CORE_READ_BITFIELD garbage r (BPF_CORE_WRITE_BITFIELD garbage' r v obj) = signed_take_bit (w - 1) (drop_bit lo ?u)"
    using bitfield_shift_signed [OF assms(3) w] by (simp add: BPF_CORE_READ_BITFIELD_def r_def relo_of_field_def)
  also have "\<dots> = signed_take_bit (w - 1) v"
    using assms(3)
    by (intro bit_word_eqI)
      (auto simp: bit_signed_take_bit_iff bit_drop_bit_eq bit_write_bitfield_unit [OF assms(1-4)] r_def min_def)
  finally show ?thesis .
qed

section \<open>Properties\<close>

text \<open>C26. \<^verbatim>\<open>BPF_CORE_READ(s, a, b, ..., z)\<close> reads what the statements \<^verbatim>\<open>t = s->a; t = t->b; ...; t->z\<close>
  read, in this order and at the offsets of the running kernel, for up to nine accessors; with more
  it does not expand.\<close>

theorem BPF_CORE_READ_chases:
  assumes "accs \<noteq> []"
  shows "BPF_CORE_READ kread loc btf tag src accs =
    (case arrow_type loc tag accs of
       None \<Rightarrow> None
     | Some t \<Rightarrow> if length accs \<le> 9 then chase kread kread loc btf (csize t) tag src accs else None)"
  by (auto simp: BPF_CORE_READ_def BPF_CORE_READ_INTO_def chain_type_def core_read_chase split: option.split)

theorem BPF_CORE_READ_chases_witness:
  "BPF_CORE_READ (\<lambda>a n. replicate n (ucast a)) [''s'' \<mapsto> TStruct ''s'' [(''x'', TInt 1 False), (''y'', TInt 1 False)]]
     [''s'' \<mapsto> TStruct ''s'' [(''y'', TInt 1 False)]] ''s'' 40 [[''y'']] = Some [40]"
  using BPF_CORE_READ_chases [of "[[''y'']]"] by (simp add: member_in_def macro_read_def core_offset_def layout_simps)

text \<open>C33. A bit-field holds what was written to it, cut to its width and sign-extended when it is signed, and
  the write changes no other bit of the storage unit.\<close>

theorem bitfield_write_read:
  assumes "n \<in> {1, 2, 4, 8}" "off + n \<le> length obj" "0 < w" "lo + w \<le> 8 * n"
    and "r = relo_of_field off n lo w sgnd" "obj' = BPF_CORE_WRITE_BITFIELD g r v obj"
  shows "BPF_CORE_READ_BITFIELD g' r obj' = (if sgnd then signed_take_bit (w - 1) v else take_bit w v)
    \<and> (\<forall>i. i < lo \<or> lo + w \<le> i \<longrightarrow>
         bit (direct_load g' (drop off obj') n) i = bit (direct_load g' (drop off obj) n) i)"
  using read_write_bitfield_unsigned [OF assms(1-4)] read_write_bitfield_signed [OF assms(1-4)]
    bit_write_bitfield_unit [OF assms(1-4)] assms(5,6)
  by (cases sgnd) auto

theorem bitfield_write_read_witness:
  "BPF_CORE_READ_BITFIELD 0 (relo_of_field 1 2 3 5 True)
     (BPF_CORE_WRITE_BITFIELD 0 (relo_of_field 1 2 3 5 True) 31 [0, 255, 255, 0]) = - 1"
  using bitfield_write_read [of 2 1 "[0, 255, 255, 0]" 5 3 _ True _ 0 31 0, OF _ _ _ _ refl refl]
  by (simp add: signed_take_bit_def mask_eq_exp_minus_1)

end
