(* ===== verification/BT_HelperDefs.thy ===== *)
theory BT_HelperDefs
  imports BT_Prelude
begin

text \<open>
  The helper functions a BPF program can call. \<^verbatim>\<open>headers/bpf_helper_defs.h\<close> declares each
  helper as a function pointer whose value is the helper's number; the number is what the call
  instruction carries. \<^verbatim>\<open>vmlinux.h\<close>, generated from a kernel, numbers the helpers that this
  kernel has in \<^verbatim>\<open>enum bpf_func_id\<close>. The declarations of both headers are tables here, and the
  lemmas compare them.
\<close>

section \<open>Declarations of bpf\_helper\_defs.h\<close>

text \<open>Name, number, return type and argument types of a declared helper.\<close>

datatype helper_decl =
  HelperDecl (helper_name: string) (helper_id: nat) (helper_ret: string) (helper_args: "string list")

definition helper_decls_1_7 :: "helper_decl list" where
  "helper_decls_1_7 =
    [HelperDecl ''bpf_map_lookup_elem'' 1 ''void *'' [''void *'', ''const void *''],
     HelperDecl ''bpf_map_update_elem'' 2 ''long'' [''void *'', ''const void *'', ''const void *'', ''__u64''],
     HelperDecl ''bpf_map_delete_elem'' 3 ''long'' [''void *'', ''const void *''],
     HelperDecl ''bpf_probe_read'' 4 ''long'' [''void *'', ''__u32'', ''const void *''],
     HelperDecl ''bpf_ktime_get_ns'' 5 ''__u64'' [],
     HelperDecl ''bpf_trace_printk'' 6 ''long'' [''const char *'', ''__u32'', ''...''],
     HelperDecl ''bpf_get_prandom_u32'' 7 ''__u32'' []]"

definition helper_decls_8_12 :: "helper_decl list" where
  "helper_decls_8_12 =
    [HelperDecl ''bpf_get_smp_processor_id'' 8 ''__u32'' [],
     HelperDecl ''bpf_skb_store_bytes'' 9 ''long'' [''struct __sk_buff *'', ''__u32'', ''const void *'', ''__u32'', ''__u64''],
     HelperDecl ''bpf_l3_csum_replace'' 10 ''long'' [''struct __sk_buff *'', ''__u32'', ''__u64'', ''__u64'', ''__u64''],
     HelperDecl ''bpf_l4_csum_replace'' 11 ''long'' [''struct __sk_buff *'', ''__u32'', ''__u64'', ''__u64'', ''__u64''],
     HelperDecl ''bpf_tail_call'' 12 ''long'' [''void *'', ''void *'', ''__u32'']]"

definition helper_decls_13_19 :: "helper_decl list" where
  "helper_decls_13_19 =
    [HelperDecl ''bpf_clone_redirect'' 13 ''long'' [''struct __sk_buff *'', ''__u32'', ''__u64''],
     HelperDecl ''bpf_get_current_pid_tgid'' 14 ''__u64'' [],
     HelperDecl ''bpf_get_current_uid_gid'' 15 ''__u64'' [],
     HelperDecl ''bpf_get_current_comm'' 16 ''long'' [''void *'', ''__u32''],
     HelperDecl ''bpf_get_cgroup_classid'' 17 ''__u32'' [''struct __sk_buff *''],
     HelperDecl ''bpf_skb_vlan_push'' 18 ''long'' [''struct __sk_buff *'', ''__be16'', ''__u16''],
     HelperDecl ''bpf_skb_vlan_pop'' 19 ''long'' [''struct __sk_buff *'']]"

definition helper_decls_20_22 :: "helper_decl list" where
  "helper_decls_20_22 =
    [HelperDecl ''bpf_skb_get_tunnel_key'' 20 ''long'' [''struct __sk_buff *'', ''struct bpf_tunnel_key *'', ''__u32'', ''__u64''],
     HelperDecl ''bpf_skb_set_tunnel_key'' 21 ''long'' [''struct __sk_buff *'', ''struct bpf_tunnel_key *'', ''__u32'', ''__u64''],
     HelperDecl ''bpf_perf_event_read'' 22 ''__u64'' [''void *'', ''__u64'']]"

definition helper_decls_23_26 :: "helper_decl list" where
  "helper_decls_23_26 =
    [HelperDecl ''bpf_redirect'' 23 ''long'' [''__u32'', ''__u64''],
     HelperDecl ''bpf_get_route_realm'' 24 ''__u32'' [''struct __sk_buff *''],
     HelperDecl ''bpf_perf_event_output'' 25 ''long'' [''void *'', ''void *'', ''__u64'', ''void *'', ''__u64''],
     HelperDecl ''bpf_skb_load_bytes'' 26 ''long'' [''const void *'', ''__u32'', ''void *'', ''__u32'']]"

definition helper_decls_27_31 :: "helper_decl list" where
  "helper_decls_27_31 =
    [HelperDecl ''bpf_get_stackid'' 27 ''long'' [''void *'', ''void *'', ''__u64''],
     HelperDecl ''bpf_csum_diff'' 28 ''__s64'' [''__be32 *'', ''__u32'', ''__be32 *'', ''__u32'', ''__wsum''],
     HelperDecl ''bpf_skb_get_tunnel_opt'' 29 ''long'' [''struct __sk_buff *'', ''void *'', ''__u32''],
     HelperDecl ''bpf_skb_set_tunnel_opt'' 30 ''long'' [''struct __sk_buff *'', ''void *'', ''__u32''],
     HelperDecl ''bpf_skb_change_proto'' 31 ''long'' [''struct __sk_buff *'', ''__be16'', ''__u64'']]"

definition helper_decls_32_38 :: "helper_decl list" where
  "helper_decls_32_38 =
    [HelperDecl ''bpf_skb_change_type'' 32 ''long'' [''struct __sk_buff *'', ''__u32''],
     HelperDecl ''bpf_skb_under_cgroup'' 33 ''long'' [''struct __sk_buff *'', ''void *'', ''__u32''],
     HelperDecl ''bpf_get_hash_recalc'' 34 ''__u32'' [''struct __sk_buff *''],
     HelperDecl ''bpf_get_current_task'' 35 ''__u64'' [],
     HelperDecl ''bpf_probe_write_user'' 36 ''long'' [''void *'', ''const void *'', ''__u32''],
     HelperDecl ''bpf_current_task_under_cgroup'' 37 ''long'' [''void *'', ''__u32''],
     HelperDecl ''bpf_skb_change_tail'' 38 ''long'' [''struct __sk_buff *'', ''__u32'', ''__u64'']]"

definition helper_decls_39_45 :: "helper_decl list" where
  "helper_decls_39_45 =
    [HelperDecl ''bpf_skb_pull_data'' 39 ''long'' [''struct __sk_buff *'', ''__u32''],
     HelperDecl ''bpf_csum_update'' 40 ''__s64'' [''struct __sk_buff *'', ''__wsum''],
     HelperDecl ''bpf_set_hash_invalid'' 41 ''void'' [''struct __sk_buff *''],
     HelperDecl ''bpf_get_numa_node_id'' 42 ''long'' [],
     HelperDecl ''bpf_skb_change_head'' 43 ''long'' [''struct __sk_buff *'', ''__u32'', ''__u64''],
     HelperDecl ''bpf_xdp_adjust_head'' 44 ''long'' [''struct xdp_md *'', ''int''],
     HelperDecl ''bpf_probe_read_str'' 45 ''long'' [''void *'', ''__u32'', ''const void *'']]"

definition helper_decls_46_50 :: "helper_decl list" where
  "helper_decls_46_50 =
    [HelperDecl ''bpf_get_socket_cookie'' 46 ''__u64'' [''void *''],
     HelperDecl ''bpf_get_socket_uid'' 47 ''__u32'' [''struct __sk_buff *''],
     HelperDecl ''bpf_set_hash'' 48 ''long'' [''struct __sk_buff *'', ''__u32''],
     HelperDecl ''bpf_setsockopt'' 49 ''long'' [''void *'', ''int'', ''int'', ''void *'', ''int''],
     HelperDecl ''bpf_skb_adjust_room'' 50 ''long'' [''struct __sk_buff *'', ''__s32'', ''__u32'', ''__u64'']]"

definition helper_decls_51_54 :: "helper_decl list" where
  "helper_decls_51_54 =
    [HelperDecl ''bpf_redirect_map'' 51 ''long'' [''void *'', ''__u32'', ''__u64''],
     HelperDecl ''bpf_sk_redirect_map'' 52 ''long'' [''struct __sk_buff *'', ''void *'', ''__u32'', ''__u64''],
     HelperDecl ''bpf_sock_map_update'' 53 ''long'' [''struct bpf_sock_ops *'', ''void *'', ''void *'', ''__u64''],
     HelperDecl ''bpf_xdp_adjust_meta'' 54 ''long'' [''struct xdp_md *'', ''int'']]"

definition helper_decls_55_58 :: "helper_decl list" where
  "helper_decls_55_58 =
    [HelperDecl ''bpf_perf_event_read_value'' 55 ''long'' [''void *'', ''__u64'', ''struct bpf_perf_event_value *'', ''__u32''],
     HelperDecl ''bpf_perf_prog_read_value'' 56 ''long'' [''struct bpf_perf_event_data *'', ''struct bpf_perf_event_value *'', ''__u32''],
     HelperDecl ''bpf_getsockopt'' 57 ''long'' [''void *'', ''int'', ''int'', ''void *'', ''int''],
     HelperDecl ''bpf_override_return'' 58 ''long'' [''struct pt_regs *'', ''__u64'']]"

definition helper_decls_59_62 :: "helper_decl list" where
  "helper_decls_59_62 =
    [HelperDecl ''bpf_sock_ops_cb_flags_set'' 59 ''long'' [''struct bpf_sock_ops *'', ''int''],
     HelperDecl ''bpf_msg_redirect_map'' 60 ''long'' [''struct sk_msg_md *'', ''void *'', ''__u32'', ''__u64''],
     HelperDecl ''bpf_msg_apply_bytes'' 61 ''long'' [''struct sk_msg_md *'', ''__u32''],
     HelperDecl ''bpf_msg_cork_bytes'' 62 ''long'' [''struct sk_msg_md *'', ''__u32'']]"

definition helper_decls_63_67 :: "helper_decl list" where
  "helper_decls_63_67 =
    [HelperDecl ''bpf_msg_pull_data'' 63 ''long'' [''struct sk_msg_md *'', ''__u32'', ''__u32'', ''__u64''],
     HelperDecl ''bpf_bind'' 64 ''long'' [''struct bpf_sock_addr *'', ''struct sockaddr *'', ''int''],
     HelperDecl ''bpf_xdp_adjust_tail'' 65 ''long'' [''struct xdp_md *'', ''int''],
     HelperDecl ''bpf_skb_get_xfrm_state'' 66 ''long'' [''struct __sk_buff *'', ''__u32'', ''struct bpf_xfrm_state *'', ''__u32'', ''__u64''],
     HelperDecl ''bpf_get_stack'' 67 ''long'' [''void *'', ''void *'', ''__u32'', ''__u64'']]"

definition helper_decls_68_72 :: "helper_decl list" where
  "helper_decls_68_72 =
    [HelperDecl ''bpf_skb_load_bytes_relative'' 68 ''long'' [''const void *'', ''__u32'', ''void *'', ''__u32'', ''__u32''],
     HelperDecl ''bpf_fib_lookup'' 69 ''long'' [''void *'', ''struct bpf_fib_lookup *'', ''int'', ''__u32''],
     HelperDecl ''bpf_sock_hash_update'' 70 ''long'' [''struct bpf_sock_ops *'', ''void *'', ''void *'', ''__u64''],
     HelperDecl ''bpf_msg_redirect_hash'' 71 ''long'' [''struct sk_msg_md *'', ''void *'', ''void *'', ''__u64''],
     HelperDecl ''bpf_sk_redirect_hash'' 72 ''long'' [''struct __sk_buff *'', ''void *'', ''void *'', ''__u64'']]"

definition helper_decls_73_77 :: "helper_decl list" where
  "helper_decls_73_77 =
    [HelperDecl ''bpf_lwt_push_encap'' 73 ''long'' [''struct __sk_buff *'', ''__u32'', ''void *'', ''__u32''],
     HelperDecl ''bpf_lwt_seg6_store_bytes'' 74 ''long'' [''struct __sk_buff *'', ''__u32'', ''const void *'', ''__u32''],
     HelperDecl ''bpf_lwt_seg6_adjust_srh'' 75 ''long'' [''struct __sk_buff *'', ''__u32'', ''__s32''],
     HelperDecl ''bpf_lwt_seg6_action'' 76 ''long'' [''struct __sk_buff *'', ''__u32'', ''void *'', ''__u32''],
     HelperDecl ''bpf_rc_repeat'' 77 ''long'' [''void *'']]"

definition helper_decls_78_83 :: "helper_decl list" where
  "helper_decls_78_83 =
    [HelperDecl ''bpf_rc_keydown'' 78 ''long'' [''void *'', ''__u32'', ''__u64'', ''__u32''],
     HelperDecl ''bpf_skb_cgroup_id'' 79 ''__u64'' [''struct __sk_buff *''],
     HelperDecl ''bpf_get_current_cgroup_id'' 80 ''__u64'' [],
     HelperDecl ''bpf_get_local_storage'' 81 ''void *'' [''void *'', ''__u64''],
     HelperDecl ''bpf_sk_select_reuseport'' 82 ''long'' [''struct sk_reuseport_md *'', ''void *'', ''void *'', ''__u64''],
     HelperDecl ''bpf_skb_ancestor_cgroup_id'' 83 ''__u64'' [''struct __sk_buff *'', ''int'']]"

definition helper_decls_84_90 :: "helper_decl list" where
  "helper_decls_84_90 =
    [HelperDecl ''bpf_sk_lookup_tcp'' 84 ''struct bpf_sock *'' [''void *'', ''struct bpf_sock_tuple *'', ''__u32'', ''__u64'', ''__u64''],
     HelperDecl ''bpf_sk_lookup_udp'' 85 ''struct bpf_sock *'' [''void *'', ''struct bpf_sock_tuple *'', ''__u32'', ''__u64'', ''__u64''],
     HelperDecl ''bpf_sk_release'' 86 ''long'' [''void *''],
     HelperDecl ''bpf_map_push_elem'' 87 ''long'' [''void *'', ''const void *'', ''__u64''],
     HelperDecl ''bpf_map_pop_elem'' 88 ''long'' [''void *'', ''void *''],
     HelperDecl ''bpf_map_peek_elem'' 89 ''long'' [''void *'', ''void *''],
     HelperDecl ''bpf_msg_push_data'' 90 ''long'' [''struct sk_msg_md *'', ''__u32'', ''__u32'', ''__u64'']]"

definition helper_decls_91_98 :: "helper_decl list" where
  "helper_decls_91_98 =
    [HelperDecl ''bpf_msg_pop_data'' 91 ''long'' [''struct sk_msg_md *'', ''__u32'', ''__u32'', ''__u64''],
     HelperDecl ''bpf_rc_pointer_rel'' 92 ''long'' [''void *'', ''__s32'', ''__s32''],
     HelperDecl ''bpf_spin_lock'' 93 ''long'' [''struct bpf_spin_lock *''],
     HelperDecl ''bpf_spin_unlock'' 94 ''long'' [''struct bpf_spin_lock *''],
     HelperDecl ''bpf_sk_fullsock'' 95 ''struct bpf_sock *'' [''struct bpf_sock *''],
     HelperDecl ''bpf_tcp_sock'' 96 ''struct bpf_tcp_sock *'' [''struct bpf_sock *''],
     HelperDecl ''bpf_skb_ecn_set_ce'' 97 ''long'' [''struct __sk_buff *''],
     HelperDecl ''bpf_get_listener_sock'' 98 ''struct bpf_sock *'' [''struct bpf_sock *'']]"

definition helper_decls_99_104 :: "helper_decl list" where
  "helper_decls_99_104 =
    [HelperDecl ''bpf_skc_lookup_tcp'' 99 ''struct bpf_sock *'' [''void *'', ''struct bpf_sock_tuple *'', ''__u32'', ''__u64'', ''__u64''],
     HelperDecl ''bpf_tcp_check_syncookie'' 100 ''long'' [''void *'', ''void *'', ''__u32'', ''struct tcphdr *'', ''__u32''],
     HelperDecl ''bpf_sysctl_get_name'' 101 ''long'' [''struct bpf_sysctl *'', ''char *'', ''unsigned long'', ''__u64''],
     HelperDecl ''bpf_sysctl_get_current_value'' 102 ''long'' [''struct bpf_sysctl *'', ''char *'', ''unsigned long''],
     HelperDecl ''bpf_sysctl_get_new_value'' 103 ''long'' [''struct bpf_sysctl *'', ''char *'', ''unsigned long''],
     HelperDecl ''bpf_sysctl_set_new_value'' 104 ''long'' [''struct bpf_sysctl *'', ''const char *'', ''unsigned long'']]"

definition helper_decls_105_109 :: "helper_decl list" where
  "helper_decls_105_109 =
    [HelperDecl ''bpf_strtol'' 105 ''long'' [''const char *'', ''unsigned long'', ''__u64'', ''long *''],
     HelperDecl ''bpf_strtoul'' 106 ''long'' [''const char *'', ''unsigned long'', ''__u64'', ''unsigned long *''],
     HelperDecl ''bpf_sk_storage_get'' 107 ''void *'' [''void *'', ''void *'', ''void *'', ''__u64''],
     HelperDecl ''bpf_sk_storage_delete'' 108 ''long'' [''void *'', ''void *''],
     HelperDecl ''bpf_send_signal'' 109 ''long'' [''__u32'']]"

definition helper_decls_110_116 :: "helper_decl list" where
  "helper_decls_110_116 =
    [HelperDecl ''bpf_tcp_gen_syncookie'' 110 ''__s64'' [''void *'', ''void *'', ''__u32'', ''struct tcphdr *'', ''__u32''],
     HelperDecl ''bpf_skb_output'' 111 ''long'' [''void *'', ''void *'', ''__u64'', ''void *'', ''__u64''],
     HelperDecl ''bpf_probe_read_user'' 112 ''long'' [''void *'', ''__u32'', ''const void *''],
     HelperDecl ''bpf_probe_read_kernel'' 113 ''long'' [''void *'', ''__u32'', ''const void *''],
     HelperDecl ''bpf_probe_read_user_str'' 114 ''long'' [''void *'', ''__u32'', ''const void *''],
     HelperDecl ''bpf_probe_read_kernel_str'' 115 ''long'' [''void *'', ''__u32'', ''const void *''],
     HelperDecl ''bpf_tcp_send_ack'' 116 ''long'' [''void *'', ''__u32'']]"

definition helper_decls_117_123 :: "helper_decl list" where
  "helper_decls_117_123 =
    [HelperDecl ''bpf_send_signal_thread'' 117 ''long'' [''__u32''],
     HelperDecl ''bpf_jiffies64'' 118 ''__u64'' [],
     HelperDecl ''bpf_read_branch_records'' 119 ''long'' [''struct bpf_perf_event_data *'', ''void *'', ''__u32'', ''__u64''],
     HelperDecl ''bpf_get_ns_current_pid_tgid'' 120 ''long'' [''__u64'', ''__u64'', ''struct bpf_pidns_info *'', ''__u32''],
     HelperDecl ''bpf_xdp_output'' 121 ''long'' [''void *'', ''void *'', ''__u64'', ''void *'', ''__u64''],
     HelperDecl ''bpf_get_netns_cookie'' 122 ''__u64'' [''void *''],
     HelperDecl ''bpf_get_current_ancestor_cgroup_id'' 123 ''__u64'' [''int'']]"

definition helper_decls_124_129 :: "helper_decl list" where
  "helper_decls_124_129 =
    [HelperDecl ''bpf_sk_assign'' 124 ''long'' [''void *'', ''void *'', ''__u64''],
     HelperDecl ''bpf_ktime_get_boot_ns'' 125 ''__u64'' [],
     HelperDecl ''bpf_seq_printf'' 126 ''long'' [''struct seq_file *'', ''const char *'', ''__u32'', ''const void *'', ''__u32''],
     HelperDecl ''bpf_seq_write'' 127 ''long'' [''struct seq_file *'', ''const void *'', ''__u32''],
     HelperDecl ''bpf_sk_cgroup_id'' 128 ''__u64'' [''void *''],
     HelperDecl ''bpf_sk_ancestor_cgroup_id'' 129 ''__u64'' [''void *'', ''int'']]"

definition helper_decls_130_137 :: "helper_decl list" where
  "helper_decls_130_137 =
    [HelperDecl ''bpf_ringbuf_output'' 130 ''long'' [''void *'', ''void *'', ''__u64'', ''__u64''],
     HelperDecl ''bpf_ringbuf_reserve'' 131 ''void *'' [''void *'', ''__u64'', ''__u64''],
     HelperDecl ''bpf_ringbuf_submit'' 132 ''void'' [''void *'', ''__u64''],
     HelperDecl ''bpf_ringbuf_discard'' 133 ''void'' [''void *'', ''__u64''],
     HelperDecl ''bpf_ringbuf_query'' 134 ''__u64'' [''void *'', ''__u64''],
     HelperDecl ''bpf_csum_level'' 135 ''long'' [''struct __sk_buff *'', ''__u64''],
     HelperDecl ''bpf_skc_to_tcp6_sock'' 136 ''struct tcp6_sock *'' [''void *''],
     HelperDecl ''bpf_skc_to_tcp_sock'' 137 ''struct tcp_sock *'' [''void *'']]"

definition helper_decls_138_142 :: "helper_decl list" where
  "helper_decls_138_142 =
    [HelperDecl ''bpf_skc_to_tcp_timewait_sock'' 138 ''struct tcp_timewait_sock *'' [''void *''],
     HelperDecl ''bpf_skc_to_tcp_request_sock'' 139 ''struct tcp_request_sock *'' [''void *''],
     HelperDecl ''bpf_skc_to_udp6_sock'' 140 ''struct udp6_sock *'' [''void *''],
     HelperDecl ''bpf_get_task_stack'' 141 ''long'' [''struct task_struct *'', ''void *'', ''__u32'', ''__u64''],
     HelperDecl ''bpf_load_hdr_opt'' 142 ''long'' [''struct bpf_sock_ops *'', ''void *'', ''__u32'', ''__u64'']]"

definition helper_decls_143_148 :: "helper_decl list" where
  "helper_decls_143_148 =
    [HelperDecl ''bpf_store_hdr_opt'' 143 ''long'' [''struct bpf_sock_ops *'', ''const void *'', ''__u32'', ''__u64''],
     HelperDecl ''bpf_reserve_hdr_opt'' 144 ''long'' [''struct bpf_sock_ops *'', ''__u32'', ''__u64''],
     HelperDecl ''bpf_inode_storage_get'' 145 ''void *'' [''void *'', ''void *'', ''void *'', ''__u64''],
     HelperDecl ''bpf_inode_storage_delete'' 146 ''int'' [''void *'', ''void *''],
     HelperDecl ''bpf_d_path'' 147 ''long'' [''struct path *'', ''char *'', ''__u32''],
     HelperDecl ''bpf_copy_from_user'' 148 ''long'' [''void *'', ''__u32'', ''const void *'']]"

definition helper_decls_149_155 :: "helper_decl list" where
  "helper_decls_149_155 =
    [HelperDecl ''bpf_snprintf_btf'' 149 ''long'' [''char *'', ''__u32'', ''struct btf_ptr *'', ''__u32'', ''__u64''],
     HelperDecl ''bpf_seq_printf_btf'' 150 ''long'' [''struct seq_file *'', ''struct btf_ptr *'', ''__u32'', ''__u64''],
     HelperDecl ''bpf_skb_cgroup_classid'' 151 ''__u64'' [''struct __sk_buff *''],
     HelperDecl ''bpf_redirect_neigh'' 152 ''long'' [''__u32'', ''struct bpf_redir_neigh *'', ''int'', ''__u64''],
     HelperDecl ''bpf_per_cpu_ptr'' 153 ''void *'' [''const void *'', ''__u32''],
     HelperDecl ''bpf_this_cpu_ptr'' 154 ''void *'' [''const void *''],
     HelperDecl ''bpf_redirect_peer'' 155 ''long'' [''__u32'', ''__u64'']]"

definition helper_decls_156_162 :: "helper_decl list" where
  "helper_decls_156_162 =
    [HelperDecl ''bpf_task_storage_get'' 156 ''void *'' [''void *'', ''struct task_struct *'', ''void *'', ''__u64''],
     HelperDecl ''bpf_task_storage_delete'' 157 ''long'' [''void *'', ''struct task_struct *''],
     HelperDecl ''bpf_get_current_task_btf'' 158 ''struct task_struct *'' [],
     HelperDecl ''bpf_bprm_opts_set'' 159 ''long'' [''struct linux_binprm *'', ''__u64''],
     HelperDecl ''bpf_ktime_get_coarse_ns'' 160 ''__u64'' [],
     HelperDecl ''bpf_ima_inode_hash'' 161 ''long'' [''struct inode *'', ''void *'', ''__u32''],
     HelperDecl ''bpf_sock_from_file'' 162 ''struct socket *'' [''struct file *'']]"

definition helper_decls_163_166 :: "helper_decl list" where
  "helper_decls_163_166 =
    [HelperDecl ''bpf_check_mtu'' 163 ''long'' [''void *'', ''__u32'', ''__u32 *'', ''__s32'', ''__u64''],
     HelperDecl ''bpf_for_each_map_elem'' 164 ''long'' [''void *'', ''void *'', ''void *'', ''__u64''],
     HelperDecl ''bpf_snprintf'' 165 ''long'' [''char *'', ''__u32'', ''const char *'', ''__u64 *'', ''__u32''],
     HelperDecl ''bpf_sys_bpf'' 166 ''long'' [''__u32'', ''void *'', ''__u32'']]"

definition helper_decls_167_175 :: "helper_decl list" where
  "helper_decls_167_175 =
    [HelperDecl ''bpf_btf_find_by_name_kind'' 167 ''long'' [''char *'', ''int'', ''__u32'', ''int''],
     HelperDecl ''bpf_sys_close'' 168 ''long'' [''__u32''],
     HelperDecl ''bpf_timer_init'' 169 ''long'' [''struct bpf_timer *'', ''void *'', ''__u64''],
     HelperDecl ''bpf_timer_set_callback'' 170 ''long'' [''struct bpf_timer *'', ''void *''],
     HelperDecl ''bpf_timer_start'' 171 ''long'' [''struct bpf_timer *'', ''__u64'', ''__u64''],
     HelperDecl ''bpf_timer_cancel'' 172 ''long'' [''struct bpf_timer *''],
     HelperDecl ''bpf_get_func_ip'' 173 ''__u64'' [''void *''],
     HelperDecl ''bpf_get_attach_cookie'' 174 ''__u64'' [''void *''],
     HelperDecl ''bpf_task_pt_regs'' 175 ''long'' [''struct task_struct *'']]"

definition helper_decls_176_180 :: "helper_decl list" where
  "helper_decls_176_180 =
    [HelperDecl ''bpf_get_branch_snapshot'' 176 ''long'' [''void *'', ''__u32'', ''__u64''],
     HelperDecl ''bpf_trace_vprintk'' 177 ''long'' [''const char *'', ''__u32'', ''const void *'', ''__u32''],
     HelperDecl ''bpf_skc_to_unix_sock'' 178 ''struct unix_sock *'' [''void *''],
     HelperDecl ''bpf_kallsyms_lookup_name'' 179 ''long'' [''const char *'', ''int'', ''int'', ''__u64 *''],
     HelperDecl ''bpf_find_vma'' 180 ''long'' [''struct task_struct *'', ''__u64'', ''void *'', ''void *'', ''__u64'']]"

definition bpf_func_id_1 :: "(string \<times> nat) list" where
  "bpf_func_id_1 =
    [(''BPF_FUNC_unspec'', 0),
     (''BPF_FUNC_map_lookup_elem'', 1),
     (''BPF_FUNC_map_update_elem'', 2),
     (''BPF_FUNC_map_delete_elem'', 3),
     (''BPF_FUNC_probe_read'', 4),
     (''BPF_FUNC_ktime_get_ns'', 5),
     (''BPF_FUNC_trace_printk'', 6),
     (''BPF_FUNC_get_prandom_u32'', 7),
     (''BPF_FUNC_get_smp_processor_id'', 8),
     (''BPF_FUNC_skb_store_bytes'', 9),
     (''BPF_FUNC_l3_csum_replace'', 10),
     (''BPF_FUNC_l4_csum_replace'', 11),
     (''BPF_FUNC_tail_call'', 12),
     (''BPF_FUNC_clone_redirect'', 13),
     (''BPF_FUNC_get_current_pid_tgid'', 14),
     (''BPF_FUNC_get_current_uid_gid'', 15),
     (''BPF_FUNC_get_current_comm'', 16),
     (''BPF_FUNC_get_cgroup_classid'', 17),
     (''BPF_FUNC_skb_vlan_push'', 18),
     (''BPF_FUNC_skb_vlan_pop'', 19),
     (''BPF_FUNC_skb_get_tunnel_key'', 20),
     (''BPF_FUNC_skb_set_tunnel_key'', 21),
     (''BPF_FUNC_perf_event_read'', 22),
     (''BPF_FUNC_redirect'', 23),
     (''BPF_FUNC_get_route_realm'', 24),
     (''BPF_FUNC_perf_event_output'', 25),
     (''BPF_FUNC_skb_load_bytes'', 26),
     (''BPF_FUNC_get_stackid'', 27),
     (''BPF_FUNC_csum_diff'', 28),
     (''BPF_FUNC_skb_get_tunnel_opt'', 29),
     (''BPF_FUNC_skb_set_tunnel_opt'', 30),
     (''BPF_FUNC_skb_change_proto'', 31),
     (''BPF_FUNC_skb_change_type'', 32),
     (''BPF_FUNC_skb_under_cgroup'', 33),
     (''BPF_FUNC_get_hash_recalc'', 34),
     (''BPF_FUNC_get_current_task'', 35),
     (''BPF_FUNC_probe_write_user'', 36),
     (''BPF_FUNC_current_task_under_cgroup'', 37),
     (''BPF_FUNC_skb_change_tail'', 38),
     (''BPF_FUNC_skb_pull_data'', 39),
     (''BPF_FUNC_csum_update'', 40),
     (''BPF_FUNC_set_hash_invalid'', 41),
     (''BPF_FUNC_get_numa_node_id'', 42),
     (''BPF_FUNC_skb_change_head'', 43),
     (''BPF_FUNC_xdp_adjust_head'', 44),
     (''BPF_FUNC_probe_read_str'', 45),
     (''BPF_FUNC_get_socket_cookie'', 46),
     (''BPF_FUNC_get_socket_uid'', 47),
     (''BPF_FUNC_set_hash'', 48),
     (''BPF_FUNC_setsockopt'', 49),
     (''BPF_FUNC_skb_adjust_room'', 50),
     (''BPF_FUNC_redirect_map'', 51),
     (''BPF_FUNC_sk_redirect_map'', 52),
     (''BPF_FUNC_sock_map_update'', 53),
     (''BPF_FUNC_xdp_adjust_meta'', 54),
     (''BPF_FUNC_perf_event_read_value'', 55),
     (''BPF_FUNC_perf_prog_read_value'', 56),
     (''BPF_FUNC_getsockopt'', 57),
     (''BPF_FUNC_override_return'', 58),
     (''BPF_FUNC_sock_ops_cb_flags_set'', 59),
     (''BPF_FUNC_msg_redirect_map'', 60),
     (''BPF_FUNC_msg_apply_bytes'', 61),
     (''BPF_FUNC_msg_cork_bytes'', 62),
     (''BPF_FUNC_msg_pull_data'', 63),
     (''BPF_FUNC_bind'', 64),
     (''BPF_FUNC_xdp_adjust_tail'', 65),
     (''BPF_FUNC_skb_get_xfrm_state'', 66),
     (''BPF_FUNC_get_stack'', 67),
     (''BPF_FUNC_skb_load_bytes_relative'', 68),
     (''BPF_FUNC_fib_lookup'', 69),
     (''BPF_FUNC_sock_hash_update'', 70),
     (''BPF_FUNC_msg_redirect_hash'', 71),
     (''BPF_FUNC_sk_redirect_hash'', 72),
     (''BPF_FUNC_lwt_push_encap'', 73),
     (''BPF_FUNC_lwt_seg6_store_bytes'', 74),
     (''BPF_FUNC_lwt_seg6_adjust_srh'', 75),
     (''BPF_FUNC_lwt_seg6_action'', 76),
     (''BPF_FUNC_rc_repeat'', 77),
     (''BPF_FUNC_rc_keydown'', 78),
     (''BPF_FUNC_skb_cgroup_id'', 79),
     (''BPF_FUNC_get_current_cgroup_id'', 80),
     (''BPF_FUNC_get_local_storage'', 81),
     (''BPF_FUNC_sk_select_reuseport'', 82),
     (''BPF_FUNC_skb_ancestor_cgroup_id'', 83),
     (''BPF_FUNC_sk_lookup_tcp'', 84),
     (''BPF_FUNC_sk_lookup_udp'', 85),
     (''BPF_FUNC_sk_release'', 86),
     (''BPF_FUNC_map_push_elem'', 87),
     (''BPF_FUNC_map_pop_elem'', 88),
     (''BPF_FUNC_map_peek_elem'', 89),
     (''BPF_FUNC_msg_push_data'', 90),
     (''BPF_FUNC_msg_pop_data'', 91),
     (''BPF_FUNC_rc_pointer_rel'', 92),
     (''BPF_FUNC_spin_lock'', 93),
     (''BPF_FUNC_spin_unlock'', 94),
     (''BPF_FUNC_sk_fullsock'', 95),
     (''BPF_FUNC_tcp_sock'', 96),
     (''BPF_FUNC_skb_ecn_set_ce'', 97),
     (''BPF_FUNC_get_listener_sock'', 98),
     (''BPF_FUNC_skc_lookup_tcp'', 99),
     (''BPF_FUNC_tcp_check_syncookie'', 100),
     (''BPF_FUNC_sysctl_get_name'', 101),
     (''BPF_FUNC_sysctl_get_current_value'', 102),
     (''BPF_FUNC_sysctl_get_new_value'', 103),
     (''BPF_FUNC_sysctl_set_new_value'', 104),
     (''BPF_FUNC_strtol'', 105),
     (''BPF_FUNC_strtoul'', 106),
     (''BPF_FUNC_sk_storage_get'', 107),
     (''BPF_FUNC_sk_storage_delete'', 108),
     (''BPF_FUNC_send_signal'', 109),
     (''BPF_FUNC_tcp_gen_syncookie'', 110),
     (''BPF_FUNC_skb_output'', 111),
     (''BPF_FUNC_probe_read_user'', 112),
     (''BPF_FUNC_probe_read_kernel'', 113),
     (''BPF_FUNC_probe_read_user_str'', 114),
     (''BPF_FUNC_probe_read_kernel_str'', 115),
     (''BPF_FUNC_tcp_send_ack'', 116),
     (''BPF_FUNC_send_signal_thread'', 117),
     (''BPF_FUNC_jiffies64'', 118),
     (''BPF_FUNC_read_branch_records'', 119),
     (''BPF_FUNC_get_ns_current_pid_tgid'', 120),
     (''BPF_FUNC_xdp_output'', 121),
     (''BPF_FUNC_get_netns_cookie'', 122),
     (''BPF_FUNC_get_current_ancestor_cgroup_id'', 123),
     (''BPF_FUNC_sk_assign'', 124),
     (''BPF_FUNC_ktime_get_boot_ns'', 125),
     (''BPF_FUNC_seq_printf'', 126),
     (''BPF_FUNC_seq_write'', 127),
     (''BPF_FUNC_sk_cgroup_id'', 128),
     (''BPF_FUNC_sk_ancestor_cgroup_id'', 129),
     (''BPF_FUNC_ringbuf_output'', 130),
     (''BPF_FUNC_ringbuf_reserve'', 131),
     (''BPF_FUNC_ringbuf_submit'', 132),
     (''BPF_FUNC_ringbuf_discard'', 133),
     (''BPF_FUNC_ringbuf_query'', 134),
     (''BPF_FUNC_csum_level'', 135),
     (''BPF_FUNC_skc_to_tcp6_sock'', 136),
     (''BPF_FUNC_skc_to_tcp_sock'', 137),
     (''BPF_FUNC_skc_to_tcp_timewait_sock'', 138),
     (''BPF_FUNC_skc_to_tcp_request_sock'', 139)]"

definition bpf_func_id_2 :: "(string \<times> nat) list" where
  "bpf_func_id_2 =
    [(''BPF_FUNC_skc_to_udp6_sock'', 140),
     (''BPF_FUNC_get_task_stack'', 141),
     (''BPF_FUNC_load_hdr_opt'', 142),
     (''BPF_FUNC_store_hdr_opt'', 143),
     (''BPF_FUNC_reserve_hdr_opt'', 144),
     (''BPF_FUNC_inode_storage_get'', 145),
     (''BPF_FUNC_inode_storage_delete'', 146),
     (''BPF_FUNC_d_path'', 147),
     (''BPF_FUNC_copy_from_user'', 148),
     (''BPF_FUNC_snprintf_btf'', 149),
     (''BPF_FUNC_seq_printf_btf'', 150),
     (''BPF_FUNC_skb_cgroup_classid'', 151),
     (''BPF_FUNC_redirect_neigh'', 152),
     (''BPF_FUNC_per_cpu_ptr'', 153),
     (''BPF_FUNC_this_cpu_ptr'', 154),
     (''BPF_FUNC_redirect_peer'', 155),
     (''BPF_FUNC_task_storage_get'', 156),
     (''BPF_FUNC_task_storage_delete'', 157),
     (''BPF_FUNC_get_current_task_btf'', 158),
     (''BPF_FUNC_bprm_opts_set'', 159),
     (''BPF_FUNC_ktime_get_coarse_ns'', 160),
     (''BPF_FUNC_ima_inode_hash'', 161),
     (''BPF_FUNC_sock_from_file'', 162),
     (''BPF_FUNC_check_mtu'', 163),
     (''BPF_FUNC_for_each_map_elem'', 164),
     (''BPF_FUNC_snprintf'', 165),
     (''BPF_FUNC_sys_bpf'', 166),
     (''BPF_FUNC_btf_find_by_name_kind'', 167),
     (''BPF_FUNC_sys_close'', 168),
     (''BPF_FUNC_timer_init'', 169),
     (''BPF_FUNC_timer_set_callback'', 170),
     (''BPF_FUNC_timer_start'', 171),
     (''BPF_FUNC_timer_cancel'', 172),
     (''BPF_FUNC_get_func_ip'', 173),
     (''BPF_FUNC_get_attach_cookie'', 174),
     (''BPF_FUNC_task_pt_regs'', 175),
     (''__BPF_FUNC_MAX_ID'', 176)]"

definition bpf_map_type :: "(string \<times> nat) list" where
  "bpf_map_type =
    [(''BPF_MAP_TYPE_UNSPEC'', 0),
     (''BPF_MAP_TYPE_HASH'', 1),
     (''BPF_MAP_TYPE_ARRAY'', 2),
     (''BPF_MAP_TYPE_PROG_ARRAY'', 3),
     (''BPF_MAP_TYPE_PERF_EVENT_ARRAY'', 4),
     (''BPF_MAP_TYPE_PERCPU_HASH'', 5),
     (''BPF_MAP_TYPE_PERCPU_ARRAY'', 6),
     (''BPF_MAP_TYPE_STACK_TRACE'', 7),
     (''BPF_MAP_TYPE_CGROUP_ARRAY'', 8),
     (''BPF_MAP_TYPE_LRU_HASH'', 9),
     (''BPF_MAP_TYPE_LRU_PERCPU_HASH'', 10),
     (''BPF_MAP_TYPE_LPM_TRIE'', 11),
     (''BPF_MAP_TYPE_ARRAY_OF_MAPS'', 12),
     (''BPF_MAP_TYPE_HASH_OF_MAPS'', 13),
     (''BPF_MAP_TYPE_DEVMAP'', 14),
     (''BPF_MAP_TYPE_SOCKMAP'', 15),
     (''BPF_MAP_TYPE_CPUMAP'', 16),
     (''BPF_MAP_TYPE_XSKMAP'', 17),
     (''BPF_MAP_TYPE_SOCKHASH'', 18),
     (''BPF_MAP_TYPE_CGROUP_STORAGE'', 19),
     (''BPF_MAP_TYPE_REUSEPORT_SOCKARRAY'', 20),
     (''BPF_MAP_TYPE_PERCPU_CGROUP_STORAGE'', 21),
     (''BPF_MAP_TYPE_QUEUE'', 22),
     (''BPF_MAP_TYPE_STACK'', 23),
     (''BPF_MAP_TYPE_SK_STORAGE'', 24),
     (''BPF_MAP_TYPE_DEVMAP_HASH'', 25),
     (''BPF_MAP_TYPE_STRUCT_OPS'', 26),
     (''BPF_MAP_TYPE_RINGBUF'', 27),
     (''BPF_MAP_TYPE_INODE_STORAGE'', 28),
     (''BPF_MAP_TYPE_TASK_STORAGE'', 29)]"

definition bpf_helpers :: "helper_decl list" where
  "bpf_helpers = helper_decls_1_7 @ helper_decls_8_12 @ helper_decls_13_19 @ helper_decls_20_22 @ helper_decls_23_26 @ helper_decls_27_31 @ helper_decls_32_38 @ helper_decls_39_45 @ helper_decls_46_50 @ helper_decls_51_54 @ helper_decls_55_58 @ helper_decls_59_62 @ helper_decls_63_67 @ helper_decls_68_72 @ helper_decls_73_77 @ helper_decls_78_83 @ helper_decls_84_90 @ helper_decls_91_98 @ helper_decls_99_104 @ helper_decls_105_109 @ helper_decls_110_116 @ helper_decls_117_123 @ helper_decls_124_129 @ helper_decls_130_137 @ helper_decls_138_142 @ helper_decls_143_148 @ helper_decls_149_155 @ helper_decls_156_162 @ helper_decls_163_166 @ helper_decls_167_175 @ helper_decls_176_180"

section \<open>Numbers of the kernel\<close>

definition bpf_func_id :: "(string \<times> nat) list" where
  "bpf_func_id = bpf_func_id_1 @ bpf_func_id_2"

text \<open>The constant \<^verbatim>\<open>BPF_FUNC_x\<close> that names the helper \<^verbatim>\<open>bpf_x\<close>.\<close>

definition func_id_name :: "helper_decl \<Rightarrow> string" where
  "func_id_name h = ''BPF_FUNC_'' @ drop 4 (helper_name h)"

lemmas helper_tables = helper_decls_1_7_def helper_decls_8_12_def helper_decls_13_19_def helper_decls_20_22_def helper_decls_23_26_def helper_decls_27_31_def helper_decls_32_38_def helper_decls_39_45_def helper_decls_46_50_def helper_decls_51_54_def helper_decls_55_58_def helper_decls_59_62_def helper_decls_63_67_def helper_decls_68_72_def helper_decls_73_77_def helper_decls_78_83_def helper_decls_84_90_def helper_decls_91_98_def helper_decls_99_104_def helper_decls_105_109_def helper_decls_110_116_def helper_decls_117_123_def helper_decls_124_129_def helper_decls_130_137_def helper_decls_138_142_def helper_decls_143_148_def helper_decls_149_155_def helper_decls_156_162_def helper_decls_163_166_def helper_decls_167_175_def helper_decls_176_180_def bpf_func_id_1_def bpf_func_id_2_def

section \<open>Comparison of the two headers\<close>

lemma bpf_helpers_ids: "map helper_id bpf_helpers = [1..<181]"
  by (simp add: bpf_helpers_def helper_tables upt_rec)

lemma bpf_helpers_match_kernel:
  "map (\<lambda>h. (func_id_name h, helper_id h)) (take 175 bpf_helpers) = take 175 (tl bpf_func_id)"
  by code_simp

section \<open>Properties\<close>

text \<open>The helper header numbers its 180 helpers 1 to 180 without a gap, and the first 175 have the name and the
  number they have in the kernel that the types come from.\<close>

lemma helper_numbers_agree:
  "map helper_id bpf_helpers = [1..<181]
   \<and> map (\<lambda>h. (func_id_name h, helper_id h)) (take 175 bpf_helpers) = take 175 (tl bpf_func_id)"
  using bpf_helpers_ids bpf_helpers_match_kernel by blast

end
