(* ===== verification/BT_BpfHelpers.thy ===== *)
theory BT_BpfHelpers
  imports BT_CTypes BT_HelperDefs
begin

text \<open>
  The macros of \<^verbatim>\<open>headers/bpf_helpers.h\<close>: version numbers, container addresses, the argument
  counting that the variadic macros are built on, the array filling of the printing wrappers,
  the choice between the two printing helpers and the static tail call.
\<close>

section \<open>Versions, members and containers\<close>

definition KERNEL_VERSION :: "nat \<Rightarrow> nat \<Rightarrow> nat \<Rightarrow> nat" where
  "KERNEL_VERSION a b c = push_bit 16 a + push_bit 8 b + (if c > 255 then 255 else c)"

text \<open>\<^verbatim>\<open>container_of(ptr, type, member)\<close>; \<open>None\<close> when the type has no such member.\<close>

definition container_of :: "u64 \<Rightarrow> ctype \<Rightarrow> string list \<Rightarrow> u64 option" where
  "container_of ptr t member = map_option (\<lambda>off. ptr - of_nat off) (offsetof t member)"

record bpf_map_def =
  bmd_type :: u32
  bmd_key_size :: u32
  bmd_value_size :: u32
  bmd_max_entries :: u32
  bmd_map_flags :: u32

definition bpf_map_def_t :: ctype where
  "bpf_map_def_t = TStruct ''bpf_map_def''
     [(''type'', TInt 4 False), (''key_size'', TInt 4 False), (''value_size'', TInt 4 False),
      (''max_entries'', TInt 4 False), (''map_flags'', TInt 4 False)]"

datatype libbpf_pin_type = LIBBPF_PIN_NONE | LIBBPF_PIN_BY_NAME

datatype libbpf_tristate = TRI_NO | TRI_YES | TRI_MODULE

section \<open>Static tail calls\<close>

text \<open>
  The registers \<^verbatim>\<open>r1\<close>, \<^verbatim>\<open>r2\<close>, \<^verbatim>\<open>r3\<close> and the number of the called helper. A slot that is not a
  compile-time constant reaches the trap that stops the build.
\<close>

definition bpf_tail_call_static :: "bool \<Rightarrow> u64 \<Rightarrow> u64 \<Rightarrow> u32 \<Rightarrow> (u64 list \<times> nat) option" where
  "bpf_tail_call_static slot_is_const ctx map_p slot =
     (if \<not> slot_is_const then None else Some ([ctx, map_p, ucast slot], 12))"

section \<open>Counting macro arguments\<close>

text \<open>The fourteenth argument of \<^verbatim>\<open>___bpf_nth\<close>; a call with fewer is malformed.\<close>

definition bpf_nth :: "'a list \<Rightarrow> 'a option" where
  "bpf_nth args = (if 13 < length args then Some (args ! 13) else None)"

text \<open>A macro argument of the caller, or a token that the macro itself appends.\<close>

datatype ('a, 'b) token = Arg 'a | Tok 'b | Placeholder

definition bpf_narg :: "'a list \<Rightarrow> ('a, nat) token option" where
  "bpf_narg args =
     bpf_nth ([Placeholder] @ map Arg args @ map Tok [12, 11, 10, 9, 8, 7, 6, 5, 4, 3, 2, 1, 0])"

section \<open>Printing wrappers\<close>

text \<open>\<^verbatim>\<open>___bpf_fillN(arr, p, x, args...)\<close> stores its arguments from position \<open>p\<close> on.\<close>

fun bpf_fill_from :: "u64 list \<Rightarrow> nat \<Rightarrow> u64 list \<Rightarrow> u64 list" where
  "bpf_fill_from arr p [] = arr"
| "bpf_fill_from arr p (x # xs) = bpf_fill_from (arr[p := x]) (p + 1) xs"

definition bpf_fill :: "u64 list \<Rightarrow> u64 list \<Rightarrow> u64 list" where
  "bpf_fill arr args = bpf_fill_from arr 0 args"

text \<open>A call of a printing helper: its name, the format with its size, the parameters with their size.\<close>

datatype print_call = PrintCall string string nat "u64 list" nat

definition BPF_SEQ_PRINTF :: "u64 list \<Rightarrow> string \<Rightarrow> u64 list \<Rightarrow> print_call" where
  "BPF_SEQ_PRINTF param0 fmt args =
     PrintCall ''bpf_seq_printf'' fmt (length fmt + 1) (bpf_fill param0 args) (8 * length param0)"

definition BPF_SNPRINTF :: "u64 list \<Rightarrow> string \<Rightarrow> u64 list \<Rightarrow> print_call" where
  "BPF_SNPRINTF param0 fmt args =
     PrintCall ''bpf_snprintf'' fmt (length fmt + 1) (bpf_fill param0 args) (8 * length param0)"

definition bpf_printk_plain :: "string \<Rightarrow> u64 list \<Rightarrow> print_call" where
  "bpf_printk_plain fmt args = PrintCall ''bpf_trace_printk'' fmt (length fmt + 1) args 0"

definition bpf_vprintk :: "u64 list \<Rightarrow> string \<Rightarrow> u64 list \<Rightarrow> print_call" where
  "bpf_vprintk param0 fmt args =
     PrintCall ''bpf_trace_vprintk'' fmt (length fmt + 1) (bpf_fill param0 args) (8 * length param0)"

datatype printk_kind = UseVprintk | UsePrintk

definition bpf_pick_printk :: "'a list \<Rightarrow> ('a, printk_kind) token option" where
  "bpf_pick_printk args =
     bpf_nth ([Placeholder] @ map Arg args @ map Tok
       [UseVprintk, UseVprintk, UseVprintk, UseVprintk, UseVprintk, UseVprintk, UseVprintk,
        UseVprintk, UseVprintk, UsePrintk, UsePrintk, UsePrintk, UsePrintk])"

text \<open>\<open>param0\<close> is the uninitialised parameter array of the wrapper.\<close>

definition bpf_printk :: "u64 list \<Rightarrow> string \<Rightarrow> u64 list \<Rightarrow> print_call option" where
  "bpf_printk param0 fmt args =
     (case bpf_pick_printk args of
        Some (Tok UsePrintk) \<Rightarrow> Some (bpf_printk_plain fmt args)
      | Some (Tok UseVprintk) \<Rightarrow> Some (bpf_vprintk param0 fmt args)
      | _ \<Rightarrow> None)"

section \<open>Lemmas\<close>

lemma container_of_member:
  "offsetof t member = Some off \<Longrightarrow> container_of (p + of_nat off) t member = Some p"
  by (simp add: container_of_def)

lemma bpf_nth_split:
  assumes "length args \<le> 12" and "length toks = 13"
  shows "bpf_nth ([Placeholder] @ map Arg args @ map Tok toks) = Some (Tok (toks ! (12 - length args)))"
proof -
  have "([Placeholder] @ map Arg args @ map Tok toks) ! 13 = Tok (toks ! (12 - length args))"
    using assms by (simp add: nth_append numeral_eq_Suc)
  then show ?thesis
    using assms by (simp add: bpf_nth_def)
qed

lemma bpf_narg_count:
  assumes "length args \<le> 12"
  shows "bpf_narg args = Some (Tok (length args))"
proof -
  have "length args \<in> {0,1,2,3,4,5,6,7,8,9,10,11,12}"
    using assms by (simp add: numeral_eq_Suc le_Suc_eq)
  then show ?thesis
    unfolding bpf_narg_def using assms by (subst bpf_nth_split) auto
qed

lemma bpf_pick_printk_count:
  assumes "length args \<le> 12"
  shows "bpf_pick_printk args = Some (Tok (if length args \<le> 3 then UsePrintk else UseVprintk))"
proof -
  have "length args \<in> {0,1,2,3,4,5,6,7,8,9,10,11,12}"
    using assms by (simp add: numeral_eq_Suc le_Suc_eq)
  then show ?thesis
    unfolding bpf_pick_printk_def using assms by (subst bpf_nth_split) auto
qed

lemma bpf_fill_from_append:
  "p + length args = length arr \<Longrightarrow> bpf_fill_from arr p args = take p arr @ args"
proof (induction args arbitrary: arr p)
  case Nil
  then show ?case by simp
next
  case (Cons x xs)
  then have "bpf_fill_from arr p (x # xs) = take (p + 1) (arr[p := x]) @ xs"
    by simp
  also have "take (p + 1) (arr[p := x]) = take p arr @ [x]"
    using Cons.prems by (simp add: take_Suc_conv_app_nth)
  finally show ?case by simp
qed

lemma bpf_fill_all: "length arr = length args \<Longrightarrow> bpf_fill arr args = args"
  by (simp add: bpf_fill_def bpf_fill_from_append)

lemma bpf_printk_choice:
  assumes "length args \<le> 12" and "length param0 = length args"
  shows "bpf_printk param0 fmt args =
    Some (if length args \<le> 3 then bpf_printk_plain fmt args
          else PrintCall ''bpf_trace_vprintk'' fmt (length fmt + 1) args (8 * length args))"
  using assms by (simp add: bpf_printk_def bpf_pick_printk_count bpf_vprintk_def bpf_fill_all)

section \<open>Properties\<close>

text \<open>\<^verbatim>\<open>bpf_printk\<close> takes the plain helper for up to three arguments and the array helper for four to
  twelve; the array then holds exactly the arguments, and the size it passes is that of the array.\<close>

lemma bpf_printk_dispatch:
  assumes "length args \<le> 12" "length param0 = length args"
  shows "bpf_printk param0 fmt args =
    Some (if length args \<le> 3 then PrintCall ''bpf_trace_printk'' fmt (length fmt + 1) args 0
          else PrintCall ''bpf_trace_vprintk'' fmt (length fmt + 1) args (8 * length args))"
  using bpf_printk_choice [OF assms] by (simp add: bpf_printk_plain_def)

lemma bpf_printk_dispatch_witness:
  "bpf_printk [0, 0, 0, 0] ''x'' [1, 2, 3, 4] = Some (PrintCall ''bpf_trace_vprintk'' ''x'' 2 [1, 2, 3, 4] 32)"
  using bpf_printk_dispatch [of "[1, 2, 3, 4]" "[0, 0, 0, 0]" "''x''"] by simp

end
