(* ===== verification/BT_BpfTracing.thy ===== *)
theory BT_BpfTracing
  imports BT_CTypes
begin

text \<open>
  The register access macros of \<^verbatim>\<open>headers/bpf_tracing.h\<close>: which target the header selects from
  the macros of the compilation, the expression each \<^verbatim>\<open>PT_REGS_*\<close> macro and its \<^verbatim>\<open>_CORE\<close>
  variant expand to for every target, and the argument lists that \<^verbatim>\<open>BPF_PROG\<close> and
  \<^verbatim>\<open>BPF_KPROBE\<close> build. The daemon is compiled for arm64, whose expressions are evaluated on a
  \<^verbatim>\<open>struct user_pt_regs\<close>.
\<close>

section \<open>Targets\<close>

datatype bpf_target =
  TX86 | TS390 | TArm | TArm64 | TMips | TPowerpc | TSparc | TRiscv

text \<open>
  \<open>d\<close> tells which preprocessor symbols are defined. The result is \<open>None\<close> when
  \<^verbatim>\<open>bpf_target_defined\<close> is not set.
\<close>

definition explicit_target :: "(string \<Rightarrow> bool) \<Rightarrow> bpf_target option" where
  "explicit_target d =
     (if d ''__TARGET_ARCH_x86'' then Some TX86
      else if d ''__TARGET_ARCH_s390'' then Some TS390
      else if d ''__TARGET_ARCH_arm'' then Some TArm
      else if d ''__TARGET_ARCH_arm64'' then Some TArm64
      else if d ''__TARGET_ARCH_mips'' then Some TMips
      else if d ''__TARGET_ARCH_powerpc'' then Some TPowerpc
      else if d ''__TARGET_ARCH_sparc'' then Some TSparc
      else if d ''__TARGET_ARCH_riscv'' then Some TRiscv
      else None)"

text \<open>\<open>xlen64\<close> is the condition \<^verbatim>\<open>__riscv_xlen == 64\<close>.\<close>

definition compiler_target :: "(string \<Rightarrow> bool) \<Rightarrow> bool \<Rightarrow> bpf_target option" where
  "compiler_target d xlen64 =
     (if d ''__x86_64__'' then Some TX86
      else if d ''__s390__'' then Some TS390
      else if d ''__arm__'' then Some TArm
      else if d ''__aarch64__'' then Some TArm64
      else if d ''__mips__'' then Some TMips
      else if d ''__powerpc__'' then Some TPowerpc
      else if d ''__sparc__'' then Some TSparc
      else if d ''__riscv'' \<and> xlen64 then Some TRiscv
      else None)"

definition select_target :: "(string \<Rightarrow> bool) \<Rightarrow> bool \<Rightarrow> bpf_target option" where
  "select_target d xlen64 =
     (case explicit_target d of Some t \<Rightarrow> Some t | None \<Rightarrow> compiler_target d xlen64)"

section \<open>Register expressions\<close>

datatype pt_reg = PARM1 | PARM2 | PARM3 | PARM4 | PARM5 | RET | FP | RC | SP | IP

text \<open>
  \<open>Member f\<close> is \<^verbatim>\<open>(x)->f\<close>, \<open>Elem f i\<close> is \<^verbatim>\<open>(x)->f[i]\<close>, \<open>NamedElem f c\<close> is \<^verbatim>\<open>(x)->f[c]\<close> with a
  named constant of another header, \<open>Zero\<close> the constant 0, \<open>Undefined\<close> a macro that the header
  does not define for the target and \<open>MissingTarget\<close> the pragma that stops the compilation.
\<close>

datatype reg_expr =
    Member string | Elem string nat | NamedElem string string | Zero | Undefined | MissingTarget

fun pt_regs_x86_vmlinux :: "pt_reg \<Rightarrow> reg_expr" where
  "pt_regs_x86_vmlinux PARM1 = Member ''di''"
| "pt_regs_x86_vmlinux PARM2 = Member ''si''"
| "pt_regs_x86_vmlinux PARM3 = Member ''dx''"
| "pt_regs_x86_vmlinux PARM4 = Member ''cx''"
| "pt_regs_x86_vmlinux PARM5 = Member ''r8''"
| "pt_regs_x86_vmlinux RET = Member ''sp''"
| "pt_regs_x86_vmlinux FP = Member ''bp''"
| "pt_regs_x86_vmlinux RC = Member ''ax''"
| "pt_regs_x86_vmlinux SP = Member ''sp''"
| "pt_regs_x86_vmlinux IP = Member ''ip''"

fun pt_regs_x86_vmlinux_core :: "pt_reg \<Rightarrow> reg_expr" where
  "pt_regs_x86_vmlinux_core PARM1 = Member ''di''"
| "pt_regs_x86_vmlinux_core PARM2 = Member ''si''"
| "pt_regs_x86_vmlinux_core PARM3 = Member ''dx''"
| "pt_regs_x86_vmlinux_core PARM4 = Member ''cx''"
| "pt_regs_x86_vmlinux_core PARM5 = Member ''r8''"
| "pt_regs_x86_vmlinux_core RET = Member ''sp''"
| "pt_regs_x86_vmlinux_core FP = Member ''bp''"
| "pt_regs_x86_vmlinux_core RC = Member ''ax''"
| "pt_regs_x86_vmlinux_core SP = Member ''sp''"
| "pt_regs_x86_vmlinux_core IP = Member ''ip''"

fun pt_regs_i386 :: "pt_reg \<Rightarrow> reg_expr" where
  "pt_regs_i386 PARM1 = Member ''eax''"
| "pt_regs_i386 PARM2 = Member ''edx''"
| "pt_regs_i386 PARM3 = Member ''ecx''"
| "pt_regs_i386 PARM4 = Zero"
| "pt_regs_i386 PARM5 = Zero"
| "pt_regs_i386 RET = Member ''esp''"
| "pt_regs_i386 FP = Member ''ebp''"
| "pt_regs_i386 RC = Member ''eax''"
| "pt_regs_i386 SP = Member ''esp''"
| "pt_regs_i386 IP = Member ''eip''"

fun pt_regs_i386_core :: "pt_reg \<Rightarrow> reg_expr" where
  "pt_regs_i386_core PARM1 = Member ''eax''"
| "pt_regs_i386_core PARM2 = Member ''edx''"
| "pt_regs_i386_core PARM3 = Member ''ecx''"
| "pt_regs_i386_core PARM4 = Zero"
| "pt_regs_i386_core PARM5 = Zero"
| "pt_regs_i386_core RET = Member ''esp''"
| "pt_regs_i386_core FP = Member ''ebp''"
| "pt_regs_i386_core RC = Member ''eax''"
| "pt_regs_i386_core SP = Member ''esp''"
| "pt_regs_i386_core IP = Member ''eip''"

fun pt_regs_x86_64 :: "pt_reg \<Rightarrow> reg_expr" where
  "pt_regs_x86_64 PARM1 = Member ''rdi''"
| "pt_regs_x86_64 PARM2 = Member ''rsi''"
| "pt_regs_x86_64 PARM3 = Member ''rdx''"
| "pt_regs_x86_64 PARM4 = Member ''rcx''"
| "pt_regs_x86_64 PARM5 = Member ''r8''"
| "pt_regs_x86_64 RET = Member ''rsp''"
| "pt_regs_x86_64 FP = Member ''rbp''"
| "pt_regs_x86_64 RC = Member ''rax''"
| "pt_regs_x86_64 SP = Member ''rsp''"
| "pt_regs_x86_64 IP = Member ''rip''"

fun pt_regs_x86_64_core :: "pt_reg \<Rightarrow> reg_expr" where
  "pt_regs_x86_64_core PARM1 = Member ''rdi''"
| "pt_regs_x86_64_core PARM2 = Member ''rsi''"
| "pt_regs_x86_64_core PARM3 = Member ''rdx''"
| "pt_regs_x86_64_core PARM4 = Member ''rcx''"
| "pt_regs_x86_64_core PARM5 = Member ''r8''"
| "pt_regs_x86_64_core RET = Member ''rsp''"
| "pt_regs_x86_64_core FP = Member ''rbp''"
| "pt_regs_x86_64_core RC = Member ''rax''"
| "pt_regs_x86_64_core SP = Member ''rsp''"
| "pt_regs_x86_64_core IP = Member ''rip''"

fun pt_regs_s390 :: "pt_reg \<Rightarrow> reg_expr" where
  "pt_regs_s390 PARM1 = Elem ''gprs'' 2"
| "pt_regs_s390 PARM2 = Elem ''gprs'' 3"
| "pt_regs_s390 PARM3 = Elem ''gprs'' 4"
| "pt_regs_s390 PARM4 = Elem ''gprs'' 5"
| "pt_regs_s390 PARM5 = Elem ''gprs'' 6"
| "pt_regs_s390 RET = Elem ''gprs'' 14"
| "pt_regs_s390 FP = Elem ''gprs'' 11"
| "pt_regs_s390 RC = Elem ''gprs'' 2"
| "pt_regs_s390 SP = Elem ''gprs'' 15"
| "pt_regs_s390 IP = Member ''psw.addr''"

fun pt_regs_s390_core :: "pt_reg \<Rightarrow> reg_expr" where
  "pt_regs_s390_core PARM1 = Elem ''gprs'' 2"
| "pt_regs_s390_core PARM2 = Elem ''gprs'' 3"
| "pt_regs_s390_core PARM3 = Elem ''gprs'' 4"
| "pt_regs_s390_core PARM4 = Elem ''gprs'' 5"
| "pt_regs_s390_core PARM5 = Elem ''gprs'' 6"
| "pt_regs_s390_core RET = Elem ''gprs'' 14"
| "pt_regs_s390_core FP = Elem ''gprs'' 11"
| "pt_regs_s390_core RC = Elem ''gprs'' 2"
| "pt_regs_s390_core SP = Elem ''gprs'' 15"
| "pt_regs_s390_core IP = Member ''psw.addr''"

fun pt_regs_arm :: "pt_reg \<Rightarrow> reg_expr" where
  "pt_regs_arm PARM1 = Elem ''uregs'' 0"
| "pt_regs_arm PARM2 = Elem ''uregs'' 1"
| "pt_regs_arm PARM3 = Elem ''uregs'' 2"
| "pt_regs_arm PARM4 = Elem ''uregs'' 3"
| "pt_regs_arm PARM5 = Elem ''uregs'' 4"
| "pt_regs_arm RET = Elem ''uregs'' 14"
| "pt_regs_arm FP = Elem ''uregs'' 11"
| "pt_regs_arm RC = Elem ''uregs'' 0"
| "pt_regs_arm SP = Elem ''uregs'' 13"
| "pt_regs_arm IP = Elem ''uregs'' 12"

fun pt_regs_arm_core :: "pt_reg \<Rightarrow> reg_expr" where
  "pt_regs_arm_core PARM1 = Elem ''uregs'' 0"
| "pt_regs_arm_core PARM2 = Elem ''uregs'' 1"
| "pt_regs_arm_core PARM3 = Elem ''uregs'' 2"
| "pt_regs_arm_core PARM4 = Elem ''uregs'' 3"
| "pt_regs_arm_core PARM5 = Elem ''uregs'' 4"
| "pt_regs_arm_core RET = Elem ''uregs'' 14"
| "pt_regs_arm_core FP = Elem ''uregs'' 11"
| "pt_regs_arm_core RC = Elem ''uregs'' 0"
| "pt_regs_arm_core SP = Elem ''uregs'' 13"
| "pt_regs_arm_core IP = Elem ''uregs'' 12"

fun pt_regs_arm64 :: "pt_reg \<Rightarrow> reg_expr" where
  "pt_regs_arm64 PARM1 = Elem ''regs'' 0"
| "pt_regs_arm64 PARM2 = Elem ''regs'' 1"
| "pt_regs_arm64 PARM3 = Elem ''regs'' 2"
| "pt_regs_arm64 PARM4 = Elem ''regs'' 3"
| "pt_regs_arm64 PARM5 = Elem ''regs'' 4"
| "pt_regs_arm64 RET = Elem ''regs'' 30"
| "pt_regs_arm64 FP = Elem ''regs'' 29"
| "pt_regs_arm64 RC = Elem ''regs'' 0"
| "pt_regs_arm64 SP = Member ''sp''"
| "pt_regs_arm64 IP = Member ''pc''"

fun pt_regs_arm64_core :: "pt_reg \<Rightarrow> reg_expr" where
  "pt_regs_arm64_core PARM1 = Elem ''regs'' 0"
| "pt_regs_arm64_core PARM2 = Elem ''regs'' 1"
| "pt_regs_arm64_core PARM3 = Elem ''regs'' 2"
| "pt_regs_arm64_core PARM4 = Elem ''regs'' 3"
| "pt_regs_arm64_core PARM5 = Elem ''regs'' 4"
| "pt_regs_arm64_core RET = Elem ''regs'' 30"
| "pt_regs_arm64_core FP = Elem ''regs'' 29"
| "pt_regs_arm64_core RC = Elem ''regs'' 0"
| "pt_regs_arm64_core SP = Member ''sp''"
| "pt_regs_arm64_core IP = Member ''pc''"

fun pt_regs_mips :: "pt_reg \<Rightarrow> reg_expr" where
  "pt_regs_mips PARM1 = Elem ''regs'' 4"
| "pt_regs_mips PARM2 = Elem ''regs'' 5"
| "pt_regs_mips PARM3 = Elem ''regs'' 6"
| "pt_regs_mips PARM4 = Elem ''regs'' 7"
| "pt_regs_mips PARM5 = Elem ''regs'' 8"
| "pt_regs_mips RET = Elem ''regs'' 31"
| "pt_regs_mips FP = Elem ''regs'' 30"
| "pt_regs_mips RC = Elem ''regs'' 2"
| "pt_regs_mips SP = Elem ''regs'' 29"
| "pt_regs_mips IP = Member ''cp0_epc''"

fun pt_regs_mips_core :: "pt_reg \<Rightarrow> reg_expr" where
  "pt_regs_mips_core PARM1 = Elem ''regs'' 4"
| "pt_regs_mips_core PARM2 = Elem ''regs'' 5"
| "pt_regs_mips_core PARM3 = Elem ''regs'' 6"
| "pt_regs_mips_core PARM4 = Elem ''regs'' 7"
| "pt_regs_mips_core PARM5 = Elem ''regs'' 8"
| "pt_regs_mips_core RET = Elem ''regs'' 31"
| "pt_regs_mips_core FP = Elem ''regs'' 30"
| "pt_regs_mips_core RC = Elem ''regs'' 2"
| "pt_regs_mips_core SP = Elem ''regs'' 29"
| "pt_regs_mips_core IP = Member ''cp0_epc''"

fun pt_regs_powerpc :: "pt_reg \<Rightarrow> reg_expr" where
  "pt_regs_powerpc PARM1 = Elem ''gpr'' 3"
| "pt_regs_powerpc PARM2 = Elem ''gpr'' 4"
| "pt_regs_powerpc PARM3 = Elem ''gpr'' 5"
| "pt_regs_powerpc PARM4 = Elem ''gpr'' 6"
| "pt_regs_powerpc PARM5 = Elem ''gpr'' 7"
| "pt_regs_powerpc RET = Undefined"
| "pt_regs_powerpc FP = Undefined"
| "pt_regs_powerpc RC = Elem ''gpr'' 3"
| "pt_regs_powerpc SP = Member ''sp''"
| "pt_regs_powerpc IP = Member ''nip''"

fun pt_regs_powerpc_core :: "pt_reg \<Rightarrow> reg_expr" where
  "pt_regs_powerpc_core PARM1 = Elem ''gpr'' 3"
| "pt_regs_powerpc_core PARM2 = Elem ''gpr'' 4"
| "pt_regs_powerpc_core PARM3 = Elem ''gpr'' 5"
| "pt_regs_powerpc_core PARM4 = Elem ''gpr'' 6"
| "pt_regs_powerpc_core PARM5 = Elem ''gpr'' 7"
| "pt_regs_powerpc_core RET = Undefined"
| "pt_regs_powerpc_core FP = Undefined"
| "pt_regs_powerpc_core RC = Elem ''gpr'' 3"
| "pt_regs_powerpc_core SP = Member ''sp''"
| "pt_regs_powerpc_core IP = Member ''nip''"

fun pt_regs_riscv :: "pt_reg \<Rightarrow> reg_expr" where
  "pt_regs_riscv PARM1 = Member ''a0''"
| "pt_regs_riscv PARM2 = Member ''a1''"
| "pt_regs_riscv PARM3 = Member ''a2''"
| "pt_regs_riscv PARM4 = Member ''a3''"
| "pt_regs_riscv PARM5 = Member ''a4''"
| "pt_regs_riscv RET = Member ''ra''"
| "pt_regs_riscv FP = Member ''s5''"
| "pt_regs_riscv RC = Member ''a5''"
| "pt_regs_riscv SP = Member ''sp''"
| "pt_regs_riscv IP = Member ''epc''"

fun pt_regs_riscv_core :: "pt_reg \<Rightarrow> reg_expr" where
  "pt_regs_riscv_core PARM1 = Member ''a0''"
| "pt_regs_riscv_core PARM2 = Member ''a1''"
| "pt_regs_riscv_core PARM3 = Member ''a2''"
| "pt_regs_riscv_core PARM4 = Member ''a3''"
| "pt_regs_riscv_core PARM5 = Member ''a4''"
| "pt_regs_riscv_core RET = Member ''ra''"
| "pt_regs_riscv_core FP = Member ''fp''"
| "pt_regs_riscv_core RC = Member ''a5''"
| "pt_regs_riscv_core SP = Member ''sp''"
| "pt_regs_riscv_core IP = Member ''epc''"

fun pt_regs_sparc :: "bool \<Rightarrow> pt_reg \<Rightarrow> reg_expr" where
  "pt_regs_sparc arch64 PARM1 = NamedElem ''u_regs'' ''UREG_I0''"
| "pt_regs_sparc arch64 PARM2 = NamedElem ''u_regs'' ''UREG_I1''"
| "pt_regs_sparc arch64 PARM3 = NamedElem ''u_regs'' ''UREG_I2''"
| "pt_regs_sparc arch64 PARM4 = NamedElem ''u_regs'' ''UREG_I3''"
| "pt_regs_sparc arch64 PARM5 = NamedElem ''u_regs'' ''UREG_I4''"
| "pt_regs_sparc arch64 RET = NamedElem ''u_regs'' ''UREG_I7''"
| "pt_regs_sparc arch64 FP = Undefined"
| "pt_regs_sparc arch64 RC = NamedElem ''u_regs'' ''UREG_I0''"
| "pt_regs_sparc arch64 SP = NamedElem ''u_regs'' ''UREG_FP''"
| "pt_regs_sparc arch64 IP = (if arch64 then Member ''tpc'' else Member ''pc'')"

fun pt_regs_sparc_core :: "bool \<Rightarrow> pt_reg \<Rightarrow> reg_expr" where
  "pt_regs_sparc_core arch64 PARM1 = NamedElem ''u_regs'' ''UREG_I0''"
| "pt_regs_sparc_core arch64 PARM2 = NamedElem ''u_regs'' ''UREG_I1''"
| "pt_regs_sparc_core arch64 PARM3 = NamedElem ''u_regs'' ''UREG_I2''"
| "pt_regs_sparc_core arch64 PARM4 = NamedElem ''u_regs'' ''UREG_I3''"
| "pt_regs_sparc_core arch64 PARM5 = NamedElem ''u_regs'' ''UREG_I4''"
| "pt_regs_sparc_core arch64 RET = NamedElem ''u_regs'' ''UREG_I7''"
| "pt_regs_sparc_core arch64 FP = Undefined"
| "pt_regs_sparc_core arch64 RC = NamedElem ''u_regs'' ''UREG_I0''"
| "pt_regs_sparc_core arch64 SP = NamedElem ''u_regs'' ''UREG_FP''"
| "pt_regs_sparc_core arch64 IP = (if arch64 then Member ''tpc'' else Member ''pc'')"

text \<open>
  The x86 branch depends on \<^verbatim>\<open>__KERNEL__\<close> or \<^verbatim>\<open>__VMLINUX_H__\<close> and on \<^verbatim>\<open>__i386__\<close>; \<^verbatim>\<open>__arch64__\<close>
  matters for sparc.
\<close>

definition pt_regs_x86 :: "(string \<Rightarrow> bool) \<Rightarrow> pt_reg \<Rightarrow> reg_expr" where
  "pt_regs_x86 d =
     (if d ''__KERNEL__'' \<or> d ''__VMLINUX_H__'' then pt_regs_x86_vmlinux
      else if d ''__i386__'' then pt_regs_i386 else pt_regs_x86_64)"

definition pt_regs_x86_core :: "(string \<Rightarrow> bool) \<Rightarrow> pt_reg \<Rightarrow> reg_expr" where
  "pt_regs_x86_core d =
     (if d ''__KERNEL__'' \<or> d ''__VMLINUX_H__'' then pt_regs_x86_vmlinux_core
      else if d ''__i386__'' then pt_regs_i386_core else pt_regs_x86_64_core)"

fun pt_regs :: "(string \<Rightarrow> bool) \<Rightarrow> bpf_target option \<Rightarrow> pt_reg \<Rightarrow> reg_expr" where
  "pt_regs d (Some TX86) = pt_regs_x86 d"
| "pt_regs d (Some TS390) = pt_regs_s390"
| "pt_regs d (Some TArm) = pt_regs_arm"
| "pt_regs d (Some TArm64) = pt_regs_arm64"
| "pt_regs d (Some TMips) = pt_regs_mips"
| "pt_regs d (Some TPowerpc) = pt_regs_powerpc"
| "pt_regs d (Some TSparc) = pt_regs_sparc (d ''__arch64__'')"
| "pt_regs d (Some TRiscv) = pt_regs_riscv"
| "pt_regs d None = (\<lambda>r. MissingTarget)"

fun pt_regs_core :: "(string \<Rightarrow> bool) \<Rightarrow> bpf_target option \<Rightarrow> pt_reg \<Rightarrow> reg_expr" where
  "pt_regs_core d (Some TX86) = pt_regs_x86_core d"
| "pt_regs_core d (Some TS390) = pt_regs_s390_core"
| "pt_regs_core d (Some TArm) = pt_regs_arm_core"
| "pt_regs_core d (Some TArm64) = pt_regs_arm64_core"
| "pt_regs_core d (Some TMips) = pt_regs_mips_core"
| "pt_regs_core d (Some TPowerpc) = pt_regs_powerpc_core"
| "pt_regs_core d (Some TSparc) = pt_regs_sparc_core (d ''__arch64__'')"
| "pt_regs_core d (Some TRiscv) = pt_regs_riscv_core"
| "pt_regs_core d None = (\<lambda>r. MissingTarget)"

text \<open>How the return address of a probed function is read.\<close>

datatype ip_read =
    FromMember string | FromReg reg_expr | FromMemory reg_expr | FromMemoryAbove reg_expr
  | NoTarget

fun kprobe_read_ret_ip :: "(string \<Rightarrow> bool) \<Rightarrow> bpf_target option \<Rightarrow> ip_read" where
  "kprobe_read_ret_ip d (Some TPowerpc) = FromMember ''link''"
| "kprobe_read_ret_ip d (Some TSparc) = FromReg (pt_regs d (Some TSparc) RET)"
| "kprobe_read_ret_ip d (Some t) = FromMemory (pt_regs d (Some t) RET)"
| "kprobe_read_ret_ip d None = NoTarget"

fun kretprobe_read_ret_ip :: "(string \<Rightarrow> bool) \<Rightarrow> bpf_target option \<Rightarrow> ip_read" where
  "kretprobe_read_ret_ip d (Some TPowerpc) = kprobe_read_ret_ip d (Some TPowerpc)"
| "kretprobe_read_ret_ip d (Some TSparc) = kprobe_read_ret_ip d (Some TSparc)"
| "kretprobe_read_ret_ip d (Some t) = FromMemoryAbove (pt_regs d (Some t) FP)"
| "kretprobe_read_ret_ip d None = NoTarget"

section \<open>Argument lists of BPF_PROG, BPF_KPROBE and BPF_KRETPROBE\<close>

datatype prog_arg = ACtx | ACtxElem nat | AReg pt_reg

text \<open>
  The macros are numbered by the count of declared arguments; each adds its last argument to
  the expansion for one argument less. Beyond the last numbered macro there is no expansion.
\<close>

fun bpf_ctx_cast :: "nat \<Rightarrow> prog_arg list option" where
  "bpf_ctx_cast 0 = Some [ACtx]"
| "bpf_ctx_cast (Suc n) =
     (if Suc n \<le> 12 then map_option (\<lambda>as. as @ [ACtxElem n]) (bpf_ctx_cast n) else None)"

fun parm_reg :: "nat \<Rightarrow> pt_reg option" where
  "parm_reg n =
     (if n = 1 then Some PARM1 else if n = 2 then Some PARM2 else if n = 3 then Some PARM3
      else if n = 4 then Some PARM4 else if n = 5 then Some PARM5 else None)"

fun bpf_kprobe_args :: "nat \<Rightarrow> prog_arg list option" where
  "bpf_kprobe_args 0 = Some [ACtx]"
| "bpf_kprobe_args (Suc n) =
     (case (bpf_kprobe_args n, parm_reg (Suc n)) of
        (Some as, Some r) \<Rightarrow> Some (as @ [AReg r])
      | _ \<Rightarrow> None)"

fun bpf_kretprobe_args :: "nat \<Rightarrow> prog_arg list option" where
  "bpf_kretprobe_args n =
     (if n = 0 then Some [ACtx] else if n = 1 then Some [ACtx, AReg RC] else None)"

section \<open>The arm64 register file\<close>

record user_pt_regs =
  upr_regs :: "u64 list"
  upr_sp :: u64
  upr_pc :: u64
  upr_pstate :: u64

definition user_pt_regs_t :: ctype where
  "user_pt_regs_t = TStruct ''user_pt_regs''
     [(''regs'', TArr 31 (TInt 8 False)), (''sp'', TInt 8 False), (''pc'', TInt 8 False),
      (''pstate'', TInt 8 False)]"

fun eval_arm64 :: "user_pt_regs \<Rightarrow> reg_expr \<Rightarrow> u64 option" where
  "eval_arm64 c (Elem f i) =
     (if f = ''regs'' \<and> i < length (upr_regs c) then Some (upr_regs c ! i) else None)"
| "eval_arm64 c (Member f) =
     (if f = ''sp'' then Some (upr_sp c) else if f = ''pc'' then Some (upr_pc c)
      else if f = ''pstate'' then Some (upr_pstate c) else None)"
| "eval_arm64 c Zero = Some 0"
| "eval_arm64 c _ = None"

text \<open>The value of a \<^verbatim>\<open>PT_REGS_*\<close> macro of the arm64 build.\<close>

definition PT_REGS :: "pt_reg \<Rightarrow> user_pt_regs \<Rightarrow> u64" where
  "PT_REGS r c = (case eval_arm64 c (pt_regs_arm64 r) of Some v \<Rightarrow> v | None \<Rightarrow> 0)"

section \<open>Properties of the macros\<close>

lemma bpf_ctx_cast_eq:
  "n \<le> 12 \<Longrightarrow> bpf_ctx_cast n = Some (ACtx # map ACtxElem [0..<n])"
  by (induction n) auto

lemma bpf_ctx_cast_none: "12 < n \<Longrightarrow> bpf_ctx_cast n = None"
  by (cases n) auto

lemma PT_REGS_parm:
  assumes "length (upr_regs c) = 31"
  shows "PT_REGS PARM1 c = upr_regs c ! 0" "PT_REGS PARM2 c = upr_regs c ! 1"
    "PT_REGS PARM3 c = upr_regs c ! 2" "PT_REGS PARM4 c = upr_regs c ! 3"
  using assms by (simp_all add: PT_REGS_def)

lemma user_pt_regs_layout:
  "csize user_pt_regs_t = 272" "offsetof user_pt_regs_t [''regs''] = Some 0"
  "offsetof user_pt_regs_t [''sp''] = Some 248" "offsetof user_pt_regs_t [''pc''] = Some 256"
  by (simp_all add: user_pt_regs_t_def layout_simps)

text \<open>The two variants of a macro name the same register, but for the riscv frame pointer.\<close>

lemma pt_regs_x86_agree: "pt_regs_x86_core d r = pt_regs_x86 d r"
  by (cases r) (simp_all add: pt_regs_x86_def pt_regs_x86_core_def)

lemma pt_regs_core_agrees:
  "pt_regs_core d t r = pt_regs d t r \<longleftrightarrow> \<not> (t = Some TRiscv \<and> r = FP)"
proof (cases t)
  case None
  then show ?thesis by simp
next
  case (Some a)
  show ?thesis
  proof (cases a)
    case TX86
    with Some show ?thesis by (simp add: pt_regs_x86_agree)
  qed (use Some in \<open>cases r; simp\<close>)+
qed

section \<open>Properties\<close>

text \<open>On every architecture the direct and the relocatable variant of a register macro name the same
  register, with one exception, the frame pointer of riscv; and on arm64, the target of the build,
  the first five parameters are the first five registers.\<close>

lemma pt_regs_variants_agree:
  "(pt_regs_core d t r = pt_regs d t r \<longleftrightarrow> \<not> (t = Some TRiscv \<and> r = FP))
   \<and> map pt_regs_arm64 [PARM1, PARM2, PARM3, PARM4, PARM5] = map (Elem ''regs'') [0, 1, 2, 3, 4]"
  by (simp add: pt_regs_core_agrees)

text \<open>The tracing wrappers pass the context and then the arguments in order, one register or context
  element each, for as many arguments as they are written for and for no more.\<close>

lemma wrapper_arguments:
  "bpf_ctx_cast n = (if n \<le> 12 then Some (ACtx # map ACtxElem [0..<n]) else None)
   \<and> bpf_kprobe_args n = (if n \<le> 5 then Some (ACtx # map AReg (take n [PARM1, PARM2, PARM3, PARM4, PARM5])) else None)"
proof -
  have "bpf_ctx_cast n = (if n \<le> 12 then Some (ACtx # map ACtxElem [0..<n]) else None)"
    using bpf_ctx_cast_eq bpf_ctx_cast_none by simp
  moreover have "bpf_kprobe_args n =
      (if n \<le> 5 then Some (ACtx # map AReg (take n [PARM1, PARM2, PARM3, PARM4, PARM5])) else None)"
  proof (cases "n \<le> 5")
    case True
    then consider "n = 0" | "n = 1" | "n = 2" | "n = 3" | "n = 4" | "n = 5" by linarith
    then show ?thesis by cases (simp_all add: numeral_eq_Suc)
  next
    case False
    then show ?thesis by (cases n) (auto simp: numeral_eq_Suc split: option.split)
  qed
  ultimately show ?thesis by simp
qed

end
