(* ===== verification/BT_Vmlinux.thy ===== *)
theory BT_Vmlinux
  imports BT_CTypes
begin

text \<open>
  The kernel types of \<^verbatim>\<open>headers/vmlinux.h\<close> that the BPF programs read, with every struct and union
  that they hold by value: \<^verbatim>\<open>struct binder_transaction_data\<close>, the binder driver's threads,
  transactions, processes and contexts, \<^verbatim>\<open>struct task_struct\<close>, \<^verbatim>\<open>struct cred\<close> and the register
  structs. Scalar typedefs are resolved to their integer type; plain \<^verbatim>\<open>char\<close> and enums are
  unsigned on the target. A \<open>TPtr\<close> names the struct it points to.
\<close>

section \<open>Declarations\<close>

definition vm_binder_transaction_data :: ctype where
  "vm_binder_transaction_data = TStruct ''binder_transaction_data''
    [(''target'', TUnion '''' [(''handle'', TInt 4 False), (''ptr'', TInt 8 False)]),
     (''cookie'', TInt 8 False), (''code'', TInt 4 False), (''flags'', TInt 4 False),
     (''sender_pid'', TInt 4 True), (''sender_euid'', TInt 4 False),
     (''data_size'', TInt 8 False), (''offsets_size'', TInt 8 False),
     (''data'', TUnion '''' [(''ptr'', TStruct '''' [(''buffer'', TInt 8 False), (''offsets'', TInt 8 False)]), (''buf'', TArr 8 (TInt 1 False))])]"

definition vm_rb_node :: ctype where
  "vm_rb_node = TStruct ''rb_node''
    [(''__rb_parent_color'', TInt 8 False), (''rb_right'', TPtr ''rb_node''),
     (''rb_left'', TPtr ''rb_node'')]"

definition vm_list_head :: ctype where
  "vm_list_head = TStruct ''list_head''
    [(''next'', TPtr ''list_head''), (''prev'', TPtr ''list_head'')]"

definition vm_binder_work :: ctype where
  "vm_binder_work = TStruct ''binder_work''
    [(''entry'', vm_list_head), (''type'', TInt 4 False)]"

definition vm_binder_error :: ctype where
  "vm_binder_error = TStruct ''binder_error''
    [(''work'', vm_binder_work), (''cmd'', TInt 4 False)]"

definition vm_atomic_t :: ctype where
  "vm_atomic_t = TStruct ''''
    [(''counter'', TInt 4 True)]"

definition vm_qspinlock :: ctype where
  "vm_qspinlock = TStruct ''qspinlock''
    [('''', TUnion '''' [(''val'', vm_atomic_t), ('''', TStruct '''' [(''locked'', TInt 1 False), (''pending'', TInt 1 False)]), ('''', TStruct '''' [(''locked_pending'', TInt 2 False), (''tail'', TInt 2 False)])])]"

definition vm_raw_spinlock :: ctype where
  "vm_raw_spinlock = TStruct ''raw_spinlock''
    [(''raw_lock'', vm_qspinlock)]"

definition vm_spinlock :: ctype where
  "vm_spinlock = TStruct ''spinlock''
    [('''', TUnion '''' [(''rlock'', vm_raw_spinlock)])]"

definition vm_wait_queue_head :: ctype where
  "vm_wait_queue_head = TStruct ''wait_queue_head''
    [(''lock'', vm_spinlock), (''head'', vm_list_head)]"

definition vm_binder_stats :: ctype where
  "vm_binder_stats = TStruct ''binder_stats''
    [(''br'', TArr 20 (vm_atomic_t)), (''bc'', TArr 19 (vm_atomic_t)),
     (''obj_created'', TArr 7 (vm_atomic_t)), (''obj_deleted'', TArr 7 (vm_atomic_t))]"

definition vm_binder_priority :: ctype where
  "vm_binder_priority = TStruct ''binder_priority''
    [(''sched_policy'', TInt 4 False), (''prio'', TInt 4 True)]"

definition vm_binder_thread :: ctype where
  "vm_binder_thread = TStruct ''binder_thread''
    [(''proc'', TPtr ''binder_proc''), (''rb_node'', vm_rb_node),
     (''waiting_thread_node'', vm_list_head), (''pid'', TInt 4 True), (''looper'', TInt 4 True),
     (''looper_need_return'', TInt 1 False),
     (''transaction_stack'', TPtr ''binder_transaction''), (''todo'', vm_list_head),
     (''process_todo'', TInt 1 False), (''return_error'', vm_binder_error),
     (''reply_error'', vm_binder_error), (''wait'', vm_wait_queue_head),
     (''stats'', vm_binder_stats), (''tmp_ref'', vm_atomic_t), (''is_dead'', TInt 1 False),
     (''task'', TPtr ''task_struct''), (''prio_lock'', vm_spinlock),
     (''prio_next'', vm_binder_priority), (''prio_state'', TInt 4 False)]"

definition vm_kuid_t :: ctype where
  "vm_kuid_t = TStruct ''''
    [(''val'', TInt 4 False)]"

definition vm_binder_transaction :: ctype where
  "vm_binder_transaction = TStruct ''binder_transaction''
    [(''debug_id'', TInt 4 True), (''work'', vm_binder_work), (''from'', TPtr ''binder_thread''),
     (''from_parent'', TPtr ''binder_transaction''), (''to_proc'', TPtr ''binder_proc''),
     (''to_thread'', TPtr ''binder_thread''), (''to_parent'', TPtr ''binder_transaction''),
     (''need_reply'', TBits 4 1), (''buffer'', TPtr ''binder_buffer''), (''code'', TInt 4 False),
     (''flags'', TInt 4 False), (''priority'', vm_binder_priority),
     (''saved_priority'', vm_binder_priority), (''set_priority_called'', TInt 1 False),
     (''is_nested'', TInt 1 False), (''sender_euid'', vm_kuid_t), (''fd_fixups'', vm_list_head),
     (''security_ctx'', TInt 8 False), (''lock'', vm_spinlock),
     (''android_vendor_data1'', TInt 8 False)]"

definition vm_hlist_node :: ctype where
  "vm_hlist_node = TStruct ''hlist_node''
    [(''next'', TPtr ''hlist_node''), (''pprev'', TPtr '''')]"

definition vm_rb_root :: ctype where
  "vm_rb_root = TStruct ''rb_root''
    [(''rb_node'', TPtr ''rb_node'')]"

definition vm_atomic64_t :: ctype where
  "vm_atomic64_t = TStruct ''''
    [(''counter'', TInt 8 True)]"

definition vm_optimistic_spin_queue :: ctype where
  "vm_optimistic_spin_queue = TStruct ''optimistic_spin_queue''
    [(''tail'', vm_atomic_t)]"

definition vm_mutex :: ctype where
  "vm_mutex = TStruct ''mutex''
    [(''owner'', vm_atomic64_t), (''wait_lock'', vm_raw_spinlock),
     (''osq'', vm_optimistic_spin_queue), (''wait_list'', vm_list_head),
     (''android_oem_data1'', TArr 2 (TInt 8 False))]"

definition vm_binder_alloc :: ctype where
  "vm_binder_alloc = TStruct ''binder_alloc''
    [(''mutex'', vm_mutex), (''vma'', TPtr ''vm_area_struct''),
     (''vma_vm_mm'', TPtr ''mm_struct''), (''buffer'', TPtr ''''), (''buffers'', vm_list_head),
     (''free_buffers'', vm_rb_root), (''allocated_buffers'', vm_rb_root),
     (''free_async_space'', TInt 8 False), (''pages'', TPtr ''binder_lru_page''),
     (''buffer_size'', TInt 8 False), (''buffer_free'', TInt 4 False), (''pid'', TInt 4 True),
     (''pages_high'', TInt 8 False), (''oneway_spam_detected'', TInt 1 False)]"

definition vm_binder_proc :: ctype where
  "vm_binder_proc = TStruct ''binder_proc''
    [(''proc_node'', vm_hlist_node), (''threads'', vm_rb_root), (''nodes'', vm_rb_root),
     (''refs_by_desc'', vm_rb_root), (''refs_by_node'', vm_rb_root),
     (''waiting_threads'', vm_list_head), (''pid'', TInt 4 True),
     (''tsk'', TPtr ''task_struct''), (''cred'', TPtr ''cred''),
     (''deferred_work_node'', vm_hlist_node), (''deferred_work'', TInt 4 True),
     (''outstanding_txns'', TInt 4 True), (''is_dead'', TInt 1 False),
     (''is_frozen'', TInt 1 False), (''sync_recv'', TInt 1 False),
     (''async_recv'', TInt 1 False), (''freeze_wait'', vm_wait_queue_head),
     (''todo'', vm_list_head), (''stats'', vm_binder_stats), (''delivered_death'', vm_list_head),
     (''max_threads'', TInt 4 True), (''requested_threads'', TInt 4 True),
     (''requested_threads_started'', TInt 4 True), (''tmp_ref'', TInt 4 True),
     (''default_priority'', vm_binder_priority), (''debugfs_entry'', TPtr ''dentry''),
     (''alloc'', vm_binder_alloc), (''context'', TPtr ''binder_context''),
     (''inner_lock'', vm_spinlock), (''outer_lock'', vm_spinlock),
     (''binderfs_entry'', TPtr ''dentry''), (''oneway_spam_detection_enabled'', TInt 1 False)]"

definition vm_binder_context :: ctype where
  "vm_binder_context = TStruct ''binder_context''
    [(''binder_context_mgr_node'', TPtr ''binder_node''), (''context_mgr_node_lock'', vm_mutex),
     (''binder_context_mgr_uid'', vm_kuid_t), (''name'', TPtr '''')]"

definition vm_hlist_head :: ctype where
  "vm_hlist_head = TStruct ''hlist_head''
    [(''first'', TPtr ''hlist_node'')]"

definition vm_binder_node :: ctype where
  "vm_binder_node = TStruct ''binder_node''
    [(''debug_id'', TInt 4 True), (''lock'', vm_spinlock), (''work'', vm_binder_work),
     ('''', TUnion '''' [(''rb_node'', vm_rb_node), (''dead_node'', vm_hlist_node)]),
     (''proc'', TPtr ''binder_proc''), (''refs'', vm_hlist_head),
     (''internal_strong_refs'', TInt 4 True), (''local_weak_refs'', TInt 4 True),
     (''local_strong_refs'', TInt 4 True), (''tmp_refs'', TInt 4 True), (''ptr'', TInt 8 False),
     (''cookie'', TInt 8 False),
     ('''', TStruct '''' [(''has_strong_ref'', TBits 1 1), (''pending_strong_ref'', TBits 1 1), (''has_weak_ref'', TBits 1 1), (''pending_weak_ref'', TBits 1 1)]),
     ('''', TStruct '''' [(''sched_policy'', TBits 1 2), (''inherit_rt'', TBits 1 1), (''accept_fds'', TBits 1 1), (''txn_security_ctx'', TBits 1 1), (''min_priority'', TInt 1 False)]),
     (''has_async_transaction'', TInt 1 False), (''async_todo'', vm_list_head)]"

definition vm_binder_buffer :: ctype where
  "vm_binder_buffer = TStruct ''binder_buffer''
    [(''entry'', vm_list_head), (''rb_node'', vm_rb_node), (''free'', TBits 4 1),
     (''clear_on_free'', TBits 4 1), (''allow_user_free'', TBits 4 1),
     (''async_transaction'', TBits 4 1), (''oneway_spam_suspect'', TBits 4 1),
     (''debug_id'', TBits 4 27), (''transaction'', TPtr ''binder_transaction''),
     (''target_node'', TPtr ''binder_node''), (''data_size'', TInt 8 False),
     (''offsets_size'', TInt 8 False), (''extra_buffers_size'', TInt 8 False),
     (''user_data'', TPtr ''''), (''pid'', TInt 4 True)]"

definition vm_kgid_t :: ctype where
  "vm_kgid_t = TStruct ''''
    [(''val'', TInt 4 False)]"

definition vm_kernel_cap_struct :: ctype where
  "vm_kernel_cap_struct = TStruct ''kernel_cap_struct''
    [(''cap'', TArr 2 (TInt 4 False))]"

definition vm_callback_head :: ctype where
  "vm_callback_head = TStruct ''callback_head''
    [(''next'', TPtr ''callback_head''), (''func'', TPtr '''')]"

definition vm_cred :: ctype where
  "vm_cred = TStruct ''cred''
    [(''usage'', vm_atomic_t), (''uid'', vm_kuid_t), (''gid'', vm_kgid_t), (''suid'', vm_kuid_t),
     (''sgid'', vm_kgid_t), (''euid'', vm_kuid_t), (''egid'', vm_kgid_t), (''fsuid'', vm_kuid_t),
     (''fsgid'', vm_kgid_t), (''securebits'', TInt 4 False),
     (''cap_inheritable'', vm_kernel_cap_struct), (''cap_permitted'', vm_kernel_cap_struct),
     (''cap_effective'', vm_kernel_cap_struct), (''cap_bset'', vm_kernel_cap_struct),
     (''cap_ambient'', vm_kernel_cap_struct), (''jit_keyring'', TInt 1 False),
     (''session_keyring'', TPtr ''key''), (''process_keyring'', TPtr ''key''),
     (''thread_keyring'', TPtr ''key''), (''request_key_auth'', TPtr ''key''),
     (''security'', TPtr ''''), (''user'', TPtr ''user_struct''),
     (''user_ns'', TPtr ''user_namespace''), (''ucounts'', TPtr ''ucounts''),
     (''group_info'', TPtr ''group_info''),
     ('''', TUnion '''' [(''non_rcu'', TInt 4 True), (''rcu'', vm_callback_head)])]"

definition vm_user_pt_regs :: ctype where
  "vm_user_pt_regs = TStruct ''user_pt_regs''
    [(''regs'', TArr 31 (TInt 8 False)), (''sp'', TInt 8 False), (''pc'', TInt 8 False),
     (''pstate'', TInt 8 False)]"

definition vm_pt_regs :: ctype where
  "vm_pt_regs = TStruct ''pt_regs''
    [('''', TUnion '''' [(''user_regs'', vm_user_pt_regs), ('''', TStruct '''' [(''regs'', TArr 31 (TInt 8 False)), (''sp'', TInt 8 False), (''pc'', TInt 8 False), (''pstate'', TInt 8 False)])]),
     (''orig_x0'', TInt 8 False), (''syscallno'', TInt 4 True), (''unused2'', TInt 4 False),
     (''sdei_ttbr1'', TInt 8 False), (''pmr_save'', TInt 8 False),
     (''stackframe'', TArr 2 (TInt 8 False)), (''lockdep_hardirqs'', TInt 8 False),
     (''exit_rcu'', TInt 8 False)]"

definition vm_thread_info :: ctype where
  "vm_thread_info = TStruct ''thread_info''
    [(''flags'', TInt 8 False), (''ttbr0'', TInt 8 False),
     ('''', TUnion '''' [(''preempt_count'', TInt 8 False), (''preempt'', TStruct '''' [(''count'', TInt 4 False), (''need_resched'', TInt 4 False)])]),
     (''scs_base'', TPtr ''''), (''scs_sp'', TPtr '''')]"

definition vm_refcount_struct :: ctype where
  "vm_refcount_struct = TStruct ''refcount_struct''
    [(''refs'', vm_atomic_t)]"

definition vm_llist_node :: ctype where
  "vm_llist_node = TStruct ''llist_node''
    [(''next'', TPtr ''llist_node'')]"

definition vm___call_single_node :: ctype where
  "vm___call_single_node = TStruct ''__call_single_node''
    [(''llist'', vm_llist_node),
     ('''', TUnion '''' [(''u_flags'', TInt 4 False), (''a_flags'', vm_atomic_t)]),
     (''src'', TInt 2 False), (''dst'', TInt 2 False)]"

definition vm_load_weight :: ctype where
  "vm_load_weight = TStruct ''load_weight''
    [(''weight'', TInt 8 False), (''inv_weight'', TInt 4 False)]"

definition vm_sched_statistics :: ctype where
  "vm_sched_statistics = TStruct ''sched_statistics''
    [(''wait_start'', TInt 8 False), (''wait_max'', TInt 8 False),
     (''wait_count'', TInt 8 False), (''wait_sum'', TInt 8 False),
     (''iowait_count'', TInt 8 False), (''iowait_sum'', TInt 8 False),
     (''sleep_start'', TInt 8 False), (''sleep_max'', TInt 8 False),
     (''sum_sleep_runtime'', TInt 8 True), (''block_start'', TInt 8 False),
     (''block_max'', TInt 8 False), (''exec_max'', TInt 8 False), (''slice_max'', TInt 8 False),
     (''nr_migrations_cold'', TInt 8 False), (''nr_failed_migrations_affine'', TInt 8 False),
     (''nr_failed_migrations_running'', TInt 8 False),
     (''nr_failed_migrations_hot'', TInt 8 False), (''nr_forced_migrations'', TInt 8 False),
     (''nr_wakeups'', TInt 8 False), (''nr_wakeups_sync'', TInt 8 False),
     (''nr_wakeups_migrate'', TInt 8 False), (''nr_wakeups_local'', TInt 8 False),
     (''nr_wakeups_remote'', TInt 8 False), (''nr_wakeups_affine'', TInt 8 False),
     (''nr_wakeups_affine_attempts'', TInt 8 False), (''nr_wakeups_passive'', TInt 8 False),
     (''nr_wakeups_idle'', TInt 8 False)]"

definition vm_util_est :: ctype where
  "vm_util_est = TStruct ''util_est''
    [(''enqueued'', TInt 4 False), (''ewma'', TInt 4 False)]"

definition vm_sched_avg :: ctype where
  "vm_sched_avg = TStruct ''sched_avg''
    [(''last_update_time'', TInt 8 False), (''load_sum'', TInt 8 False),
     (''runnable_sum'', TInt 8 False), (''util_sum'', TInt 4 False),
     (''period_contrib'', TInt 4 False), (''load_avg'', TInt 8 False),
     (''runnable_avg'', TInt 8 False), (''util_avg'', TInt 8 False), (''util_est'', vm_util_est)]"

definition vm_sched_entity :: ctype where
  "vm_sched_entity = TStruct ''sched_entity''
    [(''load'', vm_load_weight), (''run_node'', vm_rb_node), (''group_node'', vm_list_head),
     (''on_rq'', TInt 4 False), (''exec_start'', TInt 8 False),
     (''sum_exec_runtime'', TInt 8 False), (''vruntime'', TInt 8 False),
     (''prev_sum_exec_runtime'', TInt 8 False), (''nr_migrations'', TInt 8 False),
     (''statistics'', vm_sched_statistics), (''depth'', TInt 4 True),
     (''parent'', TPtr ''sched_entity''), (''cfs_rq'', TPtr ''cfs_rq''),
     (''my_q'', TPtr ''cfs_rq''), (''runnable_weight'', TInt 8 False), ('''', TBits 8 64),
     ('''', TBits 8 64), ('''', TBits 8 64), (''avg'', vm_sched_avg),
     (''android_kabi_reserved1'', TInt 8 False), (''android_kabi_reserved2'', TInt 8 False),
     (''android_kabi_reserved3'', TInt 8 False), (''android_kabi_reserved4'', TInt 8 False),
     ('''', TBits 8 64), ('''', TBits 8 64), ('''', TBits 8 64), ('''', TBits 8 64)]"

definition vm_sched_rt_entity :: ctype where
  "vm_sched_rt_entity = TStruct ''sched_rt_entity''
    [(''run_list'', vm_list_head), (''timeout'', TInt 8 False),
     (''watchdog_stamp'', TInt 8 False), (''time_slice'', TInt 4 False),
     (''on_rq'', TInt 2 False), (''on_list'', TInt 2 False),
     (''back'', TPtr ''sched_rt_entity''), (''android_kabi_reserved1'', TInt 8 False),
     (''android_kabi_reserved2'', TInt 8 False), (''android_kabi_reserved3'', TInt 8 False),
     (''android_kabi_reserved4'', TInt 8 False)]"

definition vm_timerqueue_node :: ctype where
  "vm_timerqueue_node = TStruct ''timerqueue_node''
    [(''node'', vm_rb_node), (''expires'', TInt 8 True)]"

definition vm_hrtimer :: ctype where
  "vm_hrtimer = TStruct ''hrtimer''
    [(''node'', vm_timerqueue_node), (''_softexpires'', TInt 8 True), (''function'', TPtr ''''),
     (''base'', TPtr ''hrtimer_clock_base''), (''state'', TInt 1 False),
     (''is_rel'', TInt 1 False), (''is_soft'', TInt 1 False), (''is_hard'', TInt 1 False),
     (''android_kabi_reserved1'', TInt 8 False)]"

definition vm_sched_dl_entity :: ctype where
  "vm_sched_dl_entity = TStruct ''sched_dl_entity''
    [(''rb_node'', vm_rb_node), (''dl_runtime'', TInt 8 False), (''dl_deadline'', TInt 8 False),
     (''dl_period'', TInt 8 False), (''dl_bw'', TInt 8 False), (''dl_density'', TInt 8 False),
     (''runtime'', TInt 8 True), (''deadline'', TInt 8 False), (''flags'', TInt 4 False),
     (''dl_throttled'', TBits 4 1), (''dl_yielded'', TBits 4 1),
     (''dl_non_contending'', TBits 4 1), (''dl_overrun'', TBits 4 1), (''dl_timer'', vm_hrtimer),
     (''inactive_timer'', vm_hrtimer), (''pi_se'', TPtr ''sched_dl_entity'')]"

definition vm_uclamp_se :: ctype where
  "vm_uclamp_se = TStruct ''uclamp_se''
    [(''value'', TBits 4 11), (''bucket_id'', TBits 4 5), (''active'', TBits 4 1),
     (''user_defined'', TBits 4 1)]"

definition vm_cpumask :: ctype where
  "vm_cpumask = TStruct ''cpumask''
    [(''bits'', TArr 1 (TInt 8 False))]"

definition vm_rcu_special :: ctype where
  "vm_rcu_special = TUnion ''rcu_special''
    [(''b'', TStruct '''' [(''blocked'', TInt 1 False), (''need_qs'', TInt 1 False), (''exp_hint'', TInt 1 False), (''need_mb'', TInt 1 False)]),
     (''s'', TInt 4 False)]"

definition vm_sched_info :: ctype where
  "vm_sched_info = TStruct ''sched_info''
    [(''pcount'', TInt 8 False), (''run_delay'', TInt 8 False), (''last_arrival'', TInt 8 False),
     (''last_queued'', TInt 8 False)]"

definition vm_plist_node :: ctype where
  "vm_plist_node = TStruct ''plist_node''
    [(''prio'', TInt 4 True), (''prio_list'', vm_list_head), (''node_list'', vm_list_head)]"

definition vm_vmacache :: ctype where
  "vm_vmacache = TStruct ''vmacache''
    [(''seqnum'', TInt 8 False), (''vmas'', TArr 4 (TPtr ''vm_area_struct''))]"

definition vm_task_rss_stat :: ctype where
  "vm_task_rss_stat = TStruct ''task_rss_stat''
    [(''events'', TInt 4 True), (''count'', TArr 4 (TInt 4 True))]"

definition vm_restart_block :: ctype where
  "vm_restart_block = TStruct ''restart_block''
    [(''arch_data'', TInt 8 False), (''fn'', TPtr ''''),
     ('''', TUnion '''' [(''futex'', TStruct '''' [(''uaddr'', TPtr ''''), (''val'', TInt 4 False), (''flags'', TInt 4 False), (''bitset'', TInt 4 False), (''time'', TInt 8 False), (''uaddr2'', TPtr '''')]), (''nanosleep'', TStruct '''' [(''clockid'', TInt 4 True), (''type'', TInt 4 False), ('''', TUnion '''' [(''rmtp'', TPtr ''__kernel_timespec''), (''compat_rmtp'', TPtr ''old_timespec32'')]), (''expires'', TInt 8 False)]), (''poll'', TStruct '''' [(''ufds'', TPtr ''pollfd''), (''nfds'', TInt 4 True), (''has_timeout'', TInt 4 True), (''tv_sec'', TInt 8 False), (''tv_nsec'', TInt 8 False)])])]"

definition vm_prev_cputime :: ctype where
  "vm_prev_cputime = TStruct ''prev_cputime''
    [(''utime'', TInt 8 False), (''stime'', TInt 8 False), (''lock'', vm_raw_spinlock)]"

definition vm_rb_root_cached :: ctype where
  "vm_rb_root_cached = TStruct ''rb_root_cached''
    [(''rb_root'', vm_rb_root), (''rb_leftmost'', TPtr ''rb_node'')]"

definition vm_timerqueue_head :: ctype where
  "vm_timerqueue_head = TStruct ''timerqueue_head''
    [(''rb_root'', vm_rb_root_cached)]"

definition vm_posix_cputimer_base :: ctype where
  "vm_posix_cputimer_base = TStruct ''posix_cputimer_base''
    [(''nextevt'', TInt 8 False), (''tqhead'', vm_timerqueue_head)]"

definition vm_posix_cputimers :: ctype where
  "vm_posix_cputimers = TStruct ''posix_cputimers''
    [(''bases'', TArr 3 (vm_posix_cputimer_base)), (''timers_active'', TInt 4 False),
     (''expiry_active'', TInt 4 False)]"

definition vm_sigset_t :: ctype where
  "vm_sigset_t = TStruct ''''
    [(''sig'', TArr 1 (TInt 8 False))]"

definition vm_sigpending :: ctype where
  "vm_sigpending = TStruct ''sigpending''
    [(''list'', vm_list_head), (''signal'', vm_sigset_t)]"

definition vm_seccomp :: ctype where
  "vm_seccomp = TStruct ''seccomp''
    [(''mode'', TInt 4 True), (''filter_count'', vm_atomic_t),
     (''filter'', TPtr ''seccomp_filter'')]"

definition vm_syscall_user_dispatch :: ctype where
  "vm_syscall_user_dispatch = TStruct ''syscall_user_dispatch''
    []"

definition vm_wake_q_node :: ctype where
  "vm_wake_q_node = TStruct ''wake_q_node''
    [(''next'', TPtr ''wake_q_node'')]"

definition vm_task_io_accounting :: ctype where
  "vm_task_io_accounting = TStruct ''task_io_accounting''
    [(''rchar'', TInt 8 False), (''wchar'', TInt 8 False), (''syscr'', TInt 8 False),
     (''syscw'', TInt 8 False), (''syscfs'', TInt 8 False), (''read_bytes'', TInt 8 False),
     (''write_bytes'', TInt 8 False), (''cancelled_write_bytes'', TInt 8 False)]"

definition vm_nodemask_t :: ctype where
  "vm_nodemask_t = TStruct ''''
    [(''bits'', TArr 1 (TInt 8 False))]"

definition vm_seqcount :: ctype where
  "vm_seqcount = TStruct ''seqcount''
    [(''sequence'', TInt 4 False)]"

definition vm_seqcount_spinlock :: ctype where
  "vm_seqcount_spinlock = TStruct ''seqcount_spinlock''
    [(''seqcount'', vm_seqcount)]"

definition vm_tlbflush_unmap_batch :: ctype where
  "vm_tlbflush_unmap_batch = TStruct ''tlbflush_unmap_batch''
    []"

definition vm_page_frag :: ctype where
  "vm_page_frag = TStruct ''page_frag''
    [(''page'', TPtr ''page''), (''offset'', TInt 4 False), (''size'', TInt 4 False)]"

definition vm_kmap_ctrl :: ctype where
  "vm_kmap_ctrl = TStruct ''kmap_ctrl''
    []"

definition vm_timer_list :: ctype where
  "vm_timer_list = TStruct ''timer_list''
    [(''entry'', vm_hlist_node), (''expires'', TInt 8 False), (''function'', TPtr ''''),
     (''flags'', TInt 4 False), (''android_kabi_reserved1'', TInt 8 False),
     (''android_kabi_reserved2'', TInt 8 False)]"

definition vm_llist_head :: ctype where
  "vm_llist_head = TStruct ''llist_head''
    [(''first'', TPtr ''llist_node'')]"

definition vm_cpu_context :: ctype where
  "vm_cpu_context = TStruct ''cpu_context''
    [(''x19'', TInt 8 False), (''x20'', TInt 8 False), (''x21'', TInt 8 False),
     (''x22'', TInt 8 False), (''x23'', TInt 8 False), (''x24'', TInt 8 False),
     (''x25'', TInt 8 False), (''x26'', TInt 8 False), (''x27'', TInt 8 False),
     (''x28'', TInt 8 False), (''fp'', TInt 8 False), (''sp'', TInt 8 False),
     (''pc'', TInt 8 False)]"

definition vm_user_fpsimd_state :: ctype where
  "vm_user_fpsimd_state = TStruct ''user_fpsimd_state''
    [(''vregs'', TArr 32 (TInt 16 False)), (''fpsr'', TInt 4 False), (''fpcr'', TInt 4 False),
     (''__reserved'', TArr 2 (TInt 4 False))]"

definition vm_debug_info :: ctype where
  "vm_debug_info = TStruct ''debug_info''
    [(''suspended_step'', TInt 4 True), (''bps_disabled'', TInt 4 True),
     (''wps_disabled'', TInt 4 True), (''hbp_break'', TArr 16 (TPtr ''perf_event'')),
     (''hbp_watch'', TArr 16 (TPtr ''perf_event''))]"

definition vm_ptrauth_key :: ctype where
  "vm_ptrauth_key = TStruct ''ptrauth_key''
    [(''lo'', TInt 8 False), (''hi'', TInt 8 False)]"

definition vm_ptrauth_keys_user :: ctype where
  "vm_ptrauth_keys_user = TStruct ''ptrauth_keys_user''
    [(''apia'', vm_ptrauth_key), (''apib'', vm_ptrauth_key), (''apda'', vm_ptrauth_key),
     (''apdb'', vm_ptrauth_key), (''apga'', vm_ptrauth_key)]"

definition vm_ptrauth_keys_kernel :: ctype where
  "vm_ptrauth_keys_kernel = TStruct ''ptrauth_keys_kernel''
    [(''apia'', vm_ptrauth_key)]"

definition vm_thread_struct :: ctype where
  "vm_thread_struct = TStruct ''thread_struct''
    [(''cpu_context'', vm_cpu_context), ('''', TBits 8 64),
     (''uw'', TStruct '''' [(''tp_value'', TInt 8 False), (''tp2_value'', TInt 8 False), (''fpsimd_state'', vm_user_fpsimd_state)]),
     (''android_vendor_data1'', TInt 8 False), (''fpsimd_cpu'', TInt 4 False),
     (''sve_state'', TPtr ''''), (''sve_vl'', TInt 4 False), (''sve_vl_onexec'', TInt 4 False),
     (''fault_address'', TInt 8 False), (''fault_code'', TInt 8 False),
     (''debug'', vm_debug_info), (''keys_user'', vm_ptrauth_keys_user),
     (''keys_kernel'', vm_ptrauth_keys_kernel), (''mte_ctrl'', TInt 8 False),
     (''sctlr_user'', TInt 8 False)]"

definition vm_task_struct_members_1 :: members where
  "vm_task_struct_members_1 =
    [(''thread_info'', vm_thread_info), (''__state'', TInt 4 False), (''stack'', TPtr ''''),
     (''usage'', vm_refcount_struct), (''flags'', TInt 4 False), (''ptrace'', TInt 4 False),
     (''on_cpu'', TInt 4 True), (''wake_entry'', vm___call_single_node), (''cpu'', TInt 4 False),
     (''wakee_flips'', TInt 4 False), (''wakee_flip_decay_ts'', TInt 8 False),
     (''last_wakee'', TPtr ''task_struct''), (''recent_used_cpu'', TInt 4 True),
     (''wake_cpu'', TInt 4 True), (''on_rq'', TInt 4 True), (''prio'', TInt 4 True),
     (''static_prio'', TInt 4 True), (''normal_prio'', TInt 4 True),
     (''rt_priority'', TInt 4 False), (''sched_class'', TPtr ''sched_class''),
     ('''', TBits 8 64), ('''', TBits 8 64), ('''', TBits 8 64), ('''', TBits 8 64),
     ('''', TBits 8 64), (''se'', vm_sched_entity), (''rt'', vm_sched_rt_entity),
     (''dl'', vm_sched_dl_entity), (''sched_task_group'', TPtr ''task_group''),
     (''uclamp_req'', TArr 2 (vm_uclamp_se)), (''uclamp'', TArr 2 (vm_uclamp_se)),
     (''preempt_notifiers'', vm_hlist_head), (''policy'', TInt 4 False),
     (''nr_cpus_allowed'', TInt 4 True), (''cpus_ptr'', TPtr ''''),
     (''user_cpus_ptr'', TPtr ''''), (''cpus_mask'', vm_cpumask),
     (''migration_pending'', TPtr ''''), (''migration_disabled'', TInt 2 False),
     (''migration_flags'', TInt 2 False), (''rcu_read_lock_nesting'', TInt 4 True),
     (''rcu_read_unlock_special'', vm_rcu_special), (''rcu_node_entry'', vm_list_head),
     (''rcu_blocked_node'', TPtr ''rcu_node''), (''rcu_tasks_nvcsw'', TInt 8 False),
     (''rcu_tasks_holdout'', TInt 1 False), (''rcu_tasks_idx'', TInt 1 False),
     (''rcu_tasks_idle_cpu'', TInt 4 True), (''rcu_tasks_holdout_list'', vm_list_head),
     (''trc_reader_nesting'', TInt 4 True), (''trc_ipi_to_cpu'', TInt 4 True),
     (''trc_reader_special'', vm_rcu_special), (''trc_reader_checked'', TInt 1 False),
     (''trc_holdout_list'', vm_list_head), (''sched_info'', vm_sched_info),
     (''tasks'', vm_list_head), (''pushable_tasks'', vm_plist_node),
     (''pushable_dl_tasks'', vm_rb_node), (''mm'', TPtr ''mm_struct''),
     (''active_mm'', TPtr ''mm_struct''), (''vmacache'', vm_vmacache),
     (''rss_stat'', vm_task_rss_stat), (''exit_state'', TInt 4 True),
     (''exit_code'', TInt 4 True), (''exit_signal'', TInt 4 True),
     (''pdeath_signal'', TInt 4 True), (''jobctl'', TInt 8 False),
     (''personality'', TInt 4 False), (''sched_reset_on_fork'', TBits 4 1),
     (''sched_contributes_to_load'', TBits 4 1), (''sched_migrated'', TBits 4 1),
     (''sched_psi_wake_requeue'', TBits 4 1), ('''', TBits 8 28),
     (''sched_remote_wakeup'', TBits 4 1), (''in_execve'', TBits 4 1),
     (''in_iowait'', TBits 4 1), (''in_user_fault'', TBits 4 1), (''in_lru_fault'', TBits 4 1),
     (''no_cgroup_migration'', TBits 4 1), (''frozen'', TBits 4 1),
     (''use_memdelay'', TBits 4 1), (''in_memstall'', TBits 4 1), (''in_page_owner'', TBits 4 1),
     (''in_eventfd_signal'', TBits 4 1), (''atomic_flags'', TInt 8 False),
     (''restart_block'', vm_restart_block), (''pid'', TInt 4 True), (''tgid'', TInt 4 True),
     (''stack_canary'', TInt 8 False), (''real_parent'', TPtr ''task_struct''),
     (''parent'', TPtr ''task_struct''), (''children'', vm_list_head),
     (''sibling'', vm_list_head), (''group_leader'', TPtr ''task_struct''),
     (''ptraced'', vm_list_head), (''ptrace_entry'', vm_list_head),
     (''thread_pid'', TPtr ''pid''), (''pid_links'', TArr 4 (vm_hlist_node)),
     (''thread_group'', vm_list_head), (''thread_node'', vm_list_head),
     (''vfork_done'', TPtr ''completion''), (''set_child_tid'', TPtr ''''),
     (''clear_child_tid'', TPtr ''''), (''pf_io_worker'', TPtr ''''), (''utime'', TInt 8 False),
     (''stime'', TInt 8 False), (''gtime'', TInt 8 False), (''time_in_state'', TPtr ''''),
     (''max_state'', TInt 4 False), (''prev_cputime'', vm_prev_cputime),
     (''nvcsw'', TInt 8 False), (''nivcsw'', TInt 8 False), (''start_time'', TInt 8 False),
     (''start_boottime'', TInt 8 False), (''min_flt'', TInt 8 False),
     (''maj_flt'', TInt 8 False), (''posix_cputimers'', vm_posix_cputimers),
     (''ptracer_cred'', TPtr ''cred''), (''real_cred'', TPtr ''cred''), (''cred'', TPtr ''cred'')]"

definition vm_task_struct_members_2 :: members where
  "vm_task_struct_members_2 =
    [(''cached_requested_key'', TPtr ''key''), (''comm'', TArr 16 (TInt 1 False)),
     (''nameidata'', TPtr ''nameidata''), (''last_switch_count'', TInt 8 False),
     (''last_switch_time'', TInt 8 False), (''fs'', TPtr ''fs_struct''),
     (''files'', TPtr ''files_struct''), (''io_uring'', TPtr ''io_uring_task''),
     (''nsproxy'', TPtr ''nsproxy''), (''signal'', TPtr ''signal_struct''),
     (''sighand'', TPtr ''sighand_struct''), (''blocked'', vm_sigset_t),
     (''real_blocked'', vm_sigset_t), (''saved_sigmask'', vm_sigset_t),
     (''pending'', vm_sigpending), (''sas_ss_sp'', TInt 8 False),
     (''sas_ss_size'', TInt 8 False), (''sas_ss_flags'', TInt 4 False),
     (''task_works'', TPtr ''callback_head''), (''audit_context'', TPtr ''audit_context''),
     (''loginuid'', vm_kuid_t), (''sessionid'', TInt 4 False), (''seccomp'', vm_seccomp),
     (''syscall_dispatch'', vm_syscall_user_dispatch), (''parent_exec_id'', TInt 8 False),
     (''self_exec_id'', TInt 8 False), (''alloc_lock'', vm_spinlock),
     (''pi_lock'', vm_raw_spinlock), (''wake_q'', vm_wake_q_node),
     (''wake_q_count'', TInt 4 True), (''pi_waiters'', vm_rb_root_cached),
     (''pi_top_task'', TPtr ''task_struct''), (''pi_blocked_on'', TPtr ''rt_mutex_waiter''),
     (''journal_info'', TPtr ''''), (''bio_list'', TPtr ''bio_list''),
     (''plug'', TPtr ''blk_plug''), (''reclaim_state'', TPtr ''reclaim_state''),
     (''backing_dev_info'', TPtr ''backing_dev_info''), (''io_context'', TPtr ''io_context''),
     (''capture_control'', TPtr ''capture_control''), (''ptrace_message'', TInt 8 False),
     (''last_siginfo'', TPtr ''''), (''ioac'', vm_task_io_accounting),
     (''psi_flags'', TInt 4 False), (''acct_rss_mem1'', TInt 8 False),
     (''acct_vm_mem1'', TInt 8 False), (''acct_timexpd'', TInt 8 False),
     (''mems_allowed'', vm_nodemask_t), (''mems_allowed_seq'', vm_seqcount_spinlock),
     (''cpuset_mem_spread_rotor'', TInt 4 True), (''cpuset_slab_spread_rotor'', TInt 4 True),
     (''cgroups'', TPtr ''css_set''), (''cg_list'', vm_list_head),
     (''robust_list'', TPtr ''robust_list_head''),
     (''compat_robust_list'', TPtr ''compat_robust_list_head''),
     (''pi_state_list'', vm_list_head), (''pi_state_cache'', TPtr ''futex_pi_state''),
     (''futex_exit_mutex'', vm_mutex), (''futex_state'', TInt 4 False),
     (''perf_event_ctxp'', TArr 2 (TPtr ''perf_event_context'')),
     (''perf_event_mutex'', vm_mutex), (''perf_event_list'', vm_list_head),
     (''tlb_ubc'', vm_tlbflush_unmap_batch),
     ('''', TUnion '''' [(''rcu_users'', vm_refcount_struct), (''rcu'', vm_callback_head)]),
     (''splice_pipe'', TPtr ''pipe_inode_info''), (''task_frag'', vm_page_frag),
     (''nr_dirtied'', TInt 4 True), (''nr_dirtied_pause'', TInt 4 True),
     (''dirty_paused_when'', TInt 8 False), (''timer_slack_ns'', TInt 8 False),
     (''default_timer_slack_ns'', TInt 8 False), (''kunit_test'', TPtr ''kunit''),
     (''trace'', TInt 8 False), (''trace_recursion'', TInt 8 False),
     (''memcg_in_oom'', TPtr ''mem_cgroup''), (''memcg_oom_gfp_mask'', TInt 4 False),
     (''memcg_oom_order'', TInt 4 True), (''memcg_nr_pages_over_high'', TInt 4 False),
     (''active_memcg'', TPtr ''mem_cgroup''), (''throttle_queue'', TPtr ''request_queue''),
     (''utask'', TPtr ''uprobe_task''), (''kmap_ctrl'', vm_kmap_ctrl),
     (''pagefault_disabled'', TInt 4 True), (''oom_reaper_list'', TPtr ''task_struct''),
     (''oom_reaper_timer'', vm_timer_list), (''stack_vm_area'', TPtr ''vm_struct''),
     (''stack_refcount'', vm_refcount_struct), (''security'', TPtr ''''),
     (''bpf_storage'', TPtr ''bpf_local_storage''), (''bpf_ctx'', TPtr ''bpf_run_ctx''),
     (''android_vendor_data1'', TArr 64 (TInt 8 False)),
     (''android_oem_data1'', TArr 6 (TInt 8 False)), (''kretprobe_instances'', vm_llist_head),
     (''android_kabi_reserved1'', TInt 8 False), (''android_kabi_reserved2'', TInt 8 False),
     (''android_kabi_reserved3'', TInt 8 False), (''android_kabi_reserved4'', TInt 8 False),
     (''android_kabi_reserved5'', TInt 8 False), (''android_kabi_reserved6'', TInt 8 False),
     (''android_kabi_reserved7'', TInt 8 False), (''android_kabi_reserved8'', TInt 8 False),
     ('''', TBits 8 64), (''thread'', vm_thread_struct)]"

definition vm_task_struct :: ctype where
  "vm_task_struct = TStruct ''task_struct'' (vm_task_struct_members_1 @ vm_task_struct_members_2)"

definition vm_bpf_raw_tracepoint_args :: ctype where
  "vm_bpf_raw_tracepoint_args = TStruct ''bpf_raw_tracepoint_args''
    [(''args'', TArr 0 (TInt 8 False))]"

section \<open>The types by tag\<close>

definition vmlinux_types :: type_table where
  "vmlinux_types = map_of
     [(''binder_transaction_data'', vm_binder_transaction_data),
      (''binder_thread'', vm_binder_thread),
      (''binder_transaction'', vm_binder_transaction),
      (''binder_proc'', vm_binder_proc),
      (''binder_context'', vm_binder_context),
      (''binder_node'', vm_binder_node),
      (''binder_buffer'', vm_binder_buffer),
      (''task_struct'', vm_task_struct),
      (''cred'', vm_cred),
      (''user_pt_regs'', vm_user_pt_regs),
      (''pt_regs'', vm_pt_regs)]"

lemmas vmlinux_defs = vm_binder_transaction_data_def vm_rb_node_def vm_list_head_def vm_binder_work_def
  vm_binder_error_def vm_atomic_t_def vm_qspinlock_def vm_raw_spinlock_def
  vm_spinlock_def vm_wait_queue_head_def vm_binder_stats_def vm_binder_priority_def
  vm_binder_thread_def vm_kuid_t_def vm_binder_transaction_def vm_hlist_node_def
  vm_rb_root_def vm_atomic64_t_def vm_optimistic_spin_queue_def vm_mutex_def
  vm_binder_alloc_def vm_binder_proc_def vm_binder_context_def vm_hlist_head_def
  vm_binder_node_def vm_binder_buffer_def vm_kgid_t_def vm_kernel_cap_struct_def
  vm_callback_head_def vm_cred_def vm_user_pt_regs_def vm_pt_regs_def
  vm_thread_info_def vm_refcount_struct_def vm_llist_node_def vm___call_single_node_def
  vm_load_weight_def vm_sched_statistics_def vm_util_est_def vm_sched_avg_def
  vm_sched_entity_def vm_sched_rt_entity_def vm_timerqueue_node_def vm_hrtimer_def
  vm_sched_dl_entity_def vm_uclamp_se_def vm_cpumask_def vm_rcu_special_def
  vm_sched_info_def vm_plist_node_def vm_vmacache_def vm_task_rss_stat_def
  vm_restart_block_def vm_prev_cputime_def vm_rb_root_cached_def vm_timerqueue_head_def
  vm_posix_cputimer_base_def vm_posix_cputimers_def vm_sigset_t_def vm_sigpending_def
  vm_seccomp_def vm_syscall_user_dispatch_def vm_wake_q_node_def vm_task_io_accounting_def
  vm_nodemask_t_def vm_seqcount_def vm_seqcount_spinlock_def vm_tlbflush_unmap_batch_def
  vm_page_frag_def vm_kmap_ctrl_def vm_timer_list_def vm_llist_head_def
  vm_cpu_context_def vm_user_fpsimd_state_def vm_debug_info_def vm_ptrauth_key_def
  vm_ptrauth_keys_user_def vm_ptrauth_keys_kernel_def vm_thread_struct_def vm_task_struct_members_1_def
  vm_task_struct_members_2_def vm_task_struct_def vm_bpf_raw_tracepoint_args_def

section \<open>Layouts\<close>

lemma info_vm_binder_transaction_data [layout_simps]: "info vm_binder_transaction_data = MPlain 64 8"
  by (simp add: vm_binder_transaction_data_def layout_simps)

lemma info_vm_rb_node [layout_simps]: "info vm_rb_node = MPlain 24 8"
  by (simp add: vm_rb_node_def layout_simps)

lemma info_vm_list_head [layout_simps]: "info vm_list_head = MPlain 16 8"
  by (simp add: vm_list_head_def layout_simps)

lemma info_vm_binder_work [layout_simps]: "info vm_binder_work = MPlain 24 8"
  by (simp add: vm_binder_work_def layout_simps)

lemma info_vm_binder_error [layout_simps]: "info vm_binder_error = MPlain 32 8"
  by (simp add: vm_binder_error_def layout_simps)

lemma info_vm_atomic_t [layout_simps]: "info vm_atomic_t = MPlain 4 4"
  by (simp add: vm_atomic_t_def layout_simps)

lemma info_vm_qspinlock [layout_simps]: "info vm_qspinlock = MPlain 4 4"
  by (simp add: vm_qspinlock_def layout_simps)

lemma info_vm_raw_spinlock [layout_simps]: "info vm_raw_spinlock = MPlain 4 4"
  by (simp add: vm_raw_spinlock_def layout_simps)

lemma info_vm_spinlock [layout_simps]: "info vm_spinlock = MPlain 4 4"
  by (simp add: vm_spinlock_def layout_simps)

lemma info_vm_wait_queue_head [layout_simps]: "info vm_wait_queue_head = MPlain 24 8"
  by (simp add: vm_wait_queue_head_def layout_simps)

lemma info_vm_binder_stats [layout_simps]: "info vm_binder_stats = MPlain 212 4"
  by (simp add: vm_binder_stats_def layout_simps)

lemma info_vm_binder_priority [layout_simps]: "info vm_binder_priority = MPlain 8 4"
  by (simp add: vm_binder_priority_def layout_simps)

lemma info_vm_binder_thread [layout_simps]: "info vm_binder_thread = MPlain 432 8"
  by (simp add: vm_binder_thread_def layout_simps)

lemma info_vm_kuid_t [layout_simps]: "info vm_kuid_t = MPlain 4 4"
  by (simp add: vm_kuid_t_def layout_simps)

lemma info_vm_binder_transaction [layout_simps]: "info vm_binder_transaction = MPlain 160 8"
  by (simp add: vm_binder_transaction_def layout_simps)

lemma info_vm_hlist_node [layout_simps]: "info vm_hlist_node = MPlain 16 8"
  by (simp add: vm_hlist_node_def layout_simps)

lemma info_vm_rb_root [layout_simps]: "info vm_rb_root = MPlain 8 8"
  by (simp add: vm_rb_root_def layout_simps)

lemma info_vm_atomic64_t [layout_simps]: "info vm_atomic64_t = MPlain 8 8"
  by (simp add: vm_atomic64_t_def layout_simps)

lemma info_vm_optimistic_spin_queue [layout_simps]: "info vm_optimistic_spin_queue = MPlain 4 4"
  by (simp add: vm_optimistic_spin_queue_def layout_simps)

lemma info_vm_mutex [layout_simps]: "info vm_mutex = MPlain 48 8"
  by (simp add: vm_mutex_def layout_simps)

lemma info_vm_binder_alloc [layout_simps]: "info vm_binder_alloc = MPlain 152 8"
  by (simp add: vm_binder_alloc_def layout_simps)

lemma info_vm_binder_proc [layout_simps]: "info vm_binder_proc = MPlain 608 8"
  by (simp add: vm_binder_proc_def layout_simps)

lemma info_vm_binder_context [layout_simps]: "info vm_binder_context = MPlain 72 8"
  by (simp add: vm_binder_context_def layout_simps)

lemma info_vm_hlist_head [layout_simps]: "info vm_hlist_head = MPlain 8 8"
  by (simp add: vm_hlist_head_def layout_simps)

lemma info_vm_binder_node [layout_simps]: "info vm_binder_node = MPlain 128 8"
  by (simp add: vm_binder_node_def layout_simps)

lemma info_vm_binder_buffer [layout_simps]: "info vm_binder_buffer = MPlain 104 8"
  by (simp add: vm_binder_buffer_def layout_simps)

lemma info_vm_kgid_t [layout_simps]: "info vm_kgid_t = MPlain 4 4"
  by (simp add: vm_kgid_t_def layout_simps)

lemma info_vm_kernel_cap_struct [layout_simps]: "info vm_kernel_cap_struct = MPlain 8 4"
  by (simp add: vm_kernel_cap_struct_def layout_simps)

lemma info_vm_callback_head [layout_simps]: "info vm_callback_head = MPlain 16 8"
  by (simp add: vm_callback_head_def layout_simps)

lemma info_vm_cred [layout_simps]: "info vm_cred = MPlain 176 8"
  by (simp add: vm_cred_def layout_simps)

lemma info_vm_user_pt_regs [layout_simps]: "info vm_user_pt_regs = MPlain 272 8"
  by (simp add: vm_user_pt_regs_def layout_simps)

lemma info_vm_pt_regs [layout_simps]: "info vm_pt_regs = MPlain 336 8"
  by (simp add: vm_pt_regs_def layout_simps)

lemma info_vm_thread_info [layout_simps]: "info vm_thread_info = MPlain 40 8"
  by (simp add: vm_thread_info_def layout_simps)

lemma info_vm_refcount_struct [layout_simps]: "info vm_refcount_struct = MPlain 4 4"
  by (simp add: vm_refcount_struct_def layout_simps)

lemma info_vm_llist_node [layout_simps]: "info vm_llist_node = MPlain 8 8"
  by (simp add: vm_llist_node_def layout_simps)

lemma info_vm___call_single_node [layout_simps]: "info vm___call_single_node = MPlain 16 8"
  by (simp add: vm___call_single_node_def layout_simps)

lemma info_vm_load_weight [layout_simps]: "info vm_load_weight = MPlain 16 8"
  by (simp add: vm_load_weight_def layout_simps)

lemma info_vm_sched_statistics [layout_simps]: "info vm_sched_statistics = MPlain 216 8"
  by (simp add: vm_sched_statistics_def layout_simps)

lemma info_vm_util_est [layout_simps]: "info vm_util_est = MPlain 8 4"
  by (simp add: vm_util_est_def layout_simps)

lemma info_vm_sched_avg [layout_simps]: "info vm_sched_avg = MPlain 64 8"
  by (simp add: vm_sched_avg_def layout_simps)

lemma info_vm_sched_entity [layout_simps]: "info vm_sched_entity = MPlain 512 8"
  by (simp add: vm_sched_entity_def layout_simps)

lemma info_vm_sched_rt_entity [layout_simps]: "info vm_sched_rt_entity = MPlain 80 8"
  by (simp add: vm_sched_rt_entity_def layout_simps)

lemma info_vm_timerqueue_node [layout_simps]: "info vm_timerqueue_node = MPlain 32 8"
  by (simp add: vm_timerqueue_node_def layout_simps)

lemma info_vm_hrtimer [layout_simps]: "info vm_hrtimer = MPlain 72 8"
  by (simp add: vm_hrtimer_def layout_simps)

lemma info_vm_sched_dl_entity [layout_simps]: "info vm_sched_dl_entity = MPlain 240 8"
  by (simp add: vm_sched_dl_entity_def layout_simps)

lemma info_vm_uclamp_se [layout_simps]: "info vm_uclamp_se = MPlain 4 4"
  by (simp add: vm_uclamp_se_def layout_simps)

lemma info_vm_cpumask [layout_simps]: "info vm_cpumask = MPlain 8 8"
  by (simp add: vm_cpumask_def layout_simps)

lemma info_vm_rcu_special [layout_simps]: "info vm_rcu_special = MPlain 4 4"
  by (simp add: vm_rcu_special_def layout_simps)

lemma info_vm_sched_info [layout_simps]: "info vm_sched_info = MPlain 32 8"
  by (simp add: vm_sched_info_def layout_simps)

lemma info_vm_plist_node [layout_simps]: "info vm_plist_node = MPlain 40 8"
  by (simp add: vm_plist_node_def layout_simps)

lemma info_vm_vmacache [layout_simps]: "info vm_vmacache = MPlain 40 8"
  by (simp add: vm_vmacache_def layout_simps)

lemma info_vm_task_rss_stat [layout_simps]: "info vm_task_rss_stat = MPlain 20 4"
  by (simp add: vm_task_rss_stat_def layout_simps)

lemma info_vm_restart_block [layout_simps]: "info vm_restart_block = MPlain 56 8"
  by (simp add: vm_restart_block_def layout_simps)

lemma info_vm_prev_cputime [layout_simps]: "info vm_prev_cputime = MPlain 24 8"
  by (simp add: vm_prev_cputime_def layout_simps)

lemma info_vm_rb_root_cached [layout_simps]: "info vm_rb_root_cached = MPlain 16 8"
  by (simp add: vm_rb_root_cached_def layout_simps)

lemma info_vm_timerqueue_head [layout_simps]: "info vm_timerqueue_head = MPlain 16 8"
  by (simp add: vm_timerqueue_head_def layout_simps)

lemma info_vm_posix_cputimer_base [layout_simps]: "info vm_posix_cputimer_base = MPlain 24 8"
  by (simp add: vm_posix_cputimer_base_def layout_simps)

lemma info_vm_posix_cputimers [layout_simps]: "info vm_posix_cputimers = MPlain 80 8"
  by (simp add: vm_posix_cputimers_def layout_simps)

lemma info_vm_sigset_t [layout_simps]: "info vm_sigset_t = MPlain 8 8"
  by (simp add: vm_sigset_t_def layout_simps)

lemma info_vm_sigpending [layout_simps]: "info vm_sigpending = MPlain 24 8"
  by (simp add: vm_sigpending_def layout_simps)

lemma info_vm_seccomp [layout_simps]: "info vm_seccomp = MPlain 16 8"
  by (simp add: vm_seccomp_def layout_simps)

lemma info_vm_syscall_user_dispatch [layout_simps]: "info vm_syscall_user_dispatch = MPlain 0 1"
  by (simp add: vm_syscall_user_dispatch_def layout_simps)

lemma info_vm_wake_q_node [layout_simps]: "info vm_wake_q_node = MPlain 8 8"
  by (simp add: vm_wake_q_node_def layout_simps)

lemma info_vm_task_io_accounting [layout_simps]: "info vm_task_io_accounting = MPlain 64 8"
  by (simp add: vm_task_io_accounting_def layout_simps)

lemma info_vm_nodemask_t [layout_simps]: "info vm_nodemask_t = MPlain 8 8"
  by (simp add: vm_nodemask_t_def layout_simps)

lemma info_vm_seqcount [layout_simps]: "info vm_seqcount = MPlain 4 4"
  by (simp add: vm_seqcount_def layout_simps)

lemma info_vm_seqcount_spinlock [layout_simps]: "info vm_seqcount_spinlock = MPlain 4 4"
  by (simp add: vm_seqcount_spinlock_def layout_simps)

lemma info_vm_tlbflush_unmap_batch [layout_simps]: "info vm_tlbflush_unmap_batch = MPlain 0 1"
  by (simp add: vm_tlbflush_unmap_batch_def layout_simps)

lemma info_vm_page_frag [layout_simps]: "info vm_page_frag = MPlain 16 8"
  by (simp add: vm_page_frag_def layout_simps)

lemma info_vm_kmap_ctrl [layout_simps]: "info vm_kmap_ctrl = MPlain 0 1"
  by (simp add: vm_kmap_ctrl_def layout_simps)

lemma info_vm_timer_list [layout_simps]: "info vm_timer_list = MPlain 56 8"
  by (simp add: vm_timer_list_def layout_simps)

lemma info_vm_llist_head [layout_simps]: "info vm_llist_head = MPlain 8 8"
  by (simp add: vm_llist_head_def layout_simps)

lemma info_vm_cpu_context [layout_simps]: "info vm_cpu_context = MPlain 104 8"
  by (simp add: vm_cpu_context_def layout_simps)

lemma info_vm_user_fpsimd_state [layout_simps]: "info vm_user_fpsimd_state = MPlain 528 16"
  by (simp add: vm_user_fpsimd_state_def layout_simps)

lemma info_vm_debug_info [layout_simps]: "info vm_debug_info = MPlain 272 8"
  by (simp add: vm_debug_info_def layout_simps)

lemma info_vm_ptrauth_key [layout_simps]: "info vm_ptrauth_key = MPlain 16 8"
  by (simp add: vm_ptrauth_key_def layout_simps)

lemma info_vm_ptrauth_keys_user [layout_simps]: "info vm_ptrauth_keys_user = MPlain 80 8"
  by (simp add: vm_ptrauth_keys_user_def layout_simps)

lemma info_vm_ptrauth_keys_kernel [layout_simps]: "info vm_ptrauth_keys_kernel = MPlain 16 8"
  by (simp add: vm_ptrauth_keys_kernel_def layout_simps)

lemma info_vm_thread_struct [layout_simps]: "info vm_thread_struct = MPlain 1088 16"
  by (simp add: vm_thread_struct_def layout_simps)

lemma info_vm_task_struct_members_1 [layout_simps]:
  "map (\<lambda>m. info (snd m)) vm_task_struct_members_1 =
    [MPlain 40 8, MPlain 4 4, MPlain 8 8, MPlain 4 4, MPlain 4 4, MPlain 4 4, MPlain 4 4,
     MPlain 16 8, MPlain 4 4, MPlain 4 4, MPlain 8 8, MPlain 8 8, MPlain 4 4, MPlain 4 4,
     MPlain 4 4, MPlain 4 4, MPlain 4 4, MPlain 4 4, MPlain 4 4, MPlain 8 8, MBits 8 64,
     MBits 8 64, MBits 8 64, MBits 8 64, MBits 8 64, MPlain 512 8, MPlain 80 8, MPlain 240 8,
     MPlain 8 8, MPlain 8 4, MPlain 8 4, MPlain 8 8, MPlain 4 4, MPlain 4 4, MPlain 8 8,
     MPlain 8 8, MPlain 8 8, MPlain 8 8, MPlain 2 2, MPlain 2 2, MPlain 4 4, MPlain 4 4,
     MPlain 16 8, MPlain 8 8, MPlain 8 8, MPlain 1 1, MPlain 1 1, MPlain 4 4, MPlain 16 8,
     MPlain 4 4, MPlain 4 4, MPlain 4 4, MPlain 1 1, MPlain 16 8, MPlain 32 8, MPlain 16 8,
     MPlain 40 8, MPlain 24 8, MPlain 8 8, MPlain 8 8, MPlain 40 8, MPlain 20 4, MPlain 4 4,
     MPlain 4 4, MPlain 4 4, MPlain 4 4, MPlain 8 8, MPlain 4 4, MBits 4 1, MBits 4 1, MBits 4 1,
     MBits 4 1, MBits 8 28, MBits 4 1, MBits 4 1, MBits 4 1, MBits 4 1, MBits 4 1, MBits 4 1,
     MBits 4 1, MBits 4 1, MBits 4 1, MBits 4 1, MBits 4 1, MPlain 8 8, MPlain 56 8, MPlain 4 4,
     MPlain 4 4, MPlain 8 8, MPlain 8 8, MPlain 8 8, MPlain 16 8, MPlain 16 8, MPlain 8 8,
     MPlain 16 8, MPlain 16 8, MPlain 8 8, MPlain 64 8, MPlain 16 8, MPlain 16 8, MPlain 8 8,
     MPlain 8 8, MPlain 8 8, MPlain 8 8, MPlain 8 8, MPlain 8 8, MPlain 8 8, MPlain 8 8,
     MPlain 4 4, MPlain 24 8, MPlain 8 8, MPlain 8 8, MPlain 8 8, MPlain 8 8, MPlain 8 8,
     MPlain 8 8, MPlain 80 8, MPlain 8 8, MPlain 8 8, MPlain 8 8]"
  by (simp add: vm_task_struct_members_1_def layout_simps)

lemma info_vm_task_struct_members_2 [layout_simps]:
  "map (\<lambda>m. info (snd m)) vm_task_struct_members_2 =
    [MPlain 8 8, MPlain 16 1, MPlain 8 8, MPlain 8 8, MPlain 8 8, MPlain 8 8, MPlain 8 8,
     MPlain 8 8, MPlain 8 8, MPlain 8 8, MPlain 8 8, MPlain 8 8, MPlain 8 8, MPlain 8 8,
     MPlain 24 8, MPlain 8 8, MPlain 8 8, MPlain 4 4, MPlain 8 8, MPlain 8 8, MPlain 4 4,
     MPlain 4 4, MPlain 16 8, MPlain 0 1, MPlain 8 8, MPlain 8 8, MPlain 4 4, MPlain 4 4,
     MPlain 8 8, MPlain 4 4, MPlain 16 8, MPlain 8 8, MPlain 8 8, MPlain 8 8, MPlain 8 8,
     MPlain 8 8, MPlain 8 8, MPlain 8 8, MPlain 8 8, MPlain 8 8, MPlain 8 8, MPlain 8 8,
     MPlain 64 8, MPlain 4 4, MPlain 8 8, MPlain 8 8, MPlain 8 8, MPlain 8 8, MPlain 4 4,
     MPlain 4 4, MPlain 4 4, MPlain 8 8, MPlain 16 8, MPlain 8 8, MPlain 8 8, MPlain 16 8,
     MPlain 8 8, MPlain 48 8, MPlain 4 4, MPlain 16 8, MPlain 48 8, MPlain 16 8, MPlain 0 1,
     MPlain 16 8, MPlain 8 8, MPlain 16 8, MPlain 4 4, MPlain 4 4, MPlain 8 8, MPlain 8 8,
     MPlain 8 8, MPlain 8 8, MPlain 8 8, MPlain 8 8, MPlain 8 8, MPlain 4 4, MPlain 4 4,
     MPlain 4 4, MPlain 8 8, MPlain 8 8, MPlain 8 8, MPlain 0 1, MPlain 4 4, MPlain 8 8,
     MPlain 56 8, MPlain 8 8, MPlain 4 4, MPlain 8 8, MPlain 8 8, MPlain 8 8, MPlain 512 8,
     MPlain 48 8, MPlain 8 8, MPlain 8 8, MPlain 8 8, MPlain 8 8, MPlain 8 8, MPlain 8 8,
     MPlain 8 8, MPlain 8 8, MPlain 8 8, MBits 8 64, MPlain 1088 16]"
  by (simp add: vm_task_struct_members_2_def layout_simps)

lemma info_vm_task_struct [layout_simps]: "info vm_task_struct = MPlain 4608 16"
  by (simp add: vm_task_struct_def layout_simps)

lemma info_vm_bpf_raw_tracepoint_args [layout_simps]: "info vm_bpf_raw_tracepoint_args = MPlain 0 8"
  by (simp add: vm_bpf_raw_tracepoint_args_def layout_simps)

section \<open>The members that the programs read\<close>

lemma binder_transaction_data_fields:
  "find_path [''target''] vm_binder_transaction_data =
     Some (0, TUnion [] [(''handle'', TInt 4 False), (''ptr'', TInt 8 False)])"
  "find_path [''code''] vm_binder_transaction_data = Some (128, TInt 4 False)"
  "find_path [''flags''] vm_binder_transaction_data = Some (160, TInt 4 False)"
  "find_path [''data_size''] vm_binder_transaction_data = Some (256, TInt 8 False)"
  "find_path [''data''] vm_binder_transaction_data =
     Some (384, TUnion [] [(''ptr'', TStruct [] [(''buffer'', TInt 8 False), (''offsets'', TInt 8 False)]),
       (''buf'', TArr 8 (TInt 1 False))])"
  by (simp_all add: vm_binder_transaction_data_def layout_simps)

lemma binder_thread_fields:
  "find_path [''transaction_stack''] vm_binder_thread = Some (512, TPtr ''binder_transaction'')"
  by (simp add: vm_binder_thread_def layout_simps)

lemma binder_transaction_fields:
  "find_path [''debug_id''] vm_binder_transaction = Some (0, TInt 4 True)"
  "find_path [''to_proc''] vm_binder_transaction = Some (384, TPtr ''binder_proc'')"
  "find_path [''sender_euid''] vm_binder_transaction = Some (928, vm_kuid_t)"
  by (simp_all add: vm_binder_transaction_def layout_simps)

lemma binder_proc_fields:
  "find_path [''tsk''] vm_binder_proc = Some (576, TPtr ''task_struct'')"
  "find_path [''cred''] vm_binder_proc = Some (640, TPtr ''cred'')"
  "find_path [''context''] vm_binder_proc = Some (4608, TPtr ''binder_context'')"
  by (simp_all add: vm_binder_proc_def layout_simps)

lemma binder_context_fields:
  "find_path [''name''] vm_binder_context = Some (512, TPtr [])"
  by (simp add: vm_binder_context_def layout_simps)

lemma cred_fields:
  "find_path [''euid'', ''val''] vm_cred = Some (160, TInt 4 False)"
  by (simp add: vm_cred_def vm_kuid_t_def layout_simps)

lemma task_struct_fields:
  "find_path [''pid''] vm_task_struct = Some (11968, TInt 4 True)"
  by (simp add: vm_task_struct_def vm_task_struct_members_1_def vm_task_struct_members_2_def layout_simps)

end
