(* ===== verification/BT_Runtime.thy ===== *)
theory BT_Runtime
  imports BT_Records BT_CoreRead BT_BpfHelpers BT_BpfTracing BT_Vmlinux
begin

text \<open>
  What the three programs run on. The kernel is a parameter, the record \<open>kenv\<close>: what its helper
  functions return in one run of a program. The maps and the ring buffer that the programs share
  (declared in \<^verbatim>\<open>binder_transaction.byte.c\<close>) are the state \<open>bpf_state\<close>. The helper calls on
  them are operations on that state, with the interface of a hash map that may evict entries as
  a locale.
\<close>

section \<open>Map declarations\<close>

record map_spec =
  ms_type :: string
  ms_key_size :: nat
  ms_value_size :: nat
  ms_max_entries :: nat

definition trace_event_map_spec :: map_spec where
  "trace_event_map_spec =
     \<lparr>ms_type = ''BPF_MAP_TYPE_RINGBUF'', ms_key_size = 0, ms_value_size = 0, ms_max_entries = 2 ^ 24\<rparr>"

definition trace_config_map_spec :: map_spec where
  "trace_config_map_spec =
     \<lparr>ms_type = ''BPF_MAP_TYPE_HASH'', ms_key_size = 4, ms_value_size = csize trace_config_t, ms_max_entries = 1\<rparr>"

definition pending_map_spec :: map_spec where
  "pending_map_spec =
     \<lparr>ms_type = ''BPF_MAP_TYPE_LRU_HASH'', ms_key_size = 4, ms_value_size = 8, ms_max_entries = 4096\<rparr>"

definition ringbuf_overflow_map_spec :: map_spec where
  "ringbuf_overflow_map_spec =
     \<lparr>ms_type = ''BPF_MAP_TYPE_PERCPU_ARRAY'', ms_key_size = 4, ms_value_size = 8,
      ms_max_entries = RB_OVF_SLOT_COUNT\<rparr>"

definition tid_to_txid_map_spec :: map_spec where
  "tid_to_txid_map_spec =
     \<lparr>ms_type = ''BPF_MAP_TYPE_LRU_HASH'', ms_key_size = 4, ms_value_size = 8, ms_max_entries = 4096\<rparr>"

section \<open>The kernel in one run of a program\<close>

text \<open>
  \<open>ke_ktime n\<close> is what the \<open>n\<close>-th clock read returns. \<open>ke_room n size\<close> says whether the \<open>n\<close>-th
  reservation finds room and \<open>ke_memory n size\<close> is what the reserved memory holds before the
  program writes it. \<open>ke_get_stack n\<close> is the result of \<^verbatim>\<open>bpf_get_stack\<close> for a buffer of \<open>n\<close> bytes
  with the bytes the buffer then holds, from those it held. \<open>ke_evict\<close> names the entries
  that an update of a full LRU map evicts. \<open>ke_btf\<close> holds the types of the running kernel.
\<close>

record kenv =
  ke_uid_gid :: u64
  ke_pid_tgid :: u64
  ke_cpu :: u32
  ke_ktime :: "nat \<Rightarrow> u64"
  ke_read_kernel :: reader
  ke_read :: reader
  ke_read_user :: reader
  ke_get_stack :: "u8 list \<Rightarrow> 64 word \<times> u8 list"
  ke_room :: "nat \<Rightarrow> nat \<Rightarrow> bool"
  ke_memory :: "nat \<Rightarrow> nat \<Rightarrow> u8 list"
  ke_evict :: "(u32 \<rightharpoonup> u64) \<Rightarrow> u32 \<Rightarrow> u32 list"
  ke_btf :: type_table

text \<open>
  The documented behaviour of the helpers: a read fills its whole destination, a reservation
  has the size asked for, and \<^verbatim>\<open>bpf_get_stack\<close> keeps within its buffer and returns at most the
  size of the buffer.
\<close>

definition kernel_laws :: "kenv \<Rightarrow> bool" where
  "kernel_laws env \<longleftrightarrow>
     (\<forall>a n. length (ke_read_kernel env a n) = n) \<and> (\<forall>a n. length (ke_read env a n) = n) \<and>
     (\<forall>a n. length (ke_read_user env a n) = n) \<and> (\<forall>k n. length (ke_memory env k n) = n) \<and>
     (\<forall>b. length (snd (ke_get_stack env b)) = length b) \<and>
     (\<forall>b. sint (fst (ke_get_stack env b)) \<le> int (length b))"

section \<open>Shared state\<close>

text \<open>
  \<open>trace_event_map\<close> holds the submitted records in order. \<open>ringbuf_overflow_map\<close> maps a slot and
  a processor to the counter. \<open>ktime_calls\<close> and \<open>reserve_calls\<close> count the helper calls, so that
  each one gets its own answer from the kernel.
\<close>

record bpf_state =
  trace_config_map :: "u32 \<rightharpoonup> trace_config"
  pending_map :: "u32 \<rightharpoonup> u64"
  tid_to_txid_map :: "u32 \<rightharpoonup> u64"
  ringbuf_overflow_map :: "u32 \<Rightarrow> u32 \<Rightarrow> u64"
  trace_event_map :: "u8 list list"
  printk_log :: "print_call list"
  ktime_calls :: nat
  reserve_calls :: nat

section \<open>Helper calls\<close>

definition bpf_map_lookup_elem :: "('k \<rightharpoonup> 'v) \<Rightarrow> 'k \<Rightarrow> 'v option" where
  "bpf_map_lookup_elem m k = m k"

definition bpf_map_delete_elem :: "('k \<rightharpoonup> 'v) \<Rightarrow> 'k \<Rightarrow> ('k \<rightharpoonup> 'v)" where
  "bpf_map_delete_elem m k = m(k := None)"

text \<open>\<^verbatim>\<open>bpf_map_update_elem\<close> with \<^verbatim>\<open>BPF_ANY\<close> on an LRU hash map.\<close>

definition lru_map_update_elem :: "(('k \<rightharpoonup> 'v) \<Rightarrow> 'k \<Rightarrow> 'k list) \<Rightarrow> ('k \<rightharpoonup> 'v) \<Rightarrow> 'k \<Rightarrow> 'v \<Rightarrow> ('k \<rightharpoonup> 'v)" where
  "lru_map_update_elem evict m k v =
     (\<lambda>x. if x = k then Some v else if x \<in> set (evict m k) then None else m x)"

definition bpf_ktime_get_ns :: "kenv \<Rightarrow> bpf_state \<Rightarrow> u64 \<times> bpf_state" where
  "bpf_ktime_get_ns env st =
     (ke_ktime env (ktime_calls st), st\<lparr>ktime_calls := ktime_calls st + 1\<rparr>)"

definition bpf_ringbuf_reserve :: "kenv \<Rightarrow> nat \<Rightarrow> bpf_state \<Rightarrow> u8 list option \<times> bpf_state" where
  "bpf_ringbuf_reserve env sz st =
     (if ke_room env (reserve_calls st) sz then Some (ke_memory env (reserve_calls st) sz) else None,
      st\<lparr>reserve_calls := reserve_calls st + 1\<rparr>)"

definition bpf_ringbuf_submit :: "u8 list \<Rightarrow> bpf_state \<Rightarrow> bpf_state" where
  "bpf_ringbuf_submit rec st = st\<lparr>trace_event_map := trace_event_map st @ [rec]\<rparr>"

definition printk :: "string \<Rightarrow> u64 list \<Rightarrow> bpf_state \<Rightarrow> bpf_state" where
  "printk fmt args st =
     (case bpf_printk [] fmt args of
        None \<Rightarrow> st
      | Some c \<Rightarrow> st\<lparr>printk_log := printk_log st @ [c]\<rparr>)"

definition get_transaction_id :: "kenv \<Rightarrow> bpf_state \<Rightarrow> u64 \<times> bpf_state" where
  "get_transaction_id env st = bpf_ktime_get_ns env st"

text \<open>The counter of a slot exists for the slots below the size of the array.\<close>

definition inc_overflow :: "kenv \<Rightarrow> u32 \<Rightarrow> bpf_state \<Rightarrow> bpf_state" where
  "inc_overflow env slot st =
     (if unat slot < RB_OVF_SLOT_COUNT
      then st\<lparr>ringbuf_overflow_map :=
             (ringbuf_overflow_map st)
               (slot := (ringbuf_overflow_map st slot)
                          (ke_cpu env := ringbuf_overflow_map st slot (ke_cpu env) + 1))\<rparr>
      else st)"

text \<open>
  \<^verbatim>\<open>BPF_CORE_READ\<close> of an integer or a pointer on the running kernel. A program whose
  relocations do not resolve is not loaded, so the value 0 for them is never seen at run time.
\<close>

definition core_value :: "kenv \<Rightarrow> string \<Rightarrow> u64 \<Rightarrow> accessor list \<Rightarrow> 'a::len word" where
  "core_value env tag src accs =
     (case BPF_CORE_READ (ke_read_kernel env) vmlinux_types (ke_btf env) tag src accs of
        Some bs \<Rightarrow> of_le bs
      | None \<Rightarrow> 0)"

text \<open>The address \<^verbatim>\<open>&p->f\<close> of a member, relocated.\<close>

definition core_address :: "kenv \<Rightarrow> string \<Rightarrow> u64 \<Rightarrow> accessor \<Rightarrow> u64" where
  "core_address env tag src acc =
     (case core_offset (ke_btf env) tag acc of Some off \<Rightarrow> src + of_nat off | None \<Rightarrow> 0)"

text \<open>The assignments \<^verbatim>\<open>p->f = v\<close> to the members of a reserved record, in order.\<close>

definition store_fields :: "ctype \<Rightarrow> (string \<times> u8 list) list \<Rightarrow> u8 list \<Rightarrow> u8 list" where
  "store_fields t fs buf = fold (\<lambda>(f, bs). assign t f bs) fs buf"

text \<open>The high and the low half of the pairs that \<^verbatim>\<open>bpf_get_current_*\<close> return.\<close>

definition high32 :: "u64 \<Rightarrow> u32" where
  "high32 w = ucast (drop_bit 32 w)"

definition low32 :: "u64 \<Rightarrow> u32" where
  "low32 w = ucast (w AND 0xFFFFFFFF)"

section \<open>The interface of an evicting hash map\<close>

text \<open>
  The programs rely on these laws of a map: an update stores its own entry and at most removes
  others, a deletion removes its own entry and nothing else.
\<close>

locale evicting_map =
  fixes lookup :: "'m \<Rightarrow> 'k \<Rightarrow> 'v option"
    and update :: "'m \<Rightarrow> 'k \<Rightarrow> 'v \<Rightarrow> 'm"
    and delete :: "'m \<Rightarrow> 'k \<Rightarrow> 'm"
  assumes lookup_update: "lookup (update m k v) k = Some v"
    and lookup_update_other: "k' \<noteq> k \<Longrightarrow> lookup (update m k v) k' \<in> {None, lookup m k'}"
    and lookup_delete: "lookup (delete m k) k = None"
    and lookup_delete_other: "k' \<noteq> k \<Longrightarrow> lookup (delete m k) k' = lookup m k'"
begin

text \<open>After any updates of other keys an entry is the old one or gone.\<close>

lemma lookup_updates_other:
  "k \<notin> fst ` set us \<Longrightarrow> lookup (fold (\<lambda>(k, v) m. update m k v) us m) k \<in> {None, lookup m k}"
proof (induction us arbitrary: m)
  case (Cons u us)
  obtain k1 v1 where u: "u = (k1, v1)" by fastforce
  with Cons have "lookup (fold (\<lambda>(k, v) m. update m k v) us (update m k1 v1)) k
      \<in> {None, lookup (update m k1 v1) k}" by simp
  moreover have "lookup (update m k1 v1) k \<in> {None, lookup m k}"
    using Cons.prems u by (intro lookup_update_other) auto
  ultimately show ?case using u by auto
qed simp

text \<open>No entry appears that was not stored: what a lookup finds was there or is the update.\<close>

lemma lookup_update_origin:
  "lookup (update m k v) k' = Some w \<Longrightarrow> (k' = k \<and> w = v) \<or> lookup m k' = Some w"
  using lookup_update [of m k v] lookup_update_other [of k' k m v] by (cases "k' = k") auto

lemma lookup_delete_origin:
  "lookup (delete m k) k' = Some w \<Longrightarrow> k' \<noteq> k \<and> lookup m k' = Some w"
  using lookup_delete [of m k] lookup_delete_other [of k' k m] by (cases "k' = k") auto

end

interpretation lru: evicting_map bpf_map_lookup_elem "lru_map_update_elem evict" bpf_map_delete_elem
  for evict :: "('k \<rightharpoonup> 'v) \<Rightarrow> 'k \<Rightarrow> 'k list"
  by unfold_locales (auto simp: bpf_map_lookup_elem_def lru_map_update_elem_def bpf_map_delete_elem_def)

section \<open>Lemmas on the helper calls\<close>

lemma reserve_simps [simp]:
  "fst (bpf_ringbuf_reserve env n st) =
     (if ke_room env (reserve_calls st) n then Some (ke_memory env (reserve_calls st) n) else None)"
  "snd (bpf_ringbuf_reserve env n st) = st\<lparr>reserve_calls := reserve_calls st + 1\<rparr>"
  by (simp_all add: bpf_ringbuf_reserve_def)

lemma not_bit_u32 [simp]: "\<not> bit (u :: u32) (32 + n)"
  using bit_imp_le_length [of u "32 + n"] by auto

lemma high32_pair: "high32 (push_bit 32 (ucast g) OR ucast (u :: u32)) = (g :: u32)"
  by (rule bit_word_eqI)
    (auto simp: high32_def bit_ucast_iff bit_drop_bit_eq bit_or_iff bit_push_bit_iff dest: bit_imp_le_length)

lemma low32_ucast: "low32 w = ucast w"
proof -
  have "(0xFFFFFFFF :: u64) = mask 32" by (simp add: mask_eq_exp_minus_1)
  then show ?thesis by (auto simp: low32_def bit_eq_iff bit_ucast_iff bit_and_iff bit_mask_iff)
qed

lemma low32_pair: "low32 (push_bit 32 (ucast (g :: u32)) OR ucast u) = (u :: u32)"
  by (auto simp: low32_ucast bit_eq_iff bit_ucast_iff bit_or_iff bit_push_bit_iff)

section \<open>Reads of kernel structures on the running kernel\<close>

text \<open>The members that the programs read, in the types they are compiled against.\<close>

lemma vm_members:
  "member_in vmlinux_types ''binder_transaction_data'' [''code''] = Some (128, TInt 4 False)"
  "member_in vmlinux_types ''binder_transaction_data'' [''flags''] = Some (160, TInt 4 False)"
  "member_in vmlinux_types ''binder_transaction_data'' [''data_size''] = Some (256, TInt 8 False)"
  "member_in vmlinux_types ''binder_thread'' [''transaction_stack''] = Some (512, TPtr ''binder_transaction'')"
  "member_in vmlinux_types ''binder_transaction'' [''debug_id''] = Some (0, TInt 4 True)"
  "member_in vmlinux_types ''binder_transaction'' [''to_proc''] = Some (384, TPtr ''binder_proc'')"
  "member_in vmlinux_types ''binder_transaction'' [''sender_euid''] = Some (928, vm_kuid_t)"
  "member_in vmlinux_types ''binder_proc'' [''tsk''] = Some (576, TPtr ''task_struct'')"
  "member_in vmlinux_types ''binder_proc'' [''cred''] = Some (640, TPtr ''cred'')"
  "member_in vmlinux_types ''binder_proc'' [''context''] = Some (4608, TPtr ''binder_context'')"
  "member_in vmlinux_types ''binder_context'' [''name''] = Some (512, TPtr [])"
  "member_in vmlinux_types ''cred'' [''euid'', ''val''] = Some (160, TInt 4 False)"
  "member_in vmlinux_types ''task_struct'' [''pid''] = Some (11968, TInt 4 True)"
  by (simp_all add: member_in_def vmlinux_types_def binder_transaction_data_fields binder_thread_fields
      binder_transaction_fields binder_proc_fields binder_context_fields cred_fields task_struct_fields
      del: find_path.simps)

lemma csize_base [simp]: "csize (TInt n s) = n" "csize (TPtr g) = 8" "csize vm_kuid_t = 4"
  by (simp_all add: csize_def layout_simps)

text \<open>A read through one, two or three members: sizes of the local types, offsets of the target.\<close>

lemma core_value_1:
  assumes "member_in vmlinux_types tag a = Some (p, t)" "core_offset (ke_btf env) tag a = Some off"
  shows "core_value env tag src [a] = of_le (ke_read_kernel env (src + of_nat off) (csize t))"
  using assms
  by (simp add: core_value_def BPF_CORE_READ_def BPF_CORE_READ_INTO_def core_read_chase macro_read_def)

lemma core_value_2:
  assumes "member_in vmlinux_types tag a = Some (p, TPtr g)" "core_offset (ke_btf env) tag a = Some off"
    "member_in vmlinux_types g b = Some (p', t)" "core_offset (ke_btf env) g b = Some off'"
    "ke_read_kernel env (src + of_nat off) 8 = le_bytes 8 (q :: u64)"
  shows "core_value env tag src [a, b] = of_le (ke_read_kernel env (q + of_nat off') (csize t))"
  using assms
  by (simp add: core_value_def BPF_CORE_READ_def BPF_CORE_READ_INTO_def core_read_chase macro_read_def
      of_le_le_bytes)

lemma core_value_3:
  assumes "member_in vmlinux_types tag a = Some (p, TPtr g)" "core_offset (ke_btf env) tag a = Some off"
    "member_in vmlinux_types g b = Some (p', TPtr h)" "core_offset (ke_btf env) g b = Some off'"
    "member_in vmlinux_types h c = Some (p'', t)" "core_offset (ke_btf env) h c = Some off''"
    "ke_read_kernel env (src + of_nat off) 8 = le_bytes 8 (q :: u64)"
    "ke_read_kernel env (q + of_nat off') 8 = le_bytes 8 (r :: u64)"
  shows "core_value env tag src [a, b, c] = of_le (ke_read_kernel env (r + of_nat off'') (csize t))"
  using assms
  by (simp add: core_value_def BPF_CORE_READ_def BPF_CORE_READ_INTO_def core_read_chase macro_read_def
      of_le_le_bytes)

end
