(* ===== verification/BT_MainProbe.thy ===== *)
theory BT_MainProbe
  imports BT_Runtime
begin

text \<open>
  The main program \<^verbatim>\<open>kprobe_binder_transaction\<close> of \<^verbatim>\<open>binder_transaction.byte.c\<close>: it runs at the
  entry of the kernel function \<^verbatim>\<open>binder_transaction(proc, thread, tr, reply)\<close>, filters by user,
  leaves the transaction id for the cookie program, and submits one stack record and the
  payload in chunks of 1024 bytes.
\<close>

section \<open>Reading the transaction\<close>

text \<open>
  Of a reply: the debug id and the sender of the transaction that it answers, 0 when the
  thread has none.
\<close>

definition reply_origin :: "kenv \<Rightarrow> u64 \<Rightarrow> u64 \<times> u32" where
  "reply_origin env thread =
     (if thread = 0 then (0, 0)
      else let in_reply_to = core_value env ''binder_thread'' thread [[''transaction_stack'']] :: u64
        in if in_reply_to = 0 then (0, 0)
           else (scast (core_value env ''binder_transaction'' in_reply_to [[''debug_id'']] :: 32 word),
                 core_value env ''binder_transaction'' in_reply_to [[''sender_euid'']]))"

text \<open>The device, from the first letter of the name of the sender's context.\<close>

definition binder_dev_of :: "kenv \<Rightarrow> u64 \<Rightarrow> u8" where
  "binder_dev_of env sender_proc =
     (if sender_proc = 0 then BINDER_DEV_UNKNOWN
      else let ctx_name = core_value env ''binder_proc'' sender_proc [[''context''], [''name'']] :: u64
        in if ctx_name = 0 then BINDER_DEV_UNKNOWN
           else let first_ch = of_le (ke_read_kernel env ctx_name 1) :: u8
             in if first_ch = 98 then BINDER_DEV_BINDER
                else if first_ch = 104 then BINDER_DEV_HWBINDER
                else if first_ch = 118 then BINDER_DEV_VNDBINDER
                else BINDER_DEV_UNKNOWN)"

text \<open>The member \<^verbatim>\<open>ptr.buffer\<close> of the union that is read from \<^verbatim>\<open>tr->data\<close>, after the filter and the update of
  \<^verbatim>\<open>tid_to_txid_map\<close>; reading changes no state.\<close>

definition read_buffer :: "kenv \<Rightarrow> u64 \<Rightarrow> u64" where
  "read_buffer env tr =
     of_le (take 8 (ke_read env (core_address env ''binder_transaction_data'' tr [''data'']) 16))"

text \<open>The local variables that every chunk record is filled from.\<close>

record main_locals =
  ml_is_reply :: u8
  ml_binder_dev :: u8
  ml_pid :: u32
  ml_uid :: u32
  ml_code :: u32
  ml_flags :: u32
  ml_data_size :: u64
  ml_transaction_id :: u64
  ml_target_ref :: u64
  ml_pair_id :: u64
  ml_buffer :: u64

definition read_locals :: "kenv \<Rightarrow> user_pt_regs \<Rightarrow> u64 \<Rightarrow> main_locals" where
  "read_locals env ctx transaction_id =
     (let reply = (ucast (PT_REGS PARM4 ctx) :: u32); tr = PT_REGS PARM3 ctx
      in \<lparr>ml_is_reply = (if reply \<noteq> 0 then 1 else 0),
          ml_binder_dev = binder_dev_of env (PT_REGS PARM1 ctx),
          ml_pid = high32 (ke_pid_tgid env),
          ml_uid = high32 (ke_uid_gid env),
          ml_code = core_value env ''binder_transaction_data'' tr [[''code'']],
          ml_flags = core_value env ''binder_transaction_data'' tr [[''flags'']],
          ml_data_size = core_value env ''binder_transaction_data'' tr [[''data_size'']],
          ml_transaction_id = transaction_id,
          ml_target_ref =
            of_le (ke_read env (core_address env ''binder_transaction_data'' tr [''target'']) 8),
          ml_pair_id = (if reply \<noteq> 0 then fst (reply_origin env (PT_REGS PARM2 ctx)) else 0),
          ml_buffer = read_buffer env tr\<rparr>)"

section \<open>The stack record\<close>

text \<open>\<^verbatim>\<open>(uret < 0) ? -1 : (s16)(uret / sizeof(u64))\<close>\<close>

definition ustack_depth_of :: "64 word \<Rightarrow> s16" where
  "ustack_depth_of uret = (if uret <s 0 then - 1 else ucast (uret div 8))"

definition fill_stack_event :: "kenv \<Rightarrow> u64 \<Rightarrow> u8 list \<Rightarrow> u8 list" where
  "fill_stack_event env transaction_id mem =
     (let b = store_fields stack_trace_event_t
                [(''magic'', le_bytes 8 STACK_RECORD_MAGIC),
                 (''transaction_id'', le_bytes 8 transaction_id),
                 (''pid'', le_bytes 4 (high32 (ke_pid_tgid env))),
                 (''tid'', le_bytes 4 (ucast (ke_pid_tgid env) :: u32)),
                 (''reserved'', le_bytes 4 (0 :: u32)),
                 (''kstack_depth'', le_bytes 2 (0 :: s16))] mem;
          (uret, us) = ke_get_stack env (fetch stack_trace_event_t ''ustack'' b)
      in store_fields stack_trace_event_t
           [(''ustack'', us), (''ustack_depth'', le_bytes 2 (ustack_depth_of uret))] b)"

definition submit_stack :: "kenv \<Rightarrow> u64 \<Rightarrow> bpf_state \<Rightarrow> bpf_state" where
  "submit_stack env transaction_id st =
     (case bpf_ringbuf_reserve env (csize stack_trace_event_t) st of
        (None, st) \<Rightarrow> st
      | (Some mem, st) \<Rightarrow> bpf_ringbuf_submit (fill_stack_event env transaction_id mem) st)"

section \<open>The chunk loop\<close>

text \<open>\<^verbatim>\<open>u32 total_chunks = (data_size + CHUNK_SIZE - 1) / CHUNK_SIZE\<close>, computed at 64 bits.\<close>

definition total_chunks :: "u64 \<Rightarrow> u32" where
  "total_chunks data_size = ucast ((data_size + of_nat CHUNK_SIZE - 1) div of_nat CHUNK_SIZE)"

definition chunk_size :: "u64 \<Rightarrow> u32 \<Rightarrow> u64" where
  "chunk_size data_size i =
     (if ucast ((i + 1) * of_nat CHUNK_SIZE) > data_size
      then data_size - ucast (i * of_nat CHUNK_SIZE) else of_nat CHUNK_SIZE)"

definition probe_read_size :: "u64 \<Rightarrow> u32 \<Rightarrow> u32" where
  "probe_read_size data_size i =
     (let n = chunk_size data_size i
      in ucast (if n < of_nat CHUNK_SIZE then n else of_nat CHUNK_SIZE))"

definition chunk_address :: "u64 \<Rightarrow> u32 \<Rightarrow> u64" where
  "chunk_address buffer i = (buffer + ucast (i * of_nat CHUNK_SIZE)) AND 0x00FFFFFFFFFFFFFF"

definition fill_trace_event :: "kenv \<Rightarrow> main_locals \<Rightarrow> u32 \<Rightarrow> u8 list \<Rightarrow> u8 list" where
  "fill_trace_event env l i mem =
     store_fields binder_trace_event_t
       [(''kind'', le_bytes 1 EVT_KIND_MAIN),
        (''is_reply'', le_bytes 1 (ml_is_reply l)),
        (''binder_dev'', le_bytes 1 (ml_binder_dev l)),
        (''target_kind'', le_bytes 1 TARGET_KIND_UNKNOWN),
        (''pid'', le_bytes 4 (ml_pid l)),
        (''uid'', le_bytes 4 (ml_uid l)),
        (''code'', le_bytes 4 (ml_code l)),
        (''flags'', le_bytes 4 (ml_flags l)),
        (''data_size'', le_bytes 8 (ml_data_size l)),
        (''transaction_id'', le_bytes 8 (ml_transaction_id l)),
        (''chunk_index'', le_bytes 8 (ucast i :: u64)),
        (''cookie'', le_bytes 8 (0 :: u64)),
        (''to_pid'', le_bytes 4 (0 :: u32)),
        (''to_uid'', le_bytes 4 (0 :: u32)),
        (''reserved2'', le_bytes 4 (0 :: u32)),
        (''target_ref'', le_bytes 8 (ml_target_ref l)),
        (''pair_id'', le_bytes 8 (ml_pair_id l)),
        (''chunk_data'', ke_read_user env (chunk_address (ml_buffer l) i)
                           (unat (probe_read_size (ml_data_size l) i)))] mem"

text \<open>\<^verbatim>\<open>for (u32 i = 0; i < MAX_CHUNKS; i++)\<close>; the first argument counts the iterations left.\<close>

fun chunk_loop :: "kenv \<Rightarrow> nat \<Rightarrow> u32 \<Rightarrow> u32 \<Rightarrow> main_locals \<Rightarrow> bpf_state \<Rightarrow> bpf_state" where
  "chunk_loop env 0 i tot l st = st"
| "chunk_loop env (Suc n) i tot l st =
     (if tot \<le> i then st
      else case bpf_ringbuf_reserve env (csize binder_trace_event_t) st of
        (None, st) \<Rightarrow>
          printk ''kprobe_binder_transaction error: failed to reserve ring buffer space'' [] st
      | (Some mem, st) \<Rightarrow>
          chunk_loop env n (i + 1) tot l (bpf_ringbuf_submit (fill_trace_event env l i mem) st))"

section \<open>The program\<close>

text \<open>The format ends with a full-width colon, three bytes in the source's encoding.\<close>

definition oversize_fmt :: string where
  "oversize_fmt =
     ''kprobe_binder_transaction error: data size is too long'' @ [CHR 0xEF, CHR 0xBC, CHR 0x9A] @ ''%d''"

definition effective_uid :: "kenv \<Rightarrow> user_pt_regs \<Rightarrow> u32" where
  "effective_uid env ctx =
     (if (ucast (PT_REGS PARM4 ctx) :: u32) \<noteq> 0 then snd (reply_origin env (PT_REGS PARM2 ctx))
      else high32 (ke_uid_gid env))"

text \<open>\<^verbatim>\<open>(conf->uid != 0) && (conf->uid != uid)\<close>\<close>

definition filtered_out :: "trace_config \<Rightarrow> u32 \<Rightarrow> bool" where
  "filtered_out conf uid \<longleftrightarrow> tc_uid conf \<noteq> 0 \<and> tc_uid conf \<noteq> uid"

definition kprobe_binder_transaction :: "kenv \<Rightarrow> user_pt_regs \<Rightarrow> bpf_state \<Rightarrow> bpf_state" where
  "kprobe_binder_transaction env ctx st =
     (case bpf_map_lookup_elem (trace_config_map st) 0 of
        None \<Rightarrow> st
      | Some conf \<Rightarrow>
          (if PT_REGS PARM3 ctx = 0
           then printk ''kprobe_binder_transaction error: tr is null'' [] st
           else
             let (transaction_id, st) = get_transaction_id env st;
                 reply = (ucast (PT_REGS PARM4 ctx) :: u32);
                 l = read_locals env ctx transaction_id
             in if filtered_out conf (effective_uid env ctx) then st
                else
                  let st = (if reply = 0
                            then st\<lparr>tid_to_txid_map :=
                                   lru_map_update_elem (ke_evict env) (tid_to_txid_map st)
                                     (low32 (ke_pid_tgid env)) transaction_id\<rparr>
                            else st);
                      tot = total_chunks (ml_data_size l)
                  in if of_nat MAX_CHUNKS < tot then printk oversize_fmt [ml_data_size l] st
                     else chunk_loop env MAX_CHUNKS 0 tot l (submit_stack env transaction_id st)))"

section \<open>What a reader sees\<close>

text \<open>The record that a reader sees for chunk \<open>i\<close>, over reserved memory that held \<open>mem\<close>.\<close>

definition chunk_record :: "kenv \<Rightarrow> main_locals \<Rightarrow> u32 \<Rightarrow> u8 list \<Rightarrow> binder_trace_event" where
  "chunk_record env l i mem =
     (let n = unat (probe_read_size (ml_data_size l) i)
      in \<lparr>bte_kind = EVT_KIND_MAIN, bte_is_reply = ml_is_reply l, bte_binder_dev = ml_binder_dev l,
          bte_target_kind = TARGET_KIND_UNKNOWN, bte_pid = ml_pid l, bte_uid = ml_uid l,
          bte_code = ml_code l, bte_flags = ml_flags l, bte_data_size = ml_data_size l,
          bte_transaction_id = ml_transaction_id l, bte_chunk_index = ucast i, bte_cookie = 0,
          bte_to_pid = 0, bte_to_uid = 0, bte_reserved2 = 0, bte_target_ref = ml_target_ref l,
          bte_pair_id = ml_pair_id l,
          bte_chunk_data =
            ke_read_user env (chunk_address (ml_buffer l) i) n @ drop n (slice_at 88 1024 mem)\<rparr>)"

definition stack_record :: "kenv \<Rightarrow> u64 \<Rightarrow> u8 list \<Rightarrow> stack_trace_event" where
  "stack_record env transaction_id mem =
     (let (uret, us) = ke_get_stack env (slice_at 288 256 mem)
      in \<lparr>ste_magic = STACK_RECORD_MAGIC, ste_transaction_id = transaction_id,
          ste_pid = high32 (ke_pid_tgid env), ste_tid = ucast (ke_pid_tgid env),
          ste_kstack_depth = 0, ste_ustack_depth = ustack_depth_of uret, ste_reserved = 0,
          ste_kstack = words8 32 (slice_at 32 256 mem), ste_ustack = words8 32 us\<rparr>)"

text \<open>
  The records that one run adds, for \<open>m\<close> chunks of which those before the first failing
  reservation are submitted. Reservation \<open>b\<close> is the one of the stack record.
\<close>

definition submitted_chunks :: "kenv \<Rightarrow> main_locals \<Rightarrow> nat \<Rightarrow> nat \<Rightarrow> u8 list list" where
  "submitted_chunks env l b m =
     map (\<lambda>k. fill_trace_event env l (of_nat k) (ke_memory env (b + k) 1112))
       (takeWhile (\<lambda>k. ke_room env (b + k) 1112) [0..<m])"

definition submitted_stack :: "kenv \<Rightarrow> u64 \<Rightarrow> nat \<Rightarrow> u8 list list" where
  "submitted_stack env transaction_id b =
     (if ke_room env b 544 then [fill_stack_event env transaction_id (ke_memory env b 544)] else [])"

text \<open>A run that passes the filters, and the variables it then works with.\<close>

definition traced :: "kenv \<Rightarrow> user_pt_regs \<Rightarrow> bpf_state \<Rightarrow> bool" where
  "traced env ctx st \<longleftrightarrow>
     (\<exists>conf. trace_config_map st 0 = Some conf \<and> \<not> filtered_out conf (effective_uid env ctx)) \<and>
     PT_REGS PARM3 ctx \<noteq> 0"

definition tx_locals :: "kenv \<Rightarrow> user_pt_regs \<Rightarrow> bpf_state \<Rightarrow> main_locals" where
  "tx_locals env ctx st = read_locals env ctx (ke_ktime env (ktime_calls st))"

definition is_request :: "user_pt_regs \<Rightarrow> bool" where
  "is_request ctx \<longleftrightarrow> (ucast (PT_REGS PARM4 ctx) :: u32) = 0"

text \<open>
  The memory of the sender: \<^verbatim>\<open>bpf_probe_read_user\<close> copies the bytes at the address. The address
  that the program reads from has the tag byte of the pointer cleared.
\<close>

definition user_bytes :: "(u64 \<Rightarrow> u8) \<Rightarrow> u64 \<Rightarrow> nat \<Rightarrow> u8 list" where
  "user_bytes um a n = map (\<lambda>j. um (a + of_nat j)) [0..<n]"

definition reads_memory :: "reader \<Rightarrow> (u64 \<Rightarrow> u8) \<Rightarrow> bool" where
  "reads_memory rd um \<longleftrightarrow> (\<forall>a n. rd a n = user_bytes um a n)"

definition untagged :: "u64 \<Rightarrow> u64" where
  "untagged a = a AND 0x00FFFFFFFFFFFFFF"

text \<open>The records that a run adds to the ring buffer.\<close>

definition new_records :: "bpf_state \<Rightarrow> bpf_state \<Rightarrow> u8 list list" where
  "new_records st st' = drop (length (trace_event_map st)) (trace_event_map st')"

section \<open>Chunk arithmetic\<close>

lemmas probe_arith = total_chunks_def chunk_size_def probe_read_size_def CHUNK_SIZE_def MAX_CHUNKS_def

text \<open>The number of chunks as the 32-bit variable holds it.\<close>

lemma unat_total_chunks:
  assumes "unat d + 1023 < 2 ^ 64"
  shows "unat (total_chunks d) = (unat d + 1023) div 1024 mod 2 ^ 32"
proof -
  have "unat (d + 1024 - 1) = unat d + 1023"
    using assms by (simp add: unat_word_ariths)
  then show ?thesis
    by (simp add: total_chunks_def CHUNK_SIZE_def unat_ucast_mod unat_div)
qed

lemma unat_total_chunks_fits:
  assumes "unat d \<le> 16384"
  shows "unat (total_chunks d) = (unat d + 1023) div 1024" "unat (total_chunks d) \<le> 16"
proof -
  have "(unat d + 1023) div 1024 \<le> 16" using assms by simp
  then show "unat (total_chunks d) = (unat d + 1023) div 1024" "unat (total_chunks d) \<le> 16"
    using assms by (simp_all add: unat_total_chunks)
qed

lemma le_chunks: "(d :: nat) \<le> (d + 1023) div 1024 * 1024"
  using div_mult_mod_eq [of "d + 1023" 1024] mod_less_divisor [of 1024 "d + 1023"] by linarith

text \<open>Loop counters below 16 do not wrap; a chunk offset is a multiple of 1024.\<close>

lemma unat_chunk_offset:
  assumes "unat (i :: u32) \<le> 16"
  shows "unat (i * of_nat CHUNK_SIZE) = unat i * 1024"
    "unat (ucast (i * of_nat CHUNK_SIZE) :: u64) = unat i * 1024"
proof -
  show off: "unat (i * of_nat CHUNK_SIZE) = unat i * 1024"
    using assms by (simp add: CHUNK_SIZE_def unat_word_ariths)
  show "unat (ucast (i * of_nat CHUNK_SIZE) :: u64) = unat i * 1024"
    unfolding unat_ucast_mod off using assms by simp
qed

lemma unat_Suc_counter: "unat (i :: u32) < 16 \<Longrightarrow> unat (i + 1) = unat i + 1"
  by (simp add: unat_word_ariths)

text \<open>The bytes read for chunk \<open>i\<close>: a full chunk, or the rest for the last one.\<close>

lemma unat_chunk_size:
  assumes "unat (i :: u32) < 16" "unat i * 1024 \<le> unat d"
  shows "unat (chunk_size d i) = min 1024 (unat d - unat i * 1024)"
proof -
  have i1: "unat (i + 1) \<le> 16" and suc: "unat (i + 1) = unat i + 1"
    using assms(1) by (simp_all add: unat_Suc_counter)
  have i0: "unat i \<le> 16" using assms(1) by simp
  have cmp: "ucast ((i + 1) * of_nat CHUNK_SIZE) > d \<longleftrightarrow> unat d < (unat i + 1) * 1024"
    by (simp only: word_less_nat_alt unat_chunk_offset(2) [OF i1] suc)
  have le: "ucast (i * of_nat CHUNK_SIZE) \<le> d"
    by (simp only: word_le_nat_alt unat_chunk_offset(2) [OF i0] assms(2))
  have "unat (d - ucast (i * of_nat CHUNK_SIZE)) = unat d - unat i * 1024"
    by (simp only: unat_sub [OF le] unat_chunk_offset(2) [OF i0])
  moreover have "unat (of_nat CHUNK_SIZE :: u64) = 1024" by (simp add: CHUNK_SIZE_def)
  ultimately show ?thesis
    unfolding chunk_size_def using cmp by (auto simp: min_def)
qed

lemma unat_probe_read_size:
  assumes "unat (i :: u32) < 16" "unat i * 1024 \<le> unat d"
  shows "unat (probe_read_size d i) = min 1024 (unat d - unat i * 1024)"
proof -
  have c: "unat (of_nat CHUNK_SIZE :: u64) = 1024" by (simp add: CHUNK_SIZE_def)
  show ?thesis
    unfolding probe_read_size_def Let_def unat_ucast_mod
    using unat_chunk_size [OF assms] by (simp add: word_less_nat_alt c)
qed

text \<open>Whatever the size and the index, no more than the chunk array is read.\<close>

lemma probe_read_size_le: "unat (probe_read_size d i) \<le> 1024"
proof -
  have c: "unat (of_nat CHUNK_SIZE :: u64) = 1024" by (simp add: CHUNK_SIZE_def)
  show ?thesis
    unfolding probe_read_size_def Let_def unat_ucast_mod
    by (rule order.trans [OF mod_less_eq_dividend]) (auto simp: word_less_nat_alt c)
qed

section \<open>The records hold what was stored\<close>

lemma kernel_lawsD:
  assumes "kernel_laws env"
  shows "length (ke_read_kernel env a n) = n" "length (ke_read env a n) = n"
    "length (ke_read_user env a n) = n" "length (ke_memory env k n) = n"
    "length (snd (ke_get_stack env b)) = length b"
  using assms by (simp_all add: kernel_laws_def)

lemma fill_trace_event_writes:
  "fill_trace_event env l i mem =
     write_at 88 (ke_read_user env (chunk_address (ml_buffer l) i) (unat (probe_read_size (ml_data_size l) i)))
       (writes [(0, le_bytes 1 EVT_KIND_MAIN), (1, le_bytes 1 (ml_is_reply l)),
          (2, le_bytes 1 (ml_binder_dev l)), (3, le_bytes 1 TARGET_KIND_UNKNOWN),
          (4, le_bytes 4 (ml_pid l)), (8, le_bytes 4 (ml_uid l)), (12, le_bytes 4 (ml_code l)),
          (16, le_bytes 4 (ml_flags l)), (24, le_bytes 8 (ml_data_size l)),
          (32, le_bytes 8 (ml_transaction_id l)), (40, le_bytes 8 (ucast i :: u64)),
          (48, le_bytes 8 (0 :: u64)), (56, le_bytes 4 (0 :: u32)), (60, le_bytes 4 (0 :: u32)),
          (64, le_bytes 4 (0 :: u32)), (72, le_bytes 8 (ml_target_ref l)), (80, le_bytes 8 (ml_pair_id l))] mem)"
  by (simp add: fill_trace_event_def store_fields_def writes_def trace_event_assign)

lemma load_fill_trace_event:
  assumes "kernel_laws env" "length mem = 1112"
  shows "load_trace_event (fill_trace_event env l i mem) = chunk_record env l i mem"
  using assms probe_read_size_le [of "ml_data_size l" i]
  by (simp add: load_trace_event_def fill_trace_event_writes trace_event_fetch chunk_record_def Let_def
      slice_at_write_at_before slice_at_write_at_prefix length_writes slice_at_writes kernel_lawsD
      of_le_le_bytes del: One_nat_def)

lemma fill_stack_event_writes:
  assumes "kernel_laws env" "length mem = 544"
  shows "fill_stack_event env tx mem =
     (let (uret, us) = ke_get_stack env (slice_at 288 256 mem)
      in writes [(0, le_bytes 8 STACK_RECORD_MAGIC), (8, le_bytes 8 tx),
          (16, le_bytes 4 (high32 (ke_pid_tgid env))), (20, le_bytes 4 (ucast (ke_pid_tgid env) :: u32)),
          (28, le_bytes 4 (0 :: u32)), (24, le_bytes 2 (0 :: s16)), (288, us),
          (26, le_bytes 2 (ustack_depth_of uret))] mem)"
proof -
  let ?b = "writes [(0, le_bytes 8 STACK_RECORD_MAGIC), (8, le_bytes 8 tx),
          (16, le_bytes 4 (high32 (ke_pid_tgid env))), (20, le_bytes 4 (ucast (ke_pid_tgid env) :: u32)),
          (28, le_bytes 4 (0 :: u32)), (24, le_bytes 2 (0 :: s16))] mem"
  have "slice_at 288 256 ?b = slice_at 288 256 mem"
    using assms(2) by (subst slice_at_writes) simp_all
  then show ?thesis
    by (simp add: fill_stack_event_def store_fields_def stack_event_assign stack_event_fetch writes_def Let_def
        split: prod.splits)
qed

lemma load_fill_stack_event:
  assumes "kernel_laws env" "length mem = 544"
  shows "load_stack_event (fill_stack_event env tx mem) = stack_record env tx mem"
proof -
  obtain uret us where g: "ke_get_stack env (slice_at 288 256 mem) = (uret, us)" by fastforce
  have "length us = 256" using kernel_lawsD(5) [OF assms(1), of "slice_at 288 256 mem"] g assms(2) by simp
  then show ?thesis
    using assms(2) unfolding fill_stack_event_writes [OF assms] g
    by (simp add: load_stack_event_def stack_event_fetch stack_record_def Let_def g
        slice_at_writes of_le_le_bytes KSTACK_MAX_DEPTH_def USTACK_MAX_DEPTH_def)
qed

lemma length_fill_trace_event:
  assumes "kernel_laws env" "length mem = 1112"
  shows "length (fill_trace_event env l i mem) = 1112"
  using assms probe_read_size_le [of "ml_data_size l" i]
  by (simp add: fill_trace_event_writes length_writes kernel_lawsD)

lemma length_fill_stack_event:
  assumes "kernel_laws env" "length mem = 544"
  shows "length (fill_stack_event env tx mem) = 544"
proof -
  obtain uret us where g: "ke_get_stack env (slice_at 288 256 mem) = (uret, us)" by fastforce
  have "length us = 256" using kernel_lawsD(5) [OF assms(1), of "slice_at 288 256 mem"] g assms(2) by simp
  then show ?thesis using assms(2) unfolding fill_stack_event_writes [OF assms] g by (simp add: length_writes)
qed

section \<open>The chunk loop submits a prefix of the chunks\<close>

lemma takeWhile_upt_Suc:
  "takeWhile P [0..<Suc m] = (if P 0 then 0 # map Suc (takeWhile (P \<circ> Suc) [0..<m]) else [])"
proof -
  have "[0..<Suc m] = 0 # map Suc [0..<m]" by (simp add: upt_conv_Cons map_Suc_upt del: upt_Suc)
  then show ?thesis by (simp only: takeWhile.simps takeWhile_map)
qed

lemma submitted_chunks_shift:
  "map (\<lambda>k. fill_trace_event env l (i + of_nat k) (ke_memory env (b + k) 1112))
     (takeWhile (\<lambda>k. ke_room env (b + k) 1112) [0..<Suc m]) =
   (if ke_room env b 1112
    then fill_trace_event env l i (ke_memory env b 1112) #
         map (\<lambda>k. fill_trace_event env l (i + 1 + of_nat k) (ke_memory env (b + 1 + k) 1112))
           (takeWhile (\<lambda>k. ke_room env (b + 1 + k) 1112) [0..<m])
    else [])"
  by (simp add: takeWhile_upt_Suc comp_def ac_simps del: upt_Suc)

lemma chunk_loop_records:
  assumes "unat i + n \<le> 16"
  shows "trace_event_map (chunk_loop env n i tot l st) = trace_event_map st @
     map (\<lambda>k. fill_trace_event env l (i + of_nat k) (ke_memory env (reserve_calls st + k) 1112))
       (takeWhile (\<lambda>k. ke_room env (reserve_calls st + k) 1112) [0..<min n (unat tot - unat i)])"
  using assms
proof (induction n arbitrary: i st)
  case (Suc n)
  have suc: "unat (i + 1) = unat i + 1" using Suc.prems by (intro unat_Suc_counter) simp
  show ?case
  proof (cases "tot \<le> i")
    case True
    then show ?thesis by (simp add: word_le_nat_alt)
  next
    case False
    then have "min (Suc n) (unat tot - unat i) = Suc (min n (unat tot - unat (i + 1)))"
      using suc by (simp add: word_le_nat_alt min_def) arith
    with False Suc suc show ?thesis
      by (auto simp: bpf_ringbuf_reserve_def trace_event_size submitted_chunks_shift
          bpf_ringbuf_submit_def printk_def simp del: upt_Suc split: option.splits)
  qed
qed simp

section \<open>What a run leaves unchanged\<close>

lemma printk_frame [frame_simps]:
  "trace_config_map (printk fmt args st) = trace_config_map st"
  "pending_map (printk fmt args st) = pending_map st"
  "tid_to_txid_map (printk fmt args st) = tid_to_txid_map st"
  "ringbuf_overflow_map (printk fmt args st) = ringbuf_overflow_map st"
  "trace_event_map (printk fmt args st) = trace_event_map st"
  "ktime_calls (printk fmt args st) = ktime_calls st"
  "reserve_calls (printk fmt args st) = reserve_calls st"
  by (simp_all add: printk_def split: option.split)

lemma submit_frame [frame_simps]:
  "trace_config_map (bpf_ringbuf_submit r st) = trace_config_map st"
  "pending_map (bpf_ringbuf_submit r st) = pending_map st"
  "tid_to_txid_map (bpf_ringbuf_submit r st) = tid_to_txid_map st"
  "ringbuf_overflow_map (bpf_ringbuf_submit r st) = ringbuf_overflow_map st"
  "trace_event_map (bpf_ringbuf_submit r st) = trace_event_map st @ [r]"
  "ktime_calls (bpf_ringbuf_submit r st) = ktime_calls st"
  "reserve_calls (bpf_ringbuf_submit r st) = reserve_calls st"
  by (simp_all add: bpf_ringbuf_submit_def)

lemma chunk_loop_frame [frame_simps]:
  "trace_config_map (chunk_loop env n i tot l st) = trace_config_map st"
  "pending_map (chunk_loop env n i tot l st) = pending_map st"
  "tid_to_txid_map (chunk_loop env n i tot l st) = tid_to_txid_map st"
  "ringbuf_overflow_map (chunk_loop env n i tot l st) = ringbuf_overflow_map st"
  "ktime_calls (chunk_loop env n i tot l st) = ktime_calls st"
  by (induction n arbitrary: i st) (simp_all add: bpf_ringbuf_reserve_def frame_simps)

lemma submit_stack_frame [frame_simps]:
  "trace_config_map (submit_stack env tx st) = trace_config_map st"
  "pending_map (submit_stack env tx st) = pending_map st"
  "tid_to_txid_map (submit_stack env tx st) = tid_to_txid_map st"
  "ringbuf_overflow_map (submit_stack env tx st) = ringbuf_overflow_map st"
  "ktime_calls (submit_stack env tx st) = ktime_calls st"
  "reserve_calls (submit_stack env tx st) = reserve_calls st + 1"
  by (simp_all add: submit_stack_def bpf_ringbuf_reserve_def frame_simps)

lemma submit_stack_records [frame_simps]:
  "trace_event_map (submit_stack env tx st) =
     trace_event_map st @ submitted_stack env tx (reserve_calls st)"
  by (simp add: submit_stack_def submitted_stack_def bpf_ringbuf_reserve_def stack_event_size frame_simps)

section \<open>The program, branch by branch\<close>

lemma kprobe_untraced:
  assumes "\<not> traced env ctx st"
  shows "trace_event_map (kprobe_binder_transaction env ctx st) = trace_event_map st"
    "tid_to_txid_map (kprobe_binder_transaction env ctx st) = tid_to_txid_map st"
  using assms
  by (auto simp: kprobe_binder_transaction_def traced_def bpf_map_lookup_elem_def get_transaction_id_def
      bpf_ktime_get_ns_def frame_simps split: option.splits)

lemma kprobe_frame [frame_simps]:
  "trace_config_map (kprobe_binder_transaction env ctx st) = trace_config_map st"
  "pending_map (kprobe_binder_transaction env ctx st) = pending_map st"
  "ringbuf_overflow_map (kprobe_binder_transaction env ctx st) = ringbuf_overflow_map st"
  by (auto simp: kprobe_binder_transaction_def get_transaction_id_def bpf_ktime_get_ns_def Let_def
      frame_simps split: option.splits)

lemma kprobe_tid_map:
  assumes "traced env ctx st"
  shows "tid_to_txid_map (kprobe_binder_transaction env ctx st) =
    (if is_request ctx
     then lru_map_update_elem (ke_evict env) (tid_to_txid_map st) (low32 (ke_pid_tgid env))
            (ke_ktime env (ktime_calls st))
     else tid_to_txid_map st)"
  using assms
  by (auto simp: kprobe_binder_transaction_def traced_def is_request_def bpf_map_lookup_elem_def
      get_transaction_id_def bpf_ktime_get_ns_def Let_def frame_simps)

lemma kprobe_oversize:
  assumes "16 < total_chunks (ml_data_size (tx_locals env ctx st))"
  shows "trace_event_map (kprobe_binder_transaction env ctx st) = trace_event_map st"
  using assms
  by (auto simp: kprobe_binder_transaction_def tx_locals_def MAX_CHUNKS_def get_transaction_id_def
      bpf_ktime_get_ns_def Let_def frame_simps split: option.splits)

lemma kprobe_records:
  assumes "traced env ctx st" "total_chunks (ml_data_size (tx_locals env ctx st)) \<le> 16"
  shows "trace_event_map (kprobe_binder_transaction env ctx st) = trace_event_map st @
    submitted_stack env (ke_ktime env (ktime_calls st)) (reserve_calls st) @
    submitted_chunks env (tx_locals env ctx st) (reserve_calls st + 1)
      (unat (total_chunks (ml_data_size (tx_locals env ctx st))))"
proof -
  have "unat (total_chunks (ml_data_size (tx_locals env ctx st))) \<le> 16"
    using assms(2) by (simp add: word_le_nat_alt)
  then show ?thesis
    using assms
    by (auto simp: kprobe_binder_transaction_def traced_def bpf_map_lookup_elem_def tx_locals_def
        get_transaction_id_def bpf_ktime_get_ns_def Let_def frame_simps chunk_loop_records
        submitted_chunks_def MAX_CHUNKS_def)
qed

lemma kprobe_record_sizes:
  assumes "kernel_laws env"
  shows "\<exists>rs. trace_event_map (kprobe_binder_transaction env ctx st) = trace_event_map st @ rs
    \<and> length rs \<le> 17 \<and> (\<forall>r \<in> set rs. length r = 544 \<or> length r = 1112)"
proof (cases "traced env ctx st \<and> total_chunks (ml_data_size (tx_locals env ctx st)) \<le> 16")
  case True
  let ?l = "tx_locals env ctx st" and ?b = "reserve_calls st"
  let ?m = "unat (total_chunks (ml_data_size ?l))"
  have "?m \<le> 16" using True by (simp add: word_le_nat_alt)
  then have "length (submitted_chunks env ?l (?b + 1) ?m) \<le> 16"
    using length_takeWhile_le [of "\<lambda>k. ke_room env (?b + 1 + k) 1112" "[0..<?m]"]
    by (simp add: submitted_chunks_def)
  moreover have "length (submitted_stack env tx ?b) \<le> 1" for tx by (simp add: submitted_stack_def)
  moreover have "length r = 1112" if "r \<in> set (submitted_chunks env ?l (?b + 1) ?m)" for r
    using that length_fill_trace_event [OF assms] kernel_lawsD [OF assms] by (auto simp: submitted_chunks_def)
  moreover have "length r = 544" if "r \<in> set (submitted_stack env tx ?b)" for r tx
    using that length_fill_stack_event [OF assms] kernel_lawsD [OF assms]
    by (auto simp: submitted_stack_def split: if_splits)
  ultimately show ?thesis
    using True by (auto simp: kprobe_records intro: order.trans [OF add_mono])
next
  case False
  then have "trace_event_map (kprobe_binder_transaction env ctx st) = trace_event_map st"
    using kprobe_untraced(1) [of env ctx st] kprobe_oversize [of env ctx st] by (auto simp: not_le)
  then show ?thesis by simp
qed

section \<open>The chunks hold the payload\<close>

lemma untagged_take_bit: "untagged a = take_bit 56 a"
proof -
  have "(0x00FFFFFFFFFFFFFF :: u64) = mask 56" by (simp add: mask_eq_exp_minus_1)
  then show ?thesis by (simp add: untagged_def take_bit_eq_mask)
qed

lemma take_bit_56_add: "take_bit 56 (a + b :: u64) = take_bit 56 (take_bit 56 a + b)"
proof -
  have m: "x mod 2 ^ LENGTH(64) mod 2 ^ 56 = x mod 2 ^ 56" for x :: nat
    by (rule mod_mod_cancel) (simp add: le_imp_power_dvd)
  show ?thesis
    unfolding word_unat_eq_iff unsigned_take_bit_eq unat_word_ariths
    by (simp only: take_bit_eq_mod m mod_add_left_eq)
qed

lemma chunk_address_untagged:
  assumes "unat i \<le> 16" "unat (untagged a) + unat i * 1024 < 2 ^ 56"
  shows "chunk_address a i = untagged a + of_nat (unat i * 1024)"
proof -
  let ?o = "ucast (i * of_nat CHUNK_SIZE) :: u64"
  have off: "?o = of_nat (unat i * 1024)"
    unfolding unat_chunk_offset(2) [OF assms(1), symmetric] by (simp only: of_nat_unat ucast_id)
  have "unat (untagged a + ?o) = unat (untagged a) + unat i * 1024"
    using assms by (simp add: unat_word_ariths unat_chunk_offset)
  then have "unat (untagged a + ?o) < 2 ^ 56" using assms(2) by simp
  then have small: "take_bit 56 (untagged a + ?o) = untagged a + ?o"
    by (simp only: word_unat_eq_iff unsigned_take_bit_eq take_bit_nat_eq_self)
  have "chunk_address a i = take_bit 56 (a + ?o)"
    unfolding chunk_address_def untagged_def [symmetric] by (rule untagged_take_bit)
  also have "\<dots> = take_bit 56 (untagged a + ?o)"
    unfolding untagged_take_bit by (rule take_bit_56_add)
  finally show ?thesis using small off by simp
qed

lemma nth_user_bytes [simp]: "j < n \<Longrightarrow> user_bytes um a n ! j = um (a + of_nat j)"
  by (simp add: user_bytes_def)

lemma length_user_bytes [simp]: "length (user_bytes um a n) = n"
  by (simp add: user_bytes_def)

text \<open>Byte \<open>q\<close> of chunk \<open>k\<close> is byte \<open>k * 1024 + q\<close> of the payload.\<close>

lemma chunk_record_data:
  assumes mem: "length mem = 1112" and laws: "kernel_laws env" and um: "reads_memory (ke_read_user env) um"
    and a: "unat (untagged (ml_buffer l)) + unat (ml_data_size l) \<le> 2 ^ 56"
    and k: "k < 16" "q < 1024" "k * 1024 + q < unat (ml_data_size l)"
  shows "bte_chunk_data (chunk_record env l (of_nat k) mem) ! q =
    um (untagged (ml_buffer l) + of_nat (k * 1024 + q))"
proof -
  let ?i = "of_nat k :: u32"
  have i: "unat ?i = k" using k(1) by (simp add: unat_of_nat)
  have n: "unat (probe_read_size (ml_data_size l) ?i) = min 1024 (unat (ml_data_size l) - k * 1024)"
    using unat_probe_read_size [of ?i] i k by simp
  have "chunk_address (ml_buffer l) ?i = untagged (ml_buffer l) + of_nat (k * 1024)"
    using chunk_address_untagged [of ?i] i k a by simp
  moreover have "q < unat (ml_data_size l) - k * 1024" using k by simp
  ultimately show ?thesis
    using um k by (simp add: chunk_record_def Let_def n nth_append reads_memory_def add.assoc)
qed

lemma length_chunk_record:
  assumes "length mem = 1112" "kernel_laws env"
  shows "length (bte_chunk_data (chunk_record env l i mem)) = 1024"
  using assms probe_read_size_le [of "ml_data_size l" i]
  by (simp add: chunk_record_def Let_def kernel_lawsD)

lemma submitted_chunks_room:
  assumes "kernel_laws env" "\<And>k. k < m \<Longrightarrow> ke_room env (b + k) 1112"
  shows "map load_trace_event (submitted_chunks env l b m) =
    map (\<lambda>k. chunk_record env l (of_nat k) (ke_memory env (b + k) 1112)) [0..<m]"
proof -
  have "takeWhile (\<lambda>k. ke_room env (b + k) 1112) [0..<m] = [0..<m]"
    using assms(2) by (simp add: takeWhile_eq_all_conv)
  then show ?thesis
    using assms(1) unfolding submitted_chunks_def
    by (simp only:) (simp add: load_fill_trace_event kernel_lawsD)
qed

lemma length_submitted_chunks:
  assumes "\<And>k. k < m \<Longrightarrow> ke_room env (b + k) 1112"
  shows "length (submitted_chunks env l b m) = m"
proof -
  have "takeWhile (\<lambda>k. ke_room env (b + k) 1112) [0..<m] = [0..<m]"
    using assms by (simp add: takeWhile_eq_all_conv)
  then show ?thesis unfolding submitted_chunks_def by (simp only: length_map length_upt)
qed

lemma submitted_chunks_set:
  assumes "kernel_laws env" "e \<in> set (submitted_chunks env l b m)"
  shows "\<exists>k < m. load_trace_event e = chunk_record env l (of_nat k) (ke_memory env (b + k) 1112)"
  using assms(2) load_fill_trace_event [OF assms(1)] kernel_lawsD(4) [OF assms(1)]
  by (auto simp: submitted_chunks_def dest!: set_takeWhileD)

lemma submitted_payload:
  assumes laws: "kernel_laws env" and um: "reads_memory (ke_read_user env) um"
    and a: "unat (untagged (ml_buffer l)) + unat (ml_data_size l) \<le> 2 ^ 56"
    and d: "unat (ml_data_size l) \<le> 16384" and m: "m = unat (total_chunks (ml_data_size l))"
    and room: "\<And>k. k < m \<Longrightarrow> ke_room env (b + k) 1112"
  shows "take (unat (ml_data_size l))
      (concat (map bte_chunk_data (map load_trace_event (submitted_chunks env l b m)))) =
    user_bytes um (untagged (ml_buffer l)) (unat (ml_data_size l))"
proof -
  let ?c = "\<lambda>k. bte_chunk_data (chunk_record env l (of_nat k) (ke_memory env (b + k) 1112))"
  let ?p = "user_bytes um (untagged (ml_buffer l)) (unat (ml_data_size l))"
  have "m \<le> 16" using unat_total_chunks_fits(2) [OF d] m by simp
  have le: "unat (ml_data_size l) \<le> m * 1024"
    unfolding m unat_total_chunks_fits(1) [OF d] by (rule le_chunks)
  have "take (length ?p) (concat (map ?c [0..<m])) = ?p"
  proof (rule take_concat_blocks [where n = 1024])
    show "length (?c k) = 1024" for k using laws by (simp add: length_chunk_record kernel_lawsD)
    show "length ?p \<le> m * 1024" using le by simp
    show "?c k ! q = ?p ! (k * 1024 + q)" if "k < m" "q < 1024" "k * 1024 + q < length ?p" for k q
      using that \<open>m \<le> 16\<close> chunk_record_data [OF kernel_lawsD(4) [OF laws] laws um a, of k q] by simp
  qed
  then show ?thesis
    by (simp only: submitted_chunks_room [OF laws room] map_map comp_def length_user_bytes)
qed

end
