(* ===== verification/BT_CookieProbe.thy ===== *)
theory BT_CookieProbe
  imports BT_MainProbe
begin

text \<open>
  The second program on the same kernel function, \<^verbatim>\<open>kprobe_binder_transaction_cookie\<close> of
  \<^verbatim>\<open>cookie_kprobe_binder_transaction.byte.c\<close>: it allocates a cookie for a request, leaves it for
  the tracepoint program under the thread id, and submits it with the transaction id that the
  main program left.
\<close>

section \<open>The program\<close>

text \<open>\<^verbatim>\<open>(ts << 8) | (cpu & 0xff)\<close>\<close>

definition make_cookie :: "u64 \<Rightarrow> u32 \<Rightarrow> u64" where
  "make_cookie ts cpu = push_bit 8 ts OR ucast (cpu AND 0xff)"

definition fill_cookie_sideband :: "u64 \<Rightarrow> u64 \<Rightarrow> u32 \<Rightarrow> u8 list \<Rightarrow> u8 list" where
  "fill_cookie_sideband cookie transaction_id tid mem =
     store_fields binder_cookie_sideband_t
       [(''kind'', le_bytes 1 EVT_KIND_COOKIE),
        (''reserved0'', le_bytes 1 (0 :: u8)),
        (''reserved1'', le_bytes 1 (0 :: u8)),
        (''reserved2'', le_bytes 1 (0 :: u8)),
        (''reserved3'', le_bytes 4 (0 :: u32)),
        (''cookie'', le_bytes 8 cookie),
        (''transaction_id_hint'', le_bytes 8 transaction_id),
        (''tid'', le_bytes 4 tid),
        (''reserved4'', le_bytes 4 (0 :: u32))] mem"

definition kprobe_binder_transaction_cookie :: "kenv \<Rightarrow> user_pt_regs \<Rightarrow> bpf_state \<Rightarrow> bpf_state" where
  "kprobe_binder_transaction_cookie env ctx st =
     (case bpf_map_lookup_elem (trace_config_map st) 0 of
        None \<Rightarrow> st
      | Some conf \<Rightarrow>
          (if (ucast (PT_REGS PARM4 ctx) :: u32) \<noteq> 0 then st
           else if filtered_out conf (high32 (ke_uid_gid env)) then st
           else
             let tid = low32 (ke_pid_tgid env)
             in case bpf_map_lookup_elem (tid_to_txid_map st) tid of
                  None \<Rightarrow> st
                | Some transaction_id \<Rightarrow>
                    (if transaction_id = 0 then st
                     else
                       let (ts, st) = bpf_ktime_get_ns env st;
                           cookie = make_cookie ts (ke_cpu env)
                       in if cookie = 0 then st
                          else
                            let st = st\<lparr>pending_map :=
                                   lru_map_update_elem (ke_evict env) (pending_map st) tid cookie\<rparr>
                            in case bpf_ringbuf_reserve env (csize binder_cookie_sideband_t) st of
                                 (None, st) \<Rightarrow> inc_overflow env RB_OVF_SLOT_SIDEBAND st
                               | (Some mem, st) \<Rightarrow>
                                   bpf_ringbuf_submit (fill_cookie_sideband cookie transaction_id tid mem) st)))"

text \<open>A run that allocates a cookie, and the cookie.\<close>

definition allocates :: "kenv \<Rightarrow> user_pt_regs \<Rightarrow> bpf_state \<Rightarrow> u64 \<Rightarrow> u64 \<Rightarrow> bool" where
  "allocates env ctx st cookie transaction_id \<longleftrightarrow>
     (\<exists>conf. trace_config_map st 0 = Some conf \<and> \<not> filtered_out conf (high32 (ke_uid_gid env))) \<and>
     is_request ctx \<and> tid_to_txid_map st (low32 (ke_pid_tgid env)) = Some transaction_id \<and>
     transaction_id \<noteq> 0 \<and> cookie = make_cookie (ke_ktime env (ktime_calls st)) (ke_cpu env) \<and> cookie \<noteq> 0"

definition cookie_record :: "u64 \<Rightarrow> u64 \<Rightarrow> u32 \<Rightarrow> binder_cookie_sideband" where
  "cookie_record cookie transaction_id tid =
     \<lparr>bcs_kind = EVT_KIND_COOKIE, bcs_reserved0 = 0, bcs_reserved1 = 0, bcs_reserved2 = 0,
      bcs_reserved3 = 0, bcs_cookie = cookie, bcs_transaction_id_hint = transaction_id,
      bcs_tid = tid, bcs_reserved4 = 0\<rparr>"

section \<open>Cookies\<close>

lemma bit_ff: "bit (0xff :: 'a::len word) n \<longleftrightarrow> n < 8 \<and> n < LENGTH('a)"
proof -
  have "(0xff :: 'a word) = mask 8" by (simp add: mask_eq_exp_minus_1)
  then show ?thesis by (simp only: bit_mask_iff) auto
qed

lemma bit_make_cookie:
  "bit (make_cookie ts cpu) n \<longleftrightarrow> n < 64 \<and> (if n < 8 then bit cpu n else bit ts (n - 8))"
proof -
  have "bit (ucast (cpu AND 0xff) :: u64) n \<longleftrightarrow> n < 8 \<and> bit cpu n"
    by (simp only: bit_ucast_iff bit_and_iff bit_ff) (auto dest: bit_imp_le_length)
  then show ?thesis
    unfolding make_cookie_def bit_or_iff bit_push_bit_iff by (auto dest: bit_imp_le_length)
qed

text \<open>The low byte of a cookie is the processor, the rest is the clock, both as far as they fit.\<close>

lemma make_cookie_low: "take_bit 8 (make_cookie ts cpu) = ucast (take_bit 8 cpu)"
  by (auto simp: bit_eq_iff bit_take_bit_iff bit_make_cookie bit_ucast_iff)

lemma make_cookie_high: "drop_bit 8 (make_cookie ts cpu) = take_bit 56 ts"
  by (rule bit_word_eqI) (auto simp: bit_drop_bit_eq bit_take_bit_iff bit_make_cookie)

section \<open>The record and the branches\<close>

lemma fill_cookie_sideband_writes:
  "fill_cookie_sideband cookie tx tid mem =
     writes [(0, le_bytes 1 EVT_KIND_COOKIE), (1, le_bytes 1 (0 :: u8)), (2, le_bytes 1 (0 :: u8)),
       (3, le_bytes 1 (0 :: u8)), (4, le_bytes 4 (0 :: u32)), (8, le_bytes 8 cookie), (16, le_bytes 8 tx),
       (24, le_bytes 4 tid), (28, le_bytes 4 (0 :: u32))] mem"
  by (simp add: fill_cookie_sideband_def store_fields_def writes_def cookie_sideband_assign)

lemma load_fill_cookie_sideband:
  assumes "length mem = 32"
  shows "load_cookie_sideband (fill_cookie_sideband cookie tx tid mem) = cookie_record cookie tx tid"
  using assms
  by (simp add: load_cookie_sideband_def cookie_sideband_fetch cookie_record_def Let_def slice_at_writes
      fill_cookie_sideband_writes of_le_le_bytes del: One_nat_def)

lemma inc_overflow_frame [frame_simps]:
  "trace_config_map (inc_overflow env slot st) = trace_config_map st"
  "pending_map (inc_overflow env slot st) = pending_map st"
  "tid_to_txid_map (inc_overflow env slot st) = tid_to_txid_map st"
  "trace_event_map (inc_overflow env slot st) = trace_event_map st"
  "ktime_calls (inc_overflow env slot st) = ktime_calls st"
  "reserve_calls (inc_overflow env slot st) = reserve_calls st"
  by (simp_all add: inc_overflow_def)

lemma inc_overflow_sideband:
  "ringbuf_overflow_map (inc_overflow env RB_OVF_SLOT_SIDEBAND st) slot cpu =
     ringbuf_overflow_map st slot cpu + (if slot = RB_OVF_SLOT_SIDEBAND \<and> cpu = ke_cpu env then 1 else 0)"
  by (simp add: inc_overflow_def RB_OVF_SLOT_SIDEBAND_def RB_OVF_SLOT_COUNT_def)

lemma cookie_frame [frame_simps]:
  "trace_config_map (kprobe_binder_transaction_cookie env ctx st) = trace_config_map st"
  "tid_to_txid_map (kprobe_binder_transaction_cookie env ctx st) = tid_to_txid_map st"
  by (auto simp: kprobe_binder_transaction_cookie_def bpf_ktime_get_ns_def bpf_ringbuf_reserve_def Let_def
      frame_simps split: option.splits)

lemma cookie_skips:
  assumes "\<nexists>cookie tx. allocates env ctx st cookie tx"
  shows "pending_map (kprobe_binder_transaction_cookie env ctx st) = pending_map st"
    "trace_event_map (kprobe_binder_transaction_cookie env ctx st) = trace_event_map st"
    "ringbuf_overflow_map (kprobe_binder_transaction_cookie env ctx st) = ringbuf_overflow_map st"
  using assms
  by (auto simp: kprobe_binder_transaction_cookie_def allocates_def is_request_def bpf_map_lookup_elem_def
      bpf_ktime_get_ns_def Let_def split: option.splits)

lemma cookie_allocates:
  assumes "allocates env ctx st cookie tx"
  shows "pending_map (kprobe_binder_transaction_cookie env ctx st) =
      lru_map_update_elem (ke_evict env) (pending_map st) (low32 (ke_pid_tgid env)) cookie"
    "trace_event_map (kprobe_binder_transaction_cookie env ctx st) = trace_event_map st @
      (if ke_room env (reserve_calls st) 32
       then [fill_cookie_sideband cookie tx (low32 (ke_pid_tgid env)) (ke_memory env (reserve_calls st) 32)]
       else [])"
  using assms
  by (auto simp: kprobe_binder_transaction_cookie_def allocates_def is_request_def bpf_map_lookup_elem_def
      bpf_ktime_get_ns_def bpf_ringbuf_reserve_def cookie_sideband_size Let_def frame_simps)

lemma cookie_overflow:
  assumes "allocates env ctx st cookie tx"
  shows "ringbuf_overflow_map (kprobe_binder_transaction_cookie env ctx st) slot cpu =
    ringbuf_overflow_map st slot cpu +
      (if \<not> ke_room env (reserve_calls st) 32 \<and> slot = RB_OVF_SLOT_SIDEBAND \<and> cpu = ke_cpu env then 1 else 0)"
  using assms
  by (auto simp: kprobe_binder_transaction_cookie_def allocates_def is_request_def bpf_map_lookup_elem_def
      bpf_ktime_get_ns_def bpf_ringbuf_reserve_def cookie_sideband_size Let_def frame_simps inc_overflow_sideband)

end
