(* ===== verification/BT_RawTp.thy ===== *)
theory BT_RawTp
  imports BT_CookieProbe
begin

text \<open>
  The tracepoint program \<^verbatim>\<open>raw_tp_binder_transaction\<close> of \<^verbatim>\<open>raw_tp_binder_transaction.byte.c\<close>: it runs
  later in the same system call, when the kernel knows the transaction. It takes the cookie of
  the thread out of \<^verbatim>\<open>pending_map\<close> and submits it with the kernel's id of the transaction and its
  receiver.
\<close>

section \<open>The program\<close>

text \<open>The arguments of the tracepoint: \<^verbatim>\<open>args[0]\<close> is the reply flag, \<^verbatim>\<open>args[1]\<close> the transaction.\<close>

record raw_tp_args =
  arg0 :: u64
  arg1 :: u64

text \<open>The receiver's user, where the running kernel has the member, and whether it lacks it.\<close>

definition receiver_uid :: "kenv \<Rightarrow> u64 \<Rightarrow> u32 \<times> u8" where
  "receiver_uid env t =
     (if bpf_core_field_exists (ke_btf env) ''binder_proc'' [''cred''] \<noteq> 0
      then (core_value env ''binder_transaction'' t [[''to_proc''], [''cred''], [''euid'', ''val'']], 0)
      else (0, 1))"

definition fill_sideband_event :: "u64 \<Rightarrow> u64 \<Rightarrow> u32 \<Rightarrow> u32 \<times> u8 \<Rightarrow> u8 list \<Rightarrow> u8 list" where
  "fill_sideband_event cookie kernel_debug_id to_pid to_uid mem =
     store_fields binder_sideband_event_t
       [(''kind'', le_bytes 1 EVT_KIND_SIDEBAND),
        (''to_uid_unsupported'', le_bytes 1 (snd to_uid)),
        (''reserved0'', le_bytes 1 (0 :: u8)),
        (''reserved1'', le_bytes 1 (0 :: u8)),
        (''reserved2'', le_bytes 4 (0 :: u32)),
        (''cookie'', le_bytes 8 cookie),
        (''kernel_debug_id'', le_bytes 8 kernel_debug_id),
        (''to_pid'', le_bytes 4 to_pid),
        (''to_uid'', le_bytes 4 (fst to_uid))] mem"

definition raw_tp_binder_transaction :: "kenv \<Rightarrow> raw_tp_args \<Rightarrow> bpf_state \<Rightarrow> bpf_state" where
  "raw_tp_binder_transaction env args st =
     (case bpf_map_lookup_elem (trace_config_map st) 0 of
        None \<Rightarrow> st
      | Some conf \<Rightarrow>
          (if (ucast (arg0 args) :: u32) \<noteq> 0 then st
           else if arg1 args = 0 then st
           else
             let tid = low32 (ke_pid_tgid env)
             in case bpf_map_lookup_elem (pending_map st) tid of
                  None \<Rightarrow> st
                | Some cookie \<Rightarrow>
                    (if cookie = 0 then st
                     else
                       let st = st\<lparr>pending_map := bpf_map_delete_elem (pending_map st) tid\<rparr>;
                           t = arg1 args;
                           kernel_debug_id =
                             scast (core_value env ''binder_transaction'' t [[''debug_id'']] :: 32 word);
                           to_pid = core_value env ''binder_transaction'' t [[''to_proc''], [''tsk''], [''pid'']];
                           to_uid = receiver_uid env t
                       in case bpf_ringbuf_reserve env (csize binder_sideband_event_t) st of
                            (None, st) \<Rightarrow> inc_overflow env RB_OVF_SLOT_SIDEBAND st
                          | (Some mem, st) \<Rightarrow>
                              bpf_ringbuf_submit (fill_sideband_event cookie kernel_debug_id to_pid to_uid mem) st)))"

text \<open>A run that finds a cookie of its thread.\<close>

definition consumes :: "kenv \<Rightarrow> raw_tp_args \<Rightarrow> bpf_state \<Rightarrow> u64 \<Rightarrow> bool" where
  "consumes env args st cookie \<longleftrightarrow>
     trace_config_map st 0 \<noteq> None \<and> (ucast (arg0 args) :: u32) = 0 \<and> arg1 args \<noteq> 0 \<and>
     pending_map st (low32 (ke_pid_tgid env)) = Some cookie \<and> cookie \<noteq> 0"

definition sideband_record :: "kenv \<Rightarrow> u64 \<Rightarrow> u64 \<Rightarrow> binder_sideband_event" where
  "sideband_record env t cookie =
     \<lparr>sbe_kind = EVT_KIND_SIDEBAND, sbe_to_uid_unsupported = snd (receiver_uid env t),
      sbe_reserved0 = 0, sbe_reserved1 = 0, sbe_reserved2 = 0, sbe_cookie = cookie,
      sbe_kernel_debug_id = scast (core_value env ''binder_transaction'' t [[''debug_id'']] :: 32 word),
      sbe_to_pid = core_value env ''binder_transaction'' t [[''to_proc''], [''tsk''], [''pid'']],
      sbe_to_uid = fst (receiver_uid env t)\<rparr>"

definition sideband_bytes :: "kenv \<Rightarrow> u64 \<Rightarrow> u64 \<Rightarrow> u8 list \<Rightarrow> u8 list" where
  "sideband_bytes env t cookie mem =
     fill_sideband_event cookie (scast (core_value env ''binder_transaction'' t [[''debug_id'']] :: 32 word))
       (core_value env ''binder_transaction'' t [[''to_proc''], [''tsk''], [''pid'']]) (receiver_uid env t) mem"

section \<open>The record and the branches\<close>

lemma load_sideband_bytes:
  assumes "length mem = 32"
  shows "load_sideband_event (sideband_bytes env t cookie mem) = sideband_record env t cookie"
proof -
  have "fill_sideband_event cookie d p u mem =
     writes [(0, le_bytes 1 EVT_KIND_SIDEBAND), (1, le_bytes 1 (snd u)), (2, le_bytes 1 (0 :: u8)),
       (3, le_bytes 1 (0 :: u8)), (4, le_bytes 4 (0 :: u32)), (8, le_bytes 8 cookie), (16, le_bytes 8 d),
       (24, le_bytes 4 p), (28, le_bytes 4 (fst u))] mem" for d p u
    by (simp add: fill_sideband_event_def store_fields_def writes_def sideband_event_assign)
  then show ?thesis
    using assms
    by (simp add: sideband_bytes_def load_sideband_event_def sideband_event_fetch sideband_record_def Let_def
        slice_at_writes of_le_le_bytes del: One_nat_def)
qed

lemma raw_tp_skips:
  "\<nexists>cookie. consumes env args st cookie \<Longrightarrow> raw_tp_binder_transaction env args st = st"
  by (auto simp: raw_tp_binder_transaction_def consumes_def bpf_map_lookup_elem_def Let_def split: option.splits)

lemma raw_tp_frame [frame_simps]:
  "trace_config_map (raw_tp_binder_transaction env args st) = trace_config_map st"
  "tid_to_txid_map (raw_tp_binder_transaction env args st) = tid_to_txid_map st"
  "ktime_calls (raw_tp_binder_transaction env args st) = ktime_calls st"
  by (auto simp: raw_tp_binder_transaction_def bpf_ringbuf_reserve_def Let_def frame_simps split: option.splits)

lemma raw_tp_consumes:
  assumes "consumes env args st cookie"
  shows "pending_map (raw_tp_binder_transaction env args st) =
      bpf_map_delete_elem (pending_map st) (low32 (ke_pid_tgid env))"
    "trace_event_map (raw_tp_binder_transaction env args st) = trace_event_map st @
      (if ke_room env (reserve_calls st) 32
       then [sideband_bytes env (arg1 args) cookie (ke_memory env (reserve_calls st) 32)] else [])"
  using assms
  by (auto simp: raw_tp_binder_transaction_def consumes_def bpf_map_lookup_elem_def sideband_bytes_def
      bpf_ringbuf_reserve_def sideband_size Let_def frame_simps)

end
