(* ===== verification/BT_ProbeTrace.thy ===== *)
theory BT_ProbeTrace
  imports BT_RawTp
begin

text \<open>
  Runs of the three programs in any order, on any threads and processors. Each program runs to
  its end without being interrupted by another one on its processor; the maps and the ring buffer
  are shared, so a sequence of runs is a sequence of steps on one state.
\<close>

section \<open>Sequences of runs\<close>

datatype run =
    RunMain kenv user_pt_regs
  | RunCookie kenv user_pt_regs
  | RunRawTp kenv raw_tp_args

primrec run_env :: "run \<Rightarrow> kenv" where
  "run_env (RunMain env ctx) = env"
| "run_env (RunCookie env ctx) = env"
| "run_env (RunRawTp env args) = env"

definition run_tid :: "run \<Rightarrow> u32" where
  "run_tid r = low32 (ke_pid_tgid (run_env r))"

primrec step :: "run \<Rightarrow> bpf_state \<Rightarrow> bpf_state" where
  "step (RunMain env ctx) st = kprobe_binder_transaction env ctx st"
| "step (RunCookie env ctx) st = kprobe_binder_transaction_cookie env ctx st"
| "step (RunRawTp env args) st = raw_tp_binder_transaction env args st"

primrec exec :: "run list \<Rightarrow> bpf_state \<Rightarrow> bpf_state" where
  "exec [] st = st"
| "exec (r # rs) st = exec rs (step r st)"

text \<open>Whether a run allocates the cookie \<open>c\<close>, whether it takes it, and how often in a sequence.\<close>

primrec allocates_cookie :: "u64 \<Rightarrow> run \<Rightarrow> bpf_state \<Rightarrow> bool" where
  "allocates_cookie c (RunMain env ctx) st = False"
| "allocates_cookie c (RunCookie env ctx) st = (\<exists>tx. allocates env ctx st c tx)"
| "allocates_cookie c (RunRawTp env args) st = False"

primrec takes_cookie :: "u64 \<Rightarrow> run \<Rightarrow> bpf_state \<Rightarrow> bool" where
  "takes_cookie c (RunMain env ctx) st = False"
| "takes_cookie c (RunCookie env ctx) st = False"
| "takes_cookie c (RunRawTp env args) st = consumes env args st c"

primrec allocations :: "u64 \<Rightarrow> run list \<Rightarrow> bpf_state \<Rightarrow> nat" where
  "allocations c [] st = 0"
| "allocations c (r # rs) st = (if allocates_cookie c r st then 1 else 0) + allocations c rs (step r st)"

primrec takings :: "u64 \<Rightarrow> run list \<Rightarrow> bpf_state \<Rightarrow> nat" where
  "takings c [] st = 0"
| "takings c (r # rs) st = (if takes_cookie c r st then 1 else 0) + takings c rs (step r st)"

text \<open>The threads that hold the cookie, and the submitted sideband records with it.\<close>

definition holders :: "u64 \<Rightarrow> bpf_state \<Rightarrow> u32 set" where
  "holders c st = {t. pending_map st t = Some c}"

definition is_sideband :: "u64 \<Rightarrow> u8 list \<Rightarrow> bool" where
  "is_sideband c b \<longleftrightarrow> length b = 32 \<and> sbe_kind (load_sideband_event b) = EVT_KIND_SIDEBAND
     \<and> sbe_cookie (load_sideband_event b) = c"

definition sidebands :: "u64 \<Rightarrow> bpf_state \<Rightarrow> nat" where
  "sidebands c st = length (filter (is_sideband c) (trace_event_map st))"

section \<open>Runs of other threads\<close>

lemma step_other_pending:
  "t \<noteq> run_tid r \<Longrightarrow> pending_map (step r st) t = pending_map st t \<or> pending_map (step r st) t = None"
proof (cases r)
  case (RunCookie env ctx)
  assume t: "t \<noteq> run_tid r"
  show ?thesis
  proof (cases "\<exists>c tx. allocates env ctx st c tx")
    case True
    then obtain c tx where "allocates env ctx st c tx" by blast
    from cookie_allocates(1) [OF this] show ?thesis
      using RunCookie t lru.lookup_update_other [of t "low32 (ke_pid_tgid env)" "ke_evict env" "pending_map st" c]
      by (auto simp: bpf_map_lookup_elem_def run_tid_def)
  qed (use RunCookie cookie_skips(1) in auto)
next
  case (RunRawTp env args)
  assume t: "t \<noteq> run_tid r"
  show ?thesis
  proof (cases "\<exists>c. consumes env args st c")
    case True
    then obtain c where "consumes env args st c" by blast
    from raw_tp_consumes(1) [OF this] show ?thesis
      using RunRawTp t by (simp add: bpf_map_delete_elem_def run_tid_def)
  qed (use RunRawTp raw_tp_skips in auto)
qed (simp add: frame_simps)

lemma step_other_txid:
  "t \<noteq> run_tid r \<Longrightarrow> tid_to_txid_map (step r st) t = tid_to_txid_map st t \<or> tid_to_txid_map (step r st) t = None"
proof (cases r)
  case (RunMain env ctx)
  assume t: "t \<noteq> run_tid r"
  show ?thesis
  proof (cases "traced env ctx st")
    case True
    from kprobe_tid_map [OF this] show ?thesis
      using RunMain t lru.lookup_update_other [of t "low32 (ke_pid_tgid env)" "ke_evict env" "tid_to_txid_map st"
          "ke_ktime env (ktime_calls st)"]
      by (auto simp: bpf_map_lookup_elem_def run_tid_def)
  qed (use RunMain kprobe_untraced(2) in auto)
qed (simp_all add: frame_simps)

lemma exec_other:
  assumes "\<forall>r \<in> set rs. run_tid r \<noteq> t"
  shows "pending_map (exec rs st) t = pending_map st t \<or> pending_map (exec rs st) t = None"
    and "tid_to_txid_map (exec rs st) t = tid_to_txid_map st t \<or> tid_to_txid_map (exec rs st) t = None"
  using assms
proof (induction rs arbitrary: st)
  case (Cons r rs)
  {
    case 1
    then show ?case using Cons.IH(1) [of "step r st"] step_other_pending [of t r st] by auto
  next
    case 2
    then show ?case using Cons.IH(2) [of "step r st"] step_other_txid [of t r st] by auto
  }
qed auto

section \<open>Counting cookies\<close>

lemma finite_holders [simp]: "finite (holders c st)"
  by (rule finite)

lemma card_le_Suc_minus: "finite B \<Longrightarrow> A \<subseteq> insert x B \<Longrightarrow> card A \<le> Suc (card B)"
  by (metis card_insert_le_m1 card_mono card_insert_if finite_insert le_SucI)

lemma step_holders:
  "card (holders c (step r st)) + (if takes_cookie c r st then 1 else 0) \<le>
     card (holders c st) + (if allocates_cookie c r st then 1 else 0)"
proof (cases r)
  case (RunMain env ctx)
  then show ?thesis by (simp add: holders_def frame_simps)
next
  case (RunCookie env ctx)
  show ?thesis
  proof (cases "\<exists>c' tx. allocates env ctx st c' tx")
    case True
    then obtain c' tx where a: "allocates env ctx st c' tx" by blast
    then have c: "(\<exists>tx. allocates env ctx st c tx) \<longleftrightarrow> c' = c" by (auto simp: allocates_def)
    have "holders c (step r st) \<subseteq> (if c' = c then insert (low32 (ke_pid_tgid env)) (holders c st) else holders c st)"
      using cookie_allocates(1) [OF a] RunCookie
      by (auto simp: holders_def lru_map_update_elem_def split: if_splits)
    then show ?thesis
      using RunCookie c card_le_Suc_minus [OF finite_holders] card_mono [OF finite_holders] by (cases "c' = c") auto
  next
    case False
    then show ?thesis using RunCookie cookie_skips(1) [of env ctx st] by (auto simp: holders_def)
  qed
next
  case (RunRawTp env args)
  show ?thesis
  proof (cases "\<exists>c'. consumes env args st c'")
    case True
    then obtain c' where a: "consumes env args st c'" by blast
    have h: "holders c (step r st) = holders c st - {low32 (ke_pid_tgid env)}"
      using raw_tp_consumes(1) [OF a] RunRawTp by (auto simp: holders_def bpf_map_delete_elem_def)
    show ?thesis
    proof (cases "consumes env args st c")
      case True
      then have "low32 (ke_pid_tgid env) \<in> holders c st" by (simp add: consumes_def holders_def)
      then show ?thesis using RunRawTp True h card_Suc_Diff1 [OF finite_holders] by auto
    next
      case False
      then show ?thesis using RunRawTp h by (simp add: card_Diff1_le)
    qed
  next
    case False
    then show ?thesis using RunRawTp raw_tp_skips [of env args st] by auto
  qed
qed

lemma exec_holders:
  "card (holders c (exec rs st)) + takings c rs st \<le> card (holders c st) + allocations c rs st"
proof (induction rs arbitrary: st)
  case (Cons r rs)
  show ?case using Cons.IH [of "step r st"] step_holders [of c r st] by simp
qed simp

section \<open>Counting sideband records\<close>

lemma kind_fill_cookie_sideband:
  assumes "length mem = 32"
  shows "sbe_kind (load_sideband_event (fill_cookie_sideband c tx t mem)) = EVT_KIND_COOKIE"
    "length (fill_cookie_sideband c tx t mem) = 32"
  using assms
  by (simp_all add: load_sideband_event_def sideband_event_fetch fill_cookie_sideband_writes Let_def
      slice_at_writes length_writes of_le_le_bytes del: One_nat_def)

lemma step_records:
  assumes "kernel_laws (run_env r)"
  shows "sidebands c (step r st) \<le> sidebands c st + (if takes_cookie c r st then 1 else 0)"
proof (cases r)
  case (RunMain env ctx)
  with assms obtain rs where "trace_event_map (step r st) = trace_event_map st @ rs"
    "\<forall>b \<in> set rs. length b = 544 \<or> length b = 1112"
    using kprobe_record_sizes [of env ctx st] by auto
  moreover from this(2) have "filter (is_sideband c) rs = []" by (auto simp: filter_empty_conv is_sideband_def)
  ultimately show ?thesis by (simp add: sidebands_def)
next
  case (RunCookie env ctx)
  then have laws: "kernel_laws env" using assms by simp
  show ?thesis
  proof (cases "\<exists>c' tx. allocates env ctx st c' tx")
    case True
    then obtain c' tx where "allocates env ctx st c' tx" by blast
    from cookie_allocates(2) [OF this] show ?thesis
      using RunCookie kind_fill_cookie_sideband [OF kernel_lawsD(4) [OF laws]]
      by (auto simp: sidebands_def is_sideband_def EVT_KIND_COOKIE_def EVT_KIND_SIDEBAND_def)
  qed (use RunCookie cookie_skips(2) in \<open>auto simp: sidebands_def\<close>)
next
  case (RunRawTp env args)
  then have laws: "kernel_laws env" using assms by simp
  show ?thesis
  proof (cases "\<exists>c'. consumes env args st c'")
    case True
    then obtain c' where a: "consumes env args st c'" by blast
    then have "consumes env args st c \<longleftrightarrow> c' = c" by (auto simp: consumes_def)
    with raw_tp_consumes(2) [OF a] show ?thesis
      using RunRawTp load_sideband_bytes [OF kernel_lawsD(4) [OF laws]]
      by (auto simp: sidebands_def is_sideband_def sideband_record_def)
  qed (use RunRawTp raw_tp_skips in \<open>auto simp: sidebands_def\<close>)
qed

lemma exec_sidebands:
  assumes "\<forall>r \<in> set rs. kernel_laws (run_env r)"
  shows "sidebands c (exec rs st) \<le> sidebands c st + takings c rs st"
  using assms
proof (induction rs arbitrary: st)
  case (Cons r rs)
  have "sidebands c (exec rs (step r st)) \<le> sidebands c (step r st) + takings c rs (step r st)"
    using Cons by simp
  moreover have "sidebands c (step r st) \<le> sidebands c st + (if takes_cookie c r st then 1 else 0)"
    using Cons.prems by (intro step_records) simp
  ultimately show ?case by simp
qed simp

end
