(* ===== verification/BT_Sample.thy ===== *)
theory BT_Sample
  imports BT_MainProbe
begin

text \<open>
  A concrete kernel and one concrete call of \<^verbatim>\<open>binder_transaction\<close>, on which the theorems about the
  programs are instantiated: kernel and user memory as functions of the address, a ring buffer
  with room, and a kernel whose types are those of \<^verbatim>\<open>vmlinux.h\<close>.
\<close>

section \<open>The kernel\<close>

text \<open>
  The transaction data is at 4096: code 7, flags 16, a payload of \<open>n\<close> bytes at address 8192. The
  transaction is at 20480 and has debug id 9; it goes to the process at 24576, whose task, at
  32768, has the id 77 and whose credentials, at 28672, have the user 88.
\<close>

fun sample_kernel_memory :: "u64 \<Rightarrow> u64 \<Rightarrow> u8" where
  "sample_kernel_memory n a =
     (if a = 4112 then 7 else if a = 4116 then 16
      else if a = 4128 then ucast n else if a = 4129 then ucast (drop_bit 8 n)
      else if a = 4133 then ucast (drop_bit 40 n)
      else if a = 4145 then 32
      else if a = 20480 then 9 else if a = 20529 then 96
      else if a = 24649 then 128 else if a = 24657 then 112
      else if a = 28692 then 88 else if a = 34264 then 77 else 0)"

definition sample_user_memory :: "u64 \<Rightarrow> u8" where
  "sample_user_memory a = ucast a"

definition sample_env :: "u64 \<Rightarrow> kenv" where
  "sample_env n =
     \<lparr>ke_uid_gid = push_bit 32 1000 OR 2000, ke_pid_tgid = push_bit 32 50 OR 51, ke_cpu = 3,
      ke_ktime = (\<lambda>k. 500 + of_nat k), ke_read_kernel = user_bytes (sample_kernel_memory n),
      ke_read = user_bytes (sample_kernel_memory n), ke_read_user = user_bytes sample_user_memory,
      ke_get_stack = (\<lambda>b. (- 14, b)), ke_room = (\<lambda>_ _. True), ke_memory = (\<lambda>_ n. replicate n 170),
      ke_evict = (\<lambda>_ _. []), ke_btf = vmlinux_types\<rparr>"

text \<open>A call with the transaction data at 4096; no process or thread is passed.\<close>

definition sample_ctx :: "u64 \<Rightarrow> user_pt_regs" where
  "sample_ctx reply =
     \<lparr>upr_regs = [0, 0, 4096, reply] @ replicate 27 0, upr_sp = 0, upr_pc = 0, upr_pstate = 0\<rparr>"

definition sample_state :: "u32 \<Rightarrow> bpf_state" where
  "sample_state uid =
     \<lparr>trace_config_map = [0 \<mapsto> \<lparr>tc_uid = uid\<rparr>], pending_map = Map.empty, tid_to_txid_map = Map.empty,
      ringbuf_overflow_map = (\<lambda>_ _. 0), trace_event_map = [], printk_log = [], ktime_calls = 0,
      reserve_calls = 0\<rparr>"

definition published_state :: bpf_state where
  "published_state = (sample_state 0)\<lparr>tid_to_txid_map := [51 \<mapsto> 500]\<rparr>"

definition pending_state :: bpf_state where
  "pending_state = (sample_state 0)\<lparr>pending_map := [51 \<mapsto> 128003]\<rparr>"

text \<open>A call without transaction data.\<close>

definition null_ctx :: user_pt_regs where
  "null_ctx = \<lparr>upr_regs = replicate 31 0, upr_sp = 0, upr_pc = 0, upr_pstate = 0\<rparr>"

text \<open>The same kernel with a ring buffer that has room for one reservation only, the second one.\<close>

definition full_ring :: "kenv \<Rightarrow> kenv" where
  "full_ring env = env\<lparr>ke_room := (\<lambda>k n. k = 1)\<rparr>"

section \<open>What the programs see there\<close>

lemmas sample_defs = sample_env_def sample_ctx_def sample_state_def

lemma le_bytes_map: "le_bytes n w = map (\<lambda>k. ucast (drop_bit (8 * k) w)) [0..<n]"
  by (rule nth_equalityI) (simp_all add: nth_le_bytes)

lemma sample_laws [simp]: "kernel_laws (sample_env n)"
  by (simp add: kernel_laws_def sample_env_def)

lemma sample_reads_memory [simp]: "reads_memory (ke_read_user (sample_env n)) sample_user_memory"
  by (simp add: reads_memory_def sample_env_def)

lemma sample_room [simp]: "ke_room (sample_env n) k m"
  by (simp add: sample_env_def)

lemma sample_regs [simp]:
  "PT_REGS PARM1 (sample_ctx r) = 0" "PT_REGS PARM2 (sample_ctx r) = 0"
  "PT_REGS PARM3 (sample_ctx r) = 4096" "PT_REGS PARM4 (sample_ctx r) = r"
  by (simp_all add: PT_REGS_def sample_ctx_def)

lemma sample_ids [simp]:
  "high32 (ke_uid_gid (sample_env n)) = 1000" "high32 (ke_pid_tgid (sample_env n)) = 50"
  "low32 (ke_pid_tgid (sample_env n)) = 51" "ke_cpu (sample_env n) = 3"
  by (simp_all add: sample_env_def high32_def low32_def)

lemma sample_offsets:
  "core_offset vmlinux_types ''binder_transaction_data'' [''target''] = Some 0"
  "core_offset vmlinux_types ''binder_transaction_data'' [''data''] = Some 48"
  by (simp_all add: core_offset_def member_in_def vmlinux_types_def binder_transaction_data_fields
      del: find_path.simps)

lemma sample_data_size:
  "ml_data_size (tx_locals (sample_env n) (sample_ctx r) st) =
     of_le (user_bytes (sample_kernel_memory n) 4128 8)"
  unfolding tx_locals_def read_locals_def read_buffer_def Let_def main_locals.simps sample_regs
  by (subst core_value_1 [OF vm_members(3), where off = 32])
    (simp_all add: sample_env_def core_offset_def vm_members)

lemma sample_buffer:
  "ml_buffer (tx_locals (sample_env n) (sample_ctx r) st) =
     of_le (take 8 (user_bytes (sample_kernel_memory n) 4144 16))"
  unfolding tx_locals_def read_locals_def read_buffer_def Let_def main_locals.simps sample_regs
  by (simp add: core_address_def sample_env_def sample_offsets)

lemma sample_values [simp]:
  "ml_data_size (tx_locals (sample_env 1500) (sample_ctx r) st) = 1500"
  "ml_data_size (tx_locals (sample_env 4398046511105) (sample_ctx r) st) = 4398046511105"
  "ml_buffer (tx_locals (sample_env n) (sample_ctx r) st) = 8192"
  by (simp_all add: sample_data_size sample_buffer user_bytes_def upt_rec take_map)

lemma full_ring_core:
  "core_value (full_ring env) = core_value env" "core_address (full_ring env) = core_address env"
  "ke_uid_gid (full_ring env) = ke_uid_gid env" "ke_pid_tgid (full_ring env) = ke_pid_tgid env"
  "ke_read_kernel (full_ring env) = ke_read_kernel env" "ke_read (full_ring env) = ke_read env"
  "ke_ktime (full_ring env) = ke_ktime env"
  by (simp_all add: full_ring_def core_value_def core_address_def fun_eq_iff)

lemma full_ring_locals:
  "tx_locals (full_ring env) ctx st = tx_locals env ctx st" "effective_uid (full_ring env) ctx = effective_uid env ctx"
  by (simp_all add: full_ring_core tx_locals_def read_locals_def read_buffer_def effective_uid_def binder_dev_of_def
      reply_origin_def Let_def)

end
