(* ===== verification/BT_ProbeProperties.thy ===== *)
theory BT_ProbeProperties
  imports BT_ProbeTrace BT_Sample
begin

text \<open>
  The properties of the three programs, each with an instance on the concrete kernel of
  \<^verbatim>\<open>BT_Sample\<close> where it has hypotheses.
\<close>

section \<open>The main program\<close>

lemma new_records_append: "trace_event_map st' = trace_event_map st @ rs \<Longrightarrow> new_records st st' = rs"
  by (simp add: new_records_def)

lemma main_new_records:
  assumes "traced env ctx st" "total_chunks (ml_data_size (tx_locals env ctx st)) \<le> 16"
  shows "new_records st (kprobe_binder_transaction env ctx st) =
    submitted_stack env (ke_ktime env (ktime_calls st)) (reserve_calls st) @
    submitted_chunks env (tx_locals env ctx st) (reserve_calls st + 1)
      (unat (total_chunks (ml_data_size (tx_locals env ctx st))))"
  using kprobe_records [OF assms] by (rule new_records_append)

text \<open>With room for every record, a traced call submits the stack record and all its chunks.\<close>

lemma main_chunk_records:
  assumes "kernel_laws env" "traced env ctx st" "\<forall>k n. ke_room env k n" "l = tx_locals env ctx st"
    and "total_chunks (ml_data_size l) \<le> 16"
  shows "length (new_records st (kprobe_binder_transaction env ctx st)) = Suc (unat (total_chunks (ml_data_size l)))"
    and "map load_trace_event (tl (new_records st (kprobe_binder_transaction env ctx st))) =
      map (\<lambda>k. chunk_record env l (of_nat k) (ke_memory env (reserve_calls st + 1 + k) 1112))
        [0..<unat (total_chunks (ml_data_size l))]"
proof -
  let ?m = "unat (total_chunks (ml_data_size l))"
  have rs: "new_records st (kprobe_binder_transaction env ctx st) =
      fill_stack_event env (ke_ktime env (ktime_calls st)) (ke_memory env (reserve_calls st) 544) #
      submitted_chunks env l (reserve_calls st + 1) ?m"
    using main_new_records [OF assms(2)] assms(3-5) by (simp add: submitted_stack_def)
  show chunks: "map load_trace_event (tl (new_records st (kprobe_binder_transaction env ctx st))) =
      map (\<lambda>k. chunk_record env l (of_nat k) (ke_memory env (reserve_calls st + 1 + k) 1112)) [0..<?m]"
    using assms(3) unfolding rs list.sel by (intro submitted_chunks_room [OF assms(1)]) blast
  show "length (new_records st (kprobe_binder_transaction env ctx st)) = Suc ?m"
    using arg_cong [OF chunks, of length] by (simp add: rs)
qed

lemma total_chunks_le_fits: "unat d \<le> 16384 \<Longrightarrow> total_chunks d \<le> 16"
  using unat_total_chunks_fits [of d] by (simp add: word_le_nat_alt)

lemma sample_traced [simp]:
  "traced (sample_env n) (sample_ctx 0) (sample_state 1000)" "traced (sample_env n) (sample_ctx 0) (sample_state 0)"
  by (simp_all add: traced_def sample_state_def filtered_out_def effective_uid_def)

lemma sample_cookie: "make_cookie t 3 \<noteq> 0"
  using bit_make_cookie [of t 3 0] by (auto simp: bit_0)

text \<open>C2. For a traced transaction of at most 16384 bytes whose reservations all succeed, the main program
  submits the stack record followed by one record for every started 1024 bytes, numbered from 0
  and carrying the transaction's id and size, and the bytes of these records, cut at the size,
  are the sender's buffer.\<close>

theorem main_submits_payload:
  assumes "kernel_laws env" "traced env ctx st" "reads_memory (ke_read_user env) um"
    and "l = tx_locals env ctx st" "d = unat (ml_data_size l)" "d \<le> 16384"
    and "unat (untagged (ml_buffer l)) + d \<le> 2 ^ 56"
    and "\<forall>k n. ke_room env k n"
    and "rs = new_records st (kprobe_binder_transaction env ctx st)"
    and "chunks = map load_trace_event (tl rs)"
  shows "load_stack_event (hd rs) = stack_record env (ml_transaction_id l) (ke_memory env (reserve_calls st) 544)
    \<and> length chunks = (d + 1023) div 1024
    \<and> (\<forall>k < length chunks. bte_chunk_index (chunks ! k) = of_nat k
         \<and> bte_transaction_id (chunks ! k) = ml_transaction_id l \<and> bte_data_size (chunks ! k) = ml_data_size l)
    \<and> take d (concat (map bte_chunk_data chunks)) = user_bytes um (untagged (ml_buffer l)) d"
proof -
  let ?b = "reserve_calls st" and ?m = "unat (total_chunks (ml_data_size l))"
  have d: "unat (ml_data_size l) \<le> 16384" using assms(5,6) by simp
  have tx: "ke_ktime env (ktime_calls st) = ml_transaction_id l"
    by (simp add: assms(4) tx_locals_def read_locals_def Let_def)
  have rs: "rs = fill_stack_event env (ml_transaction_id l) (ke_memory env ?b 544) #
      submitted_chunks env l (?b + 1) ?m"
    using main_new_records [OF assms(2)] total_chunks_le_fits [OF d] assms(4,8,9)
    by (simp add: submitted_stack_def tx)
  have stack: "load_stack_event (hd rs) = stack_record env (ml_transaction_id l) (ke_memory env ?b 544)"
    using load_fill_stack_event [OF assms(1)] kernel_lawsD [OF assms(1)] by (simp add: rs)
  have chunks: "chunks = map (\<lambda>k. chunk_record env l (of_nat k) (ke_memory env (?b + 1 + k) 1112)) [0..<?m]"
    using assms(8) unfolding assms(10) rs list.sel by (intro submitted_chunks_room [OF assms(1)]) blast
  have m: "?m = (d + 1023) div 1024" "?m \<le> 16" using unat_total_chunks_fits [OF d] assms(5) by simp_all
  have "ucast (of_nat k :: u32) = (of_nat k :: u64)" if "k < 16" for k
    using that by (simp add: word_unat_eq_iff unat_ucast_mod unat_of_nat)
  then have idx: "\<forall>k < length chunks. bte_chunk_index (chunks ! k) = of_nat k
         \<and> bte_transaction_id (chunks ! k) = ml_transaction_id l \<and> bte_data_size (chunks ! k) = ml_data_size l"
    using m(2) by (auto simp: chunks chunk_record_def Let_def)
  have "take d (concat (map bte_chunk_data chunks)) = user_bytes um (untagged (ml_buffer l)) d"
    using submitted_payload [OF assms(1,3) _ d refl, of "?b + 1"] assms(5,7,8)
    unfolding assms(10) rs list.sel by simp
  then show ?thesis using stack idx m(1) by (simp add: chunks)
qed

theorem main_submits_payload_witness:
  "take 1500 (concat (map bte_chunk_data (map load_trace_event
     (tl (new_records (sample_state 1000)
       (kprobe_binder_transaction (sample_env 1500) (sample_ctx 0) (sample_state 1000))))))) =
   user_bytes sample_user_memory 8192 1500"
  using main_submits_payload [of "sample_env 1500" "sample_ctx 0" "sample_state 1000" sample_user_memory
      _ 1500, OF _ _ _ refl _ _ _ _ refl refl]
  by (simp add: untagged_def)

text \<open>C27. Whatever fails, the chunk records of a run are a prefix of the chunks in order: the stack record is
  skipped when its reservation fails, the chunks are submitted up to the first reservation that
  fails, and no failure of the stack changes the chunks.\<close>

theorem main_submits_prefix:
  assumes "kernel_laws env" "traced env ctx st" "l = tx_locals env ctx st" "total_chunks (ml_data_size l) \<le> 16"
    and "b = reserve_calls st" "stack = (if ke_room env b 544 then 1 else 0)"
    and "rs = new_records st (kprobe_binder_transaction env ctx st)"
  shows "\<exists>g \<le> unat (total_chunks (ml_data_size l)).
    length rs = stack + g
    \<and> map load_trace_event (drop stack rs) =
        map (\<lambda>k. chunk_record env l (of_nat k) (ke_memory env (b + 1 + k) 1112)) [0..<g]
    \<and> (\<forall>k < g. ke_room env (b + 1 + k) 1112)
    \<and> (g < unat (total_chunks (ml_data_size l)) \<longrightarrow> \<not> ke_room env (b + 1 + g) 1112)"
proof -
  let ?m = "unat (total_chunks (ml_data_size l))" and ?P = "\<lambda>k. ke_room env (b + 1 + k) 1112"
  define g where "g = length (takeWhile ?P [0..<?m])"
  have gm: "g \<le> ?m" using length_takeWhile_le [of ?P "[0..<?m]"] by (simp add: g_def)
  have "takeWhile ?P [0..<?m] = take g [0..<?m]" unfolding g_def by (rule takeWhile_eq_take)
  then have tw: "takeWhile ?P [0..<?m] = [0..<g]" using gm by simp
  have room: "?P k" if "k < g" for k
  proof -
    have "k \<in> set (takeWhile ?P [0..<?m])" using that tw by simp
    then show ?thesis using set_takeWhileD by fastforce
  qed
  have stop: "\<not> ?P g" if "g < ?m"
    using nth_length_takeWhile [of ?P "[0..<?m]", folded g_def] that by simp
  have tg: "takeWhile ?P [0..<g] = [0..<g]" using room by (simp add: takeWhile_eq_all_conv)
  have len: "length (submitted_chunks env l (b + 1) g) = g"
    unfolding submitted_chunks_def tg by simp
  have "rs = submitted_stack env (ke_ktime env (ktime_calls st)) b @ submitted_chunks env l (b + 1) ?m"
    using main_new_records [OF assms(2)] assms(3-5,7) by simp
  also have "submitted_chunks env l (b + 1) ?m = submitted_chunks env l (b + 1) g"
    unfolding submitted_chunks_def tw tg by (rule refl)
  finally have rs: "rs = submitted_stack env (ke_ktime env (ktime_calls st)) b @ submitted_chunks env l (b + 1) g" .
  have "map load_trace_event (drop stack rs) =
        map (\<lambda>k. chunk_record env l (of_nat k) (ke_memory env (b + 1 + k) 1112)) [0..<g]"
    using submitted_chunks_room [OF assms(1), of g "b + 1" l] room by (simp add: rs assms(6) submitted_stack_def)
  moreover have "length rs = stack + g" using len by (simp add: rs assms(6) submitted_stack_def)
  ultimately show ?thesis using gm room stop by blast
qed

theorem main_submits_prefix_witness:
  "length (new_records (sample_state 1000)
     (kprobe_binder_transaction (full_ring (sample_env 1500)) (sample_ctx 0) (sample_state 1000))) = 1"
proof -
  let ?e = "full_ring (sample_env 1500)" and ?c = "sample_ctx 0" and ?s = "sample_state 1000"
  have "kernel_laws ?e" using sample_laws [of 1500] by (simp add: kernel_laws_def full_ring_def)
  moreover have "traced ?e ?c ?s" using sample_traced(1) [of 1500] by (simp add: traced_def full_ring_locals)
  moreover have "tx_locals ?e ?c ?s = tx_locals (sample_env 1500) ?c ?s" by (simp add: full_ring_locals)
  ultimately obtain g where "length (new_records ?s (kprobe_binder_transaction ?e ?c ?s)) = g" "g \<le> 2"
    "\<forall>k < g. ke_room ?e (1 + k) 1112" "g < 2 \<longrightarrow> \<not> ke_room ?e (1 + g) 1112"
    using main_submits_prefix [of ?e ?c ?s _ _ 0, OF _ _ refl _ refl _ refl]
    by (auto simp: full_ring_locals full_ring_def sample_state_def total_chunks_def CHUNK_SIZE_def)
  then show ?thesis by (cases g) (auto simp: full_ring_def)
qed

text \<open>C28. One run submits at most 17 records, whatever the call, the payload size and the failures are, and
  every record has the size of its struct, so no write leaves the reserved memory.\<close>

theorem main_records_bounded:
  assumes "kernel_laws env"
  shows "length (new_records st (kprobe_binder_transaction env ctx st)) \<le> 17
    \<and> (\<forall>r \<in> set (new_records st (kprobe_binder_transaction env ctx st)). length r = 544 \<or> length r = 1112)"
  using kprobe_record_sizes [OF assms, of ctx st] by (auto simp: new_records_def)

theorem main_records_bounded_witness:
  "length (new_records (sample_state 0) (kprobe_binder_transaction (sample_env 1500) (sample_ctx 0) (sample_state 0))) \<le> 17"
  using main_records_bounded [of "sample_env 1500" "sample_state 0" "sample_ctx 0"] by simp

text \<open>A call that is filtered out by user, that has no configuration or no transaction data, or whose
  payload needs more than 16 chunks, submits no record, and in every run the configuration,
  the pending cookies and the overflow counters stay as they are.\<close>

lemma main_silent:
  assumes "\<not> traced env ctx st \<or> 16 < total_chunks (ml_data_size (tx_locals env ctx st))"
  shows "new_records st (kprobe_binder_transaction env ctx st) = []
    \<and> trace_config_map (kprobe_binder_transaction env ctx st) = trace_config_map st
    \<and> pending_map (kprobe_binder_transaction env ctx st) = pending_map st
    \<and> ringbuf_overflow_map (kprobe_binder_transaction env ctx st) = ringbuf_overflow_map st"
  using assms kprobe_untraced(1) [of env ctx st] kprobe_oversize [of env ctx st]
  by (auto simp: new_records_def frame_simps)

lemma main_silent_witness:
  "new_records (sample_state 5) (kprobe_binder_transaction (sample_env 1500) (sample_ctx 0) (sample_state 5)) = []"
  using main_silent [of "sample_env 1500" "sample_ctx 0" "sample_state 5"]
  by (simp add: traced_def sample_state_def filtered_out_def effective_uid_def)

text \<open>A traced request leaves its transaction id under the id of its thread, where every other thread's
  entry is as before or evicted; a reply and an untraced call leave the map as it is.\<close>

lemma main_publishes_transaction_id:
  assumes "st' = kprobe_binder_transaction env ctx st" "tid = low32 (ke_pid_tgid env)"
  shows "if traced env ctx st \<and> is_request ctx
    then tid_to_txid_map st' tid = Some (ml_transaction_id (tx_locals env ctx st))
      \<and> (\<forall>k. k \<noteq> tid \<longrightarrow> tid_to_txid_map st' k = tid_to_txid_map st k \<or> tid_to_txid_map st' k = None)
    else tid_to_txid_map st' = tid_to_txid_map st"
proof (cases "traced env ctx st")
  case True
  have "lru_map_update_elem ev m t v k = m k \<or> lru_map_update_elem ev m t v k = None" if "k \<noteq> t"
    for ev and m :: "u32 \<rightharpoonup> u64" and t v k
    using lru.lookup_update_other [of k t ev m v] that by (auto simp: bpf_map_lookup_elem_def)
  then show ?thesis
    using kprobe_tid_map [OF True] lru.lookup_update [of "ke_evict env" "tid_to_txid_map st" tid] assms
    by (simp add: True tx_locals_def read_locals_def Let_def bpf_map_lookup_elem_def)
next
  case False
  then show ?thesis using kprobe_untraced(2) [OF False] assms by simp
qed

lemma main_publishes_transaction_id_witness:
  "tid_to_txid_map (kprobe_binder_transaction (sample_env 1500) (sample_ctx 0) (sample_state 1000)) 51 = Some 500"
  using main_publishes_transaction_id [of _ "sample_env 1500" "sample_ctx 0" "sample_state 1000" 51, OF refl]
  by (simp add: is_request_def tx_locals_def read_locals_def Let_def) (simp add: sample_defs)

text \<open>Below 4 TiB the oversize guard is exact: the program goes on exactly for payloads of at most 16384
  bytes, and then 1024 bytes per chunk cover the payload.\<close>

lemma oversize_guard_exact:
  assumes "unat d + 1023 < 2 ^ 42"
  shows "(total_chunks d \<le> 16 \<longleftrightarrow> unat d \<le> 16384) \<and> unat d \<le> 1024 * unat (total_chunks d)
    \<and> 1024 * unat (total_chunks d) < unat d + 1024"
proof -
  have "(unat d + 1023) div 1024 < 2 ^ 32" using assms by (simp add: div_less_iff_less_mult)
  then have n: "unat (total_chunks d) = (unat d + 1023) div 1024"
    using unat_total_chunks [of d] assms by simp
  have "(unat d + 1023) div 1024 \<le> 16 \<longleftrightarrow> unat d \<le> 16384"
    using div_le_mono [of "unat d + 1023" 17407 1024] le_chunks [of "unat d"] by auto
  moreover have "1024 * ((unat d + 1023) div 1024) < unat d + 1024"
    using div_mult_mod_eq [of "unat d + 1023" 1024] by linarith
  ultimately show ?thesis using le_chunks [of "unat d"] by (simp add: word_le_nat_alt n mult.commute)
qed

lemma oversize_guard_exact_witness: "total_chunks 16384 \<le> 16 \<and> \<not> total_chunks 16385 \<le> 16"
  using oversize_guard_exact [of 16384] oversize_guard_exact [of 16385] by simp

text \<open>C30. Above that the guard fails: the 32-bit chunk count drops the multiples of 4 TiB, so a payload size of
  such a multiple plus at most 16384 passes, and the records of the run claim the whole size.\<close>

theorem oversize_guard_wraps:
  assumes "traced env ctx st" "kernel_laws env" "\<forall>k n. ke_room env k n"
    and "unat (ml_data_size (tx_locals env ctx st)) = 2 ^ 42 * q + r" "r \<le> 16384" "q < 2 ^ 22 - 1"
    and "rs = new_records st (kprobe_binder_transaction env ctx st)"
  shows "length rs = 1 + (r + 1023) div 1024
    \<and> (\<forall>e \<in> set (tl rs). unat (bte_data_size (load_trace_event e)) = 2 ^ 42 * q + r)"
proof -
  let ?l = "tx_locals env ctx st"
  let ?m = "unat (total_chunks (ml_data_size ?l))"
  have m: "?m = (r + 1023) div 1024"
  proof -
    have "(2 ^ 42 * q + r + 1023) div 1024 = 2 ^ 32 * q + (r + 1023) div 1024"
      using div_mult_self1 [of "1024 :: nat" "r + 1023" "2 ^ 32 * q"] by (simp add: algebra_simps)
    moreover have "(r + 1023) div 1024 < 2 ^ 32" using assms(5) by (simp add: div_less_iff_less_mult)
    ultimately show ?thesis
      using unat_total_chunks [of "ml_data_size ?l"] assms(4-6) by simp
  qed
  then have "?m \<le> 16" using assms(5) div_le_mono [of "r + 1023" 17407 1024] by simp
  then have "rs = submitted_stack env (ke_ktime env (ktime_calls st)) (reserve_calls st) @
      submitted_chunks env ?l (reserve_calls st + 1) ?m"
    using main_new_records [OF assms(1)] assms(7) by (simp add: word_le_nat_alt)
  moreover have "length (submitted_chunks env ?l (reserve_calls st + 1) ?m) = ?m"
    using assms(3) by (intro length_submitted_chunks) blast
  moreover have "bte_data_size (load_trace_event e) = ml_data_size ?l"
    if "e \<in> set (submitted_chunks env ?l (reserve_calls st + 1) ?m)" for e
    using submitted_chunks_set [OF assms(2) that] by (auto simp: chunk_record_def Let_def)
  ultimately show ?thesis using assms(3,4) m by (simp add: submitted_stack_def)
qed

theorem oversize_guard_wraps_witness:
  "length (new_records (sample_state 0)
     (kprobe_binder_transaction (sample_env 4398046511105) (sample_ctx 0) (sample_state 0))) = 2"
  using oversize_guard_wraps [of "sample_env 4398046511105" "sample_ctx 0" "sample_state 0" 1 1, OF _ _ _ _ _ _ refl]
  by simp

text \<open>C31. For a request the program takes the group of the sender for its user: \<^verbatim>\<open>bpf_get_current_uid_gid\<close> returns the
  group in the upper half, and the program takes the upper half. With room in the ring buffer, a request of at most
  16 chunks leaves its records exactly when the configured number is 0 or the sender's group, whatever the sender's
  user is, and every main record carries the group as the user.\<close>

theorem recorded_uid_is_gid:
  assumes "kernel_laws env" "ke_uid_gid env = push_bit 32 (ucast (gid :: u32)) OR ucast (uid :: u32)" "is_request ctx"
    and "trace_config_map st 0 = Some conf" "PT_REGS PARM3 ctx \<noteq> 0" "\<forall>k n. ke_room env k n"
    and "chunks = total_chunks (ml_data_size (tx_locals env ctx st))" "chunks \<le> 16"
    and "rs = new_records st (kprobe_binder_transaction env ctx st)"
  shows "if tc_uid conf = 0 \<or> tc_uid conf = gid
    then length rs = Suc (unat chunks) \<and> (\<forall>r\<in>set (tl rs). bte_uid (load_trace_event r) = gid)
    else rs = []"
proof (cases "tc_uid conf = 0 \<or> tc_uid conf = gid")
  case True
  have "effective_uid env ctx = gid" using assms(2,3) by (simp add: effective_uid_def is_request_def high32_pair)
  then have tr: "traced env ctx st" using True assms(4,5) by (auto simp: traced_def filtered_out_def)
  have l: "ml_uid (tx_locals env ctx st) = gid"
    using assms(2,3) by (simp add: tx_locals_def read_locals_def Let_def is_request_def high32_pair)
  note recs = main_chunk_records [OF assms(1) tr assms(6) refl] assms(7-9)
  have "bte_uid (load_trace_event r) = gid" if "r \<in> set (tl rs)" for r
  proof -
    have "load_trace_event r \<in> set (map load_trace_event (tl rs))" using that by simp
    also have "set (map load_trace_event (tl rs)) = (\<lambda>k. chunk_record env (tx_locals env ctx st) (of_nat k)
        (ke_memory env (reserve_calls st + 1 + k) 1112)) ` {0..<unat chunks}"
      using recs by simp
    finally show ?thesis using l by (auto simp: chunk_record_def Let_def)
  qed
  then show ?thesis using True recs by simp
next
  case False
  have "\<not> traced env ctx st"
    using False assms(2-4) by (auto simp: traced_def filtered_out_def effective_uid_def is_request_def high32_pair)
  then show ?thesis using False kprobe_untraced(1) [of env ctx st] assms(9) by (auto simp: new_records_def)
qed

text \<open>The sample sender has the user 2000 and the group 1000.\<close>

theorem recorded_uid_is_gid_witness:
  "new_records (sample_state 2000) (kprobe_binder_transaction (sample_env 1500) (sample_ctx 0) (sample_state 2000)) = [] \<and>
   length (new_records (sample_state 1000) (kprobe_binder_transaction (sample_env 1500) (sample_ctx 0) (sample_state 1000))) = 3"
proof -
  have room: "\<forall>k n. ke_room (sample_env 1500) k n" and pair: "ke_uid_gid (sample_env 1500) = push_bit 32 (ucast (1000 :: u32)) OR ucast (2000 :: u32)"
    by (simp_all add: sample_env_def)
  have conf: "trace_config_map (sample_state n) 0 = Some \<lparr>tc_uid = n\<rparr>" for n by (simp add: sample_state_def)
  have n: "total_chunks 1500 = 2" by (simp add: total_chunks_def CHUNK_SIZE_def)
  have req: "is_request (sample_ctx 0)" "PT_REGS PARM3 (sample_ctx 0) \<noteq> 0" by (simp_all add: is_request_def)
  show ?thesis
    using recorded_uid_is_gid [OF sample_laws pair req(1) conf [of 2000] req(2) room refl _ refl]
      recorded_uid_is_gid [OF sample_laws pair req(1) conf [of 1000] req(2) room refl _ refl]
    by (simp add: n)
qed

section \<open>The cookie program\<close>

text \<open>Two cookies are equal exactly when they were made at the same clock value and on the same processor,
  for clock values below \<open>2 ^ 56\<close> and processor numbers below 256.\<close>

lemma cookie_injective:
  assumes "unat ts < 2 ^ 56" "unat ts' < 2 ^ 56" "unat cpu < 256" "unat cpu' < 256"
  shows "make_cookie ts cpu = make_cookie ts' cpu' \<longleftrightarrow> ts = ts' \<and> cpu = cpu'"
proof
  assume eq: "make_cookie ts cpu = make_cookie ts' cpu'"
  have "ts = take_bit 56 ts" "ts' = take_bit 56 ts'"
    using assms(1,2) by (simp_all only: word_unat_eq_iff unsigned_take_bit_eq take_bit_nat_eq_self)
  then have "ts = ts'" using eq by (metis make_cookie_high)
  moreover have "unat (ucast (take_bit 8 c) :: u64) = unat c" if "unat c < 256" for c :: u32
    using that by (simp add: unat_ucast_mod unsigned_take_bit_eq take_bit_nat_eq_self)
  then have "unat cpu = unat cpu'" using eq assms(3,4) by (metis make_cookie_low)
  ultimately show "ts = ts' \<and> cpu = cpu'" by (simp add: word_unat_eq_iff)
qed simp

lemma cookie_injective_witness: "make_cookie 5 1 \<noteq> make_cookie 5 2 \<and> make_cookie 5 1 \<noteq> make_cookie 6 1"
  using cookie_injective [of 5 5 1 2] cookie_injective [of 5 6 1 1] by simp

text \<open>C23. A run that allocates a cookie stores it for its thread and submits a record that pairs it with the
  transaction id left by the main program; when the ring buffer has no room, the cookie is stored
  all the same and the loss is counted once, in the sideband slot of the current processor. A run
  that allocates none stores, submits and counts nothing.\<close>

theorem cookie_program:
  assumes "kernel_laws env" "st' = kprobe_binder_transaction_cookie env ctx st" "tid = low32 (ke_pid_tgid env)"
  shows "if \<exists>c tx. allocates env ctx st c tx
    then \<exists>c tx. allocates env ctx st c tx \<and> pending_map st' tid = Some c
      \<and> (if ke_room env (reserve_calls st) 32
         then map load_cookie_sideband (new_records st st') = [cookie_record c tx tid]
           \<and> ringbuf_overflow_map st' = ringbuf_overflow_map st
         else new_records st st' = []
           \<and> (\<forall>slot cpu. ringbuf_overflow_map st' slot cpu = ringbuf_overflow_map st slot cpu +
                (if slot = RB_OVF_SLOT_SIDEBAND \<and> cpu = ke_cpu env then 1 else 0)))
    else pending_map st' = pending_map st \<and> new_records st st' = []
      \<and> ringbuf_overflow_map st' = ringbuf_overflow_map st"
proof (cases "\<exists>c tx. allocates env ctx st c tx")
  case True
  then obtain c tx where a: "allocates env ctx st c tx" by blast
  have p: "pending_map st' tid = Some c"
    using cookie_allocates(1) [OF a] lru.lookup_update [of "ke_evict env" "pending_map st" tid] assms(2,3)
    by (simp add: bpf_map_lookup_elem_def)
  have r: "map load_cookie_sideband (new_records st st') =
      (if ke_room env (reserve_calls st) 32 then [cookie_record c tx tid] else [])"
    using cookie_allocates(2) [OF a] assms load_fill_cookie_sideband kernel_lawsD(4) [OF assms(1)]
    by (simp add: new_records_def)
  have o: "ringbuf_overflow_map st' slot cpu = ringbuf_overflow_map st slot cpu +
      (if \<not> ke_room env (reserve_calls st) 32 \<and> slot = RB_OVF_SLOT_SIDEBAND \<and> cpu = ke_cpu env then 1 else 0)"
    for slot cpu using cookie_overflow [OF a] assms(2) by simp
  show ?thesis
    using a p r o by (intro if_P [THEN iffD2]) (auto simp: fun_eq_iff split: if_splits)
next
  case False
  then show ?thesis using cookie_skips [of env ctx st] assms(2) by (simp add: new_records_def)
qed

theorem cookie_program_witness:
  "map load_cookie_sideband (new_records published_state
     (kprobe_binder_transaction_cookie (sample_env 0) (sample_ctx 0) published_state)) =
   [cookie_record 128003 500 51]"
proof -
  have a: "allocates (sample_env 0) (sample_ctx 0) published_state c tx \<longleftrightarrow> c = 128003 \<and> tx = 500" for c tx
    by (auto simp: allocates_def is_request_def published_state_def sample_state_def filtered_out_def make_cookie_def)
      (auto simp: sample_env_def)
  show ?thesis
    using cookie_program [of "sample_env 0" _ "sample_ctx 0" published_state, OF _ refl refl] by (simp add: a)
qed

text \<open>C29. The cookie program follows the main program. Both run on the same call, with transaction data of at most 16
  chunks, a thread that has no older transaction id and room in the ring buffer. For a request that the configuration
  admits, the cookie program stores a cookie for the thread and submits one record that pairs it with the transaction
  id of the main records just submitted; for a reply and for any other request it submits nothing and stores nothing.
  Clock values and cookies are taken to be nonzero.\<close>

theorem cookie_follows_main:
  assumes "kernel_laws env" "\<forall>k n. ke_room env k n" "trace_config_map st 0 = Some conf" "PT_REGS PARM3 ctx \<noteq> 0"
    and "total_chunks (ml_data_size (tx_locals env ctx st)) \<le> 16" "tid = low32 (ke_pid_tgid env)" "tid_to_txid_map st tid = None"
    and "st' = kprobe_binder_transaction env ctx st" "st'' = kprobe_binder_transaction_cookie env ctx st'"
    and "tx = ke_ktime env (ktime_calls st)" "tx \<noteq> 0" "c = make_cookie (ke_ktime env (ktime_calls st')) (ke_cpu env)" "c \<noteq> 0"
  shows "if is_request ctx \<and> (tc_uid conf = 0 \<or> tc_uid conf = high32 (ke_uid_gid env))
    then pending_map st'' tid = Some c \<and> new_records st st' \<noteq> [] \<and>
      (\<forall>r\<in>set (tl (new_records st st')). bte_transaction_id (load_trace_event r) = tx) \<and>
      map (\<lambda>r. (bcs_kind r, bcs_cookie r, bcs_transaction_id_hint r, bcs_tid r))
        (map load_cookie_sideband (new_records st' st'')) = [(EVT_KIND_COOKIE, c, tx, tid)]
    else pending_map st'' = pending_map st \<and> new_records st' st'' = []"
proof (cases "is_request ctx \<and> (tc_uid conf = 0 \<or> tc_uid conf = high32 (ke_uid_gid env))")
  case True
  then have tr: "traced env ctx st"
    using assms(3,4) by (auto simp: traced_def filtered_out_def effective_uid_def is_request_def)
  have "tid_to_txid_map st' tid = Some tx"
    using kprobe_tid_map [OF tr] lru.lookup_update [of "ke_evict env" "tid_to_txid_map st" tid] True assms(6,8,10)
    by (simp add: bpf_map_lookup_elem_def)
  then have a: "allocates env ctx st' c tx"
    using True assms(3,6,8,11-13) by (auto simp: allocates_def filtered_out_def frame_simps)
  have "pending_map st'' tid = Some c"
    using cookie_allocates(1) [OF a] lru.lookup_update [of "ke_evict env" "pending_map st'" tid] assms(6,9)
    by (simp add: bpf_map_lookup_elem_def)
  moreover have "map load_cookie_sideband (new_records st' st'') = [cookie_record c tx tid]"
    using cookie_allocates(2) [OF a] assms(2,6,9) load_fill_cookie_sideband kernel_lawsD(4) [OF assms(1)]
    by (simp add: new_records_def)
  moreover have "bte_transaction_id (load_trace_event r) = tx" if "r \<in> set (tl (new_records st st'))" for r
  proof -
    have "load_trace_event r \<in> set (map load_trace_event (tl (new_records st st')))" using that by simp
    then show ?thesis
      unfolding assms(8) main_chunk_records(2) [OF assms(1) tr assms(2) refl assms(5)]
      by (auto simp: chunk_record_def Let_def tx_locals_def read_locals_def assms(10))
  qed
  moreover have "new_records st st' \<noteq> []"
    using main_chunk_records(1) [OF assms(1) tr assms(2) refl assms(5)] assms(8) by auto
  ultimately show ?thesis using True by (simp add: cookie_record_def)
next
  case False
  have "tid_to_txid_map st' tid = None" if "is_request ctx"
  proof -
    have "\<not> traced env ctx st"
      using that False assms(3) by (auto simp: traced_def filtered_out_def effective_uid_def is_request_def)
    then show ?thesis using kprobe_untraced(2) [of env ctx st] assms(7,8) by simp
  qed
  then have "\<nexists>c tx. allocates env ctx st' c tx" using assms(6) by (auto simp: allocates_def)
  then show ?thesis
    using False cookie_skips [of env ctx st'] assms(8,9) by (auto simp: new_records_def frame_simps)
qed

theorem cookie_follows_main_witness:
  "\<exists>c. pending_map (kprobe_binder_transaction_cookie (sample_env 1500) (sample_ctx 0)
       (kprobe_binder_transaction (sample_env 1500) (sample_ctx 0) (sample_state 1000))) 51 = Some c \<and> c \<noteq> 0"
proof -
  let ?e = "sample_env 1500" and ?s = "kprobe_binder_transaction (sample_env 1500) (sample_ctx 0) (sample_state 1000)"
  have conf: "trace_config_map (sample_state 1000) 0 = Some \<lparr>tc_uid = 1000\<rparr>" "tid_to_txid_map (sample_state 1000) 51 = None"
    by (simp_all add: sample_state_def)
  have n: "total_chunks (ml_data_size (tx_locals ?e (sample_ctx 0) (sample_state 1000))) \<le> 16"
    by (simp add: total_chunks_def CHUNK_SIZE_def)
  have env: "\<forall>k n. ke_room ?e k n" "51 = low32 (ke_pid_tgid ?e)" "ke_ktime ?e (ktime_calls (sample_state 1000)) \<noteq> 0"
      "high32 (ke_uid_gid ?e) = 1000" "ke_cpu ?e = 3"
    by (simp_all add: sample_env_def sample_state_def high32_def low32_def)
  have "make_cookie (ke_ktime ?e (ktime_calls ?s)) (ke_cpu ?e) \<noteq> 0" using sample_cookie env(5) by simp
  then show ?thesis
    using cookie_follows_main [OF sample_laws env(1) conf(1) _ n env(2) conf(2) refl refl refl env(3) refl] env(4)
    by (simp add: is_request_def)
qed



section \<open>The tracepoint program\<close>

lemma raw_tp_overflow:
  assumes "consumes env args st c"
  shows "ringbuf_overflow_map (raw_tp_binder_transaction env args st) slot cpu =
    ringbuf_overflow_map st slot cpu +
      (if \<not> ke_room env (reserve_calls st) 32 \<and> slot = RB_OVF_SLOT_SIDEBAND \<and> cpu = ke_cpu env then 1 else 0)"
  using assms
  by (auto simp: raw_tp_binder_transaction_def consumes_def bpf_map_lookup_elem_def bpf_ringbuf_reserve_def
      sideband_size Let_def frame_simps inc_overflow_sideband)

text \<open>C24. A run that finds a cookie of its thread removes it, leaves the cookies of other threads, and submits
  one record with the cookie and the transaction's data, or counts the loss when there is no room;
  any other run changes nothing. A second run on the thread finds nothing, so a cookie is used once.\<close>

theorem raw_tp_program:
  assumes "kernel_laws env" "st' = raw_tp_binder_transaction env args st" "tid = low32 (ke_pid_tgid env)"
  shows "if \<exists>c. consumes env args st c
    then \<exists>c. consumes env args st c \<and> pending_map st' = (pending_map st)(tid := None)
      \<and> (if ke_room env (reserve_calls st) 32
         then map load_sideband_event (new_records st st') = [sideband_record env (arg1 args) c]
           \<and> ringbuf_overflow_map st' = ringbuf_overflow_map st
         else new_records st st' = []
           \<and> (\<forall>slot cpu. ringbuf_overflow_map st' slot cpu = ringbuf_overflow_map st slot cpu +
                (if slot = RB_OVF_SLOT_SIDEBAND \<and> cpu = ke_cpu env then 1 else 0)))
      \<and> raw_tp_binder_transaction env args st' = st'
    else st' = st"
proof (cases "\<exists>c. consumes env args st c")
  case True
  then obtain c where a: "consumes env args st c" by blast
  have p: "pending_map st' = (pending_map st)(tid := None)"
    using raw_tp_consumes(1) [OF a] assms(2,3) by (simp add: bpf_map_delete_elem_def)
  have r: "map load_sideband_event (new_records st st') =
      (if ke_room env (reserve_calls st) 32 then [sideband_record env (arg1 args) c] else [])"
    using raw_tp_consumes(2) [OF a] assms load_sideband_bytes kernel_lawsD(4) [OF assms(1)]
    by (simp add: new_records_def)
  have o: "ringbuf_overflow_map st' slot cpu = ringbuf_overflow_map st slot cpu +
      (if \<not> ke_room env (reserve_calls st) 32 \<and> slot = RB_OVF_SLOT_SIDEBAND \<and> cpu = ke_cpu env then 1 else 0)"
    for slot cpu using raw_tp_overflow [OF a] assms(2) by simp
  have "raw_tp_binder_transaction env args st' = st'"
    using p assms(3) by (intro raw_tp_skips) (auto simp: consumes_def)
  then show ?thesis
    using a p r o by (intro if_P [THEN iffD2]) (auto simp: fun_eq_iff split: if_splits)
next
  case False
  then show ?thesis using raw_tp_skips [of env args st] assms(2) by simp
qed

theorem raw_tp_program_witness:
  "map load_sideband_event (new_records pending_state
     (raw_tp_binder_transaction (sample_env 0) \<lparr>arg0 = 0, arg1 = 20480\<rparr> pending_state)) =
   [sideband_record (sample_env 0) 20480 128003]"
proof -
  have "consumes (sample_env 0) \<lparr>arg0 = 0, arg1 = 20480\<rparr> pending_state c \<longleftrightarrow> c = 128003" for c
    by (auto simp: consumes_def pending_state_def sample_state_def)
  then show ?thesis
    using raw_tp_program [of "sample_env 0" _ "\<lparr>arg0 = 0, arg1 = 20480\<rparr>" pending_state, OF _ refl refl] by simp
qed

text \<open>C22. On any kernel that has the members, wherever its types place them, a run of the tracepoint program that finds
  a cookie of its thread and room in the ring buffer submits one record, which names the cookie, the kernel's id of
  the transaction, the receiving task and, where the kernel keeps credentials in the process structure, the receiving
  user; where it does not, the record says so.\<close>

theorem sideband_reports_receiver:
  assumes "core_offset (ke_btf env) ''binder_transaction'' [''debug_id''] = Some o1"
    and "core_offset (ke_btf env) ''binder_transaction'' [''to_proc''] = Some o2"
    and "core_offset (ke_btf env) ''binder_proc'' [''tsk''] = Some o3"
    and "core_offset (ke_btf env) ''task_struct'' [''pid''] = Some o4"
    and "core_offset (ke_btf env) ''cred'' [''euid'', ''val''] = Some o6"
    and "ke_read_kernel env (t + of_nat o1) 4 = le_bytes 4 (debug_id :: 32 word)"
    and "ke_read_kernel env (t + of_nat o2) 8 = le_bytes 8 (proc :: u64)"
    and "ke_read_kernel env (proc + of_nat o3) 8 = le_bytes 8 (task :: u64)"
    and "ke_read_kernel env (task + of_nat o4) 4 = le_bytes 4 (pid :: u32)"
    and "\<And>o5. core_offset (ke_btf env) ''binder_proc'' [''cred''] = Some o5 \<Longrightarrow>
           ke_read_kernel env (proc + of_nat o5) 8 = le_bytes 8 (cred :: u64)
           \<and> ke_read_kernel env (cred + of_nat o6) 4 = le_bytes 4 (uid :: u32)"
    and "has_cred \<longleftrightarrow> member_in (ke_btf env) ''binder_proc'' [''cred''] \<noteq> None"
    and "kernel_laws env" "ke_room env (reserve_calls st) 32" "trace_config_map st 0 \<noteq> None"
    and "(ucast (arg0 args) :: u32) = 0" "arg1 args = t" "t \<noteq> 0"
    and "pending_map st (low32 (ke_pid_tgid env)) = Some c" "c \<noteq> 0"
  shows "map load_sideband_event (new_records st (raw_tp_binder_transaction env args st)) =
    [\<lparr>sbe_kind = EVT_KIND_SIDEBAND, sbe_to_uid_unsupported = (if has_cred then 0 else 1), sbe_reserved0 = 0,
     sbe_reserved1 = 0, sbe_reserved2 = 0, sbe_cookie = c, sbe_kernel_debug_id = scast debug_id,
     sbe_to_pid = pid, sbe_to_uid = (if has_cred then uid else 0)\<rparr>]"
proof -
  have d: "core_value env ''binder_transaction'' t [[''debug_id'']] = debug_id"
    by (simp add: core_value_1 [OF vm_members(5) assms(1)] assms(6) of_le_le_bytes)
  have p: "core_value env ''binder_transaction'' t [[''to_proc''], [''tsk''], [''pid'']] = pid"
    by (simp add: core_value_3 [OF vm_members(6) assms(2) vm_members(8) assms(3) vm_members(13) assms(4) assms(7,8)]
        assms(9) of_le_le_bytes)
  have u: "receiver_uid env t = (if has_cred then (uid, 0) else (0, 1))"
  proof (cases has_cred)
    case True
    then obtain o5 where o5: "core_offset (ke_btf env) ''binder_proc'' [''cred''] = Some o5"
      using assms(11) by (auto simp: core_offset_def)
    then have "core_value env ''binder_transaction'' t [[''to_proc''], [''cred''], [''euid'', ''val'']] = uid"
      using assms(10) [OF o5]
      by (simp add: core_value_3 [OF vm_members(6) assms(2) vm_members(9) o5 vm_members(12) assms(5) assms(7)]
          of_le_le_bytes)
    then show ?thesis using True assms(11) by (simp add: receiver_uid_def bpf_core_field_exists_def)
  next
    case False
    then show ?thesis using assms(11) by (simp add: receiver_uid_def bpf_core_field_exists_def)
  qed
  have found: "consumes env args st c" using assms(14-19) by (simp add: consumes_def)
  have "map load_sideband_event (new_records st (raw_tp_binder_transaction env args st)) = [sideband_record env t c]"
    using raw_tp_consumes(2) [OF found] load_sideband_bytes kernel_lawsD(4) [OF assms(12)] assms(13,16)
    by (simp add: new_records_def)
  then show ?thesis by (simp add: sideband_record_def d p u)
qed

theorem sideband_reports_receiver_witness:
  "map (\<lambda>r. (sbe_cookie r, sbe_kernel_debug_id r, sbe_to_pid r, sbe_to_uid r)) (map load_sideband_event
     (new_records pending_state (raw_tp_binder_transaction (sample_env 0) \<lparr>arg0 = 0, arg1 = 20480\<rparr> pending_state))) =
   [(128003, 9, 77, 88)]"
proof -
  let ?e = "sample_env 0"
  have btf: "ke_btf ?e = vmlinux_types" by (simp add: sample_env_def)
  have reads: "ke_read_kernel ?e 20480 4 = le_bytes 4 (9 :: 32 word)" "ke_read_kernel ?e 20528 8 = le_bytes 8 (24576 :: u64)"
    "ke_read_kernel ?e 24648 8 = le_bytes 8 (32768 :: u64)" "ke_read_kernel ?e 34264 4 = le_bytes 4 (77 :: u32)"
    "ke_read_kernel ?e 24656 8 = le_bytes 8 (28672 :: u64)" "ke_read_kernel ?e 28692 4 = le_bytes 4 (88 :: u32)"
    by (simp_all add: sample_env_def user_bytes_def le_bytes_map upt_rec)
  have st: "trace_config_map pending_state 0 \<noteq> None" "pending_map pending_state (low32 (ke_pid_tgid ?e)) = Some 128003"
      "ke_room ?e (reserve_calls pending_state) 32"
    by (simp_all add: pending_state_def sample_state_def sample_env_def low32_def)
  show ?thesis
    using sideband_reports_receiver [of ?e 0 48 72 1496 20 20480 9 24576 32768 77 28672 88 True pending_state
        "\<lparr>arg0 = 0, arg1 = 20480\<rparr>" 128003] st
    by (simp add: btf core_offset_def vm_members reads)
qed

section \<open>Any sequence of runs\<close>

text \<open>C17. Whatever programs run, on whatever threads, in whatever order and with whatever failures, at most as many
  sideband records carry a cookie as there were allocations of it: no sideband is invented and none
  is duplicated. The same holds with the threads added that still hold the cookie.\<close>

theorem sidebands_never_exceed_allocations:
  assumes "\<forall>r \<in> set rs. kernel_laws (run_env r)" "trace_event_map st = []" "pending_map st = Map.empty"
  shows "sidebands c (exec rs st) + card (holders c (exec rs st)) \<le> allocations c rs st"
proof -
  have "sidebands c st = 0" "card (holders c st) = 0" using assms by (simp_all add: sidebands_def holders_def)
  then show ?thesis using exec_holders [of c rs st] exec_sidebands [OF assms(1), of c st] by linarith
qed

theorem sidebands_never_exceed_allocations_witness:
  "sidebands 7 (exec [RunMain (sample_env 1500) (sample_ctx 0)] (sample_state 0)) = 0"
  using sidebands_never_exceed_allocations [of "[RunMain (sample_env 1500) (sample_ctx 0)]" "sample_state 0" 7]
  by (simp add: sample_state_def)

text \<open>C7. The three programs work together across interference: when a thread's runs of the main, the cookie and
  the tracepoint program are separated by any runs on other threads, and neither map has evicted the
  thread's entry, the cookie record names the transaction id of the main records and the sideband
  record names the cookie of the cookie record.\<close>

theorem programs_linked:
  assumes main: "traced env1 ctx s0" "is_request ctx"
    and tid: "low32 (ke_pid_tgid env1) = tid" "low32 (ke_pid_tgid env2) = tid" "low32 (ke_pid_tgid env3) = tid"
    and others: "\<forall>r \<in> set rs1 \<union> set rs2. run_tid r \<noteq> tid"
    and s1: "s1 = exec rs1 (kprobe_binder_transaction env1 ctx s0)"
    and cookie: "allocates env2 ctx s1 c tx" "kernel_laws env2" "ke_room env2 (reserve_calls s1) 32"
    and s2: "s2 = exec rs2 (kprobe_binder_transaction_cookie env2 ctx s1)"
    and raw: "consumes env3 args s2 c'" "kernel_laws env3" "ke_room env3 (reserve_calls s2) 32"
  shows "map load_cookie_sideband (new_records s1 (kprobe_binder_transaction_cookie env2 ctx s1)) =
      [cookie_record c (ml_transaction_id (tx_locals env1 ctx s0)) tid]
    \<and> map load_sideband_event (new_records s2 (raw_tp_binder_transaction env3 args s2)) =
      [sideband_record env3 (arg1 args) c]"
proof -
  have o1: "\<forall>r \<in> set rs1. run_tid r \<noteq> tid" and o2: "\<forall>r \<in> set rs2. run_tid r \<noteq> tid"
    using others by auto
  have "tid_to_txid_map (kprobe_binder_transaction env1 ctx s0) tid = Some (ml_transaction_id (tx_locals env1 ctx s0))"
    using kprobe_tid_map [OF main(1)] main(2) tid(1)
    by (simp add: lru_map_update_elem_def tx_locals_def read_locals_def Let_def)
  then have tx: "tx = ml_transaction_id (tx_locals env1 ctx s0)"
    using exec_other(2) [OF o1, of "kprobe_binder_transaction env1 ctx s0"] cookie(1) s1 tid(2)
    by (auto simp: allocates_def)
  have "pending_map (kprobe_binder_transaction_cookie env2 ctx s1) tid = Some c"
    using cookie_allocates(1) [OF cookie(1)] tid(2) by (simp add: lru_map_update_elem_def)
  then have c: "c' = c"
    using exec_other(1) [OF o2, of "kprobe_binder_transaction_cookie env2 ctx s1"] raw(1) s2 tid(3)
    by (auto simp: consumes_def)
  show ?thesis
    using cookie_allocates(2) [OF cookie(1)] raw_tp_consumes(2) [OF raw(1)] cookie(3) raw(3) tid tx c
      load_fill_cookie_sideband [OF kernel_lawsD(4) [OF cookie(2)]] load_sideband_bytes [OF kernel_lawsD(4) [OF raw(2)]]
    by (simp add: new_records_def)
qed

theorem programs_linked_witness:
  "\<exists>c. map load_cookie_sideband (new_records
       (kprobe_binder_transaction (sample_env 0) (sample_ctx 0) (sample_state 0))
       (kprobe_binder_transaction_cookie (sample_env 0) (sample_ctx 0)
         (kprobe_binder_transaction (sample_env 0) (sample_ctx 0) (sample_state 0)))) = [cookie_record c 500 51]"
proof -
  let ?e = "sample_env 0" and ?x = "sample_ctx 0" and ?a = "\<lparr>arg0 = 0, arg1 = 20480\<rparr>"
  let ?s1 = "kprobe_binder_transaction ?e ?x (sample_state 0)"
  let ?s2 = "kprobe_binder_transaction_cookie ?e ?x ?s1"
  have tx: "ml_transaction_id (tx_locals ?e ?x (sample_state 0)) = 500" "is_request ?x"
    by (simp_all add: tx_locals_def read_locals_def Let_def is_request_def) (simp_all add: sample_defs)
  have "tid_to_txid_map ?s1 51 = Some 500"
    using kprobe_tid_map [of ?e ?x "sample_state 0"] tx
    by (simp add: lru_map_update_elem_def tx_locals_def read_locals_def Let_def)
  then have al: "allocates ?e ?x ?s1 (make_cookie (ke_ktime ?e (ktime_calls ?s1)) 3) 500"
    using sample_cookie tx by (simp add: allocates_def frame_simps sample_state_def filtered_out_def)
  then have "consumes ?e ?a ?s2 (make_cookie (ke_ktime ?e (ktime_calls ?s1)) 3)"
    using cookie_allocates(1) [OF al] sample_cookie
    by (simp add: consumes_def frame_simps lru_map_update_elem_def sample_state_def)
  then show ?thesis
    using programs_linked [of ?e ?x "sample_state 0" 51 ?e ?e "[]" "[]" ?s1 _ 500 ?s2 ?a] al tx by auto
qed

end
