(* ===== verification/BT_Protocol.thy ===== *)
theory BT_Protocol
  imports BT_Prelude "HOL-Library.Monad_Syntax"
begin

text \<open>
  The wire protocol of \<^verbatim>\<open>daemon/protocol.go\<close>: frames, the version 2 event payload with its
  optional stack trace, and the command payloads. A Go expression that can panic (an index, a
  slice, a fixed-width read) is an \<open>option\<close>, \<open>None\<close> being the panic; Go errors are the left
  component of a sum. Go strings are byte lists.
\<close>

type_synonym bytes = "u8 list"

section \<open>Go slices and big-endian reads\<close>

definition go_index :: "bytes \<Rightarrow> nat \<Rightarrow> u8 option" where
  "go_index data i = (if i < length data then Some (data ! i) else None)"

definition go_slice :: "bytes \<Rightarrow> nat \<Rightarrow> nat \<Rightarrow> bytes option" where
  "go_slice data lo hi = (if lo \<le> hi \<and> hi \<le> length data then Some (slice_at lo (hi - lo) data) else None)"

text \<open>\<^verbatim>\<open>binary.BigEndian.UintN(data[off:])\<close>.\<close>

definition Uint16 :: "bytes \<Rightarrow> nat \<Rightarrow> u16 option" where
  "Uint16 data off = (if off + 2 \<le> length data then Some (of_be (slice_at off 2 data)) else None)"

definition Uint32 :: "bytes \<Rightarrow> nat \<Rightarrow> u32 option" where
  "Uint32 data off = (if off + 4 \<le> length data then Some (of_be (slice_at off 4 data)) else None)"

definition Uint64 :: "bytes \<Rightarrow> nat \<Rightarrow> u64 option" where
  "Uint64 data off = (if off + 8 \<le> length data then Some (of_be (slice_at off 8 data)) else None)"

section \<open>Constants and errors\<close>

definition FrameMagic :: u8 where "FrameMagic = 0xBD"
definition FrameHeaderLen :: nat where "FrameHeaderLen = 6"
definition MaxPayloadLen :: nat where "MaxPayloadLen = 1048576"

definition MsgTypeSetTarget :: u8 where "MsgTypeSetTarget = 0x01"
definition MsgTypePause :: u8 where "MsgTypePause = 0x02"
definition MsgTypeResume :: u8 where "MsgTypeResume = 0x03"
definition MsgTypeShutdown :: u8 where "MsgTypeShutdown = 0x04"
definition MsgTypePing :: u8 where "MsgTypePing = 0x05"
definition MsgTypeBinderEvent :: u8 where "MsgTypeBinderEvent = 0x10"
definition MsgTypeAck :: u8 where "MsgTypeAck = 0x11"
definition MsgTypeError :: u8 where "MsgTypeError = 0x12"
definition MsgTypePong :: u8 where "MsgTypePong = 0x13"

definition BinderEventVersionV2 :: u8 where "BinderEventVersionV2 = 2"
definition BinderEventHeaderLen :: nat where "BinderEventHeaderLen = 60"
definition ExtFlagHasStackTLV :: u8 where "ExtFlagHasStackTLV = 1"
definition TLVTypeStackTrace :: u8 where "TLVTypeStackTrace = 1"
definition tlvHeaderLen :: nat where "tlvHeaderLen = 5"

datatype proto_error =
    ErrInvalidMagic | ErrPayloadTooLong | ErrInvalidFrame
  | ErrUnsupportedEventVersion | ErrTLVGuardFailOpen
  | ErrEOF | ErrUnexpectedEOF | ErrWriteHeader | ErrWritePayload

section \<open>Frames\<close>

record Frame =
  fr_Type :: u8
  fr_Payload :: bytes

text \<open>
  A writer is the function that performs one \<^verbatim>\<open>Write\<close> on its state and says whether it
  succeeded.
\<close>

definition WriteFrame :: "('w \<Rightarrow> bytes \<Rightarrow> 'w \<times> bool) \<Rightarrow> 'w \<Rightarrow> u8 \<Rightarrow> bytes \<Rightarrow> 'w \<times> proto_error option" where
  "WriteFrame wr w msgType payload =
     (if length payload > MaxPayloadLen then (w, Some ErrPayloadTooLong)
      else
        let header = writes [(0, [FrameMagic]), (1, [msgType]),
                             (2, be_bytes 4 (of_nat (length payload) :: u32))]
                       (replicate FrameHeaderLen 0)
        in case wr w header of
             (w1, False) \<Rightarrow> (w1, Some ErrWriteHeader)
           | (w1, True) \<Rightarrow>
               if length payload > 0 then
                 (case wr w1 payload of
                    (w2, False) \<Rightarrow> (w2, Some ErrWritePayload)
                  | (w2, True) \<Rightarrow> (w2, None))
               else (w1, None))"

text \<open>A reader is the bytes still to come; after them the stream ends.\<close>

definition ReadFull :: "nat \<Rightarrow> bytes \<Rightarrow> proto_error + bytes \<times> bytes" where
  "ReadFull n r =
     (if n \<le> length r then Inr (take n r, drop n r)
      else if r = [] then Inl ErrEOF else Inl ErrUnexpectedEOF)"

definition ReadFrame :: "bytes \<Rightarrow> (proto_error + Frame \<times> bytes) option" where
  "ReadFrame r =
     (case ReadFull FrameHeaderLen r of
        Inl e \<Rightarrow> Some (Inl e)
      | Inr (header, r1) \<Rightarrow> do {
          magic \<leftarrow> go_index header 0;
          if magic \<noteq> FrameMagic then Some (Inl ErrInvalidMagic)
          else do {
            msgType \<leftarrow> go_index header 1;
            payloadLen \<leftarrow> Uint32 header 2;
            if unat payloadLen > MaxPayloadLen then Some (Inl ErrPayloadTooLong)
            else if payloadLen > 0 then
              (case ReadFull (unat payloadLen) r1 of
                 Inl e \<Rightarrow> Some (Inl e)
               | Inr (payload, r2) \<Rightarrow> Some (Inr (\<lparr>fr_Type = msgType, fr_Payload = payload\<rparr>, r2)))
            else Some (Inr (\<lparr>fr_Type = msgType, fr_Payload = []\<rparr>, r1))
          }
        })"

section \<open>Stack traces\<close>

record StackFrame =
  sf_PC :: u64
  sf_Module :: bytes
  sf_Symbol :: bytes
  sf_Offset :: u64

record StackTrace =
  st_Quality :: u8
  st_Truncated :: u8
  st_KFrames :: "StackFrame list"
  st_UFrames :: "StackFrame list"
  st_FailureReason :: bytes

definition encodeFrame :: "StackFrame \<Rightarrow> bytes" where
  "encodeFrame fr =
     (let mb = sf_Module fr; sb = sf_Symbol fr
      in writes [(0, be_bytes 8 (sf_PC fr)), (8, be_bytes 2 (of_nat (length mb) :: u16)),
                 (10, be_bytes 2 (of_nat (length sb) :: u16)), (12, be_bytes 8 (sf_Offset fr))]
           (replicate 20 0) @ mb @ sb)"

definition EncodeStackTraceTLV :: "StackTrace \<Rightarrow> bytes" where
  "EncodeStackTraceTLV st =
     writes [(0, [st_Quality st]), (1, [st_Truncated st]),
             (4, be_bytes 2 (of_nat (length (st_KFrames st)) :: u16)),
             (6, be_bytes 2 (of_nat (length (st_UFrames st)) :: u16))] (replicate 8 0)
     @ concat (map encodeFrame (st_KFrames st))
     @ concat (map encodeFrame (st_UFrames st))
     @ be_bytes 2 (of_nat (length (st_FailureReason st)) :: u16)
     @ st_FailureReason st"

text \<open>
  The frames from offset \<open>off\<close> on and the offset after them; the inner \<open>None\<close> is the result
  \<^verbatim>\<open>nil, false\<close>.
\<close>

fun parseFrames :: "bytes \<Rightarrow> nat \<Rightarrow> nat \<Rightarrow> (StackFrame list \<times> nat) option option" where
  "parseFrames data off 0 = Some (Some ([], off))"
| "parseFrames data off (Suc count) =
     (if off + 20 > length data then Some None
      else do {
        pc \<leftarrow> Uint64 data off;
        mLen \<leftarrow> Uint16 data (off + 8);
        sLen \<leftarrow> Uint16 data (off + 10);
        fOff \<leftarrow> Uint64 data (off + 12);
        let off1 = off + 20;
        if off1 + unat mLen + unat sLen > length data then Some None
        else do {
          module \<leftarrow> go_slice data off1 (off1 + unat mLen);
          let off2 = off1 + unat mLen;
          symbol \<leftarrow> go_slice data off2 (off2 + unat sLen);
          rest \<leftarrow> parseFrames data (off2 + unat sLen) count;
          Some (map_option (\<lambda>(out, e).
            (\<lparr>sf_PC = pc, sf_Module = module, sf_Symbol = symbol, sf_Offset = fOff\<rparr> # out, e)) rest)
        }
      })"

definition DecodeStackTraceTLV :: "bytes \<Rightarrow> StackTrace option option" where
  "DecodeStackTraceTLV data =
     (if length data < 8 then Some None
      else do {
        quality \<leftarrow> go_index data 0;
        truncated \<leftarrow> go_index data 1;
        kCount \<leftarrow> Uint16 data 4;
        uCount \<leftarrow> Uint16 data 6;
        ks \<leftarrow> parseFrames data 8 (unat kCount);
        (case ks of
           None \<Rightarrow> Some None
         | Some (kFrames, off) \<Rightarrow> do {
             us \<leftarrow> parseFrames data off (unat uCount);
             (case us of
                None \<Rightarrow> Some None
              | Some (uFrames, off) \<Rightarrow> do {
                  reason \<leftarrow>
                    (if off + 2 \<le> length data then do {
                       rl \<leftarrow> Uint16 data off;
                       if unat rl > 0 \<and> off + 2 + unat rl \<le> length data
                       then go_slice data (off + 2) (off + 2 + unat rl) else Some []
                     } else Some []);
                  Some (Some \<lparr>st_Quality = quality, st_Truncated = truncated, st_KFrames = kFrames,
                    st_UFrames = uFrames, st_FailureReason = reason\<rparr>)
                })
           })
      })"

section \<open>Event payloads\<close>

record BinderEventPayload =
  ev_Timestamp :: int
  ev_Pid :: u32
  ev_Uid :: u32
  ev_Code :: u32
  ev_Flags :: u32
  ev_DataSize :: u32
  ev_IsReply :: u8
  ev_BinderDev :: u8
  ev_TargetKind :: u8
  ev_ToPid :: u32
  ev_ToUid :: u32
  ev_TargetRef :: u64
  ev_PairId :: u64
  ev_ParcelData :: bytes
  ev_StackTrace :: "StackTrace option"

definition event_header_stores :: "BinderEventPayload \<Rightarrow> u8 \<Rightarrow> (nat \<times> bytes) list" where
  "event_header_stores e extFlags =
     [(0, [BinderEventVersionV2]), (1, [extFlags]),
      (4, be_bytes 8 (word_of_int (ev_Timestamp e) :: u64)),
      (12, be_bytes 4 (ev_Pid e)), (16, be_bytes 4 (ev_Uid e)),
      (20, be_bytes 4 (ev_Code e)), (24, be_bytes 4 (ev_Flags e)),
      (28, be_bytes 4 (of_nat (length (ev_ParcelData e)) :: u32)),
      (32, [ev_IsReply e]), (33, [ev_BinderDev e]), (34, [ev_TargetKind e]), (35, [0]),
      (36, be_bytes 4 (ev_ToPid e)), (40, be_bytes 4 (ev_ToUid e)),
      (44, be_bytes 8 (ev_TargetRef e)), (52, be_bytes 8 (ev_PairId e)),
      (BinderEventHeaderLen, ev_ParcelData e)]"

definition Encode :: "BinderEventPayload \<Rightarrow> bytes" where
  "Encode e =
     (let stackTLV = (case ev_StackTrace e of None \<Rightarrow> [] | Some st \<Rightarrow> EncodeStackTraceTLV st);
          extFlags = (case ev_StackTrace e of None \<Rightarrow> 0 | Some _ \<Rightarrow> 0 OR ExtFlagHasStackTLV);
          totalLen = BinderEventHeaderLen + length (ev_ParcelData e)
            + (if length stackTLV > 0 then tlvHeaderLen + length stackTLV else 0);
          buf = writes (event_header_stores e extFlags) (replicate totalLen 0);
          off = BinderEventHeaderLen + length (ev_ParcelData e)
      in if length stackTLV > 0
         then writes [(off, [TLVTypeStackTrace]),
                      (off + 1, be_bytes 4 (of_nat (length stackTLV) :: u32)),
                      (off + tlvHeaderLen, stackTLV)] buf
         else buf)"

record TLVGuardCounters =
  G1BaseHeaderTooShort :: u64
  G2ParcelTruncated :: u64
  G4TLVHeaderTruncated :: u64
  G5TLVPayloadOverflow :: u64

definition decode_base :: "bytes \<Rightarrow> u32 \<Rightarrow> nat \<Rightarrow> BinderEventPayload option" where
  "decode_base data dataSize baseEnd = do {
     timestamp \<leftarrow> Uint64 data 4; pid \<leftarrow> Uint32 data 12; uid \<leftarrow> Uint32 data 16;
     code \<leftarrow> Uint32 data 20; flags \<leftarrow> Uint32 data 24;
     isReply \<leftarrow> go_index data 32; binderDev \<leftarrow> go_index data 33; targetKind \<leftarrow> go_index data 34;
     toPid \<leftarrow> Uint32 data 36; toUid \<leftarrow> Uint32 data 40;
     targetRef \<leftarrow> Uint64 data 44; pairId \<leftarrow> Uint64 data 52;
     parcel \<leftarrow> go_slice data BinderEventHeaderLen baseEnd;
     Some \<lparr>ev_Timestamp = sint timestamp, ev_Pid = pid, ev_Uid = uid, ev_Code = code,
       ev_Flags = flags, ev_DataSize = dataSize, ev_IsReply = isReply, ev_BinderDev = binderDev,
       ev_TargetKind = targetKind, ev_ToPid = toPid, ev_ToUid = toUid, ev_TargetRef = targetRef,
       ev_PairId = pairId, ev_ParcelData = parcel, ev_StackTrace = None\<rparr>
   }"

definition DecodeBinderEvent ::
  "TLVGuardCounters \<Rightarrow> bytes \<Rightarrow> ((proto_error + BinderEventPayload) \<times> TLVGuardCounters) option" where
  "DecodeBinderEvent g data =
     (let payloadLen = length data in
      if payloadLen < BinderEventHeaderLen
      then Some (Inl ErrTLVGuardFailOpen, g\<lparr>G1BaseHeaderTooShort := G1BaseHeaderTooShort g + 1\<rparr>)
      else do {
        version \<leftarrow> go_index data 0;
        if version \<noteq> BinderEventVersionV2 then Some (Inl ErrUnsupportedEventVersion, g)
        else do {
          extFlags \<leftarrow> go_index data 1;
          dataSize \<leftarrow> Uint32 data 28;
          let baseEnd = BinderEventHeaderLen + unat dataSize;
          if payloadLen < baseEnd
          then Some (Inl ErrTLVGuardFailOpen, g\<lparr>G2ParcelTruncated := G2ParcelTruncated g + 1\<rparr>)
          else do {
            ev \<leftarrow> decode_base data dataSize baseEnd;
            if extFlags AND ExtFlagHasStackTLV = 0 then Some (Inr ev, g)
            else if payloadLen < baseEnd + tlvHeaderLen
            then Some (Inr ev, g\<lparr>G4TLVHeaderTruncated := G4TLVHeaderTruncated g + 1\<rparr>)
            else do {
              tlvType \<leftarrow> go_index data baseEnd;
              tlvLength \<leftarrow> Uint32 data (baseEnd + 1);
              if tlvType \<noteq> TLVTypeStackTrace then Some (Inr ev, g)
              else if unat tlvLength > payloadLen - baseEnd - tlvHeaderLen
              then Some (Inr ev, g\<lparr>G5TLVPayloadOverflow := G5TLVPayloadOverflow g + 1\<rparr>)
              else do {
                tlv \<leftarrow> go_slice data (baseEnd + tlvHeaderLen) (baseEnd + tlvHeaderLen + unat tlvLength);
                st \<leftarrow> DecodeStackTraceTLV tlv;
                Some (Inr (ev\<lparr>ev_StackTrace := st\<rparr>), g)
              }
            }
          }
        }
      })"

section \<open>Command payloads\<close>

record AckPayload =
  ack_Success :: bool
  ack_Message :: bytes

record ErrorPayload =
  err_Code :: u32
  err_Message :: bytes

definition EncodeSetTarget :: "u32 \<Rightarrow> bytes" where
  "EncodeSetTarget uid = writes [(0, be_bytes 4 uid)] (replicate 4 0)"

definition DecodeSetTarget :: "bytes \<Rightarrow> (proto_error + u32) option" where
  "DecodeSetTarget data =
     (if length data < 4 then Some (Inl ErrInvalidFrame)
      else do { uid \<leftarrow> Uint32 data 0; Some (Inr uid) })"

definition EncodeAck :: "AckPayload \<Rightarrow> bytes" where
  "EncodeAck p =
     (let msg = ack_Message p
      in writes [(0, [if ack_Success p then 1 else 0]),
                 (1, be_bytes 4 (of_nat (length msg) :: u32)), (5, msg)]
           (replicate (1 + 4 + length msg) 0))"

text \<open>The slice bound \<^verbatim>\<open>5+msgLen\<close> is computed in 32 bits, the length check in the width of \<^verbatim>\<open>int\<close>.\<close>

definition DecodeAck :: "bytes \<Rightarrow> (proto_error + AckPayload) option" where
  "DecodeAck data =
     (if length data < 5 then Some (Inl ErrInvalidFrame)
      else do {
        b \<leftarrow> go_index data 0;
        msgLen \<leftarrow> Uint32 data 1;
        if length data < 5 + unat msgLen then Some (Inl ErrInvalidFrame)
        else do {
          msg \<leftarrow> go_slice data 5 (unat (5 + msgLen));
          Some (Inr \<lparr>ack_Success = (b = 1), ack_Message = msg\<rparr>)
        }
      })"

definition EncodeError :: "ErrorPayload \<Rightarrow> bytes" where
  "EncodeError p =
     (let msg = err_Message p
      in writes [(0, be_bytes 4 (err_Code p)), (4, be_bytes 4 (of_nat (length msg) :: u32)), (8, msg)]
           (replicate (4 + 4 + length msg) 0))"

definition DecodeError :: "bytes \<Rightarrow> (proto_error + ErrorPayload) option" where
  "DecodeError data =
     (if length data < 8 then Some (Inl ErrInvalidFrame)
      else do {
        code \<leftarrow> Uint32 data 0;
        msgLen \<leftarrow> Uint32 data 4;
        if length data < 8 + unat msgLen then Some (Inl ErrInvalidFrame)
        else do {
          msg \<leftarrow> go_slice data 8 (unat (8 + msgLen));
          Some (Inr \<lparr>err_Code = code, err_Message = msg\<rparr>)
        }
      })"

definition hex_digit :: "nat \<Rightarrow> char" where
  "hex_digit n = ''0123456789abcdef'' ! n"

definition MsgTypeName :: "u8 \<Rightarrow> string" where
  "MsgTypeName t =
     (if t = MsgTypeSetTarget then ''SetTarget'' else if t = MsgTypePause then ''Pause''
      else if t = MsgTypeResume then ''Resume'' else if t = MsgTypeShutdown then ''Shutdown''
      else if t = MsgTypePing then ''Ping'' else if t = MsgTypeBinderEvent then ''BinderEvent''
      else if t = MsgTypeAck then ''Ack'' else if t = MsgTypeError then ''Error''
      else if t = MsgTypePong then ''Pong''
      else ''Unknown(0x'' @ [hex_digit (unat t div 16), hex_digit (unat t mod 16)] @ '')'')"

lemmas protocol_consts = FrameMagic_def FrameHeaderLen_def MaxPayloadLen_def
  BinderEventVersionV2_def BinderEventHeaderLen_def ExtFlagHasStackTLV_def TLVTypeStackTrace_def
  tlvHeaderLen_def


section \<open>Reads of concatenations\<close>

lemma go_index_at: "data = xs @ b # ys \<Longrightarrow> off = length xs \<Longrightarrow> go_index data off = Some b"
  by (simp add: go_index_def)

lemma Uint16_at: "data = xs @ be_bytes 2 w @ ys \<Longrightarrow> off = length xs \<Longrightarrow> Uint16 data off = Some w"
  by (simp add: Uint16_def slice_at_append_exact of_be_be_bytes)

lemma Uint32_at: "data = xs @ be_bytes 4 w @ ys \<Longrightarrow> off = length xs \<Longrightarrow> Uint32 data off = Some w"
  by (simp add: Uint32_def slice_at_append_exact of_be_be_bytes)

lemma Uint64_at: "data = xs @ be_bytes 8 w @ ys \<Longrightarrow> off = length xs \<Longrightarrow> Uint64 data off = Some w"
  by (simp add: Uint64_def slice_at_append_exact of_be_be_bytes)

lemma go_slice_at: "data = xs @ zs @ ys \<Longrightarrow> lo = length xs \<Longrightarrow> hi = length xs + length zs \<Longrightarrow>
    go_slice data lo hi = Some zs"
  by (simp add: go_slice_def slice_at_append_exact)

lemmas go_reads_at = go_index_at Uint16_at Uint32_at Uint64_at go_slice_at

text \<open>Within bounds no read panics.\<close>

lemma go_reads_in_bounds:
  "i < length data \<Longrightarrow> \<exists>b. go_index data i = Some b"
  "i + 2 \<le> length data \<Longrightarrow> \<exists>h. Uint16 data i = Some h"
  "i + 4 \<le> length data \<Longrightarrow> \<exists>w. Uint32 data i = Some w"
  "i + 8 \<le> length data \<Longrightarrow> \<exists>d. Uint64 data i = Some d"
  "i \<le> j \<Longrightarrow> j \<le> length data \<Longrightarrow> \<exists>s. go_slice data i j = Some s \<and> length s = j - i"
  by (simp_all add: go_index_def Uint16_def Uint32_def Uint64_def go_slice_def)

lemma unat_of_nat_16: "n < 65536 \<Longrightarrow> unat (of_nat n :: u16) = n"
  by (simp add: unat_of_nat)

lemma unat_of_nat_32: "n < 4294967296 \<Longrightarrow> unat (of_nat n :: u32) = n"
  by (simp add: unat_of_nat)

section \<open>Stores in ascending order\<close>

text \<open>Stores in ascending order into zeroed memory fill it from left to right.\<close>

fun fill :: "nat \<Rightarrow> (nat \<times> bytes) list \<Rightarrow> nat \<Rightarrow> bytes" where
  "fill pos [] n = replicate (n - pos) 0"
| "fill pos ((off, bs) # ws) n = replicate (off - pos) 0 @ bs @ fill (off + length bs) ws n"

fun ascending :: "nat \<Rightarrow> (nat \<times> bytes) list \<Rightarrow> nat \<Rightarrow> bool" where
  "ascending pos [] n \<longleftrightarrow> pos \<le> n"
| "ascending pos ((off, bs) # ws) n \<longleftrightarrow> pos \<le> off \<and> ascending (off + length bs) ws n"

lemma ascending_le: "ascending pos ws n \<Longrightarrow> pos \<le> n"
  by (induction pos ws n rule: ascending.induct) auto

lemma writes_fill:
  "ascending pos ws n \<Longrightarrow> length a = pos \<Longrightarrow> writes ws (a @ replicate (n - pos) 0) = a @ fill pos ws n"
proof (induction pos ws n arbitrary: a rule: ascending.induct)
  case (2 pos off bs ws n)
  let ?a = "a @ replicate (off - pos) 0 @ bs"
  have le: "pos \<le> off" "off + length bs \<le> n" using 2 ascending_le by auto
  then have r: "replicate (n - pos) 0 =
      replicate (off - pos) 0 @ replicate (length bs) 0 @ replicate (n - (off + length bs)) (0 :: u8)"
    by (simp flip: replicate_add)
  have "write_at off bs (a @ replicate (n - pos) 0) = ?a @ replicate (n - (off + length bs)) 0"
    unfolding r using le 2 by (simp add: write_at_def)
  then have "writes ((off, bs) # ws) (a @ replicate (n - pos) 0) =
      writes ws (?a @ replicate (n - (off + length bs)) 0)"
    by (simp add: writes_def)
  also have "\<dots> = ?a @ fill (off + length bs) ws n" using 2 le by (intro "2.IH") auto
  finally show ?case by simp
qed (simp add: writes_def)

lemma writes_zeroed: "ascending 0 ws n \<Longrightarrow> writes ws (replicate n 0) = fill 0 ws n"
  using writes_fill [of 0 ws n "[]"] by simp

section \<open>Stack traces: round trip and absence of panics\<close>

definition frame_fits :: "StackFrame \<Rightarrow> bool" where
  "frame_fits fr \<longleftrightarrow> length (sf_Module fr) < 65536 \<and> length (sf_Symbol fr) < 65536"

definition trace_fits :: "StackTrace \<Rightarrow> bool" where
  "trace_fits st \<longleftrightarrow> length (st_KFrames st) < 65536 \<and> length (st_UFrames st) < 65536 \<and>
     list_all frame_fits (st_KFrames st) \<and> list_all frame_fits (st_UFrames st) \<and>
     length (st_FailureReason st) < 65536"

lemma encodeFrame_bytes:
  "encodeFrame fr = be_bytes 8 (sf_PC fr) @ be_bytes 2 (of_nat (length (sf_Module fr)) :: u16)
     @ be_bytes 2 (of_nat (length (sf_Symbol fr)) :: u16) @ be_bytes 8 (sf_Offset fr)
     @ sf_Module fr @ sf_Symbol fr"
  by (simp add: encodeFrame_def writes_zeroed Let_def)

lemma EncodeStackTraceTLV_bytes:
  "EncodeStackTraceTLV st = [st_Quality st, st_Truncated st, 0, 0]
     @ be_bytes 2 (of_nat (length (st_KFrames st)) :: u16)
     @ be_bytes 2 (of_nat (length (st_UFrames st)) :: u16)
     @ concat (map encodeFrame (st_KFrames st)) @ concat (map encodeFrame (st_UFrames st))
     @ be_bytes 2 (of_nat (length (st_FailureReason st)) :: u16) @ st_FailureReason st"
  by (simp add: EncodeStackTraceTLV_def writes_zeroed numeral_2_eq_2)

lemma parseFrames_encoded:
  assumes "list_all frame_fits frs"
  shows "parseFrames (pre @ concat (map encodeFrame frs) @ rest) (length pre) (length frs) =
    Some (Some (frs, length pre + length (concat (map encodeFrame frs))))"
  using assms
proof (induction frs arbitrary: pre)
  case (Cons fr frs)
  define data where "data = pre @ concat (map encodeFrame (fr # frs)) @ rest"
  have m: "unat (of_nat (length (sf_Module fr)) :: u16) = length (sf_Module fr)"
    and s: "unat (of_nat (length (sf_Symbol fr)) :: u16) = length (sf_Symbol fr)"
    using Cons.prems by (simp_all add: frame_fits_def unat_of_nat_16)
  have later: "parseFrames data (length (pre @ encodeFrame fr)) (length frs) =
      Some (Some (frs, length (pre @ encodeFrame fr) + length (concat (map encodeFrame frs))))"
    using Cons.IH [of "pre @ encodeFrame fr"] Cons.prems by (simp add: data_def)
  let ?h1 = "pre @ be_bytes 8 (sf_PC fr)"
  let ?h2 = "?h1 @ be_bytes 2 (of_nat (length (sf_Module fr)) :: u16)"
  let ?h3 = "?h2 @ be_bytes 2 (of_nat (length (sf_Symbol fr)) :: u16)"
  let ?h4 = "?h3 @ be_bytes 8 (sf_Offset fr)"
  have d: "data = ?h4 @ sf_Module fr @ sf_Symbol fr @ concat (map encodeFrame frs) @ rest"
    by (simp add: data_def encodeFrame_bytes)
  have "Uint64 data (length pre) = Some (sf_PC fr)"
    by (rule Uint64_at [where xs = pre]) (simp_all add: d)
  moreover have "Uint16 data (length pre + 8) = Some (of_nat (length (sf_Module fr)))"
    by (rule Uint16_at [where xs = ?h1]) (simp_all add: d)
  moreover have "Uint16 data (length pre + 10) = Some (of_nat (length (sf_Symbol fr)))"
    by (rule Uint16_at [where xs = ?h2]) (simp_all add: d)
  moreover have "Uint64 data (length pre + 12) = Some (sf_Offset fr)"
    by (rule Uint64_at [where xs = ?h3]) (simp_all add: d)
  moreover have "go_slice data (length pre + 20) (length pre + 20 + length (sf_Module fr)) = Some (sf_Module fr)"
    by (rule go_slice_at [where xs = ?h4]) (simp_all add: d)
  moreover have "go_slice data (length pre + 20 + length (sf_Module fr))
      (length pre + 20 + length (sf_Module fr) + length (sf_Symbol fr)) = Some (sf_Symbol fr)"
    by (rule go_slice_at [where xs = "?h4 @ sf_Module fr"]) (simp_all add: d)
  moreover have "length (encodeFrame fr) = 20 + length (sf_Module fr) + length (sf_Symbol fr)"
    by (simp add: encodeFrame_bytes)
  moreover have "length data \<ge> length pre + 20 + length (sf_Module fr) + length (sf_Symbol fr)"
    by (simp add: d)
  ultimately have "parseFrames data (length pre) (length (fr # frs)) =
      Some (Some (fr # frs, length pre + length (concat (map encodeFrame (fr # frs)))))"
    using later by (simp add: m s Let_def add.assoc)
  then show ?case by (simp add: data_def)
qed simp

lemma parseFrames_at:
  assumes "data = pre @ concat (map encodeFrame frs) @ rest" "off = length pre" "list_all frame_fits frs"
    "e = off + length (concat (map encodeFrame frs))"
  shows "parseFrames data off (length frs) = Some (Some (frs, e))"
  using parseFrames_encoded assms by blast

lemma DecodeStackTraceTLV_Encode:
  assumes "trace_fits st"
  shows "DecodeStackTraceTLV (EncodeStackTraceTLV st) = Some (Some st)"
proof -
  define data where "data = EncodeStackTraceTLV st"
  let ?k = "concat (map encodeFrame (st_KFrames st))"
  let ?u = "concat (map encodeFrame (st_UFrames st))"
  let ?h = "[st_Quality st, st_Truncated st, 0, 0]
    @ be_bytes 2 (of_nat (length (st_KFrames st)) :: u16) @ be_bytes 2 (of_nat (length (st_UFrames st)) :: u16)"
  let ?r = "be_bytes 2 (of_nat (length (st_FailureReason st)) :: u16)"
  have d: "data = ?h @ ?k @ ?u @ ?r @ st_FailureReason st"
    by (simp add: data_def EncodeStackTraceTLV_bytes)
  have fits: "list_all frame_fits (st_KFrames st)" "list_all frame_fits (st_UFrames st)"
    "length (st_KFrames st) < 65536" "length (st_UFrames st) < 65536" "length (st_FailureReason st) < 65536"
    using assms by (simp_all add: trace_fits_def)
  have "go_index data 0 = Some (st_Quality st)"
    by (rule go_index_at [where xs = "[]"]) (simp_all add: d)
  moreover have "go_index data 1 = Some (st_Truncated st)"
    by (rule go_index_at [where xs = "[st_Quality st]"]) (simp_all add: d)
  moreover have "Uint16 data 4 = Some (of_nat (length (st_KFrames st)))"
    by (rule Uint16_at [where xs = "[st_Quality st, st_Truncated st, 0, 0]"]) (simp_all add: d)
  moreover have "Uint16 data 6 = Some (of_nat (length (st_UFrames st)))"
    by (rule Uint16_at [where xs = "[st_Quality st, st_Truncated st, 0, 0]
      @ be_bytes 2 (of_nat (length (st_KFrames st)) :: u16)"]) (simp_all add: d)
  moreover have "parseFrames data 8 (length (st_KFrames st)) = Some (Some (st_KFrames st, 8 + length ?k))"
    by (rule parseFrames_at [where pre = ?h]) (simp_all add: d fits del: length_concat)
  moreover have "parseFrames data (8 + length ?k) (length (st_UFrames st)) =
      Some (Some (st_UFrames st, 8 + length ?k + length ?u))"
    by (rule parseFrames_at [where pre = "?h @ ?k"]) (simp_all add: d fits del: length_concat)
  moreover have "Uint16 data (8 + length ?k + length ?u) = Some (of_nat (length (st_FailureReason st)))"
    by (rule Uint16_at [where xs = "?h @ ?k @ ?u"]) (simp_all add: d)
  moreover have "go_slice data (8 + length ?k + length ?u + 2)
      (8 + length ?k + length ?u + 2 + length (st_FailureReason st)) = Some (st_FailureReason st)"
    by (rule go_slice_at [where xs = "?h @ ?k @ ?u @ ?r" and ys = "[]"]) (simp_all add: d)
  moreover have "length data = 8 + length ?k + length ?u + 2 + length (st_FailureReason st)"
    by (simp add: d)
  ultimately show ?thesis
    unfolding data_def [symmetric]
    by (simp add: DecodeStackTraceTLV_def unat_of_nat_16 fits del: length_concat)
qed

text \<open>The parser stays within its input and never panics.\<close>

lemma parseFrames_no_panic: "\<exists>r. parseFrames data off count = Some r"
proof (induction count arbitrary: off)
  case (Suc count)
  show ?case
  proof (cases "off + 20 > length data")
    case False
    let ?m = "unat (of_be (slice_at (off + 8) 2 data) :: u16)"
    let ?s = "unat (of_be (slice_at (off + 10) 2 data) :: u16)"
    obtain r where "parseFrames data (off + 20 + ?m + ?s) count = Some r"
      using Suc.IH by blast
    with False show ?thesis
      by (simp add: Uint64_def Uint16_def go_slice_def Let_def)
  qed simp
qed simp

lemma DecodeStackTraceTLV_no_panic: "\<exists>r. DecodeStackTraceTLV data = Some r"
proof (cases "length data < 8")
  case False
  obtain ks where k: "parseFrames data 8 (unat (of_be (slice_at 4 2 data) :: u16)) = Some ks"
    using parseFrames_no_panic by blast
  show ?thesis
  proof (cases ks)
    case (Some p)
    obtain fs off where p: "p = (fs, off)" by fastforce
    obtain us where "parseFrames data off (unat (of_be (slice_at 6 2 data) :: u16)) = Some us"
      using parseFrames_no_panic by blast
    with k Some p False show ?thesis
      by (cases us) (auto simp: DecodeStackTraceTLV_def go_index_def Uint16_def go_slice_def)
  qed (use k False in \<open>auto simp: DecodeStackTraceTLV_def go_index_def Uint16_def\<close>)
qed (simp add: DecodeStackTraceTLV_def)

section \<open>Event payloads: round trip and absence of panics\<close>

lemma write_at_append: "write_at (length a + k) bs (a @ b) = a @ write_at k bs b"
  by (simp add: write_at_def)

definition header_bytes :: "BinderEventPayload \<Rightarrow> u8 \<Rightarrow> bytes" where
  "header_bytes e ext = [2, ext, 0, 0] @ be_bytes 8 (word_of_int (ev_Timestamp e) :: u64)
     @ be_bytes 4 (ev_Pid e) @ be_bytes 4 (ev_Uid e) @ be_bytes 4 (ev_Code e) @ be_bytes 4 (ev_Flags e)
     @ be_bytes 4 (of_nat (length (ev_ParcelData e)) :: u32)
     @ [ev_IsReply e, ev_BinderDev e, ev_TargetKind e, 0]
     @ be_bytes 4 (ev_ToPid e) @ be_bytes 4 (ev_ToUid e)
     @ be_bytes 8 (ev_TargetRef e) @ be_bytes 8 (ev_PairId e)"

lemma length_header_bytes [simp]: "length (header_bytes e ext) = 60"
  by (simp add: header_bytes_def)

lemma header_stored:
  "writes (event_header_stores e ext) (replicate (60 + length (ev_ParcelData e) + n) 0) =
     header_bytes e ext @ ev_ParcelData e @ replicate n 0"
  by (simp add: writes_zeroed event_header_stores_def header_bytes_def BinderEventHeaderLen_def
      BinderEventVersionV2_def numeral_2_eq_2)

definition ext_flags :: "BinderEventPayload \<Rightarrow> u8" where
  "ext_flags e = (if ev_StackTrace e = None then 0 else 1)"

definition tlv_bytes :: "BinderEventPayload \<Rightarrow> bytes" where
  "tlv_bytes e = (case ev_StackTrace e of None \<Rightarrow> []
     | Some st \<Rightarrow> [1] @ be_bytes 4 (of_nat (length (EncodeStackTraceTLV st)) :: u32) @ EncodeStackTraceTLV st)"

lemma Encode_bytes: "Encode e = header_bytes e (ext_flags e) @ ev_ParcelData e @ tlv_bytes e"
proof (cases "ev_StackTrace e")
  case None
  then show ?thesis
    using header_stored [of e 0 0] by (simp add: Encode_def ext_flags_def tlv_bytes_def BinderEventHeaderLen_def)
next
  case (Some st)
  let ?t = "EncodeStackTraceTLV st"
  let ?pre = "header_bytes e 1 @ ev_ParcelData e"
  have t: "0 < length ?t" by (simp add: EncodeStackTraceTLV_bytes)
  have "Encode e = writes [(length ?pre + 0, [1]), (length ?pre + 1, be_bytes 4 (of_nat (length ?t) :: u32)),
      (length ?pre + 5, ?t)] (?pre @ replicate (5 + length ?t) 0)"
    using Some t header_stored [of e 1 "5 + length ?t"]
    by (simp add: Encode_def Let_def protocol_consts add.assoc)
  also have "\<dots> = ?pre @ writes [(0, [1]), (1, be_bytes 4 (of_nat (length ?t) :: u32)), (5, ?t)]
      (replicate (5 + length ?t) 0)"
    unfolding writes_def fold.simps o_def id_apply prod.case write_at_append by (rule refl)
  also have "\<dots> = ?pre @ tlv_bytes e"
    using Some by (simp add: tlv_bytes_def writes_zeroed)
  finally show ?thesis using Some by (simp add: ext_flags_def)
qed

lemma header_reads:
  fixes rest :: bytes and e :: BinderEventPayload and ext :: u8
  defines "data \<equiv> header_bytes e ext @ rest"
  shows "go_index data 0 = Some 2" "go_index data 1 = Some ext"
    "Uint64 data 4 = Some (word_of_int (ev_Timestamp e))" "Uint32 data 12 = Some (ev_Pid e)"
    "Uint32 data 16 = Some (ev_Uid e)" "Uint32 data 20 = Some (ev_Code e)"
    "Uint32 data 24 = Some (ev_Flags e)" "Uint32 data 28 = Some (of_nat (length (ev_ParcelData e)))"
    "go_index data 32 = Some (ev_IsReply e)" "go_index data 33 = Some (ev_BinderDev e)"
    "go_index data 34 = Some (ev_TargetKind e)" "Uint32 data 36 = Some (ev_ToPid e)"
    "Uint32 data 40 = Some (ev_ToUid e)" "Uint64 data 44 = Some (ev_TargetRef e)"
    "Uint64 data 52 = Some (ev_PairId e)"
  by (simp_all add: data_def header_bytes_def go_index_def Uint32_def Uint64_def slice_at_def
      nth_append of_be_be_bytes)

lemma sint_word_of_int_63:
  "- (2 ^ 63) \<le> x \<Longrightarrow> x < 2 ^ 63 \<Longrightarrow> sint (word_of_int x :: u64) = x"
  by transfer (simp add: signed_take_bit_int_eq_self)

definition event_fits :: "BinderEventPayload \<Rightarrow> bool" where
  "event_fits e \<longleftrightarrow> - (2 ^ 63) \<le> ev_Timestamp e \<and> ev_Timestamp e < 2 ^ 63 \<and>
     length (ev_ParcelData e) < 2 ^ 32 \<and>
     (case ev_StackTrace e of None \<Rightarrow> True
      | Some st \<Rightarrow> trace_fits st \<and> length (EncodeStackTraceTLV st) < 2 ^ 32)"

lemma decode_base_Encode:
  assumes "event_fits e"
  shows "decode_base (Encode e) sz (60 + length (ev_ParcelData e)) =
    Some (e\<lparr>ev_DataSize := sz, ev_StackTrace := None\<rparr>)"
proof -
  have ts: "sint (word_of_int (ev_Timestamp e) :: u64) = ev_Timestamp e"
    using assms by (simp add: event_fits_def sint_word_of_int_63)
  have "go_slice (Encode e) 60 (60 + length (ev_ParcelData e)) = Some (ev_ParcelData e)"
    by (rule go_slice_at [where xs = "header_bytes e (ext_flags e)"]) (simp_all add: Encode_bytes)
  then show ?thesis
    unfolding decode_base_def BinderEventHeaderLen_def Encode_bytes
    by (simp add: header_reads ts)
qed

lemma DecodeBinderEvent_Encode:
  assumes "event_fits e"
  shows "DecodeBinderEvent g (Encode e) =
    Some (Inr (e\<lparr>ev_DataSize := of_nat (length (ev_ParcelData e))\<rparr>), g)"
proof -
  let ?n = "length (ev_ParcelData e)"
  have n: "unat (of_nat ?n :: u32) = ?n" using assms by (simp add: event_fits_def unat_of_nat_32)
  have len: "length (Encode e) = 60 + ?n + length (tlv_bytes e)" by (simp add: Encode_bytes)
  have base: "go_index (Encode e) 0 = Some 2" "go_index (Encode e) 1 = Some (ext_flags e)"
    "Uint32 (Encode e) 28 = Some (of_nat ?n)"
    unfolding Encode_bytes by (rule header_reads)+
  show ?thesis
  proof (cases "ev_StackTrace e")
    case None
    then show ?thesis
      using assms n len base decode_base_Encode [OF assms]
      by (simp add: DecodeBinderEvent_def protocol_consts ext_flags_def)
  next
    case (Some st)
    let ?t = "EncodeStackTraceTLV st"
    let ?pre = "header_bytes e (ext_flags e) @ ev_ParcelData e"
    have fits: "trace_fits st" "length ?t < 4294967296" using assms Some by (simp_all add: event_fits_def)
    have "go_index (Encode e) (60 + ?n) = Some 1"
      by (rule go_index_at [where xs = ?pre]) (simp_all add: Encode_bytes tlv_bytes_def Some)
    moreover have "Uint32 (Encode e) (60 + ?n + 1) = Some (of_nat (length ?t))"
      by (rule Uint32_at [where xs = "?pre @ [1]"]) (simp_all add: Encode_bytes tlv_bytes_def Some)
    moreover have "go_slice (Encode e) (60 + ?n + 5) (60 + ?n + 5 + length ?t) = Some ?t"
      by (rule go_slice_at [where xs = "?pre @ [1] @ be_bytes 4 (of_nat (length ?t) :: u32)" and ys = "[]"])
        (simp_all add: Encode_bytes tlv_bytes_def Some)
    ultimately show ?thesis
      using n len base decode_base_Encode [OF assms] Some fits
      by (simp add: DecodeBinderEvent_def protocol_consts ext_flags_def tlv_bytes_def unat_of_nat_32
          DecodeStackTraceTLV_Encode)
  qed
qed

text \<open>Whatever the bytes, the decoder does not panic, and it answers as its guards say.\<close>

lemma decode_base_in_bounds:
  assumes "60 \<le> baseEnd" "baseEnd \<le> length data"
  shows "\<exists>ev. decode_base data sz baseEnd = Some ev \<and> ev_DataSize ev = sz \<and>
    ev_ParcelData ev = slice_at 60 (baseEnd - 60) data \<and> ev_StackTrace ev = None"
  using assms by (simp add: decode_base_def go_index_def Uint32_def Uint64_def go_slice_def protocol_consts)

section \<open>Frames\<close>

text \<open>A writer into memory never fails.\<close>

definition buffer_write :: "bytes \<Rightarrow> bytes \<Rightarrow> bytes \<times> bool" where
  "buffer_write w bs = (w @ bs, True)"

text \<open>The bytes that the frames put on the wire, one after the other.\<close>

definition wire :: "Frame list \<Rightarrow> bytes" where
  "wire fs = fold (\<lambda>f w. fst (WriteFrame buffer_write w (fr_Type f) (fr_Payload f))) fs []"

text \<open>The frames that a reader gets until its first error.\<close>

lemma ReadFrame_consumes: "ReadFrame r = Some (Inr (f, r')) \<Longrightarrow> length r' < length r"
  by (auto simp: ReadFrame_def ReadFull_def protocol_consts go_index_def Uint32_def
      split: if_splits option.splits)

function read_frames :: "bytes \<Rightarrow> Frame list \<times> proto_error option" where
  "read_frames r =
     (case ReadFrame r of
        Some (Inr (f, r')) \<Rightarrow> (case read_frames r' of (fs, e) \<Rightarrow> (f # fs, e))
      | Some (Inl e) \<Rightarrow> ([], Some e)
      | None \<Rightarrow> ([], None))"
  by pat_completeness auto

termination
  by (relation "measure length") (auto dest: ReadFrame_consumes)

declare read_frames.simps [simp del]

definition frame_bytes :: "Frame \<Rightarrow> bytes" where
  "frame_bytes f = [FrameMagic, fr_Type f] @ be_bytes 4 (of_nat (length (fr_Payload f)) :: u32) @ fr_Payload f"

lemma length_frame_bytes [simp]: "length (frame_bytes f) = 6 + length (fr_Payload f)"
  by (simp add: frame_bytes_def)

lemma WriteFrame_buffer:
  "length (fr_Payload f) \<le> MaxPayloadLen \<Longrightarrow>
     WriteFrame buffer_write w (fr_Type f) (fr_Payload f) = (w @ frame_bytes f, None)"
  by (auto simp: WriteFrame_def Let_def buffer_write_def frame_bytes_def writes_zeroed FrameHeaderLen_def)

lemma wire_concat:
  assumes "list_all (\<lambda>f. length (fr_Payload f) \<le> MaxPayloadLen) fs"
  shows "wire fs = concat (map frame_bytes fs)"
proof -
  have "fold (\<lambda>f w. fst (WriteFrame buffer_write w (fr_Type f) (fr_Payload f))) fs w =
      w @ concat (map frame_bytes fs)" for w
    using assms by (induction fs arbitrary: w) (simp_all add: WriteFrame_buffer)
  then show ?thesis by (simp add: wire_def)
qed

lemma ReadFrame_frame:
  assumes "length (fr_Payload f) \<le> MaxPayloadLen"
  shows "ReadFrame (frame_bytes f @ r) = Some (Inr (f, r))"
proof -
  have u: "unat (of_nat (length (fr_Payload f)) :: u32) = length (fr_Payload f)"
    using assms by (simp add: MaxPayloadLen_def unat_of_nat_32)
  then have z: "(0 :: u32) < of_nat (length (fr_Payload f)) \<longleftrightarrow> fr_Payload f \<noteq> []"
    by (simp add: word_less_nat_alt)
  have h: "ReadFull FrameHeaderLen (frame_bytes f @ r) =
      Inr ([FrameMagic, fr_Type f] @ be_bytes 4 (of_nat (length (fr_Payload f)) :: u32), fr_Payload f @ r)"
    by (simp add: ReadFull_def FrameHeaderLen_def frame_bytes_def)
  have "Uint32 ([FrameMagic, fr_Type f] @ be_bytes 4 w) 2 = Some w" for w
    by (rule Uint32_at [where xs = "[FrameMagic, fr_Type f]" and ys = "[]"]) simp_all
  with u z h assms show ?thesis
    by (simp add: ReadFrame_def go_index_def ReadFull_def)
qed

text \<open>A frame that is cut off gives an end-of-file error, never a frame.\<close>

lemma ReadFrame_cut:
  assumes "length (fr_Payload f) \<le> MaxPayloadLen" "n < length (frame_bytes f)"
  shows "ReadFrame (take n (frame_bytes f)) \<in> {Some (Inl ErrEOF), Some (Inl ErrUnexpectedEOF)}"
proof (cases "n < 6")
  case True
  then show ?thesis by (simp add: ReadFrame_def ReadFull_def FrameHeaderLen_def)
next
  case False
  have u: "unat (of_nat (length (fr_Payload f)) :: u32) = length (fr_Payload f)"
    using assms by (simp add: MaxPayloadLen_def unat_of_nat_32)
  have p: "fr_Payload f \<noteq> []" using assms False by auto
  then have z: "(0 :: u32) < of_nat (length (fr_Payload f))" using u by (simp add: word_less_nat_alt)
  have h: "ReadFull FrameHeaderLen (take n (frame_bytes f)) =
      Inr ([FrameMagic, fr_Type f] @ be_bytes 4 (of_nat (length (fr_Payload f)) :: u32), take (n - 6) (fr_Payload f))"
    using False by (simp add: ReadFull_def FrameHeaderLen_def frame_bytes_def drop_take take_Cons')
  have "Uint32 ([FrameMagic, fr_Type f] @ be_bytes 4 w) 2 = Some w" for w
    by (rule Uint32_at [where xs = "[FrameMagic, fr_Type f]" and ys = "[]"]) simp_all
  moreover have "ReadFull (length (fr_Payload f)) (take (n - 6) (fr_Payload f)) \<in> {Inl ErrEOF, Inl ErrUnexpectedEOF}"
    using assms(2) False by (auto simp: ReadFull_def)
  ultimately show ?thesis
    using u z assms(1) unfolding ReadFrame_def h by (auto simp: go_index_def)
qed

lemma read_frames_step:
  "length (fr_Payload f) \<le> MaxPayloadLen \<Longrightarrow>
     read_frames (frame_bytes f @ r) = (case read_frames r of (fs, e) \<Rightarrow> (f # fs, e))"
  by (simp add: read_frames.simps [of "frame_bytes f @ r"] ReadFrame_frame)

lemma read_frames_cut:
  assumes "list_all (\<lambda>f. length (fr_Payload f) \<le> MaxPayloadLen) fs" "n \<le> length (concat (map frame_bytes fs))"
  shows "\<exists>k e. read_frames (take n (concat (map frame_bytes fs))) = (take k fs, Some e) \<and> k \<le> length fs \<and>
    e \<in> {ErrEOF, ErrUnexpectedEOF} \<and> length (concat (map frame_bytes (take k fs))) \<le> n \<and>
    (k = length fs \<or> n < length (concat (map frame_bytes (take (Suc k) fs))))"
  using assms
proof (induction fs arbitrary: n)
  case Nil
  then show ?case by (simp add: read_frames.simps [of "[]"] ReadFrame_def ReadFull_def FrameHeaderLen_def)
next
  case (Cons f fs)
  show ?case
  proof (cases "n < length (frame_bytes f)")
    case True
    then have "take n (concat (map frame_bytes (f # fs))) = take n (frame_bytes f)" by simp
    with True Cons.prems ReadFrame_cut [of f n] show ?thesis
      by (intro exI [of _ 0]) (auto simp: read_frames.simps [of "take n (frame_bytes f)"])
  next
    case False
    let ?r = "take (n - length (frame_bytes f)) (concat (map frame_bytes fs))"
    have t: "take n (concat (map frame_bytes (f # fs))) = frame_bytes f @ ?r" using False by simp
    have f: "length (fr_Payload f) \<le> MaxPayloadLen" using Cons.prems by simp
    have le: "n - length (frame_bytes f) \<le> length (concat (map frame_bytes fs))" using Cons.prems(2) by simp
    obtain k e where "read_frames ?r = (take k fs, Some e)" "k \<le> length fs" "e \<in> {ErrEOF, ErrUnexpectedEOF}"
      "length (concat (map frame_bytes (take k fs))) \<le> n - length (frame_bytes f)"
      "k = length fs \<or> n - length (frame_bytes f) < length (concat (map frame_bytes (take (Suc k) fs)))"
      using Cons.IH [OF _ le] Cons.prems(1) by auto
    then show ?thesis
      using False unfolding t
      by (intro exI [of _ "Suc k"] exI [of _ e])
        (auto simp: read_frames_step [OF f])
  qed
qed

section \<open>Commands\<close>

lemma EncodeSetTarget_bytes: "EncodeSetTarget u = be_bytes 4 u"
  by (simp add: EncodeSetTarget_def writes_zeroed)

lemma EncodeAck_bytes:
  "EncodeAck p = [if ack_Success p then 1 else 0] @ be_bytes 4 (of_nat (length (ack_Message p)) :: u32) @ ack_Message p"
  by (simp add: EncodeAck_def writes_zeroed Let_def)

lemma EncodeError_bytes:
  "EncodeError p = be_bytes 4 (err_Code p) @ be_bytes 4 (of_nat (length (err_Message p)) :: u32) @ err_Message p"
  by (simp add: EncodeError_def writes_zeroed Let_def)

lemma DecodeSetTarget_Encode: "DecodeSetTarget (EncodeSetTarget u) = Some (Inr u)"
proof -
  have "Uint32 (be_bytes 4 u) 0 = Some u" by (rule Uint32_at [where xs = "[]" and ys = "[]"]) simp_all
  then show ?thesis by (simp add: DecodeSetTarget_def EncodeSetTarget_bytes)
qed

lemma unat_bound_sum: "unat k + unat w < 2 ^ 32 \<Longrightarrow> unat (k + w :: u32) = unat k + unat w"
  by (simp add: unat_word_ariths)

lemma DecodeAck_Encode:
  assumes "length (ack_Message p) \<le> MaxPayloadLen"
  shows "DecodeAck (EncodeAck p) = Some (Inr p)"
proof -
  let ?n = "length (ack_Message p)"
  have n: "unat (of_nat ?n :: u32) = ?n" using assms by (simp add: MaxPayloadLen_def unat_of_nat_32)
  have s: "unat (5 + of_nat ?n :: u32) = 5 + ?n"
    using unat_bound_sum [of 5 "of_nat ?n"] assms n by (simp add: MaxPayloadLen_def)
  have "go_index (EncodeAck p) 0 = Some (if ack_Success p then 1 else 0)"
    by (rule go_index_at [where xs = "[]"]) (simp_all add: EncodeAck_bytes)
  moreover have "Uint32 (EncodeAck p) 1 = Some (of_nat ?n)"
    by (rule Uint32_at [where xs = "[if ack_Success p then 1 else 0]"]) (simp_all add: EncodeAck_bytes)
  moreover have "go_slice (EncodeAck p) 5 (5 + ?n) = Some (ack_Message p)"
    by (rule go_slice_at [where xs = "[if ack_Success p then 1 else 0] @ be_bytes 4 (of_nat ?n :: u32)" and ys = "[]"])
      (simp_all add: EncodeAck_bytes)
  moreover have "length (EncodeAck p) = 5 + ?n" by (simp add: EncodeAck_bytes)
  ultimately show ?thesis by (simp add: DecodeAck_def n s)
qed

lemma DecodeError_Encode:
  assumes "length (err_Message p) \<le> MaxPayloadLen"
  shows "DecodeError (EncodeError p) = Some (Inr p)"
proof -
  let ?n = "length (err_Message p)"
  have n: "unat (of_nat ?n :: u32) = ?n" using assms by (simp add: MaxPayloadLen_def unat_of_nat_32)
  have s: "unat (8 + of_nat ?n :: u32) = 8 + ?n"
    using unat_bound_sum [of 8 "of_nat ?n"] assms n by (simp add: MaxPayloadLen_def)
  have "Uint32 (EncodeError p) 0 = Some (err_Code p)"
    by (rule Uint32_at [where xs = "[]"]) (simp_all add: EncodeError_bytes)
  moreover have "Uint32 (EncodeError p) 4 = Some (of_nat ?n)"
    by (rule Uint32_at [where xs = "be_bytes 4 (err_Code p)"]) (simp_all add: EncodeError_bytes)
  moreover have "go_slice (EncodeError p) 8 (8 + ?n) = Some (err_Message p)"
    by (rule go_slice_at [where xs = "be_bytes 4 (err_Code p) @ be_bytes 4 (of_nat ?n :: u32)" and ys = "[]"])
      (simp_all add: EncodeError_bytes)
  moreover have "length (EncodeError p) = 8 + ?n" by (simp add: EncodeError_bytes)
  ultimately show ?thesis by (simp add: DecodeError_def n s)
qed

lemma commands_no_panic:
  assumes "length data \<le> MaxPayloadLen"
  shows "DecodeSetTarget data \<noteq> None" "DecodeAck data \<noteq> None" "DecodeError data \<noteq> None"
proof -
  show "DecodeSetTarget data \<noteq> None" by (simp add: DecodeSetTarget_def Uint32_def)
  have sum: "unat (k + w :: u32) = unat k + unat w" if "\<not> length data < unat k + unat w" for k w
    using that assms unat_bound_sum [of k w] by (simp add: MaxPayloadLen_def)
  show "DecodeAck data \<noteq> None"
    using sum [of 5] by (auto simp: DecodeAck_def go_index_def Uint32_def go_slice_def)
  show "DecodeError data \<noteq> None"
    using sum [of 8] by (auto simp: DecodeError_def Uint32_def go_slice_def)
qed

end
