(* ===== verification/BT_AppEvent.thy ===== *)
theory BT_AppEvent
  imports BT_Protocol
begin

text \<open>
  The reading side of the wire protocol in the Android app: \<^verbatim>\<open>BinderEvent.fromPayload\<close>
  (\<^verbatim>\<open>model/BinderEvent.kt\<close>), \<^verbatim>\<open>StackTraceCodec\<close> and the enumerations of \<^verbatim>\<open>model/StackTrace.kt\<close>. A thrown exception is
  \<open>None\<close>; an \<^verbatim>\<open>Int\<close> is a 32-bit word compared as a signed number; the decoding of UTF-8 is a
  parameter. A \<^verbatim>\<open>ByteBuffer\<close> is the list of its remaining bytes.
\<close>

section \<open>ByteBuffer\<close>

definition bb_get :: "nat \<Rightarrow> bytes \<Rightarrow> (bytes \<times> bytes) option" where
  "bb_get n r = (if n \<le> length r then Some (take n r, drop n r) else None)"

definition bb_byte :: "bytes \<Rightarrow> (u8 \<times> bytes) option" where
  "bb_byte r = map_option (\<lambda>(b, r'). (of_be b, r')) (bb_get 1 r)"

definition bb_short :: "bytes \<Rightarrow> (u16 \<times> bytes) option" where
  "bb_short r = map_option (\<lambda>(b, r'). (of_be b, r')) (bb_get 2 r)"

definition bb_int :: "bytes \<Rightarrow> (u32 \<times> bytes) option" where
  "bb_int r = map_option (\<lambda>(b, r'). (of_be b, r')) (bb_get 4 r)"

definition bb_long :: "bytes \<Rightarrow> (u64 \<times> bytes) option" where
  "bb_long r = map_option (\<lambda>(b, r'). (of_be b, r')) (bb_get 8 r)"

section \<open>Model classes\<close>

datatype BinderDev = DEV_UNKNOWN | DEV_BINDER | DEV_HWBINDER | DEV_VNDBINDER
datatype TargetKind = KIND_UNKNOWN | KIND_HANDLE | KIND_PTR
datatype StackQuality = FULL | FP_ONLY | DEGRADED | FAILED

definition BinderDev_fromByte :: "u8 \<Rightarrow> BinderDev" where
  "BinderDev_fromByte b = (if b = 1 then DEV_BINDER else if b = 2 then DEV_HWBINDER
     else if b = 3 then DEV_VNDBINDER else DEV_UNKNOWN)"

definition TargetKind_fromByte :: "u8 \<Rightarrow> TargetKind" where
  "TargetKind_fromByte b = (if b = 1 then KIND_HANDLE else if b = 2 then KIND_PTR else KIND_UNKNOWN)"

definition StackQuality_fromRaw :: "u8 \<Rightarrow> StackQuality" where
  "StackQuality_fromRaw b = (if b = 0 then FULL else if b = 1 then FP_ONLY else if b = 2 then DEGRADED
     else if b = 3 then FAILED else DEGRADED)"

record 's app_frame =
  af_pc :: int
  af_module :: 's
  af_symbol :: 's
  af_offset :: int

record 's app_trace =
  at_quality :: StackQuality
  at_truncated :: int
  at_kFrames :: "'s app_frame list"
  at_uFrames :: "'s app_frame list"
  at_failureReason :: 's

record 's BinderEvent =
  be_id :: u64
  be_timestamp :: int
  be_pid :: int
  be_uid :: int
  be_code :: int
  be_flags :: int
  be_rawParcel :: bytes
  be_isReply :: bool
  be_binderDev :: BinderDev
  be_targetKind :: TargetKind
  be_toPid :: int
  be_toUid :: int
  be_targetRef :: int
  be_pairId :: int
  be_stackTrace :: "'s app_trace option"

text \<open>The process-wide counters of the companion object.\<close>

record app_counters =
  idCounter :: u64
  tlvGuardG1Count :: u64
  tlvGuardG2Count :: u64
  tlvGuardG4Count :: u64
  tlvGuardG5Count :: u64

section \<open>The stack trace codec\<close>

fun codec_parseFrames :: "(bytes \<Rightarrow> 's) \<Rightarrow> nat \<Rightarrow> bytes \<Rightarrow> ('s app_frame list \<times> bytes) option option" where
  "codec_parseFrames utf8 0 buf = Some (Some ([], buf))"
| "codec_parseFrames utf8 (Suc n) buf =
     (if length buf < 20 then Some None
      else do {
        (pc, buf) \<leftarrow> bb_long buf;
        (mLen, buf) \<leftarrow> bb_short buf;
        (sLen, buf) \<leftarrow> bb_short buf;
        (offset, buf) \<leftarrow> bb_long buf;
        if length buf < unat mLen + unat sLen then Some None
        else do {
          (mb, buf) \<leftarrow> (if unat mLen > 0 then bb_get (unat mLen) buf else Some ([], buf));
          (sb, buf) \<leftarrow> (if unat sLen > 0 then bb_get (unat sLen) buf else Some ([], buf));
          rest \<leftarrow> codec_parseFrames utf8 n buf;
          Some (map_option (\<lambda>(out, buf).
            (\<lparr>af_pc = sint pc, af_module = utf8 mb, af_symbol = utf8 sb, af_offset = sint offset\<rparr> # out, buf)) rest)
        }
      })"

text \<open>\<open>start\<close> and \<open>len\<close> are the \<^verbatim>\<open>Int\<close> arguments; the sum of the bounds check is an \<^verbatim>\<open>Int\<close> too.\<close>

definition codec_decode :: "(bytes \<Rightarrow> 's) \<Rightarrow> bytes \<Rightarrow> u32 \<Rightarrow> u32 \<Rightarrow> 's app_trace option option" where
  "codec_decode utf8 data start len =
     (if sint len < 8 then Some None
      else if sint start < 0 \<or> sint (start + len) > int (length data) then Some None
      else do {
        let buf = slice_at (unat start) (unat len) data;
        if length buf < 8 then Some None
        else do {
          (quality, buf) \<leftarrow> bb_byte buf;
          (truncated, buf) \<leftarrow> bb_byte buf;
          (_, buf) \<leftarrow> bb_short buf;
          (kCount, buf) \<leftarrow> bb_short buf;
          (uCount, buf) \<leftarrow> bb_short buf;
          ks \<leftarrow> codec_parseFrames utf8 (unat kCount) buf;
          (case ks of
             None \<Rightarrow> Some None
           | Some (kFrames, buf) \<Rightarrow> do {
               us \<leftarrow> codec_parseFrames utf8 (unat uCount) buf;
               (case us of
                  None \<Rightarrow> Some None
                | Some (uFrames, buf) \<Rightarrow> do {
                    reason \<leftarrow>
                      (if length buf \<ge> 2 then do {
                         (rl, buf) \<leftarrow> bb_short buf;
                         if 1 \<le> unat rl \<and> unat rl \<le> length buf
                         then map_option fst (bb_get (unat rl) buf) else Some []
                       } else Some []);
                    Some (Some \<lparr>at_quality = StackQuality_fromRaw quality,
                      at_truncated = uint truncated, at_kFrames = kFrames,
                      at_uFrames = uFrames, at_failureReason = utf8 reason\<rparr>)
                  })
             })
        }
      })"

section \<open>Events\<close>

text \<open>
  The guards 3 to 5. The read of the length field and the codec run on indices that the guards
  have checked; \<^verbatim>\<open>runCatching\<close> turns an exception of the codec into no stack.
\<close>

definition parseStackTraceTLV ::
  "(bytes \<Rightarrow> 's) \<Rightarrow> app_counters \<Rightarrow> bytes \<Rightarrow> u32 \<Rightarrow> u8 \<Rightarrow> ('s app_trace option \<times> app_counters) option" where
  "parseStackTraceTLV utf8 st payload baseEnd extFlags =
     (if extFlags AND 1 = 0 then Some (None, st)
      else if int (length payload) < sint (baseEnd + 5)
      then Some (None, st\<lparr>tlvGuardG4Count := tlvGuardG4Count st + 1\<rparr>)
      else if sint baseEnd < 0 then None
      else do {
        tlvType \<leftarrow> go_index payload (unat baseEnd);
        (tlvLength, _) \<leftarrow> bb_int (slice_at (unat (baseEnd + 1)) 4 payload);
        if tlvType \<noteq> 1 then Some (None, st)
        else
          let maxTlvLen = sint (word_of_nat (length payload) - baseEnd - 5) in
          if int (unat tlvLength) > maxTlvLen
          then Some (None, st\<lparr>tlvGuardG5Count := tlvGuardG5Count st + 1\<rparr>)
          else Some (case codec_decode utf8 payload (baseEnd + 5) tlvLength of None \<Rightarrow> None | Some t \<Rightarrow> t, st)
      })"

definition fromPayload ::
  "(bytes \<Rightarrow> 's) \<Rightarrow> app_counters \<Rightarrow> bytes \<Rightarrow> ('s BinderEvent option \<times> app_counters) option" where
  "fromPayload utf8 st payload =
     (if length payload < 60 then Some (None, st\<lparr>tlvGuardG1Count := tlvGuardG1Count st + 1\<rparr>)
      else do {
        (version, buffer) \<leftarrow> bb_byte payload;
        if version \<noteq> 2 then Some (None, st)
        else do {
          (extFlags, buffer) \<leftarrow> bb_byte buffer;
          (_, buffer) \<leftarrow> bb_short buffer;
          (timestamp, buffer) \<leftarrow> bb_long buffer;
          (pid, buffer) \<leftarrow> bb_int buffer;
          (uid, buffer) \<leftarrow> bb_int buffer;
          (code, buffer) \<leftarrow> bb_int buffer;
          (flags, buffer) \<leftarrow> bb_int buffer;
          (dataSize, buffer) \<leftarrow> bb_int buffer;
          (isReplyByte, buffer) \<leftarrow> bb_byte buffer;
          (binderDevByte, buffer) \<leftarrow> bb_byte buffer;
          (targetKindByte, buffer) \<leftarrow> bb_byte buffer;
          (_, buffer) \<leftarrow> bb_byte buffer;
          (toPid, buffer) \<leftarrow> bb_int buffer;
          (toUid, buffer) \<leftarrow> bb_int buffer;
          (targetRef, buffer) \<leftarrow> bb_long buffer;
          (pairId, buffer) \<leftarrow> bb_long buffer;
          let baseEnd = 60 + dataSize;
          if sint dataSize < 0 \<or> sint baseEnd > int (length payload)
          then Some (None, st\<lparr>tlvGuardG2Count := tlvGuardG2Count st + 1\<rparr>)
          else do {
            parcelData \<leftarrow> (if sint dataSize > 0 then map_option fst (bb_get (unat dataSize) buffer) else Some []);
            (stackTrace, st) \<leftarrow> parseStackTraceTLV utf8 st payload baseEnd extFlags;
            Some (Some \<lparr>be_id = idCounter st, be_timestamp = sint timestamp, be_pid = sint pid,
              be_uid = sint uid, be_code = sint code, be_flags = sint flags, be_rawParcel = parcelData,
              be_isReply = (isReplyByte = 1), be_binderDev = BinderDev_fromByte binderDevByte,
              be_targetKind = TargetKind_fromByte targetKindByte, be_toPid = sint toPid,
              be_toUid = sint toUid, be_targetRef = sint targetRef, be_pairId = sint pairId,
              be_stackTrace = stackTrace\<rparr>, st\<lparr>idCounter := idCounter st + 1\<rparr>)
          }
        }
      })"

section \<open>Agreement with the daemon\<close>

definition app_frame_of :: "(bytes \<Rightarrow> 's) \<Rightarrow> StackFrame \<Rightarrow> 's app_frame" where
  "app_frame_of utf8 fr = \<lparr>af_pc = sint (sf_PC fr), af_module = utf8 (sf_Module fr),
     af_symbol = utf8 (sf_Symbol fr), af_offset = sint (sf_Offset fr)\<rparr>"

definition app_trace_of :: "(bytes \<Rightarrow> 's) \<Rightarrow> StackTrace \<Rightarrow> 's app_trace" where
  "app_trace_of utf8 st = \<lparr>at_quality = StackQuality_fromRaw (st_Quality st),
     at_truncated = uint (st_Truncated st), at_kFrames = map (app_frame_of utf8) (st_KFrames st),
     at_uFrames = map (app_frame_of utf8) (st_UFrames st), at_failureReason = utf8 (st_FailureReason st)\<rparr>"

definition app_event_of :: "(bytes \<Rightarrow> 's) \<Rightarrow> u64 \<Rightarrow> BinderEventPayload \<Rightarrow> 's BinderEvent" where
  "app_event_of utf8 i ev = \<lparr>be_id = i, be_timestamp = ev_Timestamp ev, be_pid = sint (ev_Pid ev),
     be_uid = sint (ev_Uid ev), be_code = sint (ev_Code ev), be_flags = sint (ev_Flags ev),
     be_rawParcel = ev_ParcelData ev, be_isReply = (ev_IsReply ev = 1),
     be_binderDev = BinderDev_fromByte (ev_BinderDev ev),
     be_targetKind = TargetKind_fromByte (ev_TargetKind ev), be_toPid = sint (ev_ToPid ev),
     be_toUid = sint (ev_ToUid ev), be_targetRef = sint (ev_TargetRef ev), be_pairId = sint (ev_PairId ev),
     be_stackTrace = map_option (app_trace_of utf8) (ev_StackTrace ev)\<rparr>"

definition app_counters_of :: "u64 \<Rightarrow> TLVGuardCounters \<Rightarrow> app_counters" where
  "app_counters_of i g = \<lparr>idCounter = i, tlvGuardG1Count = G1BaseHeaderTooShort g,
     tlvGuardG2Count = G2ParcelTruncated g, tlvGuardG4Count = G4TLVHeaderTruncated g,
     tlvGuardG5Count = G5TLVPayloadOverflow g\<rparr>"

lemma bb_get_drop: "off + n \<le> length d \<Longrightarrow> bb_get n (drop off d) = Some (slice_at off n d, drop (off + n) d)"
  by (simp add: bb_get_def slice_at_def add.commute)

lemma of_be_single: "off < length d \<Longrightarrow> of_be (slice_at off 1 d) = (d ! off :: u8)"
  by (simp add: slice_at_def of_be_def take_Suc_conv_app_nth hd_drop_conv_nth take_Suc)

lemma bb_drop:
  "off < length d \<Longrightarrow> bb_byte (drop off d) = Some (d ! off, drop (off + 1) d)"
  "off + 2 \<le> length d \<Longrightarrow> bb_short (drop off d) = Some (of_be (slice_at off 2 d), drop (off + 2) d)"
  "off + 4 \<le> length d \<Longrightarrow> bb_int (drop off d) = Some (of_be (slice_at off 4 d), drop (off + 4) d)"
  "off + 8 \<le> length d \<Longrightarrow> bb_long (drop off d) = Some (of_be (slice_at off 8 d), drop (off + 8) d)"
  using of_be_single [of off d]
  by (simp_all add: bb_byte_def bb_short_def bb_int_def bb_long_def bb_get_drop)

lemma sint_of_nat_31: "k < 2 ^ 31 \<Longrightarrow> sint (of_nat k :: u32) = int k"
  by (simp add: signed_of_nat signed_take_bit_int_eq_self)

lemma slice_at_nothing: "slice_at off 0 d = []"
  by (simp add: slice_at_def)

lemma uint_pos: "w \<noteq> 0 \<Longrightarrow> 0 < uint w"
  using uint_0_iff [of w] by (simp add: less_le)

lemma bb_get_opt: "(if 0 < k then bb_get k r else Some ([], r)) = bb_get k r"
  by (simp add: bb_get_def)

lemma codec_parseFrames_agrees:
  "off \<le> length data \<Longrightarrow> codec_parseFrames utf8 n (drop off data) =
     map_option (map_option (\<lambda>(fs, e). (map (app_frame_of utf8) fs, drop e data))) (parseFrames data off n)"
proof (induction n arbitrary: off)
  case (Suc n)
  show ?case
  proof (cases "off + 20 > length data")
    case False
    define mL sL :: u16 where "mL = of_be (slice_at (off + 8) 2 data)" and "sL = of_be (slice_at (off + 10) 2 data)"
    have reads: "bb_long (drop off data) = Some (of_be (slice_at off 8 data), drop (off + 8) data)"
      "bb_short (drop (off + 8) data) = Some (mL, drop (off + 10) data)"
      "bb_short (drop (off + 10) data) = Some (sL, drop (off + 12) data)"
      "bb_long (drop (off + 12) data) = Some (of_be (slice_at (off + 12) 8 data), drop (off + 20) data)"
      "Uint16 data (off + 8) = Some mL" "Uint16 data (off + 10) = Some sL"
      using False bb_drop(2) [of "off + 8" data] bb_drop(2) [of "off + 10" data] bb_drop(4) [of off data]
        bb_drop(4) [of "off + 12" data]
      by (simp_all add: mL_def sL_def Uint16_def add.commute)
    show ?thesis
    proof (cases "off + 20 + unat mL + unat sL > length data")
      case True
      then have "length (drop (off + 20) data) < unat mL + unat sL" using False by simp
      with False True reads show ?thesis
        by (simp add: Uint64_def Let_def)
    next
      case inb: False
      then have "bb_get (unat mL) (drop (off + 20) data) =
          Some (slice_at (off + 20) (unat mL) data, drop (off + 20 + unat mL) data)"
        "bb_get (unat sL) (drop (off + 20 + unat mL) data) =
          Some (slice_at (off + 20 + unat mL) (unat sL) data, drop (off + 20 + unat mL + unat sL) data)"
        by (simp_all add: bb_get_drop)
      with inb reads show ?thesis
        unfolding codec_parseFrames.simps bb_get_opt using Suc.IH [of "off + 20 + unat mL + unat sL"]
        by (cases "parseFrames data (off + 20 + unat mL + unat sL) n")
          (auto simp: Uint64_def Let_def go_slice_def app_frame_of_def option.map_comp o_def case_prod_unfold)
    qed
  next
    case True
    then have "length (drop off data) < 20" using Suc.prems by simp
    with True show ?thesis by simp
  qed
qed simp

lemma parseFrames_bound:
  "parseFrames data off n = Some (Some (fs, e)) \<Longrightarrow> off \<le> length data \<Longrightarrow> e \<le> length data"
proof (induction n arbitrary: off fs e)
  case (Suc n)
  then obtain m s :: u16 and r where
    "parseFrames data (off + 20 + unat m + unat s) n = Some r" "r = Some (tl fs, e)"
    "off + 20 + unat m + unat s \<le> length data"
    by (auto simp: Uint64_def Uint16_def go_slice_def Let_def split: if_splits bind_splits)
  then show ?case using Suc.IH by blast
qed simp

text \<open>What both decoders do after the eight bytes of the header.\<close>

definition codec_frames :: "(bytes \<Rightarrow> 's) \<Rightarrow> u8 \<Rightarrow> u8 \<Rightarrow> u16 \<Rightarrow> u16 \<Rightarrow> bytes \<Rightarrow> 's app_trace option option" where
  "codec_frames utf8 quality truncated kCount uCount buf = do {
     ks \<leftarrow> codec_parseFrames utf8 (unat kCount) buf;
     (case ks of
        None \<Rightarrow> Some None
      | Some (kFrames, buf) \<Rightarrow> do {
          us \<leftarrow> codec_parseFrames utf8 (unat uCount) buf;
          (case us of
             None \<Rightarrow> Some None
           | Some (uFrames, buf) \<Rightarrow> do {
               reason \<leftarrow>
                 (if length buf \<ge> 2 then do {
                    (rl, buf) \<leftarrow> bb_short buf;
                    if 1 \<le> unat rl \<and> unat rl \<le> length buf
                    then map_option fst (bb_get (unat rl) buf) else Some []
                  } else Some []);
               Some (Some \<lparr>at_quality = StackQuality_fromRaw quality,
                 at_truncated = uint truncated, at_kFrames = kFrames,
                 at_uFrames = uFrames, at_failureReason = utf8 reason\<rparr>)
             })
        })
   }"

definition go_frames :: "u8 \<Rightarrow> u8 \<Rightarrow> u16 \<Rightarrow> u16 \<Rightarrow> bytes \<Rightarrow> StackTrace option option" where
  "go_frames quality truncated kCount uCount data = do {
     ks \<leftarrow> parseFrames data 8 (unat kCount);
     (case ks of
        None \<Rightarrow> Some None
      | Some (kFrames, off) \<Rightarrow> do {
          us \<leftarrow> parseFrames data off (unat uCount);
          (case us of
             None \<Rightarrow> Some None
           | Some (uFrames, off) \<Rightarrow> do {
               reason \<leftarrow>
                 (if off + 2 \<le> length data then do {
                    rl \<leftarrow> Uint16 data off;
                    if unat rl > 0 \<and> off + 2 + unat rl \<le> length data
                    then go_slice data (off + 2) (off + 2 + unat rl) else Some []
                  } else Some []);
               Some (Some \<lparr>st_Quality = quality, st_Truncated = truncated, st_KFrames = kFrames,
                 st_UFrames = uFrames, st_FailureReason = reason\<rparr>)
             })
        })
   }"

lemma codec_frames_agrees:
  assumes "8 \<le> length d"
  shows "codec_frames utf8 q t kC uC (drop 8 d) = map_option (map_option (app_trace_of utf8)) (go_frames q t kC uC d)"
proof -
  obtain ks where ks: "parseFrames d 8 (unat kC) = Some ks" using parseFrames_no_panic by blast
  show ?thesis
  proof (cases ks)
    case (Some p)
    obtain kf off where p: "p = (kf, off)" by fastforce
    have off: "off \<le> length d" using parseFrames_bound ks Some p assms by blast
    obtain us where us: "parseFrames d off (unat uC) = Some us" using parseFrames_no_panic by blast
    show ?thesis
    proof (cases us)
      case uSome: (Some q)
      obtain uf off2 where q: "q = (uf, off2)" by fastforce
      have off2: "off2 \<le> length d" using parseFrames_bound us uSome q off by blast
      show ?thesis
      proof (cases "off2 + 2 \<le> length d")
        case True
        define rl :: u16 where "rl = of_be (slice_at off2 2 d)"
        have "bb_short (drop off2 d) = Some (rl, drop (off2 + 2) d)" "Uint16 d off2 = Some rl"
          using True bb_drop(2) [of off2 d] by (simp_all add: rl_def Uint16_def)
        with True ks Some p us uSome q off assms show ?thesis
          by (auto simp: codec_frames_def go_frames_def codec_parseFrames_agrees app_trace_of_def
              bb_get_drop go_slice_def)
      next
        case False
        then have "\<not> 2 \<le> length (drop off2 d)" using off2 by simp
        with False off2 ks Some p us uSome q off assms show ?thesis
          by (simp add: codec_frames_def go_frames_def codec_parseFrames_agrees app_trace_of_def)
      qed
    qed (use ks Some p us off assms in \<open>simp add: codec_frames_def go_frames_def codec_parseFrames_agrees\<close>)
  qed (use ks assms in \<open>simp add: codec_frames_def go_frames_def codec_parseFrames_agrees\<close>)
qed

lemma codec_decode_agrees:
  assumes "length data < 2 ^ 31" "start + len \<le> length data"
  shows "codec_decode utf8 data (of_nat start) (of_nat len) =
    map_option (map_option (app_trace_of utf8)) (DecodeStackTraceTLV (slice_at start len data))"
proof -
  define d where "d = slice_at start len data"
  have n: "sint (of_nat k :: u32) = int k" "unat (of_nat k :: u32) = k" if "k \<le> length data" for k
    using that assms(1) by (simp_all add: sint_of_nat_31 unat_of_nat_32)
  have s: "sint (of_nat start + of_nat len :: u32) = int (start + len)"
    using n [of "start + len"] assms(2) by simp
  have l: "length d = len" using assms(2) by (simp add: d_def)
  show ?thesis
  proof (cases "len < 8")
    case True
    then show ?thesis using n [of len] assms(2) l by (simp add: codec_decode_def DecodeStackTraceTLV_def flip: d_def)
  next
    case False
    define kC uC :: u16 where "kC = of_be (slice_at 4 2 d)" and "uC = of_be (slice_at 6 2 d)"
    have "bb_byte d = Some (d ! 0, drop 1 d)" "bb_byte (drop 1 d) = Some (d ! 1, drop 2 d)"
      using False l bb_drop(1) [of 0 d] bb_drop(1) [of 1 d] by (simp_all add: numeral_2_eq_2)
    moreover have "bb_short (drop 2 d) = Some (of_be (slice_at 2 2 d), drop 4 d)"
      "bb_short (drop 4 d) = Some (kC, drop 6 d)" "bb_short (drop 6 d) = Some (uC, drop 8 d)"
      using False l bb_drop(2) [of 2 d] bb_drop(2) [of 4 d] bb_drop(2) [of 6 d] by (simp_all add: kC_def uC_def)
    moreover have "go_index d 0 = Some (d ! 0)" "go_index d 1 = Some (d ! 1)"
      "Uint16 d 4 = Some kC" "Uint16 d 6 = Some uC"
      using False l by (simp_all add: kC_def uC_def go_index_def Uint16_def)
    ultimately have heads: "bb_byte d = Some (d ! 0, drop 1 d)" "bb_byte (drop 1 d) = Some (d ! 1, drop 2 d)"
      "bb_short (drop 2 d) = Some (of_be (slice_at 2 2 d), drop 4 d)"
      "bb_short (drop 4 d) = Some (kC, drop 6 d)" "bb_short (drop 6 d) = Some (uC, drop 8 d)"
      "go_index d 0 = Some (d ! 0)" "go_index d 1 = Some (d ! 1)" "Uint16 d 4 = Some kC" "Uint16 d 6 = Some uC"
      by blast+
    have go: "codec_decode utf8 data (of_nat start) (of_nat len) = codec_frames utf8 (d ! 0) (d ! 1) kC uC (drop 8 d)"
      using False n [of start] n [of len] s assms(2) l heads
      by (simp add: codec_decode_def codec_frames_def flip: d_def)
    have l8: "\<not> length d < 8" using False l by simp
    have "DecodeStackTraceTLV d = go_frames (d ! 0) (d ! 1) kC uC d"
      by (simp only: DecodeStackTraceTLV_def go_frames_def heads l8 if_False Option.bind.simps)
    with go show ?thesis
      using codec_frames_agrees [of d utf8 "d ! 0" "d ! 1" kC uC] False l by (simp flip: d_def)
  qed
qed

text \<open>
  The data size field, and the range of it in which the \<^verbatim>\<open>Int\<close> sum of the app overflows past the
  check that follows it.
\<close>

definition size_field :: "bytes \<Rightarrow> u32" where
  "size_field payload = of_be (slice_at 28 4 payload)"

definition overflow_band :: "u32 \<Rightarrow> bool" where
  "overflow_band sz \<longleftrightarrow> 2 ^ 31 - 60 \<le> unat sz \<and> unat sz < 2 ^ 31"

lemma app_header:
  assumes "60 \<le> length d"
  shows "bb_byte d = Some (d ! 0, drop 1 d)" "bb_byte (drop 1 d) = Some (d ! 1, drop 2 d)"
    "bb_short (drop 2 d) = Some (of_be (slice_at 2 2 d), drop 4 d)"
    "bb_long (drop 4 d) = Some (of_be (slice_at 4 8 d), drop 12 d)"
    "bb_int (drop 12 d) = Some (of_be (slice_at 12 4 d), drop 16 d)"
    "bb_int (drop 16 d) = Some (of_be (slice_at 16 4 d), drop 20 d)"
    "bb_int (drop 20 d) = Some (of_be (slice_at 20 4 d), drop 24 d)"
    "bb_int (drop 24 d) = Some (of_be (slice_at 24 4 d), drop 28 d)"
    "bb_int (drop 28 d) = Some (size_field d, drop 32 d)"
    "bb_byte (drop 32 d) = Some (d ! 32, drop 33 d)" "bb_byte (drop 33 d) = Some (d ! 33, drop 34 d)"
    "bb_byte (drop 34 d) = Some (d ! 34, drop 35 d)" "bb_byte (drop 35 d) = Some (d ! 35, drop 36 d)"
    "bb_int (drop 36 d) = Some (of_be (slice_at 36 4 d), drop 40 d)"
    "bb_int (drop 40 d) = Some (of_be (slice_at 40 4 d), drop 44 d)"
    "bb_long (drop 44 d) = Some (of_be (slice_at 44 8 d), drop 52 d)"
    "bb_long (drop 52 d) = Some (of_be (slice_at 52 8 d), drop 60 d)"
proof -
  show "bb_byte d = Some (d ! 0, drop 1 d)" using assms bb_drop(1) [of 0 d] by (cases d) simp_all
  show "bb_byte (drop 1 d) = Some (d ! 1, drop 2 d)"
    using assms bb_drop(1) [of 1 d] by (simp add: numeral_2_eq_2)
qed (use assms in \<open>simp_all add: bb_drop size_field_def\<close>)

lemma sint_size:
  fixes sz :: u32
  shows "sint sz < 0 \<longleftrightarrow> 2 ^ 31 \<le> unat sz" "unat sz < 2 ^ 31 \<Longrightarrow> sint sz = int (unat sz)"
proof -
  have u: "unat sz < 2 ^ 32" using unsigned_less [of sz] by simp
  have "bit sz 31 \<longleftrightarrow> odd (unat sz div 2 ^ 31)"
    using bit_iff_odd [of "unat sz" 31] by (simp add: bit_unsigned_iff)
  also have "\<dots> \<longleftrightarrow> 2 ^ 31 \<le> unat sz"
  proof (cases "2 ^ 31 \<le> unat sz")
    case True
    with u have "unat sz div 2 ^ 31 = 1" by (intro div_nat_eqI) simp_all
    with True show ?thesis by simp
  qed (simp add: div_less)
  finally show "sint sz < 0 \<longleftrightarrow> 2 ^ 31 \<le> unat sz"
    using bit_last_iff [of sz] by simp
  show "sint sz = int (unat sz)" if "unat sz < 2 ^ 31"
    using sint_of_nat_31 [OF that] by simp
qed

text \<open>Below the band the signed sum of the app is the sum of the daemon.\<close>

lemma base_end:
  assumes "length payload \<le> MaxPayloadLen" "\<not> overflow_band sz"
  shows "sint sz < 0 \<or> sint (60 + sz) > int (length payload) \<longleftrightarrow> length payload < 60 + unat sz"
proof (cases "unat sz < 2 ^ 31")
  case True
  with assms(2) have "60 + unat sz < 2 ^ 31" by (simp add: overflow_band_def)
  moreover have "60 + sz = of_nat (60 + unat sz)" by simp
  ultimately have "sint (60 + sz) = int (60 + unat sz)" using sint_of_nat_31 [of "60 + unat sz"] by simp
  then show ?thesis using True sint_size(1) [of sz] by (simp del: of_nat_unat) linarith
next
  case False
  then show ?thesis using sint_size(1) [of sz] assms(1) by (simp add: MaxPayloadLen_def)
qed

lemma parseStackTraceTLV_agrees:
  assumes "length payload \<le> MaxPayloadLen" "baseEnd \<le> length payload"
  shows "parseStackTraceTLV utf8 (app_counters_of i g) payload (of_nat baseEnd) ext =
    (if ext AND 1 = 0 then Some (None, app_counters_of i g)
     else if length payload < baseEnd + 5
     then Some (None, app_counters_of i (g\<lparr>G4TLVHeaderTruncated := G4TLVHeaderTruncated g + 1\<rparr>))
     else if payload ! baseEnd \<noteq> 1 then Some (None, app_counters_of i g)
     else let n = unat (of_be (slice_at (baseEnd + 1) 4 payload) :: u32) in
       if n > length payload - baseEnd - 5
       then Some (None, app_counters_of i (g\<lparr>G5TLVPayloadOverflow := G5TLVPayloadOverflow g + 1\<rparr>))
       else Some (map_option (app_trace_of utf8) (the (DecodeStackTraceTLV (slice_at (baseEnd + 5) n payload))),
         app_counters_of i g))" (is "_ = ?rhs")
proof -
  have small: "length payload + 5 < 2 ^ 31" using assms(1) by (simp add: MaxPayloadLen_def)
  have n: "sint (of_nat k :: u32) = int k" "unat (of_nat k :: u32) = k" if "k \<le> length payload + 5" for k
    using that small by (simp_all add: sint_of_nat_31 unat_of_nat_32)
  define B :: u32 where "B = of_nat baseEnd"
  have B: "sint B = int baseEnd" "unat B = baseEnd" "sint (B + 5) = int baseEnd + 5"
    using n [of baseEnd] n [of "baseEnd + 5"] assms(2) by (simp_all add: B_def)
  show ?thesis unfolding B_def [symmetric]
  proof (cases "ext AND 1 = 0 \<or> length payload < baseEnd + 5")
    case True
    then show "parseStackTraceTLV utf8 (app_counters_of i g) payload B ext = ?rhs"
      by (auto simp: parseStackTraceTLV_def app_counters_of_def B)
  next
    case False
    define t :: u32 where "t = of_be (slice_at (baseEnd + 1) 4 payload)"
    have "bb_int (slice_at (baseEnd + 1) 4 payload) = Some (t, [])"
      using False by (auto simp: bb_int_def bb_get_def t_def)
    moreover have "unat (B + 1) = baseEnd + 1"
      using n [of "baseEnd + 1"] assms(2) by (simp add: B_def add.commute)
    moreover have "word_of_nat (length payload) - B - 5 = (of_nat (length payload - baseEnd - 5) :: u32)"
      using False by (simp add: of_nat_diff B_def)
    then have m: "sint (word_of_nat (length payload) - B - 5) = int (length payload - baseEnd - 5)"
      using n [of "length payload - baseEnd - 5"] by simp
    have u: "uint t = int (unat t)" by simp
    have "sint (word_of_nat (length payload) - B - 5) < uint t \<longleftrightarrow> length payload - baseEnd - 5 < unat t"
      unfolding m u by (simp only: of_nat_less_iff)
    moreover have "codec_decode utf8 payload (B + 5) t =
        map_option (map_option (app_trace_of utf8)) (DecodeStackTraceTLV (slice_at (baseEnd + 5) (unat t) payload))"
      if "unat t \<le> length payload - baseEnd - 5"
      using codec_decode_agrees [of payload "baseEnd + 5" "unat t" utf8] that False small by (auto simp: B_def)
    moreover obtain r where "DecodeStackTraceTLV (slice_at (baseEnd + 5) (unat t) payload) = Some r"
      using DecodeStackTraceTLV_no_panic by blast
    ultimately show "parseStackTraceTLV utf8 (app_counters_of i g) payload B ext = ?rhs"
      using False unfolding parseStackTraceTLV_def Let_def t_def [symmetric] B
      by (auto simp: app_counters_of_def go_index_def not_less)
  qed
qed

definition base_event :: "bytes \<Rightarrow> BinderEventPayload" where
  "base_event d = \<lparr>ev_Timestamp = sint (of_be (slice_at 4 8 d) :: u64), ev_Pid = of_be (slice_at 12 4 d),
     ev_Uid = of_be (slice_at 16 4 d), ev_Code = of_be (slice_at 20 4 d), ev_Flags = of_be (slice_at 24 4 d),
     ev_DataSize = size_field d, ev_IsReply = d ! 32, ev_BinderDev = d ! 33, ev_TargetKind = d ! 34,
     ev_ToPid = of_be (slice_at 36 4 d), ev_ToUid = of_be (slice_at 40 4 d),
     ev_TargetRef = of_be (slice_at 44 8 d), ev_PairId = of_be (slice_at 52 8 d),
     ev_ParcelData = slice_at 60 (unat (size_field d)) d, ev_StackTrace = None\<rparr>"

lemma decode_base_value:
  "\<not> length d < 60 + unat (size_field d) \<Longrightarrow>
     decode_base d (size_field d) (60 + unat (size_field d)) = Some (base_event d)"
  by (simp add: decode_base_def go_index_def Uint32_def Uint64_def go_slice_def protocol_consts base_event_def)

lemma DecodeBinderEvent_tail:
  assumes "60 \<le> length d" "go_index d 0 = Some 2" "go_index d 1 = Some ext" "Uint32 d 28 = Some sz"
    "\<not> length d < 60 + unat sz" "decode_base d sz (60 + unat sz) = Some ev"
    "DecodeStackTraceTLV (slice_at (60 + unat sz + 5) (unat (of_be (slice_at (60 + unat sz + 1) 4 d) :: u32)) d) = Some tr"
  shows "DecodeBinderEvent g d =
    (if ext AND 1 = 0 then Some (Inr ev, g)
     else if length d < 60 + unat sz + 5
     then Some (Inr ev, g\<lparr>G4TLVHeaderTruncated := G4TLVHeaderTruncated g + 1\<rparr>)
     else if d ! (60 + unat sz) \<noteq> 1 then Some (Inr ev, g)
     else if unat (of_be (slice_at (60 + unat sz + 1) 4 d) :: u32) > length d - (60 + unat sz) - 5
     then Some (Inr ev, g\<lparr>G5TLVPayloadOverflow := G5TLVPayloadOverflow g + 1\<rparr>)
     else Some (Inr (ev\<lparr>ev_StackTrace := tr\<rparr>), g))"
proof -
  define e where "e = 60 + unat sz"
  define w :: u32 where "w = of_be (slice_at (e + 1) 4 d)"
  have "go_index d e = Some (d ! e)" "Uint32 d (e + 1) = Some w" if "\<not> length d < e + 5"
    using that by (simp_all add: go_index_def Uint32_def w_def)
  moreover have "go_slice d (e + 5) (e + 5 + unat w) = Some (slice_at (e + 5) (unat w) d)"
    if "\<not> length d < e + 5" "\<not> unat w > length d - e - 5"
    using that by (simp add: go_slice_def)
  ultimately show ?thesis
    using assms unfolding e_def [symmetric] w_def [symmetric] DecodeBinderEvent_def protocol_consts Let_def
    by (simp flip: e_def)
qed

lemma fromPayload_agrees:
  assumes "length payload \<le> MaxPayloadLen" "60 \<le> length payload \<longrightarrow> \<not> overflow_band (size_field payload)"
  shows "fromPayload utf8 (app_counters_of i g) payload =
    map_option (\<lambda>(r, g'). case r of Inl _ \<Rightarrow> (None, app_counters_of i g')
      | Inr ev \<Rightarrow> (Some (app_event_of utf8 i ev), app_counters_of (i + 1) g')) (DecodeBinderEvent g payload)"
proof (cases "length payload < 60 \<or> payload ! 0 \<noteq> 2")
  case True
  then show ?thesis
    using app_header(1) [of payload]
    by (auto simp: fromPayload_def DecodeBinderEvent_def protocol_consts app_counters_of_def go_index_def)
next
  case False
  let ?sz = "size_field payload"
  have heads: "go_index payload 0 = Some 2" "go_index payload 1 = Some (payload ! 1)"
    "Uint32 payload 28 = Some ?sz"
    using False by (auto simp: go_index_def Uint32_def size_field_def)
  have len: "60 \<le> length payload" using False by simp
  show ?thesis
  proof (cases "length payload < 60 + unat ?sz")
    case True
    then show ?thesis
      using False len heads base_end [of payload ?sz] assms app_header [OF len]
      by (auto simp: fromPayload_def DecodeBinderEvent_def protocol_consts app_counters_of_def)
  next
    case in_bounds: False
    have "unat ?sz < 2 ^ 31" using in_bounds assms(1) by (simp add: MaxPayloadLen_def)
    then have sz: "sint ?sz = int (unat ?sz)" by (rule sint_size)
    let ?e = "60 + unat ?sz"
    define ev where "ev = base_event payload"
    have le: "?e \<le> length payload" using in_bounds by simp
    have base: "decode_base payload ?sz ?e = Some ev"
      using in_bounds by (simp add: ev_def decode_base_value)
    have app: "fromPayload utf8 (app_counters_of i g) payload =
        parseStackTraceTLV utf8 (app_counters_of i g) payload (of_nat ?e) (payload ! 1) \<bind>
        (\<lambda>(t, st). Some (Some ((app_event_of utf8 (idCounter st) ev)\<lparr>be_stackTrace := t\<rparr>),
           st\<lparr>idCounter := idCounter st + 1\<rparr>))"
      using False len in_bounds base_end [of payload ?sz] assms app_header [OF len] sz
      by (cases "?sz = 0") (simp_all add: fromPayload_def ev_def app_event_of_def base_event_def bb_get_drop
          slice_at_nothing uint_pos)
    define n where "n = unat (of_be (slice_at (?e + 1) 4 payload) :: u32)"
    obtain tr where tr: "DecodeStackTraceTLV (slice_at (?e + 5) n payload) = Some tr"
      using DecodeStackTraceTLV_no_panic by blast
    have ev: "ev_StackTrace ev = None" by (simp add: ev_def base_event_def)
    have "DecodeBinderEvent g payload =
        (if payload ! 1 AND 1 = 0 then Some (Inr ev, g)
         else if length payload < ?e + 5
         then Some (Inr ev, g\<lparr>G4TLVHeaderTruncated := G4TLVHeaderTruncated g + 1\<rparr>)
         else if payload ! ?e \<noteq> 1 then Some (Inr ev, g)
         else if n > length payload - ?e - 5
         then Some (Inr ev, g\<lparr>G5TLVPayloadOverflow := G5TLVPayloadOverflow g + 1\<rparr>)
         else Some (Inr (ev\<lparr>ev_StackTrace := tr\<rparr>), g))"
      by (rule DecodeBinderEvent_tail [OF len heads in_bounds base tr [unfolded n_def], folded n_def])
    then show ?thesis
      unfolding app parseStackTraceTLV_agrees [OF assms(1) le] Let_def n_def [symmetric] tr option.sel
      using ev by (simp add: app_event_of_def app_counters_of_def)
  qed
qed

text \<open>In the band the app throws where the daemon answers with an error.\<close>

lemma fromPayload_overflow:
  assumes "60 \<le> length payload" "length payload \<le> MaxPayloadLen" "payload ! 0 = 2"
    "overflow_band (size_field payload)"
  shows "fromPayload utf8 st payload = None"
    "DecodeBinderEvent g payload =
       Some (Inl ErrTLVGuardFailOpen, g\<lparr>G2ParcelTruncated := G2ParcelTruncated g + 1\<rparr>)"
proof -
  let ?sz = "size_field payload"
  have band: "2 ^ 31 \<le> 60 + unat ?sz" "unat ?sz < 2 ^ 31" using assms(4) by (simp_all add: overflow_band_def)
  then have sz: "sint ?sz = int (unat ?sz)" using sint_size by blast
  have big: "length payload < 60 + unat ?sz" using assms(2) band by (simp add: MaxPayloadLen_def)
  have "60 + ?sz = of_nat (60 + unat ?sz)" by simp
  then have "unat (60 + ?sz) = 60 + unat ?sz" using band by (simp add: unat_of_nat_32 del: of_nat_add)
  then have neg: "sint (60 + ?sz) < 0" using sint_size(1) [of "60 + ?sz"] band by simp
  have "bb_get (unat ?sz) (drop 60 payload) = None" using big assms(1) by (simp add: bb_get_def)
  moreover have "?sz \<noteq> 0" using band by auto
  then have "0 < sint ?sz" using sz uint_pos [of ?sz] by simp
  ultimately show "fromPayload utf8 st payload = None"
    using assms(1,3) app_header [OF assms(1)] neg by (simp add: fromPayload_def)
  show "DecodeBinderEvent g payload =
      Some (Inl ErrTLVGuardFailOpen, g\<lparr>G2ParcelTruncated := G2ParcelTruncated g + 1\<rparr>)"
    using assms(1,3) big
    by (auto simp: DecodeBinderEvent_def protocol_consts go_index_def Uint32_def size_field_def)
qed

end
