(* ===== verification/BT_ProtocolProperties.thy ===== *)
theory BT_ProtocolProperties
  imports BT_AppEvent
begin

text \<open>
  Properties of the wire protocol: what the daemon encodes the daemon decodes, no input makes
  the decoder panic, a broken stream never yields a wrong frame, and the decoder of the app is
  the decoder of the daemon.
\<close>

section \<open>Sample values\<close>

definition sample_trace :: StackTrace where
  "sample_trace = \<lparr>st_Quality = 0, st_Truncated = 1,
     st_KFrames = [\<lparr>sf_PC = 0x1000, sf_Module = [107], sf_Symbol = [102, 103], sf_Offset = 16\<rparr>],
     st_UFrames = [], st_FailureReason = []\<rparr>"

definition sample_event :: BinderEventPayload where
  "sample_event = \<lparr>ev_Timestamp = 5, ev_Pid = 7, ev_Uid = 1000, ev_Code = 3, ev_Flags = 0,
     ev_DataSize = 4, ev_IsReply = 0, ev_BinderDev = 1, ev_TargetKind = 0, ev_ToPid = 9,
     ev_ToUid = 10001, ev_TargetRef = 11, ev_PairId = 12, ev_ParcelData = [1, 2, 3, 4],
     ev_StackTrace = Some sample_trace\<rparr>"

definition no_guards :: TLVGuardCounters where
  "no_guards = \<lparr>G1BaseHeaderTooShort = 0, G2ParcelTruncated = 0, G4TLVHeaderTruncated = 0,
     G5TLVPayloadOverflow = 0\<rparr>"

lemma sample_event_fits: "event_fits sample_event"
  by (simp add: event_fits_def sample_event_def sample_trace_def trace_fits_def frame_fits_def
      EncodeStackTraceTLV_bytes encodeFrame_bytes)

text \<open>A version 2 payload that declares 0x7fffffff bytes of parcel data and carries none.\<close>

definition overflowing_payload :: bytes where
  "overflowing_payload = [2] @ replicate 27 0 @ [0x7f, 0xff, 0xff, 0xff] @ replicate 28 0"

section \<open>The codec of the daemon\<close>

text \<open>C12. Decoding the encoding of an event gives the event back, with its stack trace and with
  the data size set to the length of the parcel data, and counts no guard. The event's time has
  to be an int64, and its lengths have to fit their fields.\<close>

theorem event_roundtrip:
  assumes "event_fits e"
  shows "DecodeBinderEvent g (Encode e) =
    Some (Inr (e\<lparr>ev_DataSize := of_nat (length (ev_ParcelData e))\<rparr>), g)"
  using assms by (rule DecodeBinderEvent_Encode)

theorem event_roundtrip_witness:
  "event_fits sample_event \<and> DecodeBinderEvent no_guards (Encode sample_event) = Some (Inr sample_event, no_guards)"
  using event_roundtrip [OF sample_event_fits, of no_guards] sample_event_fits
  by (simp add: sample_event_def)

text \<open>C16. Whatever bytes it is given, the decoder does not panic. It answers with an error exactly
  when the header is incomplete, the version is not 2 or the declared parcel data is incomplete,
  and otherwise with an event whose parcel data is the declared part of the input.\<close>

theorem decode_never_panics:
  "\<exists>r g'. DecodeBinderEvent g data = Some (r, g') \<and>
     (case r of
        Inl err \<Rightarrow> (err = ErrTLVGuardFailOpen \<and> (length data < 60 \<or> length data < 60 + unat (size_field data)))
          \<or> (err = ErrUnsupportedEventVersion \<and> g' = g \<and> data ! 0 \<noteq> 2)
      | Inr ev \<Rightarrow> data ! 0 = 2 \<and> 60 + unat (size_field data) \<le> length data \<and>
          ev_DataSize ev = size_field data \<and> ev_ParcelData ev = slice_at 60 (unat (size_field data)) data)"
proof (cases "length data < 60 \<or> data ! 0 \<noteq> 2")
  case True
  then show ?thesis
    by (cases "length data < 60") (auto simp: DecodeBinderEvent_def protocol_consts go_index_def)
next
  case False
  then have heads: "go_index data 0 = Some 2" "go_index data 1 = Some (data ! 1)" "Uint32 data 28 = Some (size_field data)"
    by (auto simp: go_index_def Uint32_def size_field_def)
  show ?thesis
  proof (cases "length data < 60 + unat (size_field data)")
    case True
    then show ?thesis using False heads by (simp add: DecodeBinderEvent_def protocol_consts)
  next
    case in_bounds: False
    let ?e = "60 + unat (size_field data)"
    obtain tr where "DecodeStackTraceTLV (slice_at (?e + 5) (unat (of_be (slice_at (?e + 1) 4 data) :: u32)) data) = Some tr"
      using DecodeStackTraceTLV_no_panic by blast
    from DecodeBinderEvent_tail [OF _ heads in_bounds decode_base_value [OF in_bounds] this, of g] False in_bounds
    show ?thesis by (simp add: base_event_def)
  qed
qed

text \<open>C25. Frames written one after the other and read back from the wire, cut at any byte: the
  reader gets exactly the frames that are complete, in order, and then an end-of-file error.\<close>

theorem cut_stream_keeps_frames:
  assumes "list_all (\<lambda>f. length (fr_Payload f) \<le> MaxPayloadLen) fs" "n \<le> length (wire fs)"
  shows "\<exists>k e. read_frames (take n (wire fs)) = (take k fs, Some e) \<and> k \<le> length fs \<and>
    e \<in> {ErrEOF, ErrUnexpectedEOF} \<and> length (wire (take k fs)) \<le> n \<and>
    (k = length fs \<or> n < length (wire (take (Suc k) fs)))"
proof -
  have "wire (take k fs) = concat (map frame_bytes (take k fs))" for k
    using assms(1) by (intro wire_concat) (auto simp: list_all_iff dest: in_set_takeD)
  moreover have "wire fs = concat (map frame_bytes fs)" using assms(1) by (rule wire_concat)
  ultimately show ?thesis using read_frames_cut [OF assms(1)] assms(2) by simp
qed

theorem cut_stream_keeps_frames_witness:
  "\<exists>k e. read_frames (take 8 (wire [\<lparr>fr_Type = MsgTypePing, fr_Payload = []\<rparr>,
       \<lparr>fr_Type = MsgTypeSetTarget, fr_Payload = [0, 0, 39, 17]\<rparr>])) =
       (take k [\<lparr>fr_Type = MsgTypePing, fr_Payload = []\<rparr>, \<lparr>fr_Type = MsgTypeSetTarget, fr_Payload = [0, 0, 39, 17]\<rparr>], Some e) \<and>
     k = 1 \<and> e \<in> {ErrEOF, ErrUnexpectedEOF}"
proof -
  let ?fs = "[\<lparr>fr_Type = MsgTypePing, fr_Payload = []\<rparr>, \<lparr>fr_Type = MsgTypeSetTarget, fr_Payload = [0, 0, 39, 17]\<rparr>]"
  have fits: "list_all (\<lambda>f. length (fr_Payload f) \<le> MaxPayloadLen) ?fs"
    and first: "list_all (\<lambda>f. length (fr_Payload f) \<le> MaxPayloadLen) [\<lparr>fr_Type = MsgTypePing, fr_Payload = []\<rparr>]"
    by (simp_all add: MaxPayloadLen_def)
  have len: "length (wire ?fs) = 16" "length (wire [\<lparr>fr_Type = MsgTypePing, fr_Payload = []\<rparr>]) = 6" "length (wire []) = 0"
    using wire_concat [OF fits] wire_concat [OF first] by (simp_all add: wire_def)
  obtain k e where k: "read_frames (take 8 (wire ?fs)) = (take k ?fs, Some e)" "k \<le> length ?fs"
    "e \<in> {ErrEOF, ErrUnexpectedEOF}" "length (wire (take k ?fs)) \<le> 8"
    "k = length ?fs \<or> 8 < length (wire (take (Suc k) ?fs))"
    using cut_stream_keeps_frames [OF fits, of 8] len by auto
  have "k = 1"
  proof (cases k)
    case 0
    then show ?thesis using k(5) len by simp
  next
    case (Suc j)
    then show ?thesis using k(2,4) len by (cases j) auto
  qed
  with k show ?thesis by blast
qed

text \<open>The command payloads: what is encoded is decoded again, and on payloads that fit a frame no
  decoder panics, although the bound of the message slice is computed in 32 bits.\<close>

lemma commands_roundtrip:
  assumes "length m \<le> MaxPayloadLen" "length data \<le> MaxPayloadLen"
  shows "DecodeSetTarget (EncodeSetTarget u) = Some (Inr u) \<and>
    DecodeAck (EncodeAck \<lparr>ack_Success = s, ack_Message = m\<rparr>) = Some (Inr \<lparr>ack_Success = s, ack_Message = m\<rparr>) \<and>
    DecodeError (EncodeError \<lparr>err_Code = u, err_Message = m\<rparr>) = Some (Inr \<lparr>err_Code = u, err_Message = m\<rparr>) \<and>
    DecodeSetTarget data \<noteq> None \<and> DecodeAck data \<noteq> None \<and> DecodeError data \<noteq> None"
  using assms commands_no_panic [OF assms(2)] by (simp add: DecodeSetTarget_Encode DecodeAck_Encode DecodeError_Encode)

lemma commands_roundtrip_witness:
  "DecodeSetTarget (EncodeSetTarget 10086) = Some (Inr 10086) \<and>
   DecodeAck (EncodeAck \<lparr>ack_Success = True, ack_Message = [111, 107]\<rparr>) = Some (Inr \<lparr>ack_Success = True, ack_Message = [111, 107]\<rparr>) \<and>
   DecodeAck [1, 255, 255, 255, 255] \<noteq> None"
  using commands_roundtrip [of "[111, 107]" "[1, 255, 255, 255, 255]" 10086 True]
  by (simp add: MaxPayloadLen_def)

section \<open>The decoder of the app\<close>

text \<open>C14. On every payload that a frame can carry, unless its data size field lies in the sixty values
  below 2^31, the app decodes what the daemon decodes: the same event under the next number, no
  event where the daemon reports an error, and the same guard counted.\<close>

theorem app_decodes_alike:
  assumes "length payload \<le> MaxPayloadLen" "60 \<le> length payload \<longrightarrow> \<not> overflow_band (size_field payload)"
  shows "fromPayload utf8 (app_counters_of i g) payload =
    map_option (\<lambda>(r, g'). case r of Inl _ \<Rightarrow> (None, app_counters_of i g')
      | Inr ev \<Rightarrow> (Some (app_event_of utf8 i ev), app_counters_of (i + 1) g')) (DecodeBinderEvent g payload)"
  using assms by (rule fromPayload_agrees)

theorem app_decodes_alike_witness:
  "fromPayload id (app_counters_of 41 no_guards) (Encode sample_event) =
     Some (Some (app_event_of id 41 sample_event), app_counters_of 42 no_guards)"
proof -
  have len: "length (Encode sample_event) \<le> MaxPayloadLen"
    by (simp add: Encode_bytes sample_event_def tlv_bytes_def sample_trace_def EncodeStackTraceTLV_bytes
        encodeFrame_bytes MaxPayloadLen_def)
  have "size_field (Encode sample_event) = 4"
    using header_reads(8) [of sample_event "ext_flags sample_event"]
    by (simp add: Encode_bytes size_field_def Uint32_def) (simp add: sample_event_def)
  then have "\<not> overflow_band (size_field (Encode sample_event))" by (simp add: overflow_band_def)
  with len app_decodes_alike [of "Encode sample_event" id 41 no_guards] DecodeBinderEvent_Encode [OF sample_event_fits]
  show ?thesis by (simp add: sample_event_def)
qed

text \<open>C34. In those sixty values the 32-bit sum of the app overflows, its check of the parcel data passes
  and the copy of the parcel data throws, where the daemon answers with an error.\<close>

theorem app_decode_overflow:
  assumes "60 \<le> length payload" "length payload \<le> MaxPayloadLen" "payload ! 0 = 2"
    "overflow_band (size_field payload)"
  shows "fromPayload utf8 st payload = None \<and> DecodeBinderEvent g payload =
    Some (Inl ErrTLVGuardFailOpen, g\<lparr>G2ParcelTruncated := G2ParcelTruncated g + 1\<rparr>)"
  using fromPayload_overflow [OF assms] by simp

theorem app_decode_overflow_witness:
  "fromPayload id (app_counters_of 0 no_guards) overflowing_payload = None \<and>
   DecodeBinderEvent no_guards overflowing_payload =
     Some (Inl ErrTLVGuardFailOpen, no_guards\<lparr>G2ParcelTruncated := 1\<rparr>)"
proof -
  have "size_field overflowing_payload = 0x7fffffff"
    by (simp add: size_field_def overflowing_payload_def slice_at_def of_be_def)
  then have "overflow_band (size_field overflowing_payload)" by (simp add: overflow_band_def)
  moreover have "length overflowing_payload = 60" "overflowing_payload ! 0 = 2"
    by (simp_all add: overflowing_payload_def)
  ultimately show ?thesis
    using app_decode_overflow [of overflowing_payload id "app_counters_of 0 no_guards" no_guards]
    by (simp add: MaxPayloadLen_def no_guards_def)
qed

end
