(* ===== verification/BT_GoContainers.thy ===== *)
theory BT_GoContainers
  imports BT_Prelude "HOL-Library.Multiset"
begin

text \<open>
  The parts of Go's standard library that the daemon is built on: a \<^verbatim>\<open>map\<close> as an association
  list with distinct keys, a \<^verbatim>\<open>container/list\<close> as a list of elements with their identities, and
  \<^verbatim>\<open>sort.Search\<close>. The daemon keeps a map and a list side by side, entries of the map pointing to
  their element of the list; the invariants of that pairing and its eviction loop are proved
  here once, for every table that uses it.
\<close>

section \<open>container/list\<close>

type_synonym 'a golist = "(nat \<times> 'a) list"

definition PushFront :: "nat \<Rightarrow> 'a \<Rightarrow> 'a golist \<Rightarrow> 'a golist" where
  "PushFront i x l = (i, x) # l"

definition Remove :: "nat \<Rightarrow> 'a golist \<Rightarrow> 'a golist" where
  "Remove i l = filter (\<lambda>(j, _). j \<noteq> i) l"

definition MoveToFront :: "nat \<Rightarrow> 'a golist \<Rightarrow> 'a golist" where
  "MoveToFront i l = filter (\<lambda>(j, _). j = i) l @ filter (\<lambda>(j, _). j \<noteq> i) l"

section \<open>map\<close>

type_synonym ('k, 'v) gomap = "('k \<times> 'v) list"

definition map_put :: "'k \<Rightarrow> 'v \<Rightarrow> ('k, 'v) gomap \<Rightarrow> ('k, 'v) gomap" where
  "map_put k v m = (k, v) # filter (\<lambda>(j, _). j \<noteq> k) m"

definition map_del :: "'k \<Rightarrow> ('k, 'v) gomap \<Rightarrow> ('k, 'v) gomap" where
  "map_del k m = filter (\<lambda>(j, _). j \<noteq> k) m"

text \<open>
  A loop over the entries of a map, in the order \<open>es\<close> in which the run-time visits them, that
  removes the old entries from the map and from its list and collects them.
\<close>

fun sweep_entries :: "('e \<Rightarrow> bool) \<Rightarrow> ('e \<Rightarrow> nat) \<Rightarrow> ('k \<times> 'e) list \<Rightarrow> ('k, 'e) gomap \<Rightarrow> 'k golist \<Rightarrow>
    ('k, 'e) gomap \<times> 'k golist \<times> 'e list" where
  "sweep_entries old el [] m l = (m, l, [])"
| "sweep_entries old el ((k, e) # es) m l =
     (if old e then
        (case sweep_entries old el es (map_del k m) (Remove (el e) l) of (m', l', out) \<Rightarrow> (m', l', e # out))
      else sweep_entries old el es m l)"

text \<open>
  The eviction loop: while the list is longer than the capacity, its last element is removed and
  the key is handed to a callback on the rest of the state.
\<close>

function evictLRUIfFullCollect ::
  "nat \<Rightarrow> ('k \<Rightarrow> 's \<Rightarrow> 'a list \<times> 's) \<Rightarrow> 'k golist \<Rightarrow> 's \<Rightarrow> 'a list \<times> 'k golist \<times> 's" where
  "evictLRUIfFullCollect cap evictBack l st =
     (if length l > cap then
        (case evictBack (snd (last l)) st of (es, st1) \<Rightarrow>
           (case evictLRUIfFullCollect cap evictBack (butlast l) st1 of (rest, l', st2) \<Rightarrow> (es @ rest, l', st2)))
      else ([], l, st))"
  by pat_completeness auto

termination
  by (relation "measure (\<lambda>(cap, ev, l, st). length l)") auto

declare evictLRUIfFullCollect.simps [simp del]

section \<open>sort.Search\<close>

function search_loop :: "(nat \<Rightarrow> bool) \<Rightarrow> nat \<Rightarrow> nat \<Rightarrow> nat" where
  "search_loop f i j =
     (if i < j then let h = (i + j) div 2 in if \<not> f h then search_loop f (h + 1) j else search_loop f i h
      else i)"
  by pat_completeness auto

termination
  by (relation "measure (\<lambda>(f, i, j). j - i)") auto

declare search_loop.simps [simp del]

definition sort_Search :: "nat \<Rightarrow> (nat \<Rightarrow> bool) \<Rightarrow> nat" where
  "sort_Search n f = search_loop f 0 n"

text \<open>For a predicate that stays true once it is true, the search finds the first index.\<close>

lemma search_loop_first:
  assumes "\<And>a b. a \<le> b \<Longrightarrow> b < n \<Longrightarrow> f a \<Longrightarrow> f b" "i \<le> j" "j \<le> n" "\<forall>k<i. \<not> f k" "j < n \<longrightarrow> f j"
  shows "let r = search_loop f i j in r \<le> n \<and> (\<forall>k<r. \<not> f k) \<and> (r < n \<longrightarrow> f r)"
  using assms
proof (induction f i j rule: search_loop.induct)
  case (1 f i j)
  show ?case
  proof (cases "i < j")
    case True
    define h where "h = (i + j) div 2"
    have h: "i \<le> h" "h < j" using True by (auto simp: h_def)
    show ?thesis
    proof (cases "f h")
      case fh: True
      then have "search_loop f i j = search_loop f i h"
        using True by (simp add: search_loop.simps [of f i j] h_def Let_def)
      with 1(2) [OF True h_def] fh h 1(3-7) show ?thesis by auto
    next
      case nf: False
      then have e: "search_loop f i j = search_loop f (h + 1) j"
        using True by (simp add: search_loop.simps [of f i j] h_def Let_def)
      have "\<not> f k" if "k < h + 1" for k
      proof -
        have "k \<le> h" "h < n" using that h "1.prems"(3) by simp_all
        then show ?thesis using nf 1(3) by blast
      qed
      with 1(1) [OF True h_def nf] h 1(3-7) e show ?thesis by simp
    qed
  next
    case False
    then have "search_loop f i j = i" by (simp add: search_loop.simps [of f i j])
    then show ?thesis using False 1 by simp
  qed
qed

lemma sort_Search_first:
  assumes "\<And>a b. a \<le> b \<Longrightarrow> b < n \<Longrightarrow> f a \<Longrightarrow> f b"
  shows "sort_Search n f \<le> n" "\<And>k. k < sort_Search n f \<Longrightarrow> \<not> f k" "sort_Search n f < n \<Longrightarrow> f (sort_Search n f)"
  using search_loop_first [of n f 0 n] assms by (auto simp: sort_Search_def Let_def)

section \<open>A map and its list\<close>

text \<open>
  \<open>linked\<close>: every entry of the map points to an element of the list that holds its key. In
  \<open>synced\<close> tables the list holds nothing else.
\<close>

definition linked :: "('e \<Rightarrow> nat) \<Rightarrow> ('k \<times> 'e) list \<Rightarrow> 'k golist \<Rightarrow> bool" where
  "linked el m l \<longleftrightarrow> distinct (map fst m) \<and> distinct (map fst l) \<and> (\<lambda>(k, e). (el e, k)) ` set m \<subseteq> set l"

definition synced :: "('e \<Rightarrow> nat) \<Rightarrow> ('k \<times> 'e) list \<Rightarrow> 'k golist \<Rightarrow> bool" where
  "synced el m l \<longleftrightarrow> linked el m l \<and> set l \<subseteq> (\<lambda>(k, e). (el e, k)) ` set m"

lemma linked_length:
  assumes "linked el m l"
  shows "length m \<le> length l"
proof -
  have "inj_on (\<lambda>(k, e). (el e, k)) (set m)"
    using assms by (auto simp: linked_def inj_on_def intro: eq_key_imp_eq_value)
  then have "card (set m) \<le> card (set l)"
    using assms by (auto simp: linked_def intro: card_inj_on_le)
  then show ?thesis using assms by (auto simp: linked_def distinct_map distinct_card)
qed

lemma evict_nothing: "length l \<le> cap \<Longrightarrow> evictLRUIfFullCollect cap ev l s = ([], l, s)"
  by (simp add: evictLRUIfFullCollect.simps)

lemma linked_Nil [simp]: "linked el [] []" "synced el [] []"
  by (simp_all add: linked_def synced_def)

lemma map_put_simps [simp]:
  "map_of (map_put k v m) = (map_of m)(k \<mapsto> v)"
  "distinct (map fst m) \<Longrightarrow> distinct (map fst (map_put k v m))"
proof -
  have "map_of (filter (\<lambda>(j, _). j \<noteq> k) m) = (map_of m)(k := None)" by (induction m) auto
  then show "map_of (map_put k v m) = (map_of m)(k \<mapsto> v)" by (simp add: map_put_def)
  show "distinct (map fst (map_put k v m))" if "distinct (map fst m)"
    using that by (auto simp: map_put_def distinct_map_filter)
qed

lemma map_del_simps [simp]:
  "map_of (map_del k m) = (map_of m)(k := None)"
  "distinct (map fst m) \<Longrightarrow> distinct (map fst (map_del k m))"
  "set (map_del k m) = {x \<in> set m. fst x \<noteq> k}"
proof -
  show "map_of (map_del k m) = (map_of m)(k := None)" by (induction m) (auto simp: map_del_def)
qed (auto simp: map_del_def distinct_map_filter)

lemma map_put_del: "map_put k v m = (k, v) # map_del k m"
  by (simp add: map_put_def map_del_def)

lemma map_del_absent: "map_of m k = None \<Longrightarrow> map_del k m = m"
  unfolding map_del_def by (rule filter_True) (force simp: map_of_eq_None_iff)

lemma mset_map_del:
  "distinct (map fst m) \<Longrightarrow> map_of m k = Some e \<Longrightarrow> mset m = add_mset (k, e) (mset (map_del k m))"
proof (induction m)
  case (Cons x m)
  show ?case
  proof (cases "fst x = k")
    case True
    then have "map_of m k = None" using Cons.prems by (auto simp: map_of_eq_None_iff)
    then show ?thesis using True Cons.prems map_del_absent [of m k] by (cases x) (auto simp: map_del_def)
  next
    case False
    then show ?thesis using Cons by (cases x) (auto simp: map_del_def)
  qed
qed simp

lemma Remove_simps [simp]:
  "set (Remove i l) = {x \<in> set l. fst x \<noteq> i}" "distinct (map fst l) \<Longrightarrow> distinct (map fst (Remove i l))"
  by (auto simp: Remove_def distinct_map_filter)

lemma set_MoveToFront [simp]: "set (MoveToFront i l) = set l"
  by (auto simp: MoveToFront_def)

lemma distinct_MoveToFront [simp]: "distinct (map fst l) \<Longrightarrow> distinct (map fst (MoveToFront i l))"
  by (auto simp: MoveToFront_def distinct_map_filter)

lemma length_MoveToFront [simp]: "length (MoveToFront i l) = length l"
  by (induction l) (auto simp: MoveToFront_def)

lemma length_Remove: "length (Remove i l) \<le> length l"
  by (simp add: Remove_def)

lemma synced_elem: "synced el m l \<Longrightarrow> (i, k) \<in> set l \<Longrightarrow> \<exists>e. (k, e) \<in> set m \<and> el e = i"
  unfolding synced_def by force

lemma linked_insert:
  assumes "linked el m l" "el e = i" "i \<notin> fst ` set l"
  shows "linked el (map_put k e m) (PushFront i k l)"
  using assms by (auto simp: linked_def PushFront_def map_put_del)

lemma synced_insert:
  assumes "synced el m l" "el e = i" "i \<notin> fst ` set l" "map_of m k = None"
  shows "synced el (map_put k e m) (PushFront i k l)"
  using assms linked_insert [of el m l e i k] map_del_absent [of m k]
  by (auto simp: synced_def PushFront_def map_put_del)

lemma linked_elem:
  assumes "linked el m l" "(k, e) \<in> set m" "(k', e') \<in> set m" "el e = el e'"
  shows "k = k' \<and> e = e'"
proof -
  have "(el e, k) \<in> set l" "(el e', k') \<in> set l" using assms by (auto simp: linked_def)
  then have "k = k'" using assms by (auto simp: linked_def dest: eq_key_imp_eq_value)
  then show ?thesis using assms by (auto simp: linked_def dest: eq_key_imp_eq_value)
qed

lemma linked_remove:
  assumes "linked el m l" "map_of m k = Some e"
  shows "linked el (map_del k m) (Remove (el e) l)"
proof -
  have "el e' \<noteq> el e" if "(k', e') \<in> set m" "k' \<noteq> k" for k' e'
    using linked_elem [OF assms(1) that(1) map_of_SomeD [OF assms(2)]] that(2) by auto
  then show ?thesis using assms(1) by (auto simp: linked_def)
qed

lemma synced_remove:
  assumes "synced el m l" "map_of m k = Some e"
  shows "synced el (map_del k m) (Remove (el e) l)"
proof -
  have l: "linked el m l" using assms(1) by (simp add: synced_def)
  have "(i, j) \<in> (\<lambda>(k, e). (el e, k)) ` set (map_del k m)" if ij: "(i, j) \<in> set l" "i \<noteq> el e" for i j
  proof -
    obtain e' where e': "(j, e') \<in> set m" "el e' = i" using ij synced_elem [OF assms(1)] by blast
    then have "j \<noteq> k" using ij l map_of_SomeD [OF assms(2)] by (auto simp: linked_def dest: eq_key_imp_eq_value)
    then show ?thesis using e' by force
  qed
  then show ?thesis using linked_remove [OF l assms(2)] by (auto simp: synced_def)
qed

lemma linked_delete: "linked el m l \<Longrightarrow> linked el (map_del k m) l"
  by (auto simp: linked_def)

lemma linked_update:
  assumes "linked el m l" "map_of m k = Some e" "el e' = el e"
  shows "linked el (map_put k e' m) (MoveToFront (el e) l)"
  using assms map_of_SomeD [OF assms(2)] by (auto simp: linked_def map_put_del)

lemma synced_update:
  assumes "synced el m l" "map_of m k = Some e" "el e' = el e"
  shows "synced el (map_put k e' m) (MoveToFront (el e) l)"
proof -
  have "linked el m l" using assms(1) by (simp add: synced_def)
  note L = linked_update [OF this assms(2,3)]
  have "x \<in> (\<lambda>(k, e). (el e, k)) ` set (map_put k e' m)" if x: "x \<in> set l" for x
  proof -
    obtain j d where d: "(j, d) \<in> set m" "x = (el d, j)"
      using x synced_elem [OF assms(1)] by (metis prod.collapse)
    show ?thesis
    proof (cases "j = k")
      case True
      then have "d = e" using d(1) assms(2) \<open>linked el m l\<close> by (simp add: linked_def)
      then show ?thesis using True d assms(3) by (simp add: map_put_del)
    next
      case False
      then have "(j, d) \<in> set (map_put k e' m)" using d by (simp add: map_put_del)
      then show ?thesis using d by force
    qed
  qed
  then show ?thesis using L by (auto simp: synced_def)
qed

text \<open>Removing the last element together with its key.\<close>

lemma linked_evict:
  assumes "linked el m l" "l \<noteq> []"
  shows "linked el (map_del (snd (last l)) m) (butlast l)"
proof -
  have l: "l = butlast l @ [last l]" using assms(2) by simp
  then have "set l = insert (last l) (set (butlast l))" by (metis Un_insert_right list.simps(15) set_append sup_bot_right list.set(1))
  moreover have "distinct (map fst (butlast l))" using assms(1) by (simp add: linked_def distinct_butlast map_butlast)
  moreover have "(el e, k) \<in> set (butlast l)" if "(k, e) \<in> set m" "k \<noteq> snd (last l)" for k e
  proof -
    have "(el e, k) \<in> set l" using that assms(1) by (auto simp: linked_def)
    moreover have "(el e, k) \<noteq> last l" using that(2) by (metis snd_conv)
    ultimately show ?thesis using \<open>set l = _\<close> by simp
  qed
  ultimately show ?thesis using assms(1) by (auto simp: linked_def)
qed

lemma synced_evict:
  assumes "synced el m l" "l \<noteq> []"
  shows "synced el (map_del (snd (last l)) m) (butlast l)"
proof -
  have L: "linked el m l" using assms(1) by (simp add: synced_def)
  have l: "l = butlast l @ [last l]" using assms(2) by simp
  have "x \<in> (\<lambda>(k, e). (el e, k)) ` set (map_del (snd (last l)) m)" if x: "x \<in> set (butlast l)" for x
  proof -
    obtain i k where ik: "x = (i, k)" by fastforce
    have "(i, k) \<in> set l" using x ik in_set_butlastD by fast
    then obtain e where e: "(k, e) \<in> set m" "el e = i" using synced_elem [OF assms(1)] by blast
    have "k \<noteq> snd (last l)"
    proof
      assume k: "k = snd (last l)"
      obtain e' where "(k, e') \<in> set m" "el e' = fst (last l)"
        using synced_elem [OF assms(1), of "fst (last l)" k] assms(2) k by auto
      then have "i = fst (last l)" using e L by (auto simp: linked_def dest: eq_key_imp_eq_value)
      then have "last l \<in> set (butlast l)" using x ik k by (simp add: prod_eq_iff)
      moreover have "distinct l" using L by (simp add: linked_def distinct_map)
      ultimately show False using l by (metis distinct_append disjoint_insert(1) list.set(2))
    qed
    then show ?thesis using e ik by force
  qed
  then show ?thesis using linked_evict [OF L assms(2)] by (auto simp: synced_def)
qed

lemma sweep_entries_invariant:
  assumes "linked el m l" "set es \<subseteq> set m" "distinct (map fst es)"
  shows "case sweep_entries old el es m l of (m', l', out) \<Rightarrow>
    linked el m' l' \<and> (synced el m l \<longrightarrow> synced el m' l') \<and> length l' \<le> length l \<and> fst ` set l' \<subseteq> fst ` set l \<and>
    mset m = mset m' + mset (filter (\<lambda>x. old (snd x)) es) \<and> out = map snd (filter (\<lambda>x. old (snd x)) es) \<and>
    set m' = {x \<in> set m. x \<notin> set es \<or> \<not> old (snd x)}"
  using assms
proof (induction es arbitrary: m l)
  case (Cons x es)
  obtain k e where x: "x = (k, e)" by fastforce
  have ke: "map_of m k = Some e" using Cons.prems x by (simp add: linked_def)
  have dm: "distinct (map fst m)" using Cons.prems(1) by (simp add: linked_def)
  show ?case
  proof (cases "old e")
    case True
    have L: "linked el (map_del k m) (Remove (el e) l)" using linked_remove [OF Cons.prems(1) ke] .
    have sub: "set es \<subseteq> set (map_del k m)" using Cons.prems x by force
    obtain m' l' out where r: "sweep_entries old el es (map_del k m) (Remove (el e) l) = (m', l', out)"
      by (cases "sweep_entries old el es (map_del k m) (Remove (el e) l)") auto
    have d: "distinct (map fst es)" using Cons.prems(3) by simp
    note IH = Cons.IH [OF L sub d, unfolded r prod.case]
    note IH = IH [THEN conjunct1] IH [THEN conjunct2, THEN conjunct1] IH [THEN conjunct2, THEN conjunct2, THEN conjunct1]
      IH [THEN conjunct2, THEN conjunct2, THEN conjunct2]
    note IH = IH(1,2,3) IH(4) [THEN conjunct1] IH(4) [THEN conjunct2, THEN conjunct1]
      IH(4) [THEN conjunct2, THEN conjunct2, THEN conjunct1] IH(4) [THEN conjunct2, THEN conjunct2, THEN conjunct2]
    have val: "b = e" if "(k, b) \<in> set m" for b
      using eq_key_imp_eq_value [OF dm that map_of_SomeD [OF ke]] .
    have "length l' \<le> length l" using IH(3) length_Remove le_trans by blast
    moreover have "fst ` set l' \<subseteq> fst ` set l" using IH(4) by auto
    moreover have "synced el m l \<longrightarrow> synced el m' l'" using IH(2) synced_remove [of el m l k e] ke by blast
    moreover have "set m' = {y \<in> set m. y \<notin> set (x # es) \<or> \<not> old (snd y)}"
      unfolding IH(7) using x True by (auto dest: val)
    ultimately show ?thesis
      using x True r IH(1,5,6) mset_map_del [OF dm ke] by simp
  next
    case False
    have sub: "set es \<subseteq> set m" and d: "distinct (map fst es)" using Cons.prems by simp_all
    obtain m' l' out where r: "sweep_entries old el es m l = (m', l', out)"
      by (cases "sweep_entries old el es m l") auto
    have "{y \<in> set m. y \<notin> set es \<or> \<not> old (snd y)} = {y \<in> set m. y \<notin> set (x # es) \<or> \<not> old (snd y)}"
      using x False by auto
    then show ?thesis
      using Cons.IH [OF Cons.prems(1) sub d] x False unfolding r prod.case by (simp add: r)
  qed
qed simp

section \<open>The contract of an eviction callback\<close>

text \<open>
  What the eviction loop relies on: the callback removes its key from the table \<open>tab\<close> of the
  state, hands out what the table held for the key, and leaves the rest \<open>frame\<close> of the state
  alone.
\<close>

definition held_by :: "('e \<Rightarrow> 'a list) \<Rightarrow> ('k, 'e) gomap \<Rightarrow> 'a multiset" where
  "held_by y m = (\<Sum>(k, e) \<in># mset m. mset (y e))"

locale evictor =
  fixes evict :: "'k \<Rightarrow> 's \<Rightarrow> 'a list \<times> 's"
    and tab :: "'s \<Rightarrow> ('k, 'e) gomap"
    and el :: "'e \<Rightarrow> nat"
    and yield :: "'e \<Rightarrow> 'a list"
    and frame :: "'s \<Rightarrow> 'f"
  assumes evict_tab: "tab (snd (evict k s)) = map_del k (tab s)"
    and evict_yield: "fst (evict k s) = (case map_of (tab s) k of None \<Rightarrow> [] | Some e \<Rightarrow> yield e)"
    and evict_frame: "frame (snd (evict k s)) = frame s"
begin

lemma held_evict:
  assumes "distinct (map fst (tab s))"
  shows "held_by yield (tab s) = mset (fst (evict k s)) + held_by yield (tab (snd (evict k s)))"
proof (cases "map_of (tab s) k")
  case None
  then show ?thesis by (simp add: held_by_def evict_tab evict_yield map_del_absent)
next
  case (Some e)
  then show ?thesis
    using mset_map_del [OF assms Some] by (simp add: held_by_def evict_tab evict_yield)
qed

lemma evict_loop:
  assumes "linked el (tab s) l"
  shows "case evictLRUIfFullCollect cap evict l s of (es, l', s') \<Rightarrow>
    linked el (tab s') l' \<and> (synced el (tab s) l \<longrightarrow> synced el (tab s') l') \<and>
    length l' = min cap (length l) \<and> set l' \<subseteq> set l \<and> set (tab s') \<subseteq> set (tab s) \<and>
    held_by yield (tab s) = mset es + held_by yield (tab s') \<and> frame s' = frame s"
  using assms
proof (induction l arbitrary: s rule: rev_induct)
  case Nil
  then show ?case by (simp add: evictLRUIfFullCollect.simps [of cap evict "[]" s])
next
  case (snoc x l)
  show ?case
  proof (cases "length (l @ [x]) > cap")
    case False
    then show ?thesis using snoc.prems by (simp add: evictLRUIfFullCollect.simps [of cap evict "l @ [x]" s])
  next
    case True
    define s1 where "s1 = snd (evict (snd x) s)"
    have tab1: "tab s1 = map_del (snd x) (tab s)" by (simp add: s1_def evict_tab)
    have L1: "linked el (tab s1) l" using linked_evict [OF snoc.prems] by (simp add: tab1)
    have S1: "synced el (tab s) (l @ [x]) \<Longrightarrow> synced el (tab s1) l"
      using synced_evict [of el "tab s" "l @ [x]"] by (simp add: tab1)
    have held: "held_by yield (tab s) = mset (fst (evict (snd x) s)) + held_by yield (tab s1)"
      using held_evict [of s "snd x"] snoc.prems by (simp add: linked_def s1_def)
    obtain es l' s' where r: "evictLRUIfFullCollect cap evict l s1 = (es, l', s')"
      by (cases "evictLRUIfFullCollect cap evict l s1") auto
    have "evictLRUIfFullCollect cap evict (l @ [x]) s = (fst (evict (snd x) s) @ es, l', s')"
      using True r by (simp add: evictLRUIfFullCollect.simps [of cap evict "l @ [x]" s] s1_def case_prod_unfold)
    then show ?thesis
      using snoc.IH [OF L1] True S1 held evict_frame [of "snd x" s] unfolding r
      by (auto simp: tab1 s1_def [symmetric])
  qed
qed

end

end
