(* ===== verification/BT_LruCache.thy ===== *)
theory BT_LruCache
  imports BT_GoContainers
begin

text \<open>
  The bounded cache of \<^verbatim>\<open>daemon/symbolizer.go\<close> (\<^verbatim>\<open>lruCache\<close>): a list of entries in order of use and a
  map from keys to list elements. It implements a plain list of at most \<open>capacity\<close> key-value
  pairs, most recently used first. The log line of an eviction is not part of the state.
\<close>

section \<open>Operations\<close>

record ('k, 'v) lruCache =
  lc_capacity :: nat
  lc_order :: "('k \<times> 'v) golist"
  lc_items :: "('k, nat) gomap"
  lc_fresh :: nat

definition newLRU :: "nat \<Rightarrow> ('k, 'v) lruCache" where
  "newLRU cap = \<lparr>lc_capacity = cap, lc_order = [], lc_items = [], lc_fresh = 0\<rparr>"

definition lru_get :: "'k \<Rightarrow> ('k, 'v) lruCache \<Rightarrow> 'v option \<times> ('k, 'v) lruCache" where
  "lru_get key l =
     (case map_of (lc_items l) key of
        None \<Rightarrow> (None, l)
      | Some e \<Rightarrow> (map_option snd (map_of (lc_order l) e), l\<lparr>lc_order := MoveToFront e (lc_order l)\<rparr>))"

definition lru_put :: "'k \<Rightarrow> 'v \<Rightarrow> ('k, 'v) lruCache \<Rightarrow> ('k, 'v) lruCache" where
  "lru_put key value l =
     (case map_of (lc_items l) key of
        Some e \<Rightarrow>
          l\<lparr>lc_order := MoveToFront e (map (\<lambda>(i, k, v). if i = e then (i, k, value) else (i, k, v)) (lc_order l))\<rparr>
      | None \<Rightarrow>
          let e = lc_fresh l;
              l1 = l\<lparr>lc_order := PushFront e (key, value) (lc_order l), lc_fresh := lc_fresh l + 1,
                     lc_items := map_put key e (lc_items l)\<rparr>
          in if length (lc_order l1) > lc_capacity l1
             then let (_, k, _) = last (lc_order l1)
                  in l1\<lparr>lc_order := butlast (lc_order l1), lc_items := map_del k (lc_items l1)\<rparr>
             else l1)"

definition lru_remove :: "'k \<Rightarrow> ('k, 'v) lruCache \<Rightarrow> ('k, 'v) lruCache" where
  "lru_remove key l =
     (case map_of (lc_items l) key of
        None \<Rightarrow> l
      | Some e \<Rightarrow> l\<lparr>lc_order := Remove e (lc_order l), lc_items := map_del key (lc_items l)\<rparr>)"

definition lru_size :: "('k, 'v) lruCache \<Rightarrow> nat" where
  "lru_size l = length (lc_order l)"

section \<open>Specification\<close>

definition contents :: "('k, 'v) lruCache \<Rightarrow> ('k \<times> 'v) list" where
  "contents l = map snd (lc_order l)"

definition spec_touch :: "'k \<Rightarrow> 'v \<Rightarrow> ('k \<times> 'v) list \<Rightarrow> ('k \<times> 'v) list" where
  "spec_touch k v xs = (k, v) # filter (\<lambda>(j, _). j \<noteq> k) xs"

definition spec_get :: "'k \<Rightarrow> ('k \<times> 'v) list \<Rightarrow> 'v option \<times> ('k \<times> 'v) list" where
  "spec_get k xs = (case map_of xs k of None \<Rightarrow> (None, xs) | Some v \<Rightarrow> (Some v, spec_touch k v xs))"

definition spec_put :: "nat \<Rightarrow> 'k \<Rightarrow> 'v \<Rightarrow> ('k \<times> 'v) list \<Rightarrow> ('k \<times> 'v) list" where
  "spec_put cap k v xs = take cap (spec_touch k v xs)"

text \<open>The items of the map are the elements of the list, under the keys that the elements hold.\<close>

definition keyed :: "('k, 'v) lruCache \<Rightarrow> 'k golist" where
  "keyed l = map (\<lambda>(i, k, v). (i, k)) (lc_order l)"

definition lru_ok :: "('k, 'v) lruCache \<Rightarrow> bool" where
  "lru_ok l \<longleftrightarrow> synced (\<lambda>i. i) (lc_items l) (keyed l) \<and> distinct (map fst (contents l)) \<and>
     (\<forall>i\<in>fst ` set (lc_order l). i < lc_fresh l) \<and> length (lc_order l) \<le> lc_capacity l \<and> 0 < lc_capacity l"

section \<open>Refinement\<close>

lemma keyed_simps [simp]:
  "map fst (keyed l) = map fst (lc_order l)" "length (keyed l) = length (lc_order l)"
  "fst ` set (keyed l) = fst ` set (lc_order l)"
  by (force simp: keyed_def)+

lemma lru_ok_facts:
  assumes "lru_ok l"
  shows "distinct (map fst (lc_order l))" "distinct (map fst (lc_items l))" "distinct (map fst (contents l))"
    "(k, i) \<in> set (lc_items l) \<longleftrightarrow> (\<exists>v. (i, k, v) \<in> set (lc_order l))"
proof -
  have s: "synced (\<lambda>i. i) (lc_items l) (keyed l)" using assms by (simp add: lru_ok_def)
  then show "distinct (map fst (lc_order l))" "distinct (map fst (lc_items l))"
    by (simp_all add: synced_def linked_def)
  show "distinct (map fst (contents l))" using assms by (simp add: lru_ok_def)
  have "set (keyed l) = (\<lambda>(k, e). (e, k)) ` set (lc_items l)" using s by (auto simp: synced_def linked_def)
  then have "(i, k) \<in> set (keyed l) \<longleftrightarrow> (k, i) \<in> set (lc_items l)" by force
  then show "(k, i) \<in> set (lc_items l) \<longleftrightarrow> (\<exists>v. (i, k, v) \<in> set (lc_order l))"
    by (force simp: keyed_def)
qed

lemma map_of_contents:
  assumes "lru_ok l"
  shows "map_of (contents l) k = (case map_of (lc_items l) k of None \<Rightarrow> None | Some e \<Rightarrow> map_option snd (map_of (lc_order l) e))"
proof (cases "map_of (lc_items l) k")
  case None
  then have "k \<notin> fst ` set (contents l)"
    using lru_ok_facts [OF assms] by (force simp: contents_def map_of_eq_None_iff)
  then have "map_of (contents l) k = None" by (simp add: map_of_eq_None_iff)
  then show ?thesis using None by simp
next
  case (Some e)
  then obtain v where v: "(e, k, v) \<in> set (lc_order l)"
    using lru_ok_facts(4) [OF assms] map_of_SomeD by fast
  then have "(k, v) \<in> set (contents l)" by (force simp: contents_def)
  then show ?thesis using Some v lru_ok_facts [OF assms] by simp
qed

lemma filter_same_elem: "distinct (map fst l) \<Longrightarrow> (i, x) \<in> set l \<Longrightarrow> filter (\<lambda>(j, _). j = i) l = [(i, x)]"
proof (induction l)
  case (Cons a l)
  show ?case
  proof (cases "fst a = i")
    case True
    then have no: "y \<in> set l \<Longrightarrow> fst y \<noteq> i" for y using Cons.prems(1) by (metis distinct.simps(2) imageI list.simps(9) set_map)
    then have "filter (\<lambda>(j, _). j = i) l = []" by (simp add: filter_empty_conv case_prod_unfold)
    moreover have "a = (i, x)" using no [of "(i, x)"] Cons.prems(2) by (metis fst_conv set_ConsD)
    ultimately show ?thesis by simp
  next
    case False
    then show ?thesis using Cons by (cases a) auto
  qed
qed simp

text \<open>An element and its key stand for each other.\<close>

lemma elem_key:
  assumes "lru_ok l" "map_of (lc_items l) k = Some e" "(j, k', v') \<in> set (lc_order l)"
  shows "j = e \<longleftrightarrow> k' = k"
proof
  have dk: "distinct (map fst (lc_items l))" and di: "distinct (map fst (lc_order l))"
    using lru_ok_facts [OF assms(1)] by auto
  have j: "(k', j) \<in> set (lc_items l)" using lru_ok_facts(4) [OF assms(1)] assms(3) by blast
  show "j = e" if "k' = k" using j that assms(2) dk by simp
  obtain v where "(e, k, v) \<in> set (lc_order l)"
    using lru_ok_facts(4) [OF assms(1)] map_of_SomeD [OF assms(2)] by blast
  then show "k' = k" if "j = e" using eq_key_imp_eq_value [OF di] assms(3) that by blast
qed

lemma contents_without:
  assumes "lru_ok l" "map_of (lc_items l) k = Some e"
  shows "map snd (filter (\<lambda>(j, _). j \<noteq> e) (lc_order l)) = filter (\<lambda>(j, _). j \<noteq> k) (contents l)"
proof -
  have "filter (\<lambda>(j, _). j \<noteq> e) (lc_order l) = filter ((\<lambda>(j, _). j \<noteq> k) \<circ> snd) (lc_order l)"
  proof (rule filter_cong [OF refl])
    fix x assume x: "x \<in> set (lc_order l)"
    obtain j k' v where "x = (j, k', v)" by (cases x) auto
    then show "(case x of (j, _) \<Rightarrow> j \<noteq> e) = ((\<lambda>(j, _). j \<noteq> k) \<circ> snd) x"
      using x elem_key [OF assms, of j k' v] by simp
  qed
  then show ?thesis by (simp add: contents_def filter_map)
qed

lemma keyed_MoveToFront: "keyed (l\<lparr>lc_order := MoveToFront e (lc_order l)\<rparr>) = MoveToFront e (keyed l)"
  by (simp add: keyed_def MoveToFront_def filter_map comp_def case_prod_unfold)

lemma lru_get_refines:
  assumes "lru_ok l"
  shows "lru_ok (snd (lru_get k l)) \<and> fst (lru_get k l) = fst (spec_get k (contents l)) \<and>
    contents (snd (lru_get k l)) = snd (spec_get k (contents l)) \<and> lc_capacity (snd (lru_get k l)) = lc_capacity l"
proof (cases "map_of (lc_items l) k")
  case None
  then show ?thesis using assms map_of_contents [OF assms, of k] by (simp add: lru_get_def spec_get_def)
next
  case (Some e)
  let ?l = "l\<lparr>lc_order := MoveToFront e (lc_order l)\<rparr>"
  obtain v where v: "(e, k, v) \<in> set (lc_order l)"
    using lru_ok_facts(4) [OF assms] map_of_SomeD [OF Some] by blast
  have val: "map_of (lc_order l) e = Some (k, v)" using v lru_ok_facts(1) [OF assms] by simp
  have c: "contents ?l = spec_touch k v (contents l)"
    using contents_without [OF assms Some] filter_same_elem [OF lru_ok_facts(1) [OF assms] v]
    by (simp add: contents_def MoveToFront_def spec_touch_def)
  have "synced (\<lambda>i. i) (map_put k e (lc_items l)) (keyed ?l)"
    using synced_update [of "\<lambda>i. i" "lc_items l" "keyed l" k e e] assms Some
    by (simp add: lru_ok_def keyed_MoveToFront)
  have "synced (\<lambda>i. i) (lc_items l) (keyed ?l)"
    using assms Some by (auto simp: lru_ok_def keyed_MoveToFront synced_def linked_def)
  moreover have "distinct (map fst (contents ?l))"
    using lru_ok_facts(3) [OF assms] by (auto simp: c spec_touch_def distinct_map_filter)
  ultimately have "lru_ok ?l" using assms by (auto simp: lru_ok_def)
  then show ?thesis
    using Some val c map_of_contents [OF assms, of k] by (simp add: lru_get_def spec_get_def)
qed

lemma lru_remove_refines:
  assumes "lru_ok l"
  shows "lru_ok (lru_remove k l) \<and> contents (lru_remove k l) = filter (\<lambda>(j, _). j \<noteq> k) (contents l)"
proof (cases "map_of (lc_items l) k")
  case None
  then have "map_of (contents l) k = None" using map_of_contents [OF assms, of k] by simp
  then have "filter (\<lambda>(j, _). j \<noteq> k) (contents l) = contents l"
    by (intro filter_True) (force simp: map_of_eq_None_iff)
  then show ?thesis using None assms by (simp add: lru_remove_def)
next
  case (Some e)
  let ?l = "l\<lparr>lc_order := Remove e (lc_order l), lc_items := map_del k (lc_items l)\<rparr>"
  have k: "keyed ?l = Remove e (keyed l)"
    by (simp add: keyed_def Remove_def filter_map comp_def case_prod_unfold)
  have c: "contents ?l = filter (\<lambda>(j, _). j \<noteq> k) (contents l)"
    using contents_without [OF assms Some] by (simp add: contents_def Remove_def)
  have "synced (\<lambda>i. i) (lc_items ?l) (keyed ?l)"
    using synced_remove [of "\<lambda>i. i" "lc_items l" "keyed l" k e] assms Some by (simp add: lru_ok_def k)
  moreover have "distinct (map fst (contents ?l))"
    using lru_ok_facts(3) [OF assms] by (simp add: c distinct_map_filter)
  moreover have "length (lc_order ?l) \<le> lc_capacity ?l"
    using assms length_Remove [of e "lc_order l"] by (simp add: lru_ok_def)
  ultimately have "lru_ok ?l" using assms by (auto simp: lru_ok_def)
  then show ?thesis using Some c by (simp add: lru_remove_def)
qed

lemma filter_replaced:
  "filter (\<lambda>(j, _). j \<noteq> e) (map (\<lambda>(i, k', v'). if i = e then (i, k', v) else (i, k', v')) xs) =
     filter (\<lambda>(j, _). j \<noteq> e) xs"
  by (induction xs) auto

lemma lru_put_old:
  assumes "lru_ok l" "map_of (lc_items l) k = Some e"
  shows "lru_ok (lru_put k v l) \<and> contents (lru_put k v l) = spec_put (lc_capacity l) k v (contents l)"
proof -
  let ?u = "map (\<lambda>(i, k', v'). if i = e then (i, k', v) else (i, k', v')) (lc_order l)"
  let ?l = "l\<lparr>lc_order := MoveToFront e ?u\<rparr>"
  obtain v0 where v0: "(e, k, v0) \<in> set (lc_order l)"
    using lru_ok_facts(4) [OF assms(1)] map_of_SomeD [OF assms(2)] by blast
  have ids: "map fst ?u = map fst (lc_order l)" by auto
  have "(e, k, v) \<in> set ?u" using v0 by force
  then have f1: "filter (\<lambda>(j, _). j = e) ?u = [(e, k, v)]"
    using filter_same_elem [of ?u e "(k, v)"] lru_ok_facts(1) [OF assms(1)] ids by metis
  have f2: "filter (\<lambda>(j, _). j \<noteq> e) ?u = filter (\<lambda>(j, _). j \<noteq> e) (lc_order l)"
    by (rule filter_replaced)
  have c: "contents ?l = spec_touch k v (contents l)"
    using contents_without [OF assms] by (simp add: contents_def MoveToFront_def f1 f2 spec_touch_def)
  have "keyed (l\<lparr>lc_order := ?u\<rparr>) = keyed l" by (auto simp: keyed_def)
  then have "keyed ?l = MoveToFront e (keyed l)" using keyed_MoveToFront [where l = "l\<lparr>lc_order := ?u\<rparr>" and e = e] by simp
  then have sy: "synced (\<lambda>i. i) (lc_items ?l) (keyed ?l)"
    using assms(1) by (auto simp: lru_ok_def synced_def linked_def)
  have d: "distinct (map fst (contents ?l))"
    using lru_ok_facts(3) [OF assms(1)] by (auto simp: c spec_touch_def distinct_map_filter)
  have "fst ` set (lc_order ?l) = fst ` set (lc_order l)" using arg_cong [OF ids, of set] by (simp add: image_image)
  with sy d have ok: "lru_ok ?l" using assms(1) by (simp add: lru_ok_def)
  have "length (spec_touch k v (contents l)) \<le> lc_capacity l"
    using arg_cong [OF c, of length] ok unfolding contents_def lru_ok_def by simp
  then show ?thesis using ok c assms(2) by (simp add: lru_put_def spec_put_def)
qed

lemma lru_put_new:
  assumes "lru_ok l" "map_of (lc_items l) k = None"
  shows "lru_ok (lru_put k v l) \<and> contents (lru_put k v l) = spec_put (lc_capacity l) k v (contents l)"
proof -
  define l1 where "l1 = l\<lparr>lc_order := PushFront (lc_fresh l) (k, v) (lc_order l), lc_fresh := lc_fresh l + 1,
    lc_items := map_put k (lc_fresh l) (lc_items l)\<rparr>"
  have kc: "map_of (contents l) k = None" using map_of_contents [OF assms(1), of k] assms(2) by simp
  then have kf: "k \<notin> fst ` set (contents l)" by (simp add: map_of_eq_None_iff)
  have fresh: "lc_fresh l \<notin> fst ` set (lc_order l)" using assms(1) by (auto simp: lru_ok_def)
  have c1: "contents l1 = (k, v) # contents l" by (simp add: l1_def contents_def PushFront_def)
  have t: "spec_touch k v (contents l) = (k, v) # contents l"
    unfolding spec_touch_def by (subst filter_True) (use kf in \<open>force+\<close>)
  have k1: "keyed l1 = PushFront (lc_fresh l) k (keyed l)" by (simp add: l1_def keyed_def PushFront_def)
  have s1: "synced (\<lambda>i. i) (lc_items l1) (keyed l1)"
    using synced_insert [of "\<lambda>i. i" "lc_items l" "keyed l" "lc_fresh l" "lc_fresh l" k] assms fresh k1
    by (simp add: l1_def lru_ok_def)
  have d1: "distinct (map fst (contents l1))" using lru_ok_facts(3) [OF assms(1)] kf by (simp add: c1)
  have b1: "\<forall>i\<in>fst ` set (lc_order l1). i < lc_fresh l1" using assms(1) by (auto simp: lru_ok_def l1_def PushFront_def)
  have len: "length (lc_order l1) = Suc (length (lc_order l))" by (simp add: l1_def PushFront_def)
  have put: "lru_put k v l = (if length (lc_order l1) > lc_capacity l
      then l1\<lparr>lc_order := butlast (lc_order l1), lc_items := map_del (fst (snd (last (lc_order l1)))) (lc_items l1)\<rparr> else l1)"
    using assms(2) by (simp add: lru_put_def l1_def Let_def case_prod_unfold)
  show ?thesis
  proof (cases "length (lc_order l1) > lc_capacity l")
    case False
    then have "lru_ok l1" using s1 d1 b1 assms(1) by (simp add: lru_ok_def l1_def)
    then show ?thesis using put False c1 t len by (simp add: spec_put_def contents_def)
  next
    case True
    let ?l = "l1\<lparr>lc_order := butlast (lc_order l1), lc_items := map_del (fst (snd (last (lc_order l1)))) (lc_items l1)\<rparr>"
    have cap: "lc_capacity l = length (lc_order l)" using True len assms(1) by (simp add: lru_ok_def)
    have ne: "lc_order l1 \<noteq> []" using len by auto
    have kb: "keyed ?l = butlast (keyed l1)" by (simp add: keyed_def map_butlast)
    have "snd (last (keyed l1)) = fst (snd (last (lc_order l1)))"
      using ne by (simp add: keyed_def last_map case_prod_unfold)
    then have s2: "synced (\<lambda>i. i) (lc_items ?l) (keyed ?l)"
      using synced_evict [OF s1] ne kb by (simp add: keyed_def)
    have c2: "contents ?l = take (lc_capacity l) ((k, v) # contents l)"
      using c1 len cap by (simp add: contents_def map_butlast butlast_conv_take flip: take_map)
    have "distinct (map fst (contents ?l))" using d1 unfolding c2 c1 by (metis distinct_take take_map)
    moreover have "\<forall>i\<in>fst ` set (lc_order ?l). i < lc_fresh ?l" using b1 by (auto dest: in_set_butlastD)
    ultimately have "lru_ok ?l" using s2 len cap assms(1) by (simp add: lru_ok_def l1_def)
    then show ?thesis using put True c2 t by (simp add: spec_put_def)
  qed
qed

lemma lru_put_refines:
  assumes "lru_ok l"
  shows "lru_ok (lru_put k v l) \<and> contents (lru_put k v l) = spec_put (lc_capacity l) k v (contents l)"
  using lru_put_old [OF assms] lru_put_new [OF assms] by (cases "map_of (lc_items l) k") blast+

lemma lru_capacity [simp]: "lc_capacity (lru_put k v l) = lc_capacity l" "lc_capacity (lru_remove k l) = lc_capacity l"
  by (simp_all add: lru_put_def lru_remove_def Let_def split: option.splits prod.splits)

lemma newLRU_ok: "0 < cap \<Longrightarrow> lru_ok (newLRU cap)" "contents (newLRU cap) = []"
  by (simp_all add: lru_ok_def newLRU_def keyed_def contents_def)

section \<open>The interface of a cache\<close>

text \<open>
  What the symbolizer relies on: a lookup gives what was stored last, storing never changes what
  is held for another key other than by forgetting it, and removing forgets the key.
\<close>

locale cache =
  fixes ok :: "'c \<Rightarrow> bool"
    and look :: "'c \<Rightarrow> 'k \<Rightarrow> 'v option"
    and get :: "'k \<Rightarrow> 'c \<Rightarrow> 'v option \<times> 'c"
    and put :: "'k \<Rightarrow> 'v \<Rightarrow> 'c \<Rightarrow> 'c"
    and remove :: "'k \<Rightarrow> 'c \<Rightarrow> 'c"
  assumes get_result: "ok c \<Longrightarrow> fst (get k c) = look c k"
    and get_look: "ok c \<Longrightarrow> look (snd (get k c)) = look c"
    and get_ok: "ok c \<Longrightarrow> ok (snd (get k c))"
    and put_same: "ok c \<Longrightarrow> look (put k v c) k = Some v"
    and put_other: "ok c \<Longrightarrow> j \<noteq> k \<Longrightarrow> look (put k v c) j \<in> {None, look c j}"
    and put_ok: "ok c \<Longrightarrow> ok (put k v c)"
    and remove_look: "ok c \<Longrightarrow> look (remove k c) j = (if j = k then None else look c j)"
    and remove_ok: "ok c \<Longrightarrow> ok (remove k c)"
begin

text \<open>What holds of every cached value keeps holding when values are stored for which it holds.\<close>

lemma all_get: "ok c \<Longrightarrow> \<forall>k v. look c k = Some v \<longrightarrow> P k v \<Longrightarrow> look (snd (get j c)) k = Some v \<Longrightarrow> P k v"
  by (simp add: get_look)

lemma all_put:
  assumes "ok c" "\<forall>k v. look c k = Some v \<longrightarrow> P k v" "P j w" "look (put j w c) k = Some v"
  shows "P k v"
proof (cases "k = j")
  case True
  then show ?thesis using assms put_same [of c j w] by simp
next
  case False
  then show ?thesis using put_other [OF assms(1) False, of w] assms by auto
qed

lemma all_remove: "ok c \<Longrightarrow> \<forall>k v. look c k = Some v \<longrightarrow> P k v \<Longrightarrow> look (remove j c) k = Some v \<Longrightarrow> P k v"
  by (simp add: remove_look split: if_splits)

end

definition lru_look :: "('k, 'v) lruCache \<Rightarrow> 'k \<Rightarrow> 'v option" where
  "lru_look l = map_of (contents l)"

lemma map_of_spec_touch: "map_of (spec_touch k v xs) = (map_of xs)(k \<mapsto> v)"
proof -
  have "map_of (filter (\<lambda>(j, _). j \<noteq> k) xs) = (map_of xs)(k := None)" by (induction xs) auto
  then show ?thesis by (simp add: spec_touch_def)
qed

lemma map_of_take: "map_of (take n xs) k = Some v \<Longrightarrow> map_of xs k = Some v"
  by (induction xs arbitrary: n) (auto simp: take_Cons split: nat.splits if_splits)

interpretation lru_cache: cache lru_ok lru_look lru_get lru_put lru_remove
proof unfold_locales
  fix c :: "('k, 'v) lruCache" and k j :: 'k and v :: 'v
  assume ok: "lru_ok c"
  note get = lru_get_refines [OF ok, of k, unfolded spec_get_def]
  show "fst (lru_get k c) = lru_look c k" "lru_look (snd (lru_get k c)) = lru_look c" "lru_ok (snd (lru_get k c))"
    using get by (cases "map_of (contents c) k"; simp add: lru_look_def map_of_spec_touch fun_upd_idem)+
  have put: "contents (lru_put k v c) = take (lc_capacity c) (spec_touch k v (contents c))"
    using lru_put_refines [OF ok, of k v] by (simp add: spec_put_def)
  have "0 < lc_capacity c" using ok by (simp add: lru_ok_def)
  then show "lru_look (lru_put k v c) k = Some v"
    by (cases "lc_capacity c") (simp_all add: lru_look_def put spec_touch_def)
  show "lru_ok (lru_put k v c)" "lru_ok (lru_remove k c)"
    using lru_put_refines [OF ok] lru_remove_refines [OF ok] by blast+
  show "lru_look (lru_put k v c) j \<in> {None, lru_look c j}" if "j \<noteq> k"
  proof (cases "lru_look (lru_put k v c) j")
    case (Some w)
    then have "map_of (spec_touch k v (contents c)) j = Some w"
      using map_of_take [of "lc_capacity c" "spec_touch k v (contents c)"] by (simp add: lru_look_def put)
    then show ?thesis using Some that by (simp add: lru_look_def map_of_spec_touch)
  qed simp
  have "map_of (filter (\<lambda>(j, _). j \<noteq> k) xs) j = (if j = k then None else map_of xs j)" for xs :: "('k \<times> 'v) list"
    by (induction xs) auto
  then show "lru_look (lru_remove k c) j = (if j = k then None else lru_look c j)"
    using lru_remove_refines [OF ok, of k] by (simp add: lru_look_def)
qed

end
