(* ===== verification/BT_Symbolizer.thy ===== *)
theory BT_Symbolizer
  imports BT_LruCache BT_Protocol "HOL-Library.Product_Lexorder"
begin

text \<open>
  The symbolizer of \<^verbatim>\<open>daemon/symbolizer.go\<close>: kernel symbols by binary search, user symbols through
  a cache of the memory maps of processes and a cache of the symbol tables of files. The
  operating system is a parameter: the clock, the start time of a process, the lines of its map
  file that parse, and the symbol sections of a file at the time of a call. One \<open>proc_env\<close> holds the
  answers that one \<^verbatim>\<open>getOrLoadMaps\<close> gets. It reads the clock once and the map file at most once; only when the
  pid was reused does it read the start time twice, and both readings give one value here. Times are unbounded integers where the code has \<^verbatim>\<open>int64\<close> nanoseconds, which last until the year 2262.
\<close>

section \<open>Types\<close>

definition StackQualityFull :: u8 where "StackQualityFull = 0"
definition StackQualityFpOnly :: u8 where "StackQualityFpOnly = 1"
definition StackQualityDegraded :: u8 where "StackQualityDegraded = 2"
definition StackQualityFailed :: u8 where "StackQualityFailed = 3"

text \<open>The bytes of a Go string literal.\<close>

definition go_string :: "string \<Rightarrow> bytes" where
  "go_string s = map (\<lambda>c. of_nat (of_char c)) s"

record SymbolFrame =
  sym_PC :: u64
  sym_Module :: bytes
  sym_Symbol :: bytes
  sym_Offset :: u64
  sym_Quality :: u8

record kallsymsEntry =
  ka_addr :: u64
  ka_name :: bytes

record elfSymbol =
  els_rva :: u64
  els_size :: u64
  els_name :: bytes

record elfSymbols =
  elf_path :: bytes
  elf_symtabAvailable :: bool
  elf_symbols :: "elfSymbol list"

record procMapsEntry =
  me_start :: u64
  me_end :: u64
  me_perms :: bytes
  me_offset :: u64
  me_path :: bytes

record procMaps =
  pr_pid :: int
  pr_pidStartTime :: u64
  pr_loadedNs :: int
  pr_entries :: "procMapsEntry list"

record SymbolizerCounters =
  KallsymsLoadedCount :: u64
  SymbolizeFull :: u64
  SymbolizeFpOnly :: u64
  SymbolizeDegraded :: u64
  SymbolizeFailed :: u64
  SymtabUnavailableSo :: u64

record Symbolizer =
  sy_kallsyms :: "kallsymsEntry list"
  sy_procMapsCache :: "(int, procMaps) lruCache"
  sy_elfCache :: "(bytes, elfSymbols) lruCache"
  sy_counters :: SymbolizerCounters

text \<open>A symbol as \<^verbatim>\<open>debug/elf\<close> reports it, and a file with its two symbol sections.\<close>

record elf_Symbol =
  elfs_Name :: bytes
  elfs_Info :: u8
  elfs_Value :: u64
  elfs_Size :: u64

record elf_File =
  ef_Symbols :: "elf_Symbol list option"
  ef_DynamicSymbols :: "elf_Symbol list option"

record proc_env =
  pe_now :: int
  pe_stat :: "int \<Rightarrow> u64 option"
  pe_maps :: "int \<Rightarrow> procMapsEntry list option"
  pe_elf :: "bytes \<Rightarrow> elf_File option"

section \<open>Kernel symbols\<close>

definition zero_SymbolizerCounters :: SymbolizerCounters where
  "zero_SymbolizerCounters = \<lparr>KallsymsLoadedCount = 0, SymbolizeFull = 0, SymbolizeFpOnly = 0,
     SymbolizeDegraded = 0, SymbolizeFailed = 0, SymtabUnavailableSo = 0\<rparr>"

definition NewSymbolizer :: Symbolizer where
  "NewSymbolizer = \<lparr>sy_kallsyms = [], sy_procMapsCache = newLRU 128, sy_elfCache = newLRU 128,
     sy_counters = zero_SymbolizerCounters\<rparr>"

definition count_full :: "Symbolizer \<Rightarrow> Symbolizer" where
  "count_full s = s\<lparr>sy_counters := (sy_counters s)\<lparr>SymbolizeFull := SymbolizeFull (sy_counters s) + 1\<rparr>\<rparr>"

definition count_fp_only :: "Symbolizer \<Rightarrow> Symbolizer" where
  "count_fp_only s = s\<lparr>sy_counters := (sy_counters s)\<lparr>SymbolizeFpOnly := SymbolizeFpOnly (sy_counters s) + 1\<rparr>\<rparr>"

definition count_degraded :: "Symbolizer \<Rightarrow> Symbolizer" where
  "count_degraded s = s\<lparr>sy_counters := (sy_counters s)\<lparr>SymbolizeDegraded := SymbolizeDegraded (sy_counters s) + 1\<rparr>\<rparr>"

definition count_failed :: "Symbolizer \<Rightarrow> Symbolizer" where
  "count_failed s = s\<lparr>sy_counters := (sy_counters s)\<lparr>SymbolizeFailed := SymbolizeFailed (sy_counters s) + 1\<rparr>\<rparr>"

text \<open>The addresses and names of the lines that parse, in file order; a symbol at 0 is skipped.\<close>

definition LoadKallsyms :: "kallsymsEntry list \<Rightarrow> Symbolizer \<Rightarrow> Symbolizer" where
  "LoadKallsyms parsed s =
     (let entries = sort_key ka_addr (filter (\<lambda>e. ka_addr e \<noteq> 0) parsed)
      in s\<lparr>sy_kallsyms := entries,
           sy_counters := (sy_counters s)\<lparr>KallsymsLoadedCount := of_nat (length entries)\<rparr>\<rparr>)"

definition plain_frame :: "u64 \<Rightarrow> bytes \<Rightarrow> u8 \<Rightarrow> SymbolFrame" where
  "plain_frame pc module q = \<lparr>sym_PC = pc, sym_Module = module, sym_Symbol = [], sym_Offset = 0, sym_Quality = q\<rparr>"

definition SymbolizeKernel :: "u64 \<Rightarrow> Symbolizer \<Rightarrow> SymbolFrame \<times> Symbolizer" where
  "SymbolizeKernel pc s =
     (if sy_kallsyms s = [] \<or> pc = 0 then (plain_frame pc [] StackQualityFailed, count_failed s)
      else
        let idx = sort_Search (length (sy_kallsyms s)) (\<lambda>i. ka_addr (sy_kallsyms s ! i) > pc)
        in if idx = 0 then (plain_frame pc (go_string ''kernel'') StackQualityFailed, count_failed s)
           else
             let ent = sy_kallsyms s ! (idx - 1)
             in (\<lparr>sym_PC = pc, sym_Module = go_string ''kernel'', sym_Symbol = ka_name ent,
                  sym_Offset = pc - ka_addr ent, sym_Quality = StackQualityFull\<rparr>, count_full s))"

section \<open>Symbol tables of files\<close>

definition appendElfSymbols :: "elfSymbol list \<Rightarrow> elf_Symbol list \<Rightarrow> elfSymbol list" where
  "appendElfSymbols dst src =
     dst @ map (\<lambda>sym. \<lparr>els_rva = elfs_Value sym, els_size = elfs_Size sym, els_name = elfs_Name sym\<rparr>)
       (filter (\<lambda>sym. (elfs_Info sym AND 0xf = 2 \<or> elfs_Info sym AND 0xf = 0xa) \<and>
          elfs_Value sym \<noteq> 0 \<and> elfs_Name sym \<noteq> []) src)"

definition loadElfSymbols :: "elf_File option \<Rightarrow> bytes \<Rightarrow> elfSymbols option" where
  "loadElfSymbols file path =
     (case file of
        None \<Rightarrow> None
      | Some f \<Rightarrow>
          let (avail, syms) = (case ef_Symbols f of
                 Some ss \<Rightarrow> if length ss > 0 then (True, appendElfSymbols [] ss) else (False, [])
               | None \<Rightarrow> (False, []));
              syms = (case ef_DynamicSymbols f of
                 Some ds \<Rightarrow> if length ds > 0 then appendElfSymbols syms ds else syms
               | None \<Rightarrow> syms)
          in if syms = [] then None
             else Some \<lparr>elf_path = path, elf_symtabAvailable = avail,
               elf_symbols = sort_key (\<lambda>s. (uint (els_rva s), - uint (els_size s))) syms\<rparr>)"

definition lookupElfSymbol :: "elfSymbols \<Rightarrow> u64 \<Rightarrow> elfSymbol option" where
  "lookupElfSymbol es rva =
     (if elf_symbols es = [] then None
      else
        let idx = sort_Search (length (elf_symbols es)) (\<lambda>i. els_rva (elf_symbols es ! i) > rva)
        in if idx = 0 then None
           else
             let cand = elf_symbols es ! (idx - 1)
             in if els_size cand = 0 then Some cand
                else if rva < els_rva cand + els_size cand then Some cand else None)"

definition getOrLoadElf :: "proc_env \<Rightarrow> bytes \<Rightarrow> Symbolizer \<Rightarrow> elfSymbols option \<times> Symbolizer" where
  "getOrLoadElf env path s =
     (if path = [] \<or> hd path = 0x5B then (None, s)
      else
        case lru_get path (sy_elfCache s) of
          (Some es, c) \<Rightarrow> (Some es, s\<lparr>sy_elfCache := c\<rparr>)
        | (None, c) \<Rightarrow>
            (case loadElfSymbols (pe_elf env path) path of
               None \<Rightarrow> (None, s\<lparr>sy_elfCache := c\<rparr>)
             | Some es \<Rightarrow>
                 let s1 = s\<lparr>sy_elfCache := lru_put path es c\<rparr>
                 in (Some es,
                     if \<not> elf_symtabAvailable es
                     then s1\<lparr>sy_counters := (sy_counters s)\<lparr>SymtabUnavailableSo := SymtabUnavailableSo (sy_counters s) + 1\<rparr>\<rparr>
                     else s1)))"

section \<open>Memory maps of processes\<close>

definition procMapsTTL :: int where "procMapsTTL = 100000000"

definition readProcMaps :: "proc_env \<Rightarrow> int \<Rightarrow> procMapsEntry list option" where
  "readProcMaps env pid =
     map_option (\<lambda>es. sort_key me_start (filter (\<lambda>e. 0x78 \<in> set (me_perms e)) es)) (pe_maps env pid)"

definition findContaining :: "procMapsEntry list \<Rightarrow> u64 \<Rightarrow> procMapsEntry option" where
  "findContaining entries pc =
     (if entries = [] then None
      else
        let idx = sort_Search (length entries) (\<lambda>i. me_end (entries ! i) > pc)
        in if idx \<ge> length entries then None
           else if me_start (entries ! idx) \<le> pc \<and> pc < me_end (entries ! idx)
           then Some (entries ! idx) else None)"

definition load_maps :: "proc_env \<Rightarrow> int \<Rightarrow> (int, procMaps) lruCache \<Rightarrow> procMaps option \<times> (int, procMaps) lruCache" where
  "load_maps env pid c =
     (case pe_stat env pid of
        None \<Rightarrow> (None, c)
      | Some st \<Rightarrow>
          (case readProcMaps env pid of
             None \<Rightarrow> (None, c)
           | Some entries \<Rightarrow>
               let pm = \<lparr>pr_pid = pid, pr_pidStartTime = st, pr_loadedNs = pe_now env, pr_entries = entries\<rparr>
               in (Some pm, lru_put pid pm c)))"

definition getOrLoadMaps :: "proc_env \<Rightarrow> int \<Rightarrow> (int, procMaps) lruCache \<Rightarrow> procMaps option \<times> (int, procMaps) lruCache" where
  "getOrLoadMaps env pid c =
     (case lru_get pid c of
        (None, c) \<Rightarrow> load_maps env pid c
      | (Some pm, c) \<Rightarrow>
          if pe_now env - pr_loadedNs pm < procMapsTTL then (Some pm, c)
          else
            (case pe_stat env pid of
               None \<Rightarrow> (None, lru_remove pid c)
             | Some st \<Rightarrow>
                 if st = pr_pidStartTime pm then
                   (case readProcMaps env pid of
                      None \<Rightarrow> (None, lru_remove pid c)
                    | Some entries \<Rightarrow>
                        let refreshed = \<lparr>pr_pid = pid, pr_pidStartTime = pr_pidStartTime pm,
                              pr_loadedNs = pe_now env, pr_entries = entries\<rparr>
                        in (Some refreshed, lru_put pid refreshed c))
                 else load_maps env pid (lru_remove pid c)))"

text \<open>
  \<open>envs 0\<close> and \<open>envs 1\<close> are what the first and the second read of the maps see, \<open>envs 2\<close> what the
  read of the symbol table sees.
\<close>

definition SymbolizeUser :: "(nat \<Rightarrow> proc_env) \<Rightarrow> int \<Rightarrow> u64 \<Rightarrow> Symbolizer \<Rightarrow> SymbolFrame \<times> Symbolizer" where
  "SymbolizeUser envs pid pc s =
     (if pc = 0 then (plain_frame pc [] StackQualityFailed, count_failed s)
      else
        case getOrLoadMaps (envs 0) pid (sy_procMapsCache s) of
          (None, c) \<Rightarrow> (plain_frame pc [] StackQualityFailed, count_failed (s\<lparr>sy_procMapsCache := c\<rparr>))
        | (Some maps, c) \<Rightarrow>
            let (found, s) =
              (case findContaining (pr_entries maps) pc of
                 Some entry \<Rightarrow> (Inr entry, s\<lparr>sy_procMapsCache := c\<rparr>)
               | None \<Rightarrow>
                   (case getOrLoadMaps (envs 1) pid (lru_remove pid c) of
                      (None, c) \<Rightarrow> (Inl StackQualityFailed, s\<lparr>sy_procMapsCache := c\<rparr>)
                    | (Some maps2, c) \<Rightarrow>
                        (case findContaining (pr_entries maps2) pc of
                           None \<Rightarrow> (Inl StackQualityDegraded, s\<lparr>sy_procMapsCache := c\<rparr>)
                         | Some entry \<Rightarrow> (Inr entry, s\<lparr>sy_procMapsCache := c\<rparr>))))
            in case found of
                 Inl q \<Rightarrow> (plain_frame pc [] q, if q = StackQualityFailed then count_failed s else count_degraded s)
               | Inr entry \<Rightarrow>
                   let relPC = me_offset entry + (pc - me_start entry)
                   in case getOrLoadElf (envs 2) (me_path entry) s of
                        (None, s) \<Rightarrow>
                          ((plain_frame pc (me_path entry) StackQualityDegraded)\<lparr>sym_Offset := pc - me_start entry\<rparr>,
                           count_degraded s)
                      | (Some elfSyms, s) \<Rightarrow>
                          (case lookupElfSymbol elfSyms relPC of
                             None \<Rightarrow>
                               ((plain_frame pc (me_path entry) StackQualityFpOnly)\<lparr>sym_Offset := pc - me_start entry\<rparr>,
                                count_fp_only s)
                           | Some symbol \<Rightarrow>
                               (\<lparr>sym_PC = pc, sym_Module = me_path entry, sym_Symbol = els_name symbol,
                                 sym_Offset = relPC - els_rva symbol,
                                 sym_Quality = (if elf_symtabAvailable elfSyms then StackQualityFull else StackQualityDegraded)\<rparr>,
                                if elf_symtabAvailable elfSyms then count_full s else count_degraded s)))"

section \<open>Lookups\<close>

text \<open>Mappings in ascending order that do not overlap, as the kernel lists them.\<close>

definition maps_ordered :: "procMapsEntry list \<Rightarrow> bool" where
  "maps_ordered es \<longleftrightarrow> sorted_wrt (\<lambda>a b. me_end a \<le> me_start b) es \<and> (\<forall>e\<in>set es. me_start e < me_end e)"

lemma maps_ordered_nth:
  assumes "maps_ordered es" "i < j" "j < length es"
  shows "me_end (es ! i) \<le> me_start (es ! j)" "me_end (es ! i) < me_end (es ! j)"
proof -
  show a: "me_end (es ! i) \<le> me_start (es ! j)"
    using assms sorted_wrt_nth_less by (auto simp: maps_ordered_def)
  also have "\<dots> < me_end (es ! j)" using assms by (simp add: maps_ordered_def)
  finally show "me_end (es ! i) < me_end (es ! j)" .
qed

lemma findContaining_iff:
  assumes "maps_ordered es"
  shows "findContaining es pc = Some e \<longleftrightarrow> e \<in> set es \<and> me_start e \<le> pc \<and> pc < me_end e"
proof -
  let ?f = "\<lambda>i. me_end (es ! i) > pc"
  let ?r = "sort_Search (length es) ?f"
  have mono: "?f b" if "a \<le> b" "b < length es" "?f a" for a b
    using that maps_ordered_nth(2) [OF assms, of a b] by (cases "a = b") (auto intro: less_trans)
  have first: "\<not> ?f k" if "k < ?r" for k
    using that by (rule sort_Search_first(2) [rotated]) (rule mono)
  have hit: "?f ?r" if "?r < length es"
    using that by (rule sort_Search_first(3) [rotated]) (rule mono)
  have found: "findContaining es pc = Some e"
    if "i < length es" "es ! i = e" "me_start e \<le> pc" "pc < me_end e" for i
  proof -
    have "?r \<le> i" using first [of i] that by (meson leI)
    moreover have "\<not> ?r < i"
    proof
      assume r: "?r < i"
      then have "me_end (es ! ?r) \<le> pc" using maps_ordered_nth(1) [OF assms r that(1)] that by simp
      then show False using hit r that(1) by simp
    qed
    ultimately have "?r = i" by simp
    then show ?thesis using that by (auto simp: findContaining_def Let_def)
  qed
  show ?thesis
  proof
    assume "findContaining es pc = Some e"
    then show "e \<in> set es \<and> me_start e \<le> pc \<and> pc < me_end e"
      by (auto simp: findContaining_def Let_def split: if_splits)
  next
    assume "e \<in> set es \<and> me_start e \<le> pc \<and> pc < me_end e"
    then show "findContaining es pc = Some e" using found by (auto simp: in_set_conv_nth)
  qed
qed

text \<open>The last index of a sorted list whose key does not exceed a bound.\<close>

lemma last_not_above:
  fixes key :: "'e \<Rightarrow> 'o::linorder" and b :: 'o and xs :: "'e list"
  assumes "sorted (map key xs)"
  defines "r \<equiv> sort_Search (length xs) (\<lambda>i. key (xs ! i) > b)"
  shows "r \<le> length xs" "\<And>i. i < r \<Longrightarrow> key (xs ! i) \<le> b" "\<And>i. r \<le> i \<Longrightarrow> i < length xs \<Longrightarrow> b < key (xs ! i)"
proof -
  have mono: "key (xs ! j) > b" if "i \<le> j" "j < length xs" "key (xs ! i) > b" for i j
    using assms(1) that sorted_nth_mono [of "map key xs" i j] by (simp add: less_le_trans)
  show "r \<le> length xs" unfolding r_def by (rule sort_Search_first(1)) (rule mono)
  show "key (xs ! i) \<le> b" if "i < r" for i
  proof -
    have "\<not> key (xs ! i) > b"
      using that unfolding r_def by (rule sort_Search_first(2) [rotated]) (rule mono)
    then show ?thesis by simp
  qed
  have hit: "key (xs ! r) > b" if "r < length xs"
    using that unfolding r_def by (rule sort_Search_first(3) [rotated]) (rule mono)
  show "b < key (xs ! i)" if "r \<le> i" "i < length xs" for i
  proof (cases "r < length xs")
    case True
    then show ?thesis using mono [OF that] hit by blast
  qed (use that in simp)
qed

lemma SymbolizeKernel_nearest:
  assumes "sorted (map ka_addr (sy_kallsyms s))" "pc \<noteq> 0" "\<exists>e\<in>set (sy_kallsyms s). ka_addr e \<le> pc"
  shows "\<exists>e\<in>set (sy_kallsyms s). fst (SymbolizeKernel pc s) = \<lparr>sym_PC = pc, sym_Module = go_string ''kernel'',
      sym_Symbol = ka_name e, sym_Offset = pc - ka_addr e, sym_Quality = StackQualityFull\<rparr> \<and>
    ka_addr e \<le> pc \<and> (\<forall>e'\<in>set (sy_kallsyms s). ka_addr e' \<le> pc \<longrightarrow> ka_addr e' \<le> ka_addr e)"
proof -
  let ?xs = "sy_kallsyms s"
  define r where "r = sort_Search (length ?xs) (\<lambda>i. ka_addr (?xs ! i) > pc)"
  note R = last_not_above [OF assms(1), where b = pc, folded r_def]
  obtain i where i: "i < length ?xs" "ka_addr (?xs ! i) \<le> pc" using assms(3) by (auto simp: in_set_conv_nth)
  then have "0 < r" using R(3) [of i] by (cases "r = 0") auto
  then have e: "?xs ! (r - 1) \<in> set ?xs" "ka_addr (?xs ! (r - 1)) \<le> pc" using R(1) R(2) [of "r - 1"] by auto
  have "ka_addr e' \<le> ka_addr (?xs ! (r - 1))" if e': "e' \<in> set ?xs" "ka_addr e' \<le> pc" for e'
  proof -
    obtain j where j: "j < length ?xs" "?xs ! j = e'" using e' by (auto simp: in_set_conv_nth)
    then have "j < r" using R(3) [of j] e' by (cases "j < r") auto
    then show ?thesis using j assms(1) R(1) sorted_nth_mono [of "map ka_addr ?xs" j "r - 1"] by simp
  qed
  moreover have "fst (SymbolizeKernel pc s) = \<lparr>sym_PC = pc, sym_Module = go_string ''kernel'',
      sym_Symbol = ka_name (?xs ! (r - 1)), sym_Offset = pc - ka_addr (?xs ! (r - 1)), sym_Quality = StackQualityFull\<rparr>"
    using \<open>0 < r\<close> assms(2,3) by (auto simp: SymbolizeKernel_def r_def [symmetric] Let_def)
  ultimately show ?thesis using e by blast
qed

text \<open>
  Two symbols at one address: the table lists the larger one first, and the search ends at the
  last one.
\<close>

lemma two_symbol_table:
  assumes "els_rva a = els_rva b" "els_size b < els_size a"
  shows "sort_key (\<lambda>s. (uint (els_rva s), - uint (els_size s))) [a, b] = [a, b]"
    "sort_key (\<lambda>s. (uint (els_rva s), - uint (els_size s))) [b, a] = [a, b]"
  using assms by (simp_all add: word_less_def)

lemma lookup_two:
  assumes "elf_symbols es = [a, b]" "els_rva a \<le> els_rva b" "els_rva b \<le> pc"
  shows "lookupElfSymbol es pc = (if els_size b = 0 \<or> pc < els_rva b + els_size b then Some b else None)"
proof -
  have "sorted (map els_rva [a, b])" using assms(2) by simp
  note R = last_not_above [OF this, where b = pc]
  have "sort_Search (length [a, b]) (\<lambda>i. els_rva ([a, b] ! i) > pc) = 2"
  proof (rule ccontr)
    assume "sort_Search (length [a, b]) (\<lambda>i. els_rva ([a, b] ! i) > pc) \<noteq> 2"
    then have "sort_Search (length [a, b]) (\<lambda>i. els_rva ([a, b] ! i) > pc) \<le> 1" using R(1) by simp
    then have "pc < els_rva ([a, b] ! 1)" using R(3) [of 1] by simp
    then show False using assms(3) by simp
  qed
  then show ?thesis using assms(1) by (simp add: lookupElfSymbol_def Let_def)
qed

section \<open>The cache of memory maps\<close>

text \<open>
  Where a snapshot comes from: a reading of the process at the time the snapshot names, that saw
  the start time and the mappings it holds.
\<close>

definition reading :: "proc_env \<Rightarrow> int \<Rightarrow> procMaps \<Rightarrow> bool" where
  "reading env pid pm \<longleftrightarrow> pr_pid pm = pid \<and> pr_loadedNs pm = pe_now env \<and>
     pe_stat env pid = Some (pr_pidStartTime pm) \<and> readProcMaps env pid = Some (pr_entries pm)"

definition maps_sound :: "proc_env list \<Rightarrow> (int, procMaps) lruCache \<Rightarrow> bool" where
  "maps_sound H c \<longleftrightarrow> lru_ok c \<and> (\<forall>pid pm. lru_look c pid = Some pm \<longrightarrow> (\<exists>env\<in>set H. reading env pid pm))"

lemma maps_sound_mono: "maps_sound H c \<Longrightarrow> maps_sound (env # H) c"
  by (auto simp: maps_sound_def)

lemma maps_sound_put:
  assumes "maps_sound H c" "reading env pid pm"
  shows "maps_sound (env # H) (lru_put pid pm c)"
proof -
  let ?P = "\<lambda>pid pm. \<exists>env'\<in>set (env # H). reading env' pid pm"
  have ok: "lru_ok c" and all: "\<forall>k v. lru_look c k = Some v \<longrightarrow> ?P k v" and new: "?P pid pm"
    using maps_sound_mono [OF assms(1), of env] assms(2) by (auto simp: maps_sound_def)
  show ?thesis
    unfolding maps_sound_def using lru_cache.all_put [OF ok all new] lru_cache.put_ok [OF ok] by blast
qed

lemma maps_sound_remove: "maps_sound H c \<Longrightarrow> maps_sound H (lru_remove pid c)"
  using lru_cache.all_remove [of c "\<lambda>pid pm. \<exists>env'\<in>set H. reading env' pid pm" pid] lru_cache.remove_ok [of c]
  unfolding maps_sound_def by blast

lemma maps_sound_get:
  assumes "maps_sound H c"
  shows "maps_sound H (snd (lru_get pid c))" "fst (lru_get pid c) = Some pm \<Longrightarrow> \<exists>env\<in>set H. reading env pid pm"
  using assms lru_cache.get_look [of c pid] lru_cache.get_ok [of c pid] lru_cache.get_result [of c pid]
  unfolding maps_sound_def by simp_all

lemma load_maps_sound:
  assumes "maps_sound H c" "load_maps env pid c = (r, c')"
  shows "maps_sound (env # H) c' \<and> (\<forall>pm. r = Some pm \<longrightarrow> reading env pid pm)"
proof (cases "pe_stat env pid = None \<or> readProcMaps env pid = None")
  case True
  then have "r = None" "c' = c" using assms(2) by (auto simp: load_maps_def split: option.splits)
  then show ?thesis using maps_sound_mono [OF assms(1)] by simp
next
  case False
  then obtain st es where "pe_stat env pid = Some st" "readProcMaps env pid = Some es" by auto
  then show ?thesis
    using assms maps_sound_put [of H c env pid] by (auto simp: load_maps_def reading_def Let_def)
qed

lemma getOrLoadMaps_sound:
  assumes "maps_sound H c" "getOrLoadMaps env pid c = (r, c')"
  shows "maps_sound (env # H) c' \<and> (\<forall>pm. r = Some pm \<longrightarrow>
    (\<exists>env'\<in>set (env # H). reading env' pid pm) \<and> pe_now env - pr_loadedNs pm < procMapsTTL)"
proof -
  obtain g c1 where g: "lru_get pid c = (g, c1)" by fastforce
  have c1: "maps_sound H c1" using maps_sound_get(1) [OF assms(1), of pid] g by simp
  have ttl: "pe_now env - pr_loadedNs pm < procMapsTTL" if "reading env pid pm" for pm
    using that by (simp add: reading_def procMapsTTL_def)
  show ?thesis
  proof (cases g)
    case None
    then show ?thesis using assms(2) g load_maps_sound [OF c1, where env = env and pid = pid and r = r and c' = c'] ttl by (auto simp: getOrLoadMaps_def)
  next
    case (Some pm)
    have old: "\<exists>env'\<in>set H. reading env' pid pm" using maps_sound_get(2) [OF assms(1), of pid pm] g Some by simp
    show ?thesis
    proof (cases "pe_now env - pr_loadedNs pm < procMapsTTL")
      case True
      then show ?thesis using assms(2) g Some old maps_sound_mono [OF c1] by (auto simp: getOrLoadMaps_def)
    next
      case expired: False
      show ?thesis
      proof (cases "pe_stat env pid")
        case None
        then show ?thesis
          using assms(2) g Some expired maps_sound_mono [OF maps_sound_remove [OF c1]] by (auto simp: getOrLoadMaps_def)
      next
        case stat: (Some st)
        show ?thesis
        proof (cases "st = pr_pidStartTime pm")
          case False
          then show ?thesis
            using assms(2) g Some expired stat load_maps_sound [OF maps_sound_remove [OF c1], where env = env and pid = pid and r = r and c' = c'] ttl
            by (auto simp: getOrLoadMaps_def)
        next
          case True
          define fr where "fr es = \<lparr>pr_pid = pid, pr_pidStartTime = pr_pidStartTime pm,
            pr_loadedNs = pe_now env, pr_entries = es\<rparr>" for es
          have "reading env pid (fr es)" if "readProcMaps env pid = Some es" for es
            using that stat True by (simp add: reading_def fr_def)
          then show ?thesis
            using assms(2) g Some expired stat True maps_sound_put [OF c1, where env = env and pid = pid] ttl
              maps_sound_mono [OF maps_sound_remove [OF c1, of pid], of env]
            by (auto simp: getOrLoadMaps_def Let_def fr_def [symmetric] split: option.splits)
        qed
      qed
    qed
  qed
qed

end
