(* ===== verification/BT_Collector.thy ===== *)
theory BT_Collector
  imports BT_Symbolizer BT_Records
begin

text \<open>
  The event collector of \<^verbatim>\<open>daemon/event_collector.go\<close>: it reassembles the chunks of a transaction,
  joins the stack record, the cookie record and the sideband record that belong to it, and hands
  finished events to a callback. One definition per function; every handler runs to its end
  before the next one, as the locks of the collector order the parts that touch the same tables.
  The clock and the operating system that one call sees are given by a \<open>call_env\<close>; times are unbounded
  integers where the code has \<^verbatim>\<open>int64\<close> nanoseconds, which last until the year 2262. Structs that
  \<^verbatim>\<open>bpf2go\<close> generates have the layout of the C structs of the BPF programs.
\<close>

section \<open>Constants and types\<close>

definition second :: int where "second = 1000000000"

definition staleBufferTTL :: int where "staleBufferTTL = 5 * second"
definition cleanupEveryNEvts :: nat where "cleanupEveryNEvts = 256"
definition pendingStackTTL :: int where "pendingStackTTL = staleBufferTTL"
definition pendingMainTTL :: int where "pendingMainTTL = 5 * second"
definition pendingMainCapacity :: nat where "pendingMainCapacity = 16384"
definition pendingOnewayTTL :: int where "pendingOnewayTTL = 1 * second"
definition pendingOnewayCapacity :: nat where "pendingOnewayCapacity = 4096"
definition recentOnewayEmitTTL :: int where "recentOnewayEmitTTL = 1 * second"
definition recentOnewayCapacity :: nat where "recentOnewayCapacity = 4096"
definition recentCookieRingSize :: nat where "recentCookieRingSize = 4096"
definition pendingCookieTTL :: int where "pendingCookieTTL = staleBufferTTL"
definition pendingCookieCapacity :: nat where "pendingCookieCapacity = 16384"
definition txFlagOneWay :: u32 where "txFlagOneWay = 1"

record pairFailureCounters =
  entryEarlyReturn :: u64
  sidebandOrphan :: u64
  ringbufOverflowMain :: u64
  ringbufOverflowSideband :: u64
  cookieMonotonicViolation :: u64
  onewaySidebandLate :: u64

record txMeta =
  mt_pid :: u32
  mt_uid :: u32
  mt_code :: u32
  mt_flags :: u32
  mt_dataSize :: u64
  mt_isReply :: u8
  mt_binderDev :: u8
  mt_targetKind :: u8
  mt_toPid :: u32
  mt_toUid :: u32
  mt_targetRef :: u64
  mt_pairId :: u64
  mt_cookie :: u64

record txBuffer =
  tb_firstSeenNs :: int
  tb_chunks :: "bytes option list"
  tb_meta :: txMeta

record pendingStackEntry =
  ps_stack :: stack_trace_event
  ps_receivedNs :: int

record pendingMainEntry =
  pm_enqueuedNs :: int
  pm_event :: BinderEventPayload
  pm_cookie :: u64
  pm_listElem :: nat

record pendingOnewayEntry =
  po_enqueuedNs :: int
  po_kernelDebugId :: u64
  po_toPid :: u32
  po_toUid :: u32
  po_toUidUnsupported :: u8
  po_listElem :: nat

record recentOnewayEntry =
  ro_enqueuedNs :: int
  ro_listElem :: nat

record pendingCookieEntry =
  pc_cookie :: u64
  pc_receivedNs :: int
  pc_listElem :: nat

text \<open>
  \<open>emitted\<close> is the sequence of calls of the event callback, \<open>fresh\<close> the supply of identities for
  list elements.
\<close>

record EventCollector =
  hasCallback :: bool
  transactionBuffers :: "(u64, txBuffer) gomap"
  eventCounter :: u32
  symbolizer :: "Symbolizer option"
  pendingStack :: "(u64, pendingStackEntry) gomap"
  pendingCookieByTxid :: "(u64, pendingCookieEntry) gomap"
  pendingCookieLRU :: "u64 golist"
  stackRecordOrphanCount :: u64
  baseRecordNoStackCount :: u64
  pendingMain :: "(u64, pendingMainEntry) gomap"
  pendingMainLRU :: "u64 golist"
  pendingOneway :: "(u64, pendingOnewayEntry) gomap"
  pendingOnewayLRU :: "u64 golist"
  recentOneway :: "(u64, recentOnewayEntry) gomap"
  recentOnewayLRU :: "u64 golist"
  pendingMainByTxid :: "(u64, pendingMainEntry) gomap"
  pendingMainTxidLRU :: "u64 golist"
  recentCookieSet :: "u64 list"
  recentCookieRing :: "u64 list"
  recentCookieHead :: nat
  failures :: pairFailureCounters
  legacyCookieZeroSyncEmit :: bool
  emitted :: "BinderEventPayload list"
  fresh :: nat

text \<open>
  What one call sees: the results of its successive readings of the clock, the processes it asks
  the symbolizer about, the order in which a map is visited, and how many elements a slice may
  have before the allocation fails.
\<close>

record call_env =
  ce_now :: "nat \<Rightarrow> int"
  ce_proc :: "nat \<Rightarrow> nat \<Rightarrow> proc_env"
  ce_visit :: "(u64 \<times> pendingMainEntry) list \<Rightarrow> (u64 \<times> pendingMainEntry) list"
  ce_slices :: nat

definition NewEventCollector :: EventCollector where
  "NewEventCollector = \<lparr>hasCallback = False, transactionBuffers = [], eventCounter = 0, symbolizer = None,
     pendingStack = [], pendingCookieByTxid = [], pendingCookieLRU = [], stackRecordOrphanCount = 0,
     baseRecordNoStackCount = 0, pendingMain = [], pendingMainLRU = [], pendingOneway = [],
     pendingOnewayLRU = [], recentOneway = [], recentOnewayLRU = [], pendingMainByTxid = [],
     pendingMainTxidLRU = [], recentCookieSet = [], recentCookieRing = replicate recentCookieRingSize 0,
     recentCookieHead = 0,
     failures = \<lparr>entryEarlyReturn = 0, sidebandOrphan = 0, ringbufOverflowMain = 0,
       ringbufOverflowSideband = 0, cookieMonotonicViolation = 0, onewaySidebandLate = 0\<rparr>,
     legacyCookieZeroSyncEmit = False, emitted = [], fresh = 0\<rparr>"

definition SetSymbolizer :: "Symbolizer \<Rightarrow> EventCollector \<Rightarrow> EventCollector" where
  "SetSymbolizer s c = c\<lparr>symbolizer := Some s\<rparr>"

definition SetEventCallback :: "EventCollector \<Rightarrow> EventCollector" where
  "SetEventCallback c = c\<lparr>hasCallback := True\<rparr>"

section \<open>Emission and counters\<close>

definition emit :: "BinderEventPayload \<Rightarrow> EventCollector \<Rightarrow> EventCollector" where
  "emit ev c = (if hasCallback c then c\<lparr>emitted := emitted c @ [ev]\<rparr> else c)"

definition flushEmissions :: "BinderEventPayload list \<Rightarrow> EventCollector \<Rightarrow> EventCollector" where
  "flushEmissions events c =
     (if events = [] \<or> \<not> hasCallback c then c else c\<lparr>emitted := emitted c @ events\<rparr>)"

definition add_early :: "nat \<Rightarrow> EventCollector \<Rightarrow> EventCollector" where
  "add_early n c = c\<lparr>failures := (failures c)\<lparr>entryEarlyReturn := entryEarlyReturn (failures c) + of_nat n\<rparr>\<rparr>"

definition add_orphan :: "nat \<Rightarrow> EventCollector \<Rightarrow> EventCollector" where
  "add_orphan n c = c\<lparr>failures := (failures c)\<lparr>sidebandOrphan := sidebandOrphan (failures c) + of_nat n\<rparr>\<rparr>"

section \<open>Stack records\<close>

definition evictStalePendingStack :: "int \<Rightarrow> EventCollector \<Rightarrow> EventCollector" where
  "evictStalePendingStack now c =
     (let cutoff = now - pendingStackTTL;
          old = filter (\<lambda>(tid, p). ps_receivedNs p < cutoff) (pendingStack c)
      in c\<lparr>pendingStack := filter (\<lambda>(tid, p). \<not> ps_receivedNs p < cutoff) (pendingStack c),
           stackRecordOrphanCount := stackRecordOrphanCount c + of_nat (length old)\<rparr>)"

definition handleStackRecord :: "call_env \<Rightarrow> stack_trace_event \<Rightarrow> EventCollector \<Rightarrow> EventCollector" where
  "handleStackRecord env st c =
     evictStalePendingStack (ce_now env 1)
       (c\<lparr>pendingStack := map_put (ste_transaction_id st)
            \<lparr>ps_stack = st, ps_receivedNs = ce_now env 0\<rparr> (pendingStack c)\<rparr>)"

definition takePendingStack :: "u64 \<Rightarrow> EventCollector \<Rightarrow> stack_trace_event option \<times> EventCollector" where
  "takePendingStack tid c =
     (case map_of (pendingStack c) tid of
        None \<Rightarrow> (None, c)
      | Some p \<Rightarrow> (Some (ps_stack p), c\<lparr>pendingStack := map_del tid (pendingStack c)\<rparr>))"

text \<open>
  The frames of the non-zero addresses, in order; \<open>f\<close> is the symbolizer's operation for the
  \<open>i\<close>-th slot.
\<close>

fun symbolize_pcs :: "(nat \<Rightarrow> u64 \<Rightarrow> Symbolizer \<Rightarrow> SymbolFrame \<times> Symbolizer) \<Rightarrow> nat \<Rightarrow> u64 list \<Rightarrow>
    Symbolizer option \<Rightarrow> StackFrame list \<times> Symbolizer option" where
  "symbolize_pcs f i [] s = ([], s)"
| "symbolize_pcs f i (pc # pcs) s =
     (if pc = 0 then symbolize_pcs f (i + 1) pcs s
      else
        let (frame, s1) = (case s of
               None \<Rightarrow> (plain_frame pc [] StackQualityFailed, None)
             | Some sy \<Rightarrow> (case f i pc sy of (fr, sy1) \<Rightarrow> (fr, Some sy1)));
            (rest, s2) = symbolize_pcs f (i + 1) pcs s1
        in (\<lparr>sf_PC = sym_PC frame, sf_Module = sym_Module frame, sf_Symbol = sym_Symbol frame,
             sf_Offset = sym_Offset frame\<rparr> # rest, s2))"

definition aggregateQuality :: "StackFrame list \<Rightarrow> StackFrame list \<Rightarrow> bool \<Rightarrow> u8" where
  "aggregateQuality kf uf has_symbolizer =
     (if \<not> has_symbolizer then StackQualityDegraded
      else if kf = [] \<and> uf = [] then StackQualityFailed
      else if \<exists>f\<in>set (kf @ uf). sf_Module f = [] then StackQualityDegraded
      else if \<exists>f\<in>set (kf @ uf). sf_Symbol f = [] \<and> sf_Module f \<noteq> [] then StackQualityFpOnly
      else StackQualityFull)"

definition symbolizeStackEvent ::
  "(nat \<Rightarrow> nat \<Rightarrow> proc_env) \<Rightarrow> stack_trace_event \<Rightarrow> Symbolizer option \<Rightarrow> StackTrace \<times> Symbolizer option" where
  "symbolizeStackEvent penv st s =
     (let kd = sint (ste_kstack_depth st); ud = sint (ste_ustack_depth st) in
      if kd < 0 \<and> ud < 0
      then (\<lparr>st_Quality = StackQualityFailed, st_Truncated = 0, st_KFrames = [], st_UFrames = [],
             st_FailureReason = go_string ''bpf_get_stack returned -1 for both kernel and user''\<rparr>, s)
      else
        let (kf, s1) = (if kd \<ge> 0 then symbolize_pcs (\<lambda>i pc. SymbolizeKernel pc) 0 (take (nat kd) (ste_kstack st)) s
                        else ([], s));
            (uf, s2) = (if ud \<ge> 0
                        then symbolize_pcs (\<lambda>i pc. SymbolizeUser (penv i) (int (unat (ste_pid st))) pc) 0
                               (take (nat ud) (ste_ustack st)) s1
                        else ([], s1))
        in (\<lparr>st_Quality = aggregateQuality kf uf (s \<noteq> None),
             st_Truncated = (if kd \<ge> 32 then 1 else 0) OR (if ud \<ge> 32 then 2 else 0),
             st_KFrames = kf, st_UFrames = uf, st_FailureReason = []\<rparr>, s2))"

section \<open>Cookie records waiting for their transaction\<close>

definition evictStalePendingCookies :: "int \<Rightarrow> EventCollector \<Rightarrow> EventCollector" where
  "evictStalePendingCookies now c =
     (let cutoff = now - pendingCookieTTL;
          (m, l, _) = sweep_entries (\<lambda>p. pc_receivedNs p < cutoff) pc_listElem (pendingCookieByTxid c)
            (pendingCookieByTxid c) (pendingCookieLRU c)
      in c\<lparr>pendingCookieByTxid := m, pendingCookieLRU := l\<rparr>)"

section \<open>Eviction\<close>

definition evictPendingMainBackCollect :: "u64 \<Rightarrow> EventCollector \<Rightarrow> BinderEventPayload list \<times> EventCollector" where
  "evictPendingMainBackCollect cookie c =
     (case map_of (pendingMain c) cookie of
        None \<Rightarrow> ([], c)
      | Some pm \<Rightarrow> ([pm_event pm], add_early 1 (c\<lparr>pendingMain := map_del cookie (pendingMain c)\<rparr>)))"

definition evictPendingMainTxidBackCollect :: "u64 \<Rightarrow> EventCollector \<Rightarrow> BinderEventPayload list \<times> EventCollector" where
  "evictPendingMainTxidBackCollect transactionId c =
     (case map_of (pendingMainByTxid c) transactionId of
        None \<Rightarrow> ([], c)
      | Some pm \<Rightarrow> ([pm_event pm], add_early 1 (c\<lparr>pendingMainByTxid := map_del transactionId (pendingMainByTxid c)\<rparr>)))"

definition evictPendingOnewayBack :: "u64 \<Rightarrow> EventCollector \<Rightarrow> BinderEventPayload list \<times> EventCollector" where
  "evictPendingOnewayBack cookie c =
     (case map_of (pendingOneway c) cookie of
        None \<Rightarrow> ([], c)
      | Some _ \<Rightarrow> ([], add_orphan 1 (c\<lparr>pendingOneway := map_del cookie (pendingOneway c)\<rparr>)))"

definition evictRecentOneway :: "u64 \<Rightarrow> EventCollector \<Rightarrow> BinderEventPayload list \<times> EventCollector" where
  "evictRecentOneway cookie c = ([], c\<lparr>recentOneway := map_del cookie (recentOneway c)\<rparr>)"

definition evictPendingCookie :: "u64 \<Rightarrow> EventCollector \<Rightarrow> BinderEventPayload list \<times> EventCollector" where
  "evictPendingCookie txid c = ([], c\<lparr>pendingCookieByTxid := map_del txid (pendingCookieByTxid c)\<rparr>)"

section \<open>The state machine of main events\<close>

definition applySideband :: "BinderEventPayload \<Rightarrow> u64 \<Rightarrow> u32 \<Rightarrow> u32 \<Rightarrow> u8 \<Rightarrow> BinderEventPayload" where
  "applySideband ev debugID toPid toUid toUidUnsupported =
     (let ev = (if ev_PairId ev = 0 \<and> debugID \<noteq> 0 then ev\<lparr>ev_PairId := debugID\<rparr> else ev);
          ev = (if ev_ToPid ev = 0 \<and> toPid \<noteq> 0 then ev\<lparr>ev_ToPid := toPid\<rparr> else ev)
      in if toUidUnsupported = 0 \<and> toUid \<noteq> 0 \<and> ev_ToUid ev = 0 then ev\<lparr>ev_ToUid := toUid\<rparr> else ev)"

definition checkCookieDuplicate :: "u64 \<Rightarrow> EventCollector \<Rightarrow> EventCollector" where
  "checkCookieDuplicate cookie c =
     (if cookie \<in> set (recentCookieSet c)
      then c\<lparr>failures := (failures c)\<lparr>cookieMonotonicViolation := cookieMonotonicViolation (failures c) + 1\<rparr>\<rparr>
      else
        let old = recentCookieRing c ! recentCookieHead c;
            kept = (if old \<noteq> 0 then filter (\<lambda>k. k \<noteq> old) (recentCookieSet c) else recentCookieSet c)
        in c\<lparr>recentCookieRing := (recentCookieRing c)[recentCookieHead c := cookie],
             recentCookieHead := (recentCookieHead c + 1) mod length (recentCookieRing c),
             recentCookieSet := cookie # kept\<rparr>)"

definition recordRecentOnewayEmit :: "u64 \<Rightarrow> int \<Rightarrow> EventCollector \<Rightarrow> EventCollector" where
  "recordRecentOnewayEmit cookie nowNs c =
     (case map_of (recentOneway c) cookie of
        Some old \<Rightarrow>
          c\<lparr>recentOnewayLRU := MoveToFront (ro_listElem old) (recentOnewayLRU c),
            recentOneway := map_put cookie (old\<lparr>ro_enqueuedNs := nowNs\<rparr>) (recentOneway c)\<rparr>
      | None \<Rightarrow>
          let e = fresh c;
              c1 = c\<lparr>fresh := fresh c + 1,
                     recentOneway := map_put cookie \<lparr>ro_enqueuedNs = nowNs, ro_listElem = e\<rparr> (recentOneway c)\<rparr>;
              (_, l, c2) = evictLRUIfFullCollect recentOnewayCapacity evictRecentOneway
                (PushFront e cookie (recentOnewayLRU c)) c1
          in c2\<lparr>recentOnewayLRU := l\<rparr>)"

text \<open>
  Putting an entry at the front of \<^verbatim>\<open>pendingMain\<close> and evicting from its back, and the same for
  \<^verbatim>\<open>pendingMainByTxid\<close>; what falls out is to be emitted.
\<close>

definition push_pendingMain :: "u64 \<Rightarrow> pendingMainEntry \<Rightarrow> EventCollector \<Rightarrow> BinderEventPayload list \<times> EventCollector" where
  "push_pendingMain cookie pe c =
     (let e = fresh c;
          c1 = c\<lparr>fresh := fresh c + 1, pendingMain := map_put cookie (pe\<lparr>pm_listElem := e\<rparr>) (pendingMain c)\<rparr>;
          (es, l, c2) = evictLRUIfFullCollect pendingMainCapacity evictPendingMainBackCollect
            (PushFront e cookie (pendingMainLRU c)) c1
      in (es, c2\<lparr>pendingMainLRU := l\<rparr>))"

definition push_pendingMainByTxid :: "u64 \<Rightarrow> pendingMainEntry \<Rightarrow> EventCollector \<Rightarrow> BinderEventPayload list \<times> EventCollector" where
  "push_pendingMainByTxid transactionId pe c =
     (let e = fresh c;
          c1 = c\<lparr>fresh := fresh c + 1,
                 pendingMainByTxid := map_put transactionId (pe\<lparr>pm_listElem := e\<rparr>) (pendingMainByTxid c)\<rparr>;
          (es, l, c2) = evictLRUIfFullCollect pendingMainCapacity evictPendingMainTxidBackCollect
            (PushFront e transactionId (pendingMainTxidLRU c)) c1
      in (es, c2\<lparr>pendingMainTxidLRU := l\<rparr>))"

definition new_pendingMain :: "int \<Rightarrow> BinderEventPayload \<Rightarrow> pendingMainEntry" where
  "new_pendingMain nowNs ev = \<lparr>pm_enqueuedNs = nowNs, pm_event = ev, pm_cookie = 0, pm_listElem = 0\<rparr>"

definition drop_pendingMainByTxid :: "u64 \<Rightarrow> EventCollector \<Rightarrow> (pendingMainEntry option) \<times> EventCollector" where
  "drop_pendingMainByTxid transactionId c =
     (case map_of (pendingMainByTxid c) transactionId of
        None \<Rightarrow> (None, c)
      | Some old \<Rightarrow> (Some old, c\<lparr>pendingMainTxidLRU := Remove (pm_listElem old) (pendingMainTxidLRU c),
          pendingMainByTxid := map_del transactionId (pendingMainByTxid c)\<rparr>))"

definition drop_pendingMain :: "u64 \<Rightarrow> EventCollector \<Rightarrow> (pendingMainEntry option) \<times> EventCollector" where
  "drop_pendingMain cookie c =
     (case map_of (pendingMain c) cookie of
        None \<Rightarrow> (None, c)
      | Some old \<Rightarrow> (Some old, c\<lparr>pendingMainLRU := Remove (pm_listElem old) (pendingMainLRU c),
          pendingMain := map_del cookie (pendingMain c)\<rparr>))"

definition routeMainEvent :: "BinderEventPayload \<Rightarrow> u64 \<Rightarrow> u64 \<Rightarrow> int \<Rightarrow> EventCollector \<Rightarrow> EventCollector" where
  "routeMainEvent ev cookie transactionId nowNs c =
     (if ev_IsReply ev \<noteq> 0 then emit ev c
      else
        let isOneway = (ev_Flags ev AND txFlagOneWay \<noteq> 0) in
        if cookie = 0 then
          if isOneway \<or> transactionId = 0 \<or> legacyCookieZeroSyncEmit c then emit ev c
          else
            let (old, c1) = drop_pendingMainByTxid transactionId c;
                (toEmit, c1) = (case old of None \<Rightarrow> ([], c1) | Some o1 \<Rightarrow> ([pm_event o1], add_early 1 c1));
                (es, c2) = push_pendingMainByTxid transactionId (new_pendingMain nowNs ev) c1
            in flushEmissions (toEmit @ es) c2
        else
          let c1 = checkCookieDuplicate cookie c in
          if isOneway then
            let (ev, c2) = (case map_of (pendingOneway c1) cookie of
                   None \<Rightarrow> (ev, c1)
                 | Some pe \<Rightarrow>
                     (applySideband ev (po_kernelDebugId pe) (po_toPid pe) (po_toUid pe) (po_toUidUnsupported pe),
                      c1\<lparr>pendingOnewayLRU := Remove (po_listElem pe) (pendingOnewayLRU c1),
                        pendingOneway := map_del cookie (pendingOneway c1)\<rparr>))
            in flushEmissions [ev] (recordRecentOnewayEmit cookie nowNs c2)
          else
            let (es, c2) = push_pendingMain cookie (new_pendingMain nowNs ev) c1
            in flushEmissions es c2)"

section \<open>Sideband and cookie records\<close>

definition handleSideband :: "call_env \<Rightarrow> binder_sideband_event \<Rightarrow> EventCollector \<Rightarrow> EventCollector" where
  "handleSideband env sb c =
     (let nowNs = ce_now env 0; cookie = sbe_cookie sb in
      case map_of (pendingMain c) cookie of
        Some pm \<Rightarrow>
          flushEmissions
            [applySideband (pm_event pm) (sbe_kernel_debug_id sb) (sbe_to_pid sb) (sbe_to_uid sb) (sbe_to_uid_unsupported sb)]
            (c\<lparr>pendingMainLRU := Remove (pm_listElem pm) (pendingMainLRU c), pendingMain := map_del cookie (pendingMain c)\<rparr>)
      | None \<Rightarrow>
          (case map_of (pendingOneway c) cookie of
             Some e \<Rightarrow>
               add_orphan 1 (c\<lparr>pendingOnewayLRU := Remove (po_listElem e) (pendingOnewayLRU c),
                 pendingOneway := map_del cookie (pendingOneway c)\<rparr>)
           | None \<Rightarrow>
               (case map_of (recentOneway c) cookie of
                  Some _ \<Rightarrow>
                    c\<lparr>failures := (failures c)\<lparr>onewaySidebandLate := onewaySidebandLate (failures c) + 1\<rparr>\<rparr>
                | None \<Rightarrow>
                    let e = fresh c;
                        pe = \<lparr>po_enqueuedNs = nowNs, po_kernelDebugId = sbe_kernel_debug_id sb,
                          po_toPid = sbe_to_pid sb, po_toUid = sbe_to_uid sb,
                          po_toUidUnsupported = sbe_to_uid_unsupported sb, po_listElem = e\<rparr>;
                        c1 = c\<lparr>fresh := fresh c + 1, pendingOneway := map_put cookie pe (pendingOneway c)\<rparr>;
                        (_, l, c2) = evictLRUIfFullCollect pendingOnewayCapacity evictPendingOnewayBack
                          (PushFront e cookie (pendingOnewayLRU c)) c1
                    in c2\<lparr>pendingOnewayLRU := l\<rparr>)))"

definition stash_cookie :: "call_env \<Rightarrow> u64 \<Rightarrow> u64 \<Rightarrow> EventCollector \<Rightarrow> EventCollector" where
  "stash_cookie env transactionId cookie c =
     (let (l, c1) = (case map_of (pendingCookieByTxid c) transactionId of
            Some old \<Rightarrow>
              (MoveToFront (pc_listElem old) (pendingCookieLRU c),
               c\<lparr>pendingCookieByTxid := map_put transactionId
                   (old\<lparr>pc_cookie := cookie, pc_receivedNs := ce_now env 0\<rparr>) (pendingCookieByTxid c)\<rparr>)
          | None \<Rightarrow>
              (PushFront (fresh c) transactionId (pendingCookieLRU c),
               c\<lparr>fresh := fresh c + 1, pendingCookieByTxid := map_put transactionId
                   \<lparr>pc_cookie = cookie, pc_receivedNs = ce_now env 0, pc_listElem = fresh c\<rparr> (pendingCookieByTxid c)\<rparr>));
          (_, l1, c2) = evictLRUIfFullCollect pendingCookieCapacity evictPendingCookie l c1
      in evictStalePendingCookies (ce_now env 1) (c2\<lparr>pendingCookieLRU := l1\<rparr>))"

definition handleCookieSideband :: "call_env \<Rightarrow> binder_cookie_sideband \<Rightarrow> EventCollector \<Rightarrow> EventCollector" where
  "handleCookieSideband env cs c =
     (if bcs_transaction_id_hint cs = 0 \<or> bcs_cookie cs = 0 then c
      else
        let transactionId = bcs_transaction_id_hint cs; cookie = bcs_cookie cs;
            inject = (case map_of (transactionBuffers c) transactionId of
              Some buf \<Rightarrow> if mt_cookie (tb_meta buf) = 0 then Some buf else None
            | None \<Rightarrow> None)
        in case inject of
             Some buf \<Rightarrow>
               c\<lparr>transactionBuffers := map_put transactionId
                   (buf\<lparr>tb_meta := (tb_meta buf)\<lparr>mt_cookie := cookie\<rparr>\<rparr>) (transactionBuffers c)\<rparr>
           | None \<Rightarrow>
               (case drop_pendingMainByTxid transactionId c of
                  (Some pe, c1) \<Rightarrow>
                    let (old, c2) = drop_pendingMain cookie c1;
                        (toEmit, c2) = (case old of None \<Rightarrow> ([], c2) | Some o1 \<Rightarrow> ([pm_event o1], add_early 1 c2));
                        (es, c3) = push_pendingMain cookie (pe\<lparr>pm_cookie := cookie\<rparr>) c2
                    in flushEmissions (toEmit @ es) c3
                | (None, _) \<Rightarrow> stash_cookie env transactionId cookie c))"

section \<open>Background sweep\<close>

definition runSweep :: "call_env \<Rightarrow> int \<Rightarrow> EventCollector \<Rightarrow> EventCollector" where
  "runSweep env now c =
     (let cutoffMain = now - pendingMainTTL;
          cutoffOneway = now - pendingOnewayTTL;
          cutoffRecent = now - recentOnewayEmitTTL;
          (m1, l1, out1) = sweep_entries (\<lambda>pm. pm_enqueuedNs pm < cutoffMain) pm_listElem
            (ce_visit env (pendingMain c)) (pendingMain c) (pendingMainLRU c);
          (m2, l2, out2) = sweep_entries (\<lambda>pm. pm_enqueuedNs pm < cutoffMain) pm_listElem
            (ce_visit env (pendingMainByTxid c)) (pendingMainByTxid c) (pendingMainTxidLRU c);
          (m3, l3, out3) = sweep_entries (\<lambda>pe. po_enqueuedNs pe < cutoffOneway) po_listElem
            (pendingOneway c) (pendingOneway c) (pendingOnewayLRU c);
          (m4, l4, _) = sweep_entries (\<lambda>re. ro_enqueuedNs re < cutoffRecent) ro_listElem
            (recentOneway c) (recentOneway c) (recentOnewayLRU c);
          c1 = c\<lparr>pendingMain := m1, pendingMainLRU := l1, pendingMainByTxid := m2, pendingMainTxidLRU := l2,
                 pendingOneway := m3, pendingOnewayLRU := l3, recentOneway := m4, recentOnewayLRU := l4\<rparr>
      in flushEmissions (map pm_event (out1 @ out2))
           (add_orphan (length out3) (add_early (length (out1 @ out2)) c1)))"

text \<open>The two slots of the overflow map; a slot that cannot be read keeps its old count.\<close>

definition syncRingbufOverflowFrom :: "(nat \<Rightarrow> u64 list option) \<Rightarrow> EventCollector \<Rightarrow> EventCollector" where
  "syncRingbufOverflowFrom reader c =
     (let c1 = (case reader 0 of None \<Rightarrow> c
            | Some perCPU \<Rightarrow> c\<lparr>failures := (failures c)\<lparr>ringbufOverflowMain := sum_list perCPU\<rparr>\<rparr>)
      in case reader 1 of None \<Rightarrow> c1
           | Some perCPU \<Rightarrow> c1\<lparr>failures := (failures c1)\<lparr>ringbufOverflowSideband := sum_list perCPU\<rparr>\<rparr>)"

definition sweepLoop_tick :: "call_env \<Rightarrow> (nat \<Rightarrow> u64 list option) \<Rightarrow> EventCollector \<Rightarrow> EventCollector" where
  "sweepLoop_tick env reader c =
     evictStalePendingCookies (ce_now env 2)
       (evictStalePendingStack (ce_now env 1)
         (syncRingbufOverflowFrom reader (runSweep env (ce_now env 0) c)))"

section \<open>Main records\<close>

definition mergeChunks :: "bytes option list \<Rightarrow> bytes" where
  "mergeChunks chunks = concat (map (\<lambda>c. case c of None \<Rightarrow> [] | Some b \<Rightarrow> b) chunks)"

definition maybeCleanup :: "call_env \<Rightarrow> int \<Rightarrow> EventCollector \<Rightarrow> EventCollector" where
  "maybeCleanup env nowNs c =
     (let c1 = c\<lparr>eventCounter := eventCounter c + 1\<rparr> in
      if unat (eventCounter c1) mod cleanupEveryNEvts \<noteq> 0 then c1
      else
        evictStalePendingCookies (ce_now env 2)
          (evictStalePendingStack (ce_now env 1)
            (c1\<lparr>transactionBuffers := filter (\<lambda>(i, buf). \<not> tb_firstSeenNs buf < nowNs - staleBufferTTL) (transactionBuffers c1)\<rparr>)))"

definition meta_of :: "binder_trace_event \<Rightarrow> txMeta" where
  "meta_of event = \<lparr>mt_pid = bte_pid event, mt_uid = bte_uid event, mt_code = bte_code event,
     mt_flags = bte_flags event, mt_dataSize = bte_data_size event, mt_isReply = bte_is_reply event,
     mt_binderDev = bte_binder_dev event, mt_targetKind = bte_target_kind event,
     mt_toPid = bte_to_pid event, mt_toUid = bte_to_uid event, mt_targetRef = bte_target_ref event,
     mt_pairId = bte_pair_id event, mt_cookie = bte_cookie event\<rparr>"

text \<open>
  The buffer of a transaction that is seen for the first time, with the cookie that already
  waits for it. An allocation that fails ends the process: \<open>None\<close>.
\<close>

definition open_buffer :: "call_env \<Rightarrow> binder_trace_event \<Rightarrow> EventCollector \<Rightarrow> (txBuffer \<times> EventCollector) option" where
  "open_buffer env event c =
     (case map_of (transactionBuffers c) (bte_transaction_id event) of
        Some buf \<Rightarrow> Some (buf, c)
      | None \<Rightarrow>
          let totalChunks = unat ((bte_data_size event + of_nat CHUNK_SIZE - 1) div of_nat CHUNK_SIZE) in
          if totalChunks > ce_slices env then None
          else
            let meta = meta_of event;
                (meta, c) = (if mt_cookie meta = 0 then
                    (case map_of (pendingCookieByTxid c) (bte_transaction_id event) of
                       Some pe \<Rightarrow>
                         (meta\<lparr>mt_cookie := pc_cookie pe\<rparr>,
                          c\<lparr>pendingCookieLRU := Remove (pc_listElem pe) (pendingCookieLRU c),
                            pendingCookieByTxid := map_del (bte_transaction_id event) (pendingCookieByTxid c)\<rparr>)
                     | None \<Rightarrow> (meta, c))
                  else (meta, c))
            in Some (\<lparr>tb_firstSeenNs = ce_now env 0, tb_chunks = replicate totalChunks None, tb_meta = meta\<rparr>, c))"

text \<open>The index is compared as a signed number; an unsigned index beyond the slice panics.\<close>

definition store_chunk :: "binder_trace_event \<Rightarrow> txBuffer \<Rightarrow> txBuffer option" where
  "store_chunk event buf =
     (if sint (bte_chunk_index event) < int (length (tb_chunks buf)) then
        if unat (bte_chunk_index event) < length (tb_chunks buf)
        then Some (buf\<lparr>tb_chunks := (tb_chunks buf)[unat (bte_chunk_index event) := Some (bte_chunk_data event)]\<rparr>)
        else None
      else Some buf)"

definition payload_of :: "int \<Rightarrow> txMeta \<Rightarrow> bytes \<Rightarrow> BinderEventPayload" where
  "payload_of nowNs meta parcelData = \<lparr>ev_Timestamp = nowNs, ev_Pid = mt_pid meta, ev_Uid = mt_uid meta,
     ev_Code = mt_code meta, ev_Flags = mt_flags meta, ev_DataSize = of_nat (length parcelData),
     ev_IsReply = mt_isReply meta, ev_BinderDev = mt_binderDev meta, ev_TargetKind = mt_targetKind meta,
     ev_ToPid = mt_toPid meta, ev_ToUid = mt_toUid meta, ev_TargetRef = mt_targetRef meta,
     ev_PairId = mt_pairId meta, ev_ParcelData = parcelData, ev_StackTrace = None\<rparr>"

text \<open>What a complete buffer becomes: nothing, or the event that goes into the state machine. The
  first size check is signed, the slice expression after it is not.\<close>

definition finish_buffer ::
  "call_env \<Rightarrow> u64 \<Rightarrow> txBuffer \<Rightarrow> EventCollector \<Rightarrow> (BinderEventPayload option \<times> EventCollector) option" where
  "finish_buffer env transactionId buf c =
     (let completeData = mergeChunks (tb_chunks buf); meta = tb_meta buf in
      if length completeData \<le> 16 \<or> length completeData > CHUNK_SIZE * MAX_CHUNKS then Some (None, c)
      else if mt_dataSize meta = 0 \<or> sint (mt_dataSize meta) > int (length completeData) then Some (None, c)
      else if unat (mt_dataSize meta) > length completeData then None
      else
        let mainEvent = payload_of (ce_now env 0) meta (take (unat (mt_dataSize meta)) completeData)
        in case takePendingStack transactionId c of
             (Some st, c1) \<Rightarrow>
               (case symbolizeStackEvent (ce_proc env) st (symbolizer c1) of (tr, s) \<Rightarrow>
                  Some (Some (mainEvent\<lparr>ev_StackTrace := Some tr\<rparr>), c1\<lparr>symbolizer := s\<rparr>))
           | (None, c1) \<Rightarrow> Some (Some mainEvent, c1\<lparr>baseRecordNoStackCount := baseRecordNoStackCount c1 + 1\<rparr>))"

definition handleEvent :: "call_env \<Rightarrow> binder_trace_event \<Rightarrow> EventCollector \<Rightarrow> EventCollector option" where
  "handleEvent env event c =
     (case open_buffer env event c of
        None \<Rightarrow> None
      | Some (buf, c1) \<Rightarrow>
          (case store_chunk event buf of
             None \<Rightarrow> None
           | Some buf \<Rightarrow>
               let transactionId = bte_transaction_id event in
               if \<forall>chunk\<in>set (tb_chunks buf). chunk \<noteq> None then
                 (case finish_buffer env transactionId buf
                     (c1\<lparr>transactionBuffers := map_del transactionId (transactionBuffers c1)\<rparr>) of
                    None \<Rightarrow> None
                  | Some (None, c2) \<Rightarrow> Some (maybeCleanup env (ce_now env 0) c2)
                  | Some (Some ev, c2) \<Rightarrow>
                      Some (maybeCleanup env (ce_now env 0)
                        (routeMainEvent ev (mt_cookie (tb_meta buf)) transactionId (ce_now env 0) c2)))
               else
                 Some (maybeCleanup env (ce_now env 0)
                   (c1\<lparr>transactionBuffers := map_put transactionId buf (transactionBuffers c1)\<rparr>))))"

section \<open>The read loop\<close>

text \<open>One record of the ring buffer; a record that is too short for its kind is dropped.\<close>

definition readLoop_record :: "call_env \<Rightarrow> bytes \<Rightarrow> EventCollector \<Rightarrow> EventCollector option" where
  "readLoop_record env raw c =
     (if length raw < 1 then Some c
      else if length raw \<ge> 8 \<and> of_le (take 8 raw) = STACK_RECORD_MAGIC then
        if length raw < csize stack_trace_event_t then Some c
        else Some (handleStackRecord env (load_stack_event raw) c)
      else if hd raw = EVT_KIND_MAIN then
        if length raw < csize binder_trace_event_t then Some c else handleEvent env (load_trace_event raw) c
      else if hd raw = EVT_KIND_SIDEBAND then
        if length raw < csize binder_sideband_event_t then Some c
        else Some (handleSideband env (load_sideband_event raw) c)
      else if hd raw = EVT_KIND_COOKIE then
        if length raw < csize binder_cookie_sideband_t then Some c
        else Some (handleCookieSideband env (load_cookie_sideband raw) c)
      else Some c)"

end
