(* ===== verification/BT_CollectorInv.thy ===== *)
theory BT_CollectorInv
  imports BT_Collector
begin

text \<open>
  The invariants of the collector: every table keeps its map and its list together and within
  its capacity, and no handler loses or invents an event, with one exception that the
  conservation lemma of \<^verbatim>\<open>routeMainEvent\<close> names.
\<close>

section \<open>The eviction callbacks keep their contract\<close>

definition zero_failures :: pairFailureCounters where
  "zero_failures = \<lparr>entryEarlyReturn = 0, sidebandOrphan = 0, ringbufOverflowMain = 0,
     ringbufOverflowSideband = 0, cookieMonotonicViolation = 0, onewaySidebandLate = 0\<rparr>"

interpretation ev_main: evictor evictPendingMainBackCollect pendingMain pm_listElem "\<lambda>e. [pm_event e]"
  "\<lambda>c. c\<lparr>pendingMain := [], failures := zero_failures\<rparr>"
  by unfold_locales (simp_all add: evictPendingMainBackCollect_def add_early_def map_del_absent split: option.splits)

interpretation ev_txid: evictor evictPendingMainTxidBackCollect pendingMainByTxid pm_listElem "\<lambda>e. [pm_event e]"
  "\<lambda>c. c\<lparr>pendingMainByTxid := [], failures := zero_failures\<rparr>"
  by unfold_locales (simp_all add: evictPendingMainTxidBackCollect_def add_early_def map_del_absent split: option.splits)

interpretation ev_oneway: evictor evictPendingOnewayBack pendingOneway po_listElem "\<lambda>e. []"
  "\<lambda>c. c\<lparr>pendingOneway := [], failures := zero_failures\<rparr>"
  by unfold_locales (simp_all add: evictPendingOnewayBack_def add_orphan_def map_del_absent split: option.splits)

interpretation ev_recent: evictor evictRecentOneway recentOneway ro_listElem "\<lambda>e. []"
  "\<lambda>c. c\<lparr>recentOneway := []\<rparr>"
  by unfold_locales (simp_all add: evictRecentOneway_def split: option.splits)

interpretation ev_cookie: evictor evictPendingCookie pendingCookieByTxid pc_listElem "\<lambda>e. []"
  "\<lambda>c. c\<lparr>pendingCookieByTxid := []\<rparr>"
  by unfold_locales (simp_all add: evictPendingCookie_def split: option.splits)

section \<open>Tables\<close>

text \<open>A table within its capacity whose list elements are older than the supply of identities.\<close>

definition table_ok :: "('e \<Rightarrow> nat) \<Rightarrow> nat \<Rightarrow> nat \<Rightarrow> ('k, 'e) gomap \<Rightarrow> 'k golist \<Rightarrow> bool" where
  "table_ok el cap n m l \<longleftrightarrow> linked el m l \<and> length l \<le> cap \<and> (\<forall>i\<in>fst ` set l. i < n)"

lemma table_ok_Nil: "table_ok el cap n [] []"
  by (simp add: table_ok_def)

lemma table_ok_mono: "table_ok el cap n m l \<Longrightarrow> n \<le> n' \<Longrightarrow> table_ok el cap n' m l"
  by (auto simp: table_ok_def)

lemma table_ok_fresh: "table_ok el cap n m l \<Longrightarrow> n \<notin> fst ` set l"
  by (auto simp: table_ok_def)

lemma table_ok_remove:
  "table_ok el cap n m l \<Longrightarrow> map_of m k = Some e \<Longrightarrow> table_ok el cap n (map_del k m) (Remove (el e) l)"
  using linked_remove [of el m l k e] length_Remove [of "el e" l] by (auto simp: table_ok_def)

lemma table_ok_update:
  "table_ok el cap n m l \<Longrightarrow> map_of m k = Some e \<Longrightarrow> el e' = el e \<Longrightarrow>
     table_ok el cap n (map_put k e' m) (MoveToFront (el e) l)"
  using linked_update [of el m l k e e'] by (auto simp: table_ok_def)

lemma table_ok_sweep:
  assumes "table_ok el cap n m l" "mset es = mset m"
  shows "case sweep_entries old el es m l of (m', l', out) \<Rightarrow> table_ok el cap n m' l' \<and>
    (synced el m l \<longrightarrow> synced el m' l') \<and> mset m = mset m' + mset (filter (\<lambda>x. old (snd x)) m) \<and>
    mset out = image_mset snd (mset (filter (\<lambda>x. old (snd x)) m)) \<and> set m' = {x \<in> set m. \<not> old (snd x)}"
proof -
  have s: "set es = set m" using assms(2) by (rule mset_eq_setD)
  have "mset (map fst es) = mset (map fst m)" using assms(2) by simp
  then have d: "distinct (map fst es)" 
    using assms(1) mset_eq_imp_distinct_iff [of "map fst es" "map fst m"] by (auto simp: table_ok_def linked_def)
  have f: "mset (filter P es) = mset (filter P m)" for P using assms(2) by (simp add: mset_filter)
  have L: "linked el m l" using assms(1) by (simp add: table_ok_def)
  obtain m' l' out where r: "sweep_entries old el es m l = (m', l', out)"
    by (cases "sweep_entries old el es m l") auto
  have E: "linked el m' l'" "synced el m l \<longrightarrow> synced el m' l'" "length l' \<le> length l"
    "fst ` set l' \<subseteq> fst ` set l" "mset m = mset m' + mset (filter (\<lambda>x. old (snd x)) es)"
    "out = map snd (filter (\<lambda>x. old (snd x)) es)" "set m' = {x \<in> set m. x \<notin> set es \<or> \<not> old (snd x)}"
    using sweep_entries_invariant [OF L _ d, of old] s unfolding r prod.case by simp_all
  have "i < n" if "i \<in> fst ` set l'" for i using that E(4) assms(1) unfolding table_ok_def by blast
  then have "table_ok el cap n m' l'" using E(1,3) assms(1) by (simp add: table_ok_def)
  moreover have "set m' = {x \<in> set m. \<not> old (snd x)}" unfolding E(7) s by blast
  moreover have "mset out = image_mset snd (mset (filter (\<lambda>x. old (snd x)) m))"
    unfolding E(6) f [symmetric] by (rule mset_map)
  ultimately show ?thesis unfolding r prod.case using E(2,5) unfolding f by blast
qed

lemma held_by_simps [simp]:
  "held_by y [] = {#}" "held_by y ((k, e) # m) = mset (y e) + held_by y m"
  by (simp_all add: held_by_def)

lemma held_by_put: "held_by y (map_put k e m) = mset (y e) + held_by y (map_del k m)"
  by (simp add: map_put_del)

lemma held_by_del: "distinct (map fst m) \<Longrightarrow> map_of m k = Some e \<Longrightarrow> held_by y m = mset (y e) + held_by y (map_del k m)"
  by (simp add: held_by_def mset_map_del)

text \<open>Putting an entry in front and evicting from the back.\<close>

context evictor
begin

lemma push:
  assumes "table_ok el cap n m l" "tab s = map_put k e m" "el e = n"
  shows "case evictLRUIfFullCollect cap evict (PushFront n k l) s of (es, l', s') \<Rightarrow>
    table_ok el cap (Suc n) (tab s') l' \<and>
    (synced el m l \<and> map_of m k = None \<longrightarrow> synced el (tab s') l') \<and>
    mset es + held_by yield (tab s') = mset (yield e) + held_by yield (map_del k m) \<and>
    frame s' = frame s \<and> set (tab s') \<subseteq> insert (k, e) (set m) \<and>
    (length l < cap \<longrightarrow> es = [] \<and> l' = PushFront n k l \<and> s' = s)"
proof -
  have fresh: "n \<notin> fst ` set l" using table_ok_fresh [OF assms(1)] .
  have L: "linked el (tab s) (PushFront n k l)"
    using linked_insert [of el m l e n k] assms fresh by (simp add: table_ok_def)
  have S: "synced el m l \<and> map_of m k = None \<longrightarrow> synced el (tab s) (PushFront n k l)"
    using synced_insert [of el m l e n k] assms fresh by simp
  obtain es l' s' where r: "evictLRUIfFullCollect cap evict (PushFront n k l) s = (es, l', s')"
    by (cases "evictLRUIfFullCollect cap evict (PushFront n k l) s") auto
  have E: "linked el (tab s') l'" "synced el (tab s) (PushFront n k l) \<longrightarrow> synced el (tab s') l'"
    "length l' = min cap (length (PushFront n k l))" "set l' \<subseteq> set (PushFront n k l)" "set (tab s') \<subseteq> set (tab s)"
    "held_by yield (tab s) = mset es + held_by yield (tab s')" "frame s' = frame s"
    using evict_loop [OF L, of cap] unfolding r prod.case by auto
  have "i < Suc n" if "i \<in> fst ` set l'" for i
  proof -
    have "i = n \<or> i \<in> fst ` set l" using that E(4) by (auto simp: PushFront_def)
    then show ?thesis using assms(1) by (auto simp: table_ok_def)
  qed
  then have T: "table_ok el cap (Suc n) (tab s') l'" using E(1,3) by (simp add: table_ok_def)
  have N: "es = [] \<and> l' = PushFront n k l \<and> s' = s" if "length l < cap"
    using r evictLRUIfFullCollect.simps [of cap evict "PushFront n k l" s] that by (simp add: PushFront_def)
  have U: "set (tab s') \<subseteq> insert (k, e) (set m)" using E(5) assms(2) by (auto simp: map_put_del)
  have H: "mset es + held_by yield (tab s') = mset (yield e) + held_by yield (map_del k m)"
    using E(6) by (simp add: assms(2) held_by_put)
  show ?thesis unfolding r prod.case using T H U N E(2,7) S by simp
qed

end

section \<open>Well-formed collectors\<close>

definition collector_ok :: "EventCollector \<Rightarrow> bool" where
  "collector_ok c \<longleftrightarrow>
     table_ok pm_listElem pendingMainCapacity (fresh c) (pendingMain c) (pendingMainLRU c) \<and>
     table_ok pm_listElem pendingMainCapacity (fresh c) (pendingMainByTxid c) (pendingMainTxidLRU c) \<and>
     synced pm_listElem (pendingMainByTxid c) (pendingMainTxidLRU c) \<and>
     table_ok po_listElem pendingOnewayCapacity (fresh c) (pendingOneway c) (pendingOnewayLRU c) \<and>
     synced po_listElem (pendingOneway c) (pendingOnewayLRU c) \<and>
     table_ok ro_listElem recentOnewayCapacity (fresh c) (recentOneway c) (recentOnewayLRU c) \<and>
     synced ro_listElem (recentOneway c) (recentOnewayLRU c) \<and>
     table_ok pc_listElem pendingCookieCapacity (fresh c) (pendingCookieByTxid c) (pendingCookieLRU c) \<and>
     synced pc_listElem (pendingCookieByTxid c) (pendingCookieLRU c) \<and>
     distinct (map fst (transactionBuffers c)) \<and> distinct (map fst (pendingStack c))"

definition main_synced :: "EventCollector \<Rightarrow> bool" where
  "main_synced c \<longleftrightarrow> synced pm_listElem (pendingMain c) (pendingMainLRU c)"

text \<open>The events that wait in one of the two tables.\<close>

definition waiting :: "EventCollector \<Rightarrow> BinderEventPayload multiset" where
  "waiting c = held_by (\<lambda>e. [pm_event e]) (pendingMain c) + held_by (\<lambda>e. [pm_event e]) (pendingMainByTxid c)"

text \<open>An event without the fields that a sideband record fills in, and all events of a collector.\<close>

definition base :: "BinderEventPayload \<Rightarrow> BinderEventPayload" where
  "base ev = ev\<lparr>ev_PairId := 0, ev_ToPid := 0, ev_ToUid := 0\<rparr>"

definition all_events :: "EventCollector \<Rightarrow> BinderEventPayload multiset" where
  "all_events c = image_mset base (mset (emitted c) + waiting c)"

lemma base_applySideband [simp]: "base (applySideband ev d p u n) = base ev"
  by (simp add: base_def applySideband_def Let_def)

lemma NewEventCollector_ok:
  "collector_ok (SetEventCallback NewEventCollector)" "main_synced (SetEventCallback NewEventCollector)"
  "all_events (SetEventCallback NewEventCollector) = {#}" "hasCallback (SetEventCallback NewEventCollector)"
  by (simp_all add: collector_ok_def main_synced_def SetEventCallback_def NewEventCollector_def table_ok_Nil
      all_events_def waiting_def)

section \<open>Pushing and dropping entries\<close>

text \<open>What a push leaves alone.\<close>

lemma same_but_main:
  "c2\<lparr>pendingMain := [], failures := z\<rparr> = c1\<lparr>pendingMain := [], failures := z\<rparr> \<Longrightarrow>
     c2 = c1\<lparr>pendingMain := pendingMain c2, failures := failures c2\<rparr>"
  by (cases c1, cases c2) simp

lemma same_but_txid:
  "c2\<lparr>pendingMainByTxid := [], failures := z\<rparr> = c1\<lparr>pendingMainByTxid := [], failures := z\<rparr> \<Longrightarrow>
     c2 = c1\<lparr>pendingMainByTxid := pendingMainByTxid c2, failures := failures c2\<rparr>"
  by (cases c1, cases c2) simp

lemma same_but_oneway:
  "c2\<lparr>pendingOneway := [], failures := z\<rparr> = c1\<lparr>pendingOneway := [], failures := z\<rparr> \<Longrightarrow>
     c2 = c1\<lparr>pendingOneway := pendingOneway c2, failures := failures c2\<rparr>"
  by (cases c1, cases c2) simp

lemma same_but_recent:
  "c2\<lparr>recentOneway := []\<rparr> = c1\<lparr>recentOneway := []\<rparr> \<Longrightarrow> c2 = c1\<lparr>recentOneway := recentOneway c2\<rparr>"
  by (cases c1, cases c2) simp

lemma same_but_cookie:
  "c2\<lparr>pendingCookieByTxid := []\<rparr> = c1\<lparr>pendingCookieByTxid := []\<rparr> \<Longrightarrow>
     c2 = c1\<lparr>pendingCookieByTxid := pendingCookieByTxid c2\<rparr>"
  by (cases c1, cases c2) simp

lemma push_pendingMain_spec:
  assumes "collector_ok c"
  obtains es m l f where
    "push_pendingMain k pe c = (es, c\<lparr>fresh := Suc (fresh c), pendingMain := m, pendingMainLRU := l, failures := f\<rparr>)"
    "table_ok pm_listElem pendingMainCapacity (Suc (fresh c)) m l"
    "main_synced c \<and> map_of (pendingMain c) k = None \<longrightarrow> synced pm_listElem m l"
    "mset es + held_by (\<lambda>e. [pm_event e]) m = add_mset (pm_event pe) (held_by (\<lambda>e. [pm_event e]) (map_del k (pendingMain c)))"
    "set m \<subseteq> insert (k, pe\<lparr>pm_listElem := fresh c\<rparr>) (set (pendingMain c))"
    "length (pendingMainLRU c) < pendingMainCapacity \<longrightarrow> es = [] \<and> f = failures c \<and>
       m = map_put k (pe\<lparr>pm_listElem := fresh c\<rparr>) (pendingMain c) \<and> l = PushFront (fresh c) k (pendingMainLRU c)"
proof -
  define c1 where "c1 = c\<lparr>fresh := fresh c + 1, pendingMain := map_put k (pe\<lparr>pm_listElem := fresh c\<rparr>) (pendingMain c)\<rparr>"
  have T: "table_ok pm_listElem pendingMainCapacity (fresh c) (pendingMain c) (pendingMainLRU c)"
    using assms by (simp add: collector_ok_def)
  obtain es l c2 where r: "evictLRUIfFullCollect pendingMainCapacity evictPendingMainBackCollect
      (PushFront (fresh c) k (pendingMainLRU c)) c1 = (es, l, c2)"
    by (cases "evictLRUIfFullCollect pendingMainCapacity evictPendingMainBackCollect
      (PushFront (fresh c) k (pendingMainLRU c)) c1") auto
  note P = ev_main.push [OF T, of c1 k "pe\<lparr>pm_listElem := fresh c\<rparr>", unfolded r prod.case]
  have c2: "c2 = c1\<lparr>pendingMain := pendingMain c2, failures := failures c2\<rparr>"
    using P by (intro same_but_main [where z = zero_failures]) (simp add: c1_def)
  have eq: "c2\<lparr>pendingMainLRU := l\<rparr> =
      c\<lparr>fresh := Suc (fresh c), pendingMain := pendingMain c2, pendingMainLRU := l, failures := failures c2\<rparr>"
    using arg_cong [OF c2, of "\<lambda>x. x\<lparr>pendingMainLRU := l\<rparr>"] by (simp add: c1_def)
  show ?thesis
  proof (rule that)
    show "push_pendingMain k pe c =
        (es, c\<lparr>fresh := Suc (fresh c), pendingMain := pendingMain c2, pendingMainLRU := l, failures := failures c2\<rparr>)"
      using r unfolding eq [symmetric] by (simp add: push_pendingMain_def c1_def)
  qed (use P in \<open>auto simp: c1_def main_synced_def\<close>)
qed

lemma push_pendingMainByTxid_spec:
  assumes "collector_ok c"
  obtains es m l f where
    "push_pendingMainByTxid k pe c = (es, c\<lparr>fresh := Suc (fresh c), pendingMainByTxid := m, pendingMainTxidLRU := l, failures := f\<rparr>)"
    "table_ok pm_listElem pendingMainCapacity (Suc (fresh c)) m l"
    "synced pm_listElem (pendingMainByTxid c) (pendingMainTxidLRU c) \<and> map_of (pendingMainByTxid c) k = None \<longrightarrow> synced pm_listElem m l"
    "mset es + held_by (\<lambda>e. [pm_event e]) m = add_mset (pm_event pe) (held_by (\<lambda>e. [pm_event e]) (map_del k (pendingMainByTxid c)))"
    "set m \<subseteq> insert (k, pe\<lparr>pm_listElem := fresh c\<rparr>) (set (pendingMainByTxid c))"
    "length (pendingMainTxidLRU c) < pendingMainCapacity \<longrightarrow> es = [] \<and> f = failures c \<and>
       m = map_put k (pe\<lparr>pm_listElem := fresh c\<rparr>) (pendingMainByTxid c) \<and> l = PushFront (fresh c) k (pendingMainTxidLRU c)"
proof -
  define c1 where "c1 = c\<lparr>fresh := fresh c + 1, pendingMainByTxid := map_put k (pe\<lparr>pm_listElem := fresh c\<rparr>) (pendingMainByTxid c)\<rparr>"
  have T: "table_ok pm_listElem pendingMainCapacity (fresh c) (pendingMainByTxid c) (pendingMainTxidLRU c)"
    using assms by (simp add: collector_ok_def)
  obtain es l c2 where r: "evictLRUIfFullCollect pendingMainCapacity evictPendingMainTxidBackCollect
      (PushFront (fresh c) k (pendingMainTxidLRU c)) c1 = (es, l, c2)"
    by (cases "evictLRUIfFullCollect pendingMainCapacity evictPendingMainTxidBackCollect
      (PushFront (fresh c) k (pendingMainTxidLRU c)) c1") auto
  note P = ev_txid.push [OF T, of c1 k "pe\<lparr>pm_listElem := fresh c\<rparr>", unfolded r prod.case]
  have c2: "c2 = c1\<lparr>pendingMainByTxid := pendingMainByTxid c2, failures := failures c2\<rparr>"
    using P by (intro same_but_txid [where z = zero_failures]) (simp add: c1_def)
  have eq: "c2\<lparr>pendingMainTxidLRU := l\<rparr> =
      c\<lparr>fresh := Suc (fresh c), pendingMainByTxid := pendingMainByTxid c2, pendingMainTxidLRU := l, failures := failures c2\<rparr>"
    using arg_cong [OF c2, of "\<lambda>x. x\<lparr>pendingMainTxidLRU := l\<rparr>"] by (simp add: c1_def)
  show ?thesis
  proof (rule that)
    show "push_pendingMainByTxid k pe c =
        (es, c\<lparr>fresh := Suc (fresh c), pendingMainByTxid := pendingMainByTxid c2, pendingMainTxidLRU := l, failures := failures c2\<rparr>)"
      using r unfolding eq [symmetric] by (simp add: push_pendingMainByTxid_def c1_def)
  qed (use P in \<open>auto simp: c1_def\<close>)
qed

section \<open>Operations that leave the main events alone\<close>

definition quiet :: "EventCollector \<Rightarrow> EventCollector \<Rightarrow> bool" where
  "quiet c c' \<longleftrightarrow> collector_ok c' \<and> pendingMain c' = pendingMain c \<and> pendingMainLRU c' = pendingMainLRU c \<and>
     pendingMainByTxid c' = pendingMainByTxid c \<and> pendingMainTxidLRU c' = pendingMainTxidLRU c \<and>
     emitted c' = emitted c \<and> hasCallback c' = hasCallback c"

lemma quiet_refl: "collector_ok c \<Longrightarrow> quiet c c"
  by (simp add: quiet_def)

lemma quiet_trans: "quiet a b \<Longrightarrow> quiet b c \<Longrightarrow> quiet a c"
  by (simp add: quiet_def)

lemma quiet_ok: "quiet c c' \<Longrightarrow> collector_ok c'"
  by (simp add: quiet_def)

lemma quiet_stack: "collector_ok c \<Longrightarrow> quiet c (evictStalePendingStack now c)"
  by (simp add: quiet_def evictStalePendingStack_def collector_ok_def Let_def distinct_map_filter)

lemma quiet_handleStackRecord: "collector_ok c \<Longrightarrow> quiet c (handleStackRecord env st c)"
  unfolding handleStackRecord_def
  by (rule quiet_trans [OF _ quiet_stack]) (simp_all add: quiet_def collector_ok_def)

lemma quiet_takePendingStack: "collector_ok c \<Longrightarrow> quiet c (snd (takePendingStack tid c))"
  by (simp add: quiet_def takePendingStack_def collector_ok_def split: option.splits)

lemma quiet_cookies:
  assumes "collector_ok c"
  shows "quiet c (evictStalePendingCookies now c)"
proof -
  let ?old = "\<lambda>p. pc_receivedNs p < now - pendingCookieTTL"
  have T: "table_ok pc_listElem pendingCookieCapacity (fresh c) (pendingCookieByTxid c) (pendingCookieLRU c)"
    using assms by (simp add: collector_ok_def)
  obtain m l out where r: "sweep_entries ?old pc_listElem (pendingCookieByTxid c) (pendingCookieByTxid c) (pendingCookieLRU c) = (m, l, out)"
    by (cases "sweep_entries ?old pc_listElem (pendingCookieByTxid c) (pendingCookieByTxid c) (pendingCookieLRU c)") auto
  show ?thesis
    using table_ok_sweep [OF T refl, of ?old, unfolded r prod.case] assms
    by (simp add: quiet_def evictStalePendingCookies_def r Let_def collector_ok_def)
qed

lemma quiet_maybeCleanup:
  assumes "collector_ok c"
  shows "quiet c (maybeCleanup env now c)"
proof -
  let ?c1 = "c\<lparr>eventCounter := eventCounter c + 1\<rparr>"
  let ?c2 = "?c1\<lparr>transactionBuffers := filter (\<lambda>(i, buf). \<not> tb_firstSeenNs buf < now - staleBufferTTL) (transactionBuffers ?c1)\<rparr>"
  have 1: "quiet c ?c1" using assms by (simp add: quiet_def collector_ok_def)
  have 2: "quiet c ?c2" using assms by (simp add: quiet_def collector_ok_def distinct_map_filter)
  have "quiet c (evictStalePendingCookies (ce_now env 2) (evictStalePendingStack (ce_now env 1) ?c2))"
    using quiet_trans [OF 2 quiet_stack [OF quiet_ok [OF 2]]] quiet_cookies quiet_ok quiet_trans by blast
  with 1 show ?thesis unfolding maybeCleanup_def Let_def by (simp split: if_splits)
qed

lemma quiet_sync: "collector_ok c \<Longrightarrow> quiet c (syncRingbufOverflowFrom reader c)"
  by (simp add: quiet_def syncRingbufOverflowFrom_def collector_ok_def Let_def split: option.splits)

lemma quiet_duplicate: "collector_ok c \<Longrightarrow> quiet c (checkCookieDuplicate k c)"
  by (simp add: quiet_def checkCookieDuplicate_def collector_ok_def Let_def)

lemma quiet_add_orphan: "collector_ok c \<Longrightarrow> quiet c (add_orphan n c)"
  by (simp add: quiet_def add_orphan_def collector_ok_def)

lemma quiet_add_early: "collector_ok c \<Longrightarrow> quiet c (add_early n c)"
  by (simp add: quiet_def add_early_def collector_ok_def)

lemma quiet_recent:
  assumes "collector_ok c"
  shows "quiet c (recordRecentOnewayEmit k now c)"
proof -
  have T: "table_ok ro_listElem recentOnewayCapacity (fresh c) (recentOneway c) (recentOnewayLRU c)"
    and S: "synced ro_listElem (recentOneway c) (recentOnewayLRU c)"
    using assms by (simp_all add: collector_ok_def)
  show ?thesis
  proof (cases "map_of (recentOneway c) k")
    case (Some old)
    then show ?thesis
      using assms table_ok_update [OF T Some, of "old\<lparr>ro_enqueuedNs := now\<rparr>"] synced_update [OF S Some, of "old\<lparr>ro_enqueuedNs := now\<rparr>"]
      by (simp add: quiet_def recordRecentOnewayEmit_def collector_ok_def)
  next
    case None
    define c1 where "c1 = c\<lparr>fresh := fresh c + 1, recentOneway := map_put k \<lparr>ro_enqueuedNs = now, ro_listElem = fresh c\<rparr> (recentOneway c)\<rparr>"
    obtain es l c2 where r: "evictLRUIfFullCollect recentOnewayCapacity evictRecentOneway
        (PushFront (fresh c) k (recentOnewayLRU c)) c1 = (es, l, c2)"
      by (cases "evictLRUIfFullCollect recentOnewayCapacity evictRecentOneway
        (PushFront (fresh c) k (recentOnewayLRU c)) c1") auto
    note P = ev_recent.push [OF T, of c1 k "\<lparr>ro_enqueuedNs = now, ro_listElem = fresh c\<rparr>", unfolded r prod.case]
    have c2: "c2 = c1\<lparr>recentOneway := recentOneway c2\<rparr>"
      using P by (intro same_but_recent) (simp add: c1_def)
    have "recordRecentOnewayEmit k now c = c2\<lparr>recentOnewayLRU := l\<rparr>"
      using None r by (simp add: recordRecentOnewayEmit_def c1_def)
    also have "\<dots> = c\<lparr>fresh := Suc (fresh c), recentOneway := recentOneway c2, recentOnewayLRU := l\<rparr>"
      using arg_cong [OF c2, of "\<lambda>x. x\<lparr>recentOnewayLRU := l\<rparr>"] by (simp add: c1_def)
    finally show ?thesis
      using P S None assms by (auto simp: quiet_def collector_ok_def c1_def intro: table_ok_mono)
  qed
qed

section \<open>What a handler does to the events\<close>

text \<open>
  A step adds the events \<open>A\<close>, loses the events \<open>L\<close> and stamps waiting entries with no time
  later than \<open>t\<close>.
\<close>

definition stamped :: "int \<Rightarrow> EventCollector \<Rightarrow> bool" where
  "stamped t c \<longleftrightarrow> (\<forall>x\<in>set (pendingMain c) \<union> set (pendingMainByTxid c). pm_enqueuedNs (snd x) \<le> t)"

definition keeps :: "int \<Rightarrow> BinderEventPayload multiset \<Rightarrow> BinderEventPayload multiset \<Rightarrow>
    EventCollector \<Rightarrow> EventCollector \<Rightarrow> bool" where
  "keeps t A L c c' \<longleftrightarrow> collector_ok c' \<and> hasCallback c' \<and> all_events c' + L = all_events c + A \<and>
     (main_synced c \<and> L = {#} \<longrightarrow> main_synced c') \<and> (stamped t c \<longrightarrow> stamped t c')"

abbreviation held :: "(u64, pendingMainEntry) gomap \<Rightarrow> BinderEventPayload multiset" where
  "held \<equiv> held_by (\<lambda>e. [pm_event e])"

lemma quiet_keeps: "quiet c c' \<Longrightarrow> hasCallback c \<Longrightarrow> keeps t {#} {#} c c'"
  by (simp add: quiet_def keeps_def all_events_def waiting_def main_synced_def stamped_def)

lemma keeps_ok: "keeps t A L c c' \<Longrightarrow> collector_ok c'" "keeps t A L c c' \<Longrightarrow> hasCallback c'"
  by (simp_all add: keeps_def)

lemma add_chain:
  "b + l = a + x \<Longrightarrow> c + l' = b + x' \<Longrightarrow> c + (l + l') = a + (x + (x' :: 'a multiset))"
  by (metis add.assoc add.commute)

lemma keeps_trans: "keeps t A L a b \<Longrightarrow> keeps t A' L' b c \<Longrightarrow> keeps t (A + A') (L + L') a c"
  unfolding keeps_def using add_chain [of "all_events b" L "all_events a" A "all_events c" L' A'] by simp

lemma keeps_quiet: "keeps t A L a b \<Longrightarrow> quiet b c \<Longrightarrow> keeps t A L a c"
  using keeps_trans [of t A L a b "{#}" "{#}" c] quiet_keeps keeps_ok by simp

lemma quiet_then_keeps: "quiet a b \<Longrightarrow> hasCallback a \<Longrightarrow> keeps t A L b c \<Longrightarrow> keeps t A L a c"
  using keeps_trans [of t "{#}" "{#}" a b A L c] quiet_keeps by simp

lemma emit_keeps: "collector_ok c \<Longrightarrow> hasCallback c \<Longrightarrow> keeps t {#base ev#} {#} c (emit ev c)"
  by (simp add: keeps_def emit_def all_events_def waiting_def main_synced_def stamped_def collector_ok_def)

lemma flush_emitted: "hasCallback c \<Longrightarrow> flushEmissions es c = c\<lparr>emitted := emitted c @ es\<rparr>"
  by (cases c) (simp add: flushEmissions_def)

lemma collector_ok_emitted [simp]: "collector_ok (c\<lparr>emitted := es\<rparr>) = collector_ok c"
  by (simp add: collector_ok_def)

text \<open>Moving entries out of the two tables, putting entries in, and emitting what falls out.\<close>

lemma pushed_main_keeps:
  assumes ok: "collector_ok c" and cb: "hasCallback c" and pe: "pm_enqueuedNs pe \<le> t"
    and p: "push_pendingMain k pe c = (es, c')"
  shows "keeps t {#base (pm_event pe)#}
    (case map_of (pendingMain c) k of None \<Rightarrow> {#} | Some old \<Rightarrow> {#base (pm_event old)#})
    (flushEmissions pre c) (flushEmissions (pre @ es) c')"
proof -
  obtain m l f where c': "c' = c\<lparr>fresh := Suc (fresh c), pendingMain := m, pendingMainLRU := l, failures := f\<rparr>"
    and T: "table_ok pm_listElem pendingMainCapacity (Suc (fresh c)) m l"
    and S: "main_synced c \<and> map_of (pendingMain c) k = None \<longrightarrow> synced pm_listElem m l"
    and H: "mset es + held m = add_mset (pm_event pe) (held (map_del k (pendingMain c)))"
    and U: "set m \<subseteq> insert (k, pe\<lparr>pm_listElem := fresh c\<rparr>) (set (pendingMain c))"
    using push_pendingMain_spec [OF ok, of k pe] unfolding p by blast
  have d: "distinct (map fst (pendingMain c))" using ok by (simp add: collector_ok_def table_ok_def linked_def)
  have "held (pendingMain c) = held (map_del k (pendingMain c)) +
      (case map_of (pendingMain c) k of None \<Rightarrow> {#} | Some old \<Rightarrow> {#pm_event old#})"
    using held_by_del [OF d, of k _ "\<lambda>e. [pm_event e]"] by (auto simp: map_del_absent split: option.split)
  then have "image_mset base (mset es + held m) +
      (case map_of (pendingMain c) k of None \<Rightarrow> {#} | Some old \<Rightarrow> {#base (pm_event old)#}) =
      image_mset base (held (pendingMain c)) + {#base (pm_event pe)#}"
    unfolding H by (auto split: option.split)
  then have "all_events (flushEmissions (pre @ es) c') +
      (case map_of (pendingMain c) k of None \<Rightarrow> {#} | Some old \<Rightarrow> {#base (pm_event old)#}) =
      all_events (flushEmissions pre c) + {#base (pm_event pe)#}"
    using cb by (simp add: flush_emitted c' all_events_def waiting_def ac_simps)
  moreover have "collector_ok c'"
    using ok T by (auto simp: c' collector_ok_def intro: table_ok_mono)
  moreover have "stamped t c \<longrightarrow> stamped t c'"
    using U pe by (fastforce simp: c' stamped_def)
  ultimately show ?thesis
    using S cb by (simp add: c' keeps_def flush_emitted main_synced_def stamped_def split: option.splits)
qed

lemma pushed_txid_keeps:
  assumes ok: "collector_ok c" and cb: "hasCallback c" and pe: "pm_enqueuedNs pe \<le> t"
    and new: "map_of (pendingMainByTxid c) k = None" and p: "push_pendingMainByTxid k pe c = (es, c')"
  shows "keeps t {#base (pm_event pe)#} {#} (flushEmissions pre c) (flushEmissions (pre @ es) c')"
proof -
  obtain m l f where c': "c' = c\<lparr>fresh := Suc (fresh c), pendingMainByTxid := m, pendingMainTxidLRU := l, failures := f\<rparr>"
    and T: "table_ok pm_listElem pendingMainCapacity (Suc (fresh c)) m l"
    and S: "synced pm_listElem (pendingMainByTxid c) (pendingMainTxidLRU c) \<and> map_of (pendingMainByTxid c) k = None \<longrightarrow> synced pm_listElem m l"
    and H: "mset es + held m = add_mset (pm_event pe) (held (map_del k (pendingMainByTxid c)))"
    and U: "set m \<subseteq> insert (k, pe\<lparr>pm_listElem := fresh c\<rparr>) (set (pendingMainByTxid c))"
    using push_pendingMainByTxid_spec [OF ok, of k pe] unfolding p by blast
  have "image_mset base (mset es + held m) = image_mset base (held (pendingMainByTxid c)) + {#base (pm_event pe)#}"
    unfolding H using new by (simp add: map_del_absent)
  then have "all_events (flushEmissions (pre @ es) c') = all_events (flushEmissions pre c) + {#base (pm_event pe)#}"
    using cb by (simp add: flush_emitted c' all_events_def waiting_def ac_simps)
  moreover have "collector_ok c'"
    using ok T S new by (auto simp: c' collector_ok_def intro: table_ok_mono)
  moreover have "stamped t c \<longrightarrow> stamped t c'"
    using U pe by (fastforce simp: c' stamped_def)
  ultimately show ?thesis
    using cb by (simp add: c' keeps_def flush_emitted main_synced_def stamped_def)
qed

lemma set_map_del: "set (map_del k m) \<subseteq> set m"
  by (auto simp: map_del_def)

lemma map_of_map_del: "map_of (map_del k m) k = None"
  by (auto simp: map_of_eq_None_iff map_del_def)

lemma dropped_main:
  assumes ok: "collector_ok c" and cb: "hasCallback c" and k: "map_of (pendingMain c) k = Some pe"
    and ev: "base ev = base (pm_event pe)"
  shows "keeps t {#} {#} c (flushEmissions [ev]
    (c\<lparr>pendingMainLRU := Remove (pm_listElem pe) (pendingMainLRU c), pendingMain := map_del k (pendingMain c)\<rparr>))"
proof -
  have T: "table_ok pm_listElem pendingMainCapacity (fresh c) (pendingMain c) (pendingMainLRU c)"
    using ok by (simp add: collector_ok_def)
  have d: "distinct (map fst (pendingMain c))" using T by (simp add: table_ok_def linked_def)
  have H: "held (pendingMain c) = add_mset (pm_event pe) (held (map_del k (pendingMain c)))"
    using held_by_del [OF d k, of "\<lambda>e. [pm_event e]"] by simp
  have S: "main_synced c \<longrightarrow> synced pm_listElem (map_del k (pendingMain c)) (Remove (pm_listElem pe) (pendingMainLRU c))"
    using synced_remove [OF _ k] T by (simp add: main_synced_def)
  show ?thesis
    using table_ok_remove [OF T k] S H ok cb ev set_map_del [of k "pendingMain c"]
    by (auto simp: keeps_def flush_emitted collector_ok_def all_events_def waiting_def main_synced_def stamped_def)
qed

lemma drop_pendingMain_keeps:
  assumes "collector_ok c" "hasCallback c" "drop_pendingMain k c = (old, c1)"
  shows "keeps t {#} {#} c (flushEmissions (case old of None \<Rightarrow> [] | Some o1 \<Rightarrow> [pm_event o1])
     (case old of None \<Rightarrow> c1 | Some o1 \<Rightarrow> add_early 1 c1))" "map_of (pendingMain c1) k = None"
     "pendingMainByTxid c1 = pendingMainByTxid c" "pendingMainTxidLRU c1 = pendingMainTxidLRU c" "hasCallback c1"
proof -
  show "map_of (pendingMain c1) k = None" "pendingMainByTxid c1 = pendingMainByTxid c"
    "pendingMainTxidLRU c1 = pendingMainTxidLRU c" "hasCallback c1"
    using assms by (auto simp: drop_pendingMain_def map_of_map_del split: option.splits)
  show "keeps t {#} {#} c (flushEmissions (case old of None \<Rightarrow> [] | Some o1 \<Rightarrow> [pm_event o1])
     (case old of None \<Rightarrow> c1 | Some o1 \<Rightarrow> add_early 1 c1))"
  proof (cases old)
    case None
    then show ?thesis using assms quiet_keeps [OF quiet_refl]
      by (simp add: drop_pendingMain_def flushEmissions_def split: option.splits)
  next
    case (Some pe)
    then have k: "map_of (pendingMain c) k = Some pe"
      and c1: "c1 = c\<lparr>pendingMainLRU := Remove (pm_listElem pe) (pendingMainLRU c), pendingMain := map_del k (pendingMain c)\<rparr>"
      using assms(3) by (auto simp: drop_pendingMain_def split: option.splits)
    have D: "keeps t {#} {#} c (flushEmissions [pm_event pe] c1)"
      unfolding c1 by (rule dropped_main [OF assms(1,2) k refl])
    have "flushEmissions [pm_event pe] (add_early 1 c1) = add_early 1 (flushEmissions [pm_event pe] c1)"
      by (simp add: flushEmissions_def add_early_def)
    then show ?thesis
      using keeps_quiet [OF D quiet_add_early [OF keeps_ok(1) [OF D]]] Some by simp
  qed
qed

lemma drop_pendingMainByTxid_keeps:
  assumes "collector_ok c" "hasCallback c" "drop_pendingMainByTxid k c = (old, c1)"
  shows "keeps t {#} {#} c (flushEmissions (case old of None \<Rightarrow> [] | Some o1 \<Rightarrow> [pm_event o1])
     (case old of None \<Rightarrow> c1 | Some o1 \<Rightarrow> add_early 1 c1))" (is ?keeps)
    and "map_of (pendingMainByTxid c1) k = None" "hasCallback c1" "pendingMain c1 = pendingMain c" "collector_ok c1"
proof -
  have T: "table_ok pm_listElem pendingMainCapacity (fresh c) (pendingMainByTxid c) (pendingMainTxidLRU c)"
    and S: "synced pm_listElem (pendingMainByTxid c) (pendingMainTxidLRU c)"
    using assms(1) by (simp_all add: collector_ok_def)
  have d: "distinct (map fst (pendingMainByTxid c))" using T by (simp add: table_ok_def linked_def)
  show "map_of (pendingMainByTxid c1) k = None" "hasCallback c1" "pendingMain c1 = pendingMain c"
    using assms by (auto simp: drop_pendingMainByTxid_def map_of_map_del split: option.splits)
  show "collector_ok c1"
    using assms table_ok_remove [OF T] synced_remove [OF S]
    by (auto simp: drop_pendingMainByTxid_def collector_ok_def split: option.splits)
  then show ?keeps
  proof (cases old)
    case None
    then show ?thesis using assms quiet_keeps [OF quiet_refl]
      by (simp add: drop_pendingMainByTxid_def flushEmissions_def split: option.splits)
  next
    case (Some pe)
    then have k: "map_of (pendingMainByTxid c) k = Some pe"
      and c1: "c1 = c\<lparr>pendingMainTxidLRU := Remove (pm_listElem pe) (pendingMainTxidLRU c),
        pendingMainByTxid := map_del k (pendingMainByTxid c)\<rparr>"
      using assms(3) by (auto simp: drop_pendingMainByTxid_def split: option.splits)
    have H: "held (pendingMainByTxid c) = add_mset (pm_event pe) (held (map_del k (pendingMainByTxid c)))"
      using held_by_del [OF d k, of "\<lambda>e. [pm_event e]"] by simp
    have ok: "collector_ok (add_early 1 c1)"
      using quiet_ok [OF quiet_add_early [OF \<open>collector_ok c1\<close>]] .
    show ?thesis
      using ok H assms(2) set_map_del [of k "pendingMainByTxid c"] Some
      by (auto simp: c1 keeps_def flush_emitted add_early_def all_events_def waiting_def main_synced_def stamped_def)
  qed
qed

text \<open>The event that a SYNC transaction with an already used cookie pushes out of the table unseen.\<close>

definition overwritten :: "BinderEventPayload \<Rightarrow> u64 \<Rightarrow> EventCollector \<Rightarrow> BinderEventPayload multiset" where
  "overwritten ev cookie c =
     (if ev_IsReply ev = 0 \<and> cookie \<noteq> 0 \<and> ev_Flags ev AND txFlagOneWay = 0
      then (case map_of (pendingMain c) cookie of None \<Rightarrow> {#} | Some old \<Rightarrow> {#base (pm_event old)#}) else {#})"

end
