(* ===== verification/BT_CollectorSteps.thy ===== *)
theory BT_CollectorSteps
  imports BT_CollectorInv
begin

text \<open>
  What each handler of the collector does to the set of events, and the same for a whole run of
  the read loop and the sweep goroutine.
\<close>

section \<open>The state machine\<close>

lemma add_early_ok: "collector_ok c \<Longrightarrow> collector_ok (add_early n c)"
  by (rule quiet_ok [OF quiet_add_early])

lemma add_early_same [simp]:
  "hasCallback (add_early n c) = hasCallback c" "pendingMain (add_early n c) = pendingMain c"
  "pendingMainByTxid (add_early n c) = pendingMainByTxid c" "pendingMainLRU (add_early n c) = pendingMainLRU c"
  "pendingMainTxidLRU (add_early n c) = pendingMainTxidLRU c" "emitted (add_early n c) = emitted c"
  by (simp_all add: add_early_def)

text \<open>Parking under the transaction id.\<close>

lemma route_txid_keeps:
  assumes ok: "collector_ok c" and cb: "hasCallback c" and le: "now \<le> t"
    and sync: "ev_IsReply ev = 0" "ev_Flags ev AND txFlagOneWay = 0" "txid \<noteq> 0" "\<not> legacyCookieZeroSyncEmit c"
  shows "keeps t {#base ev#} {#} c (routeMainEvent ev 0 txid now c)"
proof -
  obtain old d where d: "drop_pendingMainByTxid txid c = (old, d)" by (cases "drop_pendingMainByTxid txid c")
  define d1 where "d1 = (case old of None \<Rightarrow> d | Some o1 \<Rightarrow> add_early 1 d)"
  define pre where "pre = (case old of None \<Rightarrow> [] | Some o1 \<Rightarrow> [pm_event o1])"
  note D = drop_pendingMainByTxid_keeps [OF ok cb d]
  have d1: "collector_ok d1" "hasCallback d1" "map_of (pendingMainByTxid d1) txid = None"
    using D(2,3,5) add_early_ok by (auto simp: d1_def split: option.split)
  obtain es e where p: "push_pendingMainByTxid txid (new_pendingMain now ev) d1 = (es, e)"
    by (cases "push_pendingMainByTxid txid (new_pendingMain now ev) d1")
  have "routeMainEvent ev 0 txid now c = flushEmissions (pre @ es) e"
    using sync d p by (cases old) (simp_all add: routeMainEvent_def d1_def pre_def)
  moreover have "keeps t {#base ev#} {#} (flushEmissions pre d1) (flushEmissions (pre @ es) e)"
    using pushed_txid_keeps [OF d1(1,2) _ d1(3) p, of t pre] le by (simp add: new_pendingMain_def)
  ultimately show ?thesis
    using keeps_trans [OF D(1) [of t, folded d1_def pre_def]] by simp
qed

text \<open>A one-way transaction takes the sideband that waits for it, or leaves its own empty.\<close>

definition take_pendingOneway :: "u64 \<Rightarrow> EventCollector \<Rightarrow> EventCollector" where
  "take_pendingOneway cookie c =
     (case map_of (pendingOneway c) cookie of
        None \<Rightarrow> c
      | Some pe \<Rightarrow> c\<lparr>pendingOnewayLRU := Remove (po_listElem pe) (pendingOnewayLRU c),
          pendingOneway := map_del cookie (pendingOneway c)\<rparr>)"

definition completed :: "u64 \<Rightarrow> BinderEventPayload \<Rightarrow> EventCollector \<Rightarrow> BinderEventPayload" where
  "completed cookie ev c =
     (case map_of (pendingOneway c) cookie of
        None \<Rightarrow> ev
      | Some pe \<Rightarrow> applySideband ev (po_kernelDebugId pe) (po_toPid pe) (po_toUid pe) (po_toUidUnsupported pe))"

lemma quiet_take_oneway: "collector_ok c \<Longrightarrow> quiet c (take_pendingOneway cookie c)"
  using table_ok_remove [of po_listElem] synced_remove [of po_listElem]
  by (auto simp: take_pendingOneway_def quiet_def collector_ok_def split: option.split)

lemma route_oneway:
  assumes "ev_IsReply ev = 0" "ev_Flags ev AND txFlagOneWay \<noteq> 0" "cookie \<noteq> 0"
  shows "routeMainEvent ev cookie txid now c = emit (completed cookie ev c)
    (recordRecentOnewayEmit cookie now (take_pendingOneway cookie (checkCookieDuplicate cookie c)))"
proof -
  have "pendingOneway (checkCookieDuplicate cookie c) = pendingOneway c"
    by (simp add: checkCookieDuplicate_def Let_def)
  then show ?thesis
    using assms by (simp add: routeMainEvent_def take_pendingOneway_def completed_def emit_def flushEmissions_def Let_def
        split: option.split)
qed

lemma route_oneway_keeps:
  assumes ok: "collector_ok c" and cb: "hasCallback c"
    and "ev_IsReply ev = 0" "ev_Flags ev AND txFlagOneWay \<noteq> 0" "cookie \<noteq> 0"
  shows "keeps t {#base ev#} {#} c (routeMainEvent ev cookie txid now c)"
proof -
  let ?d = "take_pendingOneway cookie (checkCookieDuplicate cookie c)"
  have "quiet c ?d" using quiet_duplicate [OF ok] quiet_take_oneway quiet_ok quiet_trans by blast
  then have q: "quiet c (recordRecentOnewayEmit cookie now ?d)" using quiet_recent quiet_ok quiet_trans by blast
  have "base (completed cookie ev c) = base ev" by (simp add: completed_def split: option.split)
  moreover have "hasCallback (recordRecentOnewayEmit cookie now ?d)" using q cb by (simp add: quiet_def)
  ultimately show ?thesis
    using quiet_then_keeps [OF q cb emit_keeps [OF quiet_ok [OF q]]] route_oneway [OF assms(3-5)] by metis
qed

lemma routeMainEvent_keeps:
  assumes ok: "collector_ok c" and cb: "hasCallback c" and le: "now \<le> t"
  shows "keeps t {#base ev#} (overwritten ev cookie c) c (routeMainEvent ev cookie txid now c)"
proof -
  let ?oneway = "ev_Flags ev AND txFlagOneWay \<noteq> 0"
  let ?c1 = "checkCookieDuplicate cookie c"
  consider (emit) "routeMainEvent ev cookie txid now c = emit ev c" "overwritten ev cookie c = {#}"
    | (txid) "ev_IsReply ev = 0" "cookie = 0" "\<not> ?oneway" "txid \<noteq> 0" "\<not> legacyCookieZeroSyncEmit c"
    | (oneway) "ev_IsReply ev = 0" "cookie \<noteq> 0" ?oneway
    | (sync) "ev_IsReply ev = 0" "cookie \<noteq> 0" "\<not> ?oneway"
    by (cases "ev_IsReply ev \<noteq> 0 \<or> cookie = 0 \<and> (?oneway \<or> txid = 0 \<or> legacyCookieZeroSyncEmit c)")
      (auto simp: routeMainEvent_def overwritten_def)
  then show ?thesis
  proof cases
    case emit
    then show ?thesis using emit_keeps [OF ok cb] by simp
  next
    case txid
    then show ?thesis using route_txid_keeps [OF ok cb le] by (simp add: overwritten_def)
  next
    case oneway
    then show ?thesis using route_oneway_keeps [OF ok cb] by (simp add: overwritten_def)
  next
    case sync
    have q: "quiet c ?c1" by (rule quiet_duplicate [OF ok])
    obtain es e where p: "push_pendingMain cookie (new_pendingMain now ev) ?c1 = (es, e)"
      by (cases "push_pendingMain cookie (new_pendingMain now ev) ?c1")
    have m: "pendingMain ?c1 = pendingMain c" "hasCallback ?c1" using q cb by (simp_all add: quiet_def)
    show ?thesis
      using quiet_then_keeps [OF q cb, of t] pushed_main_keeps [OF quiet_ok [OF q] m(2) _ p, of t "[]"] le sync p
      by (simp add: routeMainEvent_def overwritten_def new_pendingMain_def m flushEmissions_def [of "[]"])
  qed
qed

section \<open>Sideband and cookie records\<close>

lemma handleSideband_quiet:
  assumes ok: "collector_ok c" and none: "map_of (pendingMain c) (sbe_cookie sb) = None"
  shows "quiet c (handleSideband env sb c)"
proof -
  let ?k = "sbe_cookie sb"
  have T: "table_ok po_listElem pendingOnewayCapacity (fresh c) (pendingOneway c) (pendingOnewayLRU c)"
    and S: "synced po_listElem (pendingOneway c) (pendingOnewayLRU c)"
    using ok by (simp_all add: collector_ok_def)
  consider (dup) e where "map_of (pendingOneway c) ?k = Some e"
    | (late) "map_of (pendingOneway c) ?k = None" "map_of (recentOneway c) ?k \<noteq> None"
    | (park) "map_of (pendingOneway c) ?k = None" "map_of (recentOneway c) ?k = None" by fastforce
  then show ?thesis
  proof cases
    case dup
    then have "handleSideband env sb c = add_orphan 1 (take_pendingOneway ?k c)"
      using none by (simp add: handleSideband_def take_pendingOneway_def)
    then show ?thesis using quiet_trans [OF quiet_take_oneway [OF ok] quiet_add_orphan [OF quiet_ok [OF quiet_take_oneway [OF ok]]]] by simp
  next
    case late
    then show ?thesis using none ok by (auto simp: handleSideband_def quiet_def collector_ok_def)
  next
    case park
    define pe where "pe = \<lparr>po_enqueuedNs = ce_now env 0, po_kernelDebugId = sbe_kernel_debug_id sb,
      po_toPid = sbe_to_pid sb, po_toUid = sbe_to_uid sb, po_toUidUnsupported = sbe_to_uid_unsupported sb, po_listElem = fresh c\<rparr>"
    define c1 where "c1 = c\<lparr>fresh := fresh c + 1, pendingOneway := map_put ?k pe (pendingOneway c)\<rparr>"
    obtain es l c2 where r: "evictLRUIfFullCollect pendingOnewayCapacity evictPendingOnewayBack
        (PushFront (fresh c) ?k (pendingOnewayLRU c)) c1 = (es, l, c2)"
      by (cases "evictLRUIfFullCollect pendingOnewayCapacity evictPendingOnewayBack
        (PushFront (fresh c) ?k (pendingOnewayLRU c)) c1") auto
    note P = ev_oneway.push [OF T, of c1 ?k pe, unfolded r prod.case]
    have c2: "c2 = c1\<lparr>pendingOneway := pendingOneway c2, failures := failures c2\<rparr>"
      using P by (intro same_but_oneway [where z = zero_failures]) (simp add: c1_def pe_def)
    have "handleSideband env sb c = c2\<lparr>pendingOnewayLRU := l\<rparr>"
      using none park r by (simp add: handleSideband_def c1_def pe_def)
    also have "\<dots> = c\<lparr>fresh := Suc (fresh c), pendingOneway := pendingOneway c2, failures := failures c2, pendingOnewayLRU := l\<rparr>"
      using arg_cong [OF c2, of "\<lambda>x. x\<lparr>pendingOnewayLRU := l\<rparr>"] by (simp add: c1_def)
    finally show ?thesis
      using P S park ok by (auto simp: quiet_def collector_ok_def c1_def pe_def intro: table_ok_mono)
  qed
qed

lemma handleSideband_keeps:
  assumes ok: "collector_ok c" and cb: "hasCallback c"
  shows "keeps t {#} {#} c (handleSideband env sb c)"
proof (cases "map_of (pendingMain c) (sbe_cookie sb)")
  case (Some pm)
  then show ?thesis using dropped_main [OF ok cb Some] by (simp add: handleSideband_def)
next
  case None
  then show ?thesis using quiet_keeps [OF handleSideband_quiet [OF ok] cb] by simp
qed

lemma stash_cookie_quiet:
  assumes ok: "collector_ok c"
  shows "quiet c (stash_cookie env txid cookie c)"
proof -
  have T: "table_ok pc_listElem pendingCookieCapacity (fresh c) (pendingCookieByTxid c) (pendingCookieLRU c)"
    and S: "synced pc_listElem (pendingCookieByTxid c) (pendingCookieLRU c)"
    using ok by (simp_all add: collector_ok_def)
  show ?thesis
  proof (cases "map_of (pendingCookieByTxid c) txid")
    case (Some old)
    define m where "m = map_put txid (old\<lparr>pc_cookie := cookie, pc_receivedNs := ce_now env 0\<rparr>) (pendingCookieByTxid c)"
    define l where "l = MoveToFront (pc_listElem old) (pendingCookieLRU c)"
    have U: "table_ok pc_listElem pendingCookieCapacity (fresh c) m l" "synced pc_listElem m l"
      unfolding m_def l_def by (auto intro!: table_ok_update [OF T Some] synced_update [OF S Some])
    have "evictLRUIfFullCollect pendingCookieCapacity evictPendingCookie l (c\<lparr>pendingCookieByTxid := m\<rparr>) =
        ([], l, c\<lparr>pendingCookieByTxid := m\<rparr>)"
      using U(1) by (intro evict_nothing) (simp add: table_ok_def)
    then have "stash_cookie env txid cookie c =
        evictStalePendingCookies (ce_now env 1) (c\<lparr>pendingCookieByTxid := m, pendingCookieLRU := l\<rparr>)"
      using Some by (simp add: stash_cookie_def m_def l_def)
    moreover have q: "quiet c (c\<lparr>pendingCookieByTxid := m, pendingCookieLRU := l\<rparr>)"
      using ok U by (simp add: quiet_def collector_ok_def)
    ultimately show ?thesis using quiet_trans [OF q quiet_cookies [OF quiet_ok [OF q]]] by simp
  next
    case None
    define pe where "pe = \<lparr>pc_cookie = cookie, pc_receivedNs = ce_now env 0, pc_listElem = fresh c\<rparr>"
    define c1 where "c1 = c\<lparr>fresh := fresh c + 1, pendingCookieByTxid := map_put txid pe (pendingCookieByTxid c)\<rparr>"
    obtain es l c2 where r: "evictLRUIfFullCollect pendingCookieCapacity evictPendingCookie
        (PushFront (fresh c) txid (pendingCookieLRU c)) c1 = (es, l, c2)"
      by (cases "evictLRUIfFullCollect pendingCookieCapacity evictPendingCookie
        (PushFront (fresh c) txid (pendingCookieLRU c)) c1") auto
    note P = ev_cookie.push [OF T, of c1 txid pe, unfolded r prod.case]
    have c2: "c2 = c1\<lparr>pendingCookieByTxid := pendingCookieByTxid c2\<rparr>"
      using P by (intro same_but_cookie) (simp add: c1_def pe_def)
    have "c2\<lparr>pendingCookieLRU := l\<rparr> = c\<lparr>fresh := Suc (fresh c), pendingCookieByTxid := pendingCookieByTxid c2, pendingCookieLRU := l\<rparr>"
      using arg_cong [OF c2, of "\<lambda>x. x\<lparr>pendingCookieLRU := l\<rparr>"] by (simp add: c1_def)
    then have q: "quiet c (c2\<lparr>pendingCookieLRU := l\<rparr>)"
      using P S None ok by (auto simp: quiet_def collector_ok_def c1_def pe_def intro: table_ok_mono)
    have "stash_cookie env txid cookie c = evictStalePendingCookies (ce_now env 1) (c2\<lparr>pendingCookieLRU := l\<rparr>)"
      using None r by (simp add: stash_cookie_def c1_def pe_def)
    then show ?thesis using quiet_trans [OF q quiet_cookies [OF quiet_ok [OF q]]] by simp
  qed
qed

text \<open>A parked event that moves under its cookie is neither lost nor doubled.\<close>

lemma move_parked_keeps:
  assumes ok: "collector_ok c" and cb: "hasCallback c" and st: "pm_enqueuedNs pe \<le> t"
    and d: "drop_pendingMain cookie c = (old, d)"
    and p: "push_pendingMain cookie pe (case old of None \<Rightarrow> d | Some o1 \<Rightarrow> add_early 1 d) = (es, e)"
  shows "keeps t {#base (pm_event pe)#} {#} c (flushEmissions ((case old of None \<Rightarrow> [] | Some o1 \<Rightarrow> [pm_event o1]) @ es) e)"
proof -
  define d1 where "d1 = (case old of None \<Rightarrow> d | Some o1 \<Rightarrow> add_early 1 d)"
  define pre where "pre = (case old of None \<Rightarrow> [] | Some o1 \<Rightarrow> [pm_event o1])"
  note D = drop_pendingMain_keeps [OF ok cb d]
  have d1: "hasCallback d1" "map_of (pendingMain d1) cookie = None"
    using D(2,5) by (auto simp: d1_def split: option.split)
  have "collector_ok (flushEmissions pre d1)" using keeps_ok(1) [OF D(1)] by (simp add: d1_def pre_def)
  then have "collector_ok d1" using d1(1) by (simp add: flush_emitted)
  then have "keeps t {#base (pm_event pe)#} {#} (flushEmissions pre d1) (flushEmissions (pre @ es) e)"
    using pushed_main_keeps [OF _ d1(1) st p [folded d1_def], of pre] d1(2) by simp
  with keeps_trans [OF D(1) [of t, folded d1_def pre_def]] show ?thesis by (simp add: pre_def)
qed

lemma keeps_stamp: "keeps t' A L c c' \<Longrightarrow> \<not> stamped t c \<or> t' = t \<Longrightarrow> keeps t A L c c'"
  by (auto simp: keeps_def)

lemma parked_moves_keeps:
  assumes ok: "collector_ok c" and cb: "hasCallback c"
    and k: "drop_pendingMainByTxid txid c = (Some pe, c1)"
    and d: "drop_pendingMain cookie c1 = (old, d)"
    and p: "push_pendingMain cookie (pe\<lparr>pm_cookie := cookie\<rparr>) (case old of None \<Rightarrow> d | Some o1 \<Rightarrow> add_early 1 d) = (es, e)"
  shows "keeps t {#} {#} c (flushEmissions ((case old of None \<Rightarrow> [] | Some o1 \<Rightarrow> [pm_event o1]) @ es) e)"
proof -
  have c1: "map_of (pendingMainByTxid c) txid = Some pe" "pendingMain c1 = pendingMain c" "pendingMainLRU c1 = pendingMainLRU c"
    "emitted c1 = emitted c" "pendingMainByTxid c1 = map_del txid (pendingMainByTxid c)"
    using k by (auto simp: drop_pendingMainByTxid_def split: option.splits)
  have d': "distinct (map fst (pendingMainByTxid c))" using ok by (simp add: collector_ok_def table_ok_def linked_def)
  define t' where "t' = (if stamped t c then t else pm_enqueuedNs pe)"
  have st: "pm_enqueuedNs pe \<le> t'" using bspec [of _ "\<lambda>x. pm_enqueuedNs (snd x) \<le> t" "(txid, pe)"] map_of_SomeD [OF c1(1)]
    by (simp add: t'_def stamped_def)
  have H: "all_events c = all_events c1 + {#base (pm_event pe)#}"
    using held_by_del [OF d' c1(1), of "\<lambda>e. [pm_event e]"] by (simp add: all_events_def waiting_def c1)
  have S: "main_synced c1 = main_synced c" by (simp add: main_synced_def c1)
  have W: "stamped t' c \<longrightarrow> stamped t' c1" using set_map_del [of txid "pendingMainByTxid c"] by (auto simp: stamped_def c1)
  have "keeps t' {#base (pm_event pe)#} {#} c1 (flushEmissions ((case old of None \<Rightarrow> [] | Some o1 \<Rightarrow> [pm_event o1]) @ es) e)"
    using move_parked_keeps [OF _ _ _ d p, of t'] drop_pendingMainByTxid_keeps(3,5) [OF ok cb k] st by simp
  then have "keeps t' {#} {#} c (flushEmissions ((case old of None \<Rightarrow> [] | Some o1 \<Rightarrow> [pm_event o1]) @ es) e)"
    using S W by (simp add: keeps_def H)
  then show ?thesis by (rule keeps_stamp) (simp add: t'_def)
qed

lemma handleCookieSideband_keeps:
  assumes ok: "collector_ok c" and cb: "hasCallback c"
  shows "keeps t {#} {#} c (handleCookieSideband env cs c)"
proof -
  let ?k = "bcs_transaction_id_hint cs" and ?cookie = "bcs_cookie cs"
  let ?inject = "case map_of (transactionBuffers c) ?k of Some buf \<Rightarrow> if mt_cookie (tb_meta buf) = 0 then Some buf else None
     | None \<Rightarrow> None"
  consider (skip) "?k = 0 \<or> ?cookie = 0"
    | (inject) buf where "?k \<noteq> 0" "?cookie \<noteq> 0" "?inject = Some buf"
    | (move) pe c1 where "?k \<noteq> 0" "?cookie \<noteq> 0" "?inject = None" "drop_pendingMainByTxid ?k c = (Some pe, c1)"
    | (stash) c1 where "?k \<noteq> 0" "?cookie \<noteq> 0" "?inject = None" "drop_pendingMainByTxid ?k c = (None, c1)"
    by (cases "drop_pendingMainByTxid ?k c"; cases ?inject; fastforce)
  then show ?thesis
  proof cases
    case skip
    then have "handleCookieSideband env cs c = c" by (simp add: handleCookieSideband_def)
    then show ?thesis using quiet_keeps [OF quiet_refl [OF ok] cb] by simp
  next
    case inject
    then have "quiet c (handleCookieSideband env cs c)"
      using ok by (simp add: handleCookieSideband_def quiet_def collector_ok_def)
    then show ?thesis using cb by (rule quiet_keeps)
  next
    case move
    obtain old d where d: "drop_pendingMain ?cookie c1 = (old, d)" by (cases "drop_pendingMain ?cookie c1")
    obtain es e where p: "push_pendingMain ?cookie (pe\<lparr>pm_cookie := ?cookie\<rparr>)
        (case old of None \<Rightarrow> d | Some o1 \<Rightarrow> add_early 1 d) = (es, e)" by fastforce
    have "handleCookieSideband env cs c = flushEmissions ((case old of None \<Rightarrow> [] | Some o1 \<Rightarrow> [pm_event o1]) @ es) e"
      using move d p by (cases old) (simp_all add: handleCookieSideband_def)
    then show ?thesis using parked_moves_keeps [OF ok cb move(4) d p] by simp
  next
    case stash
    then have "handleCookieSideband env cs c = stash_cookie env ?k ?cookie c" by (simp add: handleCookieSideband_def)
    then show ?thesis using quiet_keeps [OF stash_cookie_quiet [OF ok] cb] by simp
  qed
qed

section \<open>The sweep\<close>

lemma held_image: "held m = image_mset (\<lambda>x. pm_event (snd x)) (mset m)"
  by (induction m) (auto simp: held_by_def)

lemma held_split:
  assumes "mset m = mset m' + mset (filter P m)" "mset out = image_mset snd (mset (filter P m))"
  shows "held m = held m' + image_mset pm_event (mset out)"
proof -
  have "held m = image_mset (\<lambda>x. pm_event (snd x)) (mset m' + mset (filter P m))"
    unfolding held_image by (rule arg_cong [OF assms(1)])
  then show ?thesis unfolding assms(2) by (simp add: held_image image_mset.compositionality comp_def)
qed

lemma swept:
  assumes "table_ok el cap n m l" "mset es = mset m" "sweep_entries old el es m l = (m', l', out)"
  shows "table_ok el cap n m' l'" "synced el m l \<longrightarrow> synced el m' l'" "set m' = {x \<in> set m. \<not> old (snd x)}"
    "mset m = mset m' + mset (filter (\<lambda>x. old (snd x)) m)" "mset out = image_mset snd (mset (filter (\<lambda>x. old (snd x)) m))"
  using table_ok_sweep [OF assms(1,2), of old] unfolding assms(3) prod.case by blast+

lemma swept_main:
  assumes "table_ok el cap n m l" "mset es = mset m" "sweep_entries old el es m l = (m', l', out)"
  shows "table_ok el cap n m' l'" "synced el m l \<longrightarrow> synced el m' l'" "set m' = {x \<in> set m. \<not> old (snd x)}"
    "held m = held m' + image_mset pm_event (mset out)"
  by (rule swept(1-3) [OF assms])+ (rule held_split [OF swept(4,5) [OF assms]])

lemma runSweep_spec:
  assumes ok: "collector_ok c" and cb: "hasCallback c" and v: "\<And>m. mset (ce_visit env m) = mset m"
  shows "keeps t {#} {#} c (runSweep env now c)"
    and "stamped u c \<Longrightarrow> u < now - pendingMainTTL \<Longrightarrow> waiting (runSweep env now c) = {#}"
proof -
  let ?old = "\<lambda>pm. pm_enqueuedNs pm < now - pendingMainTTL"
  let ?s1 = "sweep_entries ?old pm_listElem (ce_visit env (pendingMain c)) (pendingMain c) (pendingMainLRU c)"
  let ?s2 = "sweep_entries ?old pm_listElem (ce_visit env (pendingMainByTxid c)) (pendingMainByTxid c) (pendingMainTxidLRU c)"
  let ?s3 = "sweep_entries (\<lambda>pe. po_enqueuedNs pe < now - pendingOnewayTTL) po_listElem (pendingOneway c) (pendingOneway c) (pendingOnewayLRU c)"
  let ?s4 = "sweep_entries (\<lambda>re. ro_enqueuedNs re < now - recentOnewayEmitTTL) ro_listElem (recentOneway c) (recentOneway c) (recentOnewayLRU c)"
  obtain m1 l1 o1 where s1: "?s1 = (m1, l1, o1)" by (cases ?s1)
  obtain m2 l2 o2 where s2: "?s2 = (m2, l2, o2)" by (cases ?s2)
  obtain m3 l3 o3 where s3: "?s3 = (m3, l3, o3)" by (cases ?s3)
  obtain m4 l4 o4 where s4: "?s4 = (m4, l4, o4)" by (cases ?s4)
  have T: "table_ok pm_listElem pendingMainCapacity (fresh c) (pendingMain c) (pendingMainLRU c)"
    "table_ok pm_listElem pendingMainCapacity (fresh c) (pendingMainByTxid c) (pendingMainTxidLRU c)"
    "table_ok po_listElem pendingOnewayCapacity (fresh c) (pendingOneway c) (pendingOnewayLRU c)"
    "table_ok ro_listElem recentOnewayCapacity (fresh c) (recentOneway c) (recentOnewayLRU c)"
    using ok by (simp_all add: collector_ok_def)
  have S1: "table_ok pm_listElem pendingMainCapacity (fresh c) m1 l1" "synced pm_listElem (pendingMain c) (pendingMainLRU c) \<longrightarrow> synced pm_listElem m1 l1"
    "set m1 = {x \<in> set (pendingMain c). \<not> ?old (snd x)}" "held (pendingMain c) = held m1 + image_mset pm_event (mset o1)"
    by (rule swept_main [OF T(1) v s1])+
  have S2: "table_ok pm_listElem pendingMainCapacity (fresh c) m2 l2" "synced pm_listElem (pendingMainByTxid c) (pendingMainTxidLRU c) \<longrightarrow> synced pm_listElem m2 l2"
    "set m2 = {x \<in> set (pendingMainByTxid c). \<not> ?old (snd x)}" "held (pendingMainByTxid c) = held m2 + image_mset pm_event (mset o2)"
    by (rule swept_main [OF T(2) v s2])+
  have S3: "table_ok po_listElem pendingOnewayCapacity (fresh c) m3 l3"
    "synced po_listElem (pendingOneway c) (pendingOnewayLRU c) \<longrightarrow> synced po_listElem m3 l3"
    by (rule swept [OF T(3) refl s3])+
  have S4: "table_ok ro_listElem recentOnewayCapacity (fresh c) m4 l4"
    "synced ro_listElem (recentOneway c) (recentOnewayLRU c) \<longrightarrow> synced ro_listElem m4 l4"
    by (rule swept [OF T(4) refl s4])+
  define c1 where "c1 = c\<lparr>pendingMain := m1, pendingMainLRU := l1, pendingMainByTxid := m2, pendingMainTxidLRU := l2,
    pendingOneway := m3, pendingOnewayLRU := l3, recentOneway := m4, recentOnewayLRU := l4\<rparr>"
  have r: "runSweep env now c = flushEmissions (map pm_event (o1 @ o2)) (add_orphan (length o3) (add_early (length (o1 @ o2)) c1))"
    by (simp add: runSweep_def s1 s2 s3 s4 c1_def)
  have "collector_ok c1" using ok S1 S2 S3 S4 by (simp add: c1_def collector_ok_def)
  then have "collector_ok (add_orphan (length o3) (add_early (length (o1 @ o2)) c1))"
    using quiet_ok [OF quiet_add_orphan] add_early_ok by blast
  then show "keeps t {#} {#} c (runSweep env now c)"
    using cb S1 S2 unfolding r
    by (auto simp: flush_emitted c1_def add_orphan_def add_early_def keeps_def all_events_def waiting_def main_synced_def stamped_def)
  show "waiting (runSweep env now c) = {#}" if "stamped u c" "u < now - pendingMainTTL"
  proof -
    have "?old (snd x)" if "x \<in> set (pendingMain c) \<union> set (pendingMainByTxid c)" for x
    proof -
      have "pm_enqueuedNs (snd x) \<le> u" using that \<open>stamped u c\<close> unfolding stamped_def by blast
      then show ?thesis using \<open>u < now - pendingMainTTL\<close> by linarith
    qed
    then have "set m1 = {}" "set m2 = {}" unfolding S1(3) S2(3) by blast+
    then show ?thesis unfolding r using cb
      by (simp add: flush_emitted c1_def add_orphan_def add_early_def waiting_def)
  qed
qed

lemma tick_spec:
  assumes ok: "collector_ok c" and cb: "hasCallback c" and v: "\<And>m. mset (ce_visit env m) = mset m"
  shows "keeps t {#} {#} c (sweepLoop_tick env reader c)"
    and "stamped u c \<Longrightarrow> u < ce_now env 0 - pendingMainTTL \<Longrightarrow> waiting (sweepLoop_tick env reader c) = {#}"
proof -
  let ?s = "runSweep env (ce_now env 0) c"
  note R = runSweep_spec(1) [where t = t, OF assms] runSweep_spec(2) [OF assms]
  have "quiet ?s (syncRingbufOverflowFrom reader ?s)" by (rule quiet_sync [OF keeps_ok(1) [OF R(1)]])
  then have "quiet ?s (evictStalePendingStack (ce_now env 1) (syncRingbufOverflowFrom reader ?s))"
    using quiet_stack quiet_ok quiet_trans by blast
  then have q: "quiet ?s (sweepLoop_tick env reader c)"
    unfolding sweepLoop_tick_def using quiet_cookies quiet_ok quiet_trans by blast
  show "keeps t {#} {#} c (sweepLoop_tick env reader c)" by (rule keeps_quiet [OF R(1) q])
  show "waiting (sweepLoop_tick env reader c) = {#}" if "stamped u c" "u < ce_now env 0 - pendingMainTTL"
    using R(2) [OF that] q by (simp add: quiet_def waiting_def)
qed

section \<open>Main records\<close>

text \<open>The event, with its cookie, that a main record completes.\<close>

definition routed :: "call_env \<Rightarrow> binder_trace_event \<Rightarrow> EventCollector \<Rightarrow> (BinderEventPayload \<times> u64) option" where
  "routed env event c =
     (case open_buffer env event c of
        None \<Rightarrow> None
      | Some (buf, c1) \<Rightarrow>
          (case store_chunk event buf of
             None \<Rightarrow> None
           | Some buf \<Rightarrow>
               if \<forall>chunk\<in>set (tb_chunks buf). chunk \<noteq> None then
                 (case finish_buffer env (bte_transaction_id event) buf
                     (c1\<lparr>transactionBuffers := map_del (bte_transaction_id event) (transactionBuffers c1)\<rparr>) of
                    Some (Some ev, _) \<Rightarrow> Some (ev, mt_cookie (tb_meta buf))
                  | _ \<Rightarrow> None)
               else None))"

lemma open_buffer_quiet:
  assumes "collector_ok c" "open_buffer env event c = Some (buf, c1)"
  shows "quiet c c1"
  using assms table_ok_remove [of pc_listElem] synced_remove [of pc_listElem] quiet_refl [OF assms(1)]
  by (auto simp: open_buffer_def Let_def quiet_def collector_ok_def split: option.splits if_splits)

lemma finish_buffer_quiet:
  assumes ok: "collector_ok c" and f: "finish_buffer env tid buf c = Some (r, c1)"
  shows "quiet c c1"
proof -
  have q: "quiet c (snd (takePendingStack tid c))" by (rule quiet_takePendingStack [OF ok])
  obtain o1 d where d: "takePendingStack tid c = (o1, d)" by (cases "takePendingStack tid c")
  have "c1 = c \<or> (\<exists>s. c1 = d\<lparr>symbolizer := s\<rparr>) \<or> c1 = d\<lparr>baseRecordNoStackCount := baseRecordNoStackCount d + 1\<rparr>"
    using f d by (auto simp: finish_buffer_def Let_def split: if_splits option.splits prod.splits)
  then show ?thesis using q ok d by (auto simp: quiet_def collector_ok_def)
qed

lemma handleEvent_keeps:
  assumes ok: "collector_ok c" and cb: "hasCallback c" and le: "ce_now env 0 \<le> t" and h: "handleEvent env event c = Some c'"
  shows "keeps t (case routed env event c of None \<Rightarrow> {#} | Some (ev, k) \<Rightarrow> {#base ev#})
    (case routed env event c of None \<Rightarrow> {#} | Some (ev, k) \<Rightarrow> overwritten ev k c) c c'"
proof -
  let ?tid = "bte_transaction_id event"
  obtain b c1 where o: "open_buffer env event c = Some (b, c1)" using h by (auto simp: handleEvent_def split: option.splits)
  obtain buf where s: "store_chunk event b = Some buf" using h o by (auto simp: handleEvent_def split: option.splits)
  define d where "d = c1\<lparr>transactionBuffers := map_del ?tid (transactionBuffers c1)\<rparr>"
  let ?full = "\<forall>chunk\<in>set (tb_chunks buf). chunk \<noteq> None"
  have H: "(if ?full then (case finish_buffer env ?tid buf d of None \<Rightarrow> None
        | Some (None, c2) \<Rightarrow> Some (maybeCleanup env (ce_now env 0) c2)
        | Some (Some ev, c2) \<Rightarrow> Some (maybeCleanup env (ce_now env 0) (routeMainEvent ev (mt_cookie (tb_meta buf)) ?tid (ce_now env 0) c2)))
      else Some (maybeCleanup env (ce_now env 0) (c1\<lparr>transactionBuffers := map_put ?tid buf (transactionBuffers c1)\<rparr>))) = Some c'"
    using h by (simp only: handleEvent_def o s option.case prod.case Let_def d_def)
  have R: "routed env event c = (if ?full then (case finish_buffer env ?tid buf d of
      Some (Some ev, _) \<Rightarrow> Some (ev, mt_cookie (tb_meta buf)) | _ \<Rightarrow> None) else None)"
    by (simp only: routed_def o s option.case prod.case d_def)
  have q1: "quiet c c1" by (rule open_buffer_quiet [OF ok o])
  have q2: "quiet c d" using q1 by (auto simp: d_def quiet_def collector_ok_def)
  show ?thesis
  proof (cases ?full)
    case False
    let ?e = "c1\<lparr>transactionBuffers := map_put ?tid buf (transactionBuffers c1)\<rparr>"
    have "quiet c ?e" using q1 by (auto simp: quiet_def collector_ok_def)
    then have "quiet c (maybeCleanup env (ce_now env 0) ?e)" using quiet_maybeCleanup quiet_ok quiet_trans by blast
    moreover have "c' = maybeCleanup env (ce_now env 0) ?e" "routed env event c = None"
      using H R unfolding if_not_P [OF False] by simp_all
    ultimately show ?thesis using quiet_keeps [OF _ cb] by simp
  next
    case True
    obtain r e where f: "finish_buffer env ?tid buf d = Some (r, e)"
      using H unfolding if_P [OF True] by (cases "finish_buffer env ?tid buf d") auto
    have q3: "quiet c e" using quiet_trans [OF q2 finish_buffer_quiet [OF quiet_ok [OF q2] f]] .
    have E: "collector_ok e" "hasCallback e" "pendingMain e = pendingMain c" using q3 cb by (simp_all add: quiet_def)
    show ?thesis
    proof (cases r)
      case None
      then have "c' = maybeCleanup env (ce_now env 0) e" "routed env event c = None"
        using H R None unfolding if_P [OF True] f by simp_all
      then show ?thesis using quiet_keeps [OF quiet_trans [OF q3 quiet_maybeCleanup [OF E(1)]] cb] by simp
    next
      case (Some ev)
      let ?k = "mt_cookie (tb_meta buf)"
      have "c' = maybeCleanup env (ce_now env 0) (routeMainEvent ev ?k ?tid (ce_now env 0) e)"
        and r: "routed env event c = Some (ev, ?k)"
        using H R Some unfolding if_P [OF True] f by simp_all
      moreover have K: "keeps t {#base ev#} (overwritten ev ?k e) c (routeMainEvent ev ?k ?tid (ce_now env 0) e)"
        by (rule quiet_then_keeps [OF q3 cb routeMainEvent_keeps [OF E(1,2) le]])
      moreover have "overwritten ev ?k e = overwritten ev ?k c" by (simp add: overwritten_def E(3))
      ultimately show ?thesis using keeps_quiet [OF K quiet_maybeCleanup [OF keeps_ok(1) [OF K]]] by simp
    qed
  qed
qed

end
