(* ===== verification/BT_CollectorRun.thy ===== *)
theory BT_CollectorRun
  imports BT_CollectorSteps
begin

text \<open>
  Runs of the collector: the records that the read loop takes from the ring buffer and the ticks of
  the sweep goroutine, in any order. The handlers run one after the other.
\<close>

section \<open>Runs\<close>

datatype collector_input =
  Record call_env bytes
| Tick call_env "nat \<Rightarrow> u64 list option"

fun collector_step :: "collector_input \<Rightarrow> EventCollector \<Rightarrow> EventCollector option" where
  "collector_step (Record env raw) c = readLoop_record env raw c"
| "collector_step (Tick env reader) c = Some (sweepLoop_tick env reader c)"

fun collector_run :: "collector_input list \<Rightarrow> EventCollector \<Rightarrow> EventCollector option" where
  "collector_run [] c = Some c"
| "collector_run (i # is) c = (case collector_step i c of None \<Rightarrow> None | Some c1 \<Rightarrow> collector_run is c1)"

text \<open>
  The main record among the inputs, the event that an input completes, with its cookie, and the
  events that a run completes and those that it overwrites.
\<close>

definition main_of :: "bytes \<Rightarrow> binder_trace_event option" where
  "main_of raw =
     (if raw \<noteq> [] \<and> \<not> (length raw \<ge> 8 \<and> of_le (take 8 raw) = STACK_RECORD_MAGIC) \<and>
         hd raw = EVT_KIND_MAIN \<and> csize binder_trace_event_t \<le> length raw
      then Some (load_trace_event raw) else None)"

fun accepts :: "collector_input \<Rightarrow> EventCollector \<Rightarrow> (BinderEventPayload \<times> u64) option" where
  "accepts (Record env raw) c = (case main_of raw of None \<Rightarrow> None | Some event \<Rightarrow> routed env event c)"
| "accepts (Tick env reader) c = None"

fun accepted :: "collector_input list \<Rightarrow> EventCollector \<Rightarrow> BinderEventPayload list" where
  "accepted [] c = []"
| "accepted (i # is) c =
     (case accepts i c of None \<Rightarrow> [] | Some (ev, k) \<Rightarrow> [ev]) @
     (case collector_step i c of None \<Rightarrow> [] | Some c1 \<Rightarrow> accepted is c1)"

fun overwritten_in :: "collector_input list \<Rightarrow> EventCollector \<Rightarrow> BinderEventPayload multiset" where
  "overwritten_in [] c = {#}"
| "overwritten_in (i # is) c =
     (case accepts i c of None \<Rightarrow> {#} | Some (ev, k) \<Rightarrow> overwritten ev k c) +
     (case collector_step i c of None \<Rightarrow> {#} | Some c1 \<Rightarrow> overwritten_in is c1)"

fun input_time :: "collector_input \<Rightarrow> int" where
  "input_time (Record env raw) = ce_now env 0"
| "input_time (Tick env reader) = ce_now env 0"

text \<open>The iteration over a map visits every entry once.\<close>

fun visits_ok :: "collector_input \<Rightarrow> bool" where
  "visits_ok (Record env raw) = True"
| "visits_ok (Tick env reader) = (\<forall>m. mset (ce_visit env m) = mset m)"

definition started :: EventCollector where
  "started = SetEventCallback NewEventCollector"

lemma readLoop_record_cases:
  obtains (main) event where "main_of raw = Some event" "readLoop_record env raw c = handleEvent env event c"
  | (stack) st where "main_of raw = None" "readLoop_record env raw c = Some (handleStackRecord env st c)"
  | (sideband) sb where "main_of raw = None" "readLoop_record env raw c = Some (handleSideband env sb c)"
  | (cookie) cs where "main_of raw = None" "readLoop_record env raw c = Some (handleCookieSideband env cs c)"
  | (skip) "main_of raw = None" "readLoop_record env raw c = Some c"
proof -
  have k: "EVT_KIND_MAIN \<noteq> EVT_KIND_SIDEBAND" "EVT_KIND_MAIN \<noteq> EVT_KIND_COOKIE"
    by (simp_all add: EVT_KIND_MAIN_def EVT_KIND_SIDEBAND_def EVT_KIND_COOKIE_def)
  show ?thesis
  proof (cases "main_of raw")
    case (Some event)
    then show ?thesis
      by (intro main [of event]) (auto simp: main_of_def readLoop_record_def Suc_le_eq split: if_splits)
  next
    case None
    then have "raw = [] \<or> (8 \<le> length raw \<and> of_le (take 8 raw) = STACK_RECORD_MAGIC) \<or>
        hd raw \<noteq> EVT_KIND_MAIN \<or> length raw < csize binder_trace_event_t"
      unfolding main_of_def by (metis not_le option.distinct(1))
    then have "readLoop_record env raw c = Some c \<or>
        readLoop_record env raw c = Some (handleStackRecord env (load_stack_event raw) c) \<or>
        readLoop_record env raw c = Some (handleSideband env (load_sideband_event raw) c) \<or>
        readLoop_record env raw c = Some (handleCookieSideband env (load_cookie_sideband raw) c)"
      by (auto simp: readLoop_record_def)
    then show ?thesis using None stack sideband cookie skip by blast
  qed
qed

lemma step_keeps:
  assumes ok: "collector_ok c" and cb: "hasCallback c" and v: "visits_ok i" and t: "input_time i \<le> t"
    and s: "collector_step i c = Some c'"
  shows "keeps t (case accepts i c of None \<Rightarrow> {#} | Some (ev, k) \<Rightarrow> {#base ev#})
    (case accepts i c of None \<Rightarrow> {#} | Some (ev, k) \<Rightarrow> overwritten ev k c) c c'"
proof (cases i)
  case (Tick env reader)
  then show ?thesis using tick_spec(1) [OF ok cb] v s by auto
next
  case (Record env raw)
  show ?thesis
  proof (cases raw env c rule: readLoop_record_cases)
    case (main event)
    then show ?thesis using handleEvent_keeps [OF ok cb, of env t event c'] Record t s by simp
  next
    case (stack st)
    then show ?thesis using quiet_keeps [OF quiet_handleStackRecord [OF ok] cb] Record s by auto
  next
    case (sideband sb)
    then show ?thesis using handleSideband_keeps [OF ok cb] Record s by auto
  next
    case (cookie cs)
    then show ?thesis using handleCookieSideband_keeps [OF ok cb] Record s by auto
  next
    case skip
    then show ?thesis using quiet_keeps [OF quiet_refl [OF ok] cb] Record s by auto
  qed
qed

lemma run_keeps:
  assumes "collector_ok c" "hasCallback c" "\<forall>i\<in>set is. visits_ok i" "\<forall>i\<in>set is. input_time i \<le> t"
    and "collector_run is c = Some c'"
  shows "keeps t (image_mset base (mset (accepted is c))) (overwritten_in is c) c c'"
  using assms
proof (induction "is" arbitrary: c)
  case Nil
  then show ?case using quiet_keeps [OF quiet_refl] by simp
next
  case (Cons i "is")
  obtain c1 where s: "collector_step i c = Some c1" and r: "collector_run is c1 = Some c'"
    using Cons.prems(5) by (auto split: option.splits)
  have K: "keeps t (case accepts i c of None \<Rightarrow> {#} | Some (ev, k) \<Rightarrow> {#base ev#})
      (case accepts i c of None \<Rightarrow> {#} | Some (ev, k) \<Rightarrow> overwritten ev k c) c c1"
    using step_keeps [OF Cons.prems(1,2) _ _ s] Cons.prems(3,4) by simp
  have "keeps t (image_mset base (mset (accepted is c1))) (overwritten_in is c1) c1 c'"
    using Cons.IH [OF keeps_ok [OF K]] Cons.prems r by simp
  from keeps_trans [OF K this] show ?case using s by (cases "accepts i c") auto
qed

lemma started_ok: "collector_ok started" "main_synced started" "all_events started = {#}" "hasCallback started"
    "stamped t started"
  using NewEventCollector_ok by (simp_all add: started_def stamped_def SetEventCallback_def NewEventCollector_def)

end
