(* ===== verification/BT_CollectorBuffers.thy ===== *)
theory BT_CollectorBuffers
  imports BT_CollectorRun
begin

text \<open>
  The transaction buffers: which handlers touch them, why the collector does not crash on the
  records that the BPF program submits, and the reassembly of a transaction from its chunks.
\<close>

section \<open>Handlers that leave the buffers alone\<close>

lemma evict_projects:
  assumes "\<And>k s. f (snd (evict k s)) = f s"
  shows "f (snd (snd (evictLRUIfFullCollect cap evict l s))) = f s"
proof (induction l arbitrary: s rule: rev_induct)
  case Nil
  then show ?case by (simp add: evictLRUIfFullCollect.simps)
next
  case (snoc x l)
  then show ?case using assms by (subst evictLRUIfFullCollect.simps) (simp add: case_prod_unfold)
qed

named_theorems bufs \<open>operations that leave the transaction buffers alone\<close>

lemma bufs_simple [bufs]:
  "transactionBuffers (emit ev c) = transactionBuffers c"
  "transactionBuffers (flushEmissions es c) = transactionBuffers c"
  "transactionBuffers (add_early n c) = transactionBuffers c"
  "transactionBuffers (add_orphan n c) = transactionBuffers c"
  "transactionBuffers (evictStalePendingStack now c) = transactionBuffers c"
  "transactionBuffers (handleStackRecord env st c) = transactionBuffers c"
  "transactionBuffers (evictStalePendingCookies now c) = transactionBuffers c"
  "transactionBuffers (checkCookieDuplicate k c) = transactionBuffers c"
  "transactionBuffers (take_pendingOneway k c) = transactionBuffers c"
  "transactionBuffers (syncRingbufOverflowFrom reader c) = transactionBuffers c"
  "transactionBuffers (snd (drop_pendingMain k c)) = transactionBuffers c"
  "transactionBuffers (snd (drop_pendingMainByTxid k c)) = transactionBuffers c"
  "transactionBuffers (snd (takePendingStack k c)) = transactionBuffers c"
  by (simp_all add: emit_def flushEmissions_def add_early_def add_orphan_def evictStalePendingStack_def
      handleStackRecord_def evictStalePendingCookies_def checkCookieDuplicate_def take_pendingOneway_def
      syncRingbufOverflowFrom_def drop_pendingMain_def drop_pendingMainByTxid_def
      takePendingStack_def Let_def case_prod_unfold split: option.split)

lemma bufs_sweep [bufs]:
  "transactionBuffers (runSweep env now c) = transactionBuffers c"
  "transactionBuffers (sweepLoop_tick env reader c) = transactionBuffers c"
proof -
  show *: "transactionBuffers (runSweep env now c) = transactionBuffers c" for env now c
    by (simp add: runSweep_def bufs Let_def split: prod.split)
  show "transactionBuffers (sweepLoop_tick env reader c) = transactionBuffers c"
    by (simp add: sweepLoop_tick_def bufs *)
qed

lemma bufs_evict [bufs]:
  "transactionBuffers (snd (snd (evictLRUIfFullCollect cap evictPendingMainBackCollect l c))) = transactionBuffers c"
  "transactionBuffers (snd (snd (evictLRUIfFullCollect cap evictPendingMainTxidBackCollect l c))) = transactionBuffers c"
  "transactionBuffers (snd (snd (evictLRUIfFullCollect cap evictPendingOnewayBack l c))) = transactionBuffers c"
  "transactionBuffers (snd (snd (evictLRUIfFullCollect cap evictRecentOneway l c))) = transactionBuffers c"
  "transactionBuffers (snd (snd (evictLRUIfFullCollect cap evictPendingCookie l c))) = transactionBuffers c"
  by (rule evict_projects; simp add: evictPendingMainBackCollect_def evictPendingMainTxidBackCollect_def
      evictPendingOnewayBack_def evictRecentOneway_def evictPendingCookie_def add_early_def add_orphan_def split: option.split)+

lemma bufs_push [bufs]:
  "transactionBuffers (snd (push_pendingMain k pe c)) = transactionBuffers c"
  "transactionBuffers (snd (push_pendingMainByTxid k pe c)) = transactionBuffers c"
  "transactionBuffers (recordRecentOnewayEmit k now c) = transactionBuffers c"
  "transactionBuffers (stash_cookie env tid k c) = transactionBuffers c"
  by (simp_all add: push_pendingMain_def push_pendingMainByTxid_def recordRecentOnewayEmit_def stash_cookie_def
      Let_def case_prod_unfold bufs split: option.split)

lemma bufs_handlers [bufs]:
  "transactionBuffers (routeMainEvent ev k tid now c) = transactionBuffers c"
  "transactionBuffers (handleSideband env sb c) = transactionBuffers c"
  by (simp_all add: routeMainEvent_def handleSideband_def Let_def case_prod_unfold bufs split: option.split)

lemma bufs_cookie:
  "transactionBuffers (handleCookieSideband env cs c) = transactionBuffers c \<or>
   (\<exists>buf. map_of (transactionBuffers c) (bcs_transaction_id_hint cs) = Some buf \<and>
     transactionBuffers (handleCookieSideband env cs c) = map_put (bcs_transaction_id_hint cs)
       (buf\<lparr>tb_meta := (tb_meta buf)\<lparr>mt_cookie := bcs_cookie cs\<rparr>\<rparr>) (transactionBuffers c))"
proof (cases "drop_pendingMainByTxid (bcs_transaction_id_hint cs) c")
  case (Pair o1 c1)
  then have "transactionBuffers c1 = transactionBuffers c"
    using bufs_simple(12) [of "bcs_transaction_id_hint cs" c] by simp
  with Pair show ?thesis
    by (auto simp: handleCookieSideband_def Let_def case_prod_unfold bufs split: option.split if_splits)
qed

lemma bufs_finish [bufs]:
  "finish_buffer env tid buf c = Some (r, c1) \<Longrightarrow> transactionBuffers c1 = transactionBuffers c"
  using bufs_simple(13) [of tid c]
  by (cases "takePendingStack tid c")
    (auto simp: finish_buffer_def Let_def split: if_splits option.splits prod.splits)

lemma bufs_open [bufs]:
  "open_buffer env event c = Some (buf, c1) \<Longrightarrow> transactionBuffers c1 = transactionBuffers c"
  by (auto simp: open_buffer_def Let_def split: option.splits if_splits)

lemma bufs_cleanup:
  "transactionBuffers (maybeCleanup env now c) \<in>
     {transactionBuffers c, filter (\<lambda>(i, buf). \<not> tb_firstSeenNs buf < now - staleBufferTTL) (transactionBuffers c)}"
  by (simp add: maybeCleanup_def Let_def bufs)

section \<open>Main records\<close>

text \<open>The chunks and the meta data after one more record.\<close>

definition received :: "call_env \<Rightarrow> binder_trace_event \<Rightarrow> EventCollector \<Rightarrow> txBuffer option" where
  "received env event c = (case open_buffer env event c of None \<Rightarrow> None | Some (buf, _) \<Rightarrow> store_chunk event buf)"

definition full :: "txBuffer \<Rightarrow> bool" where
  "full buf \<longleftrightarrow> (\<forall>chunk\<in>set (tb_chunks buf). chunk \<noteq> None)"

lemma handleEvent_incomplete:
  assumes "received env event c = Some buf" "\<not> full buf"
  shows "\<exists>d. handleEvent env event c = Some (maybeCleanup env (ce_now env 0) d) \<and>
    transactionBuffers d = map_put (bte_transaction_id event) buf (transactionBuffers c)"
proof -
  obtain b c1 where o: "open_buffer env event c = Some (b, c1)" and s: "store_chunk event b = Some buf"
    using assms(1) by (auto simp: received_def split: option.splits)
  show ?thesis
    unfolding handleEvent_def o s option.case prod.case Let_def
    using assms(2) bufs_open [OF o] unfolding full_def by (simp only: if_False simp_thms) auto
qed

lemma handleEvent_complete:
  assumes "received env event c = Some buf" "full buf"
  shows "\<exists>d. handleEvent env event c = (case finish_buffer env (bte_transaction_id event) buf d of
        None \<Rightarrow> None
      | Some (None, c2) \<Rightarrow> Some (maybeCleanup env (ce_now env 0) c2)
      | Some (Some ev, c2) \<Rightarrow> Some (maybeCleanup env (ce_now env 0)
          (routeMainEvent ev (mt_cookie (tb_meta buf)) (bte_transaction_id event) (ce_now env 0) c2))) \<and>
    routed env event c = (case finish_buffer env (bte_transaction_id event) buf d of
        Some (Some ev, _) \<Rightarrow> Some (ev, mt_cookie (tb_meta buf)) | _ \<Rightarrow> None) \<and>
    transactionBuffers d = map_del (bte_transaction_id event) (transactionBuffers c)"
proof -
  obtain b c1 where o: "open_buffer env event c = Some (b, c1)" and s: "store_chunk event b = Some buf"
    using assms(1) by (auto simp: received_def split: option.splits)
  show ?thesis
    unfolding handleEvent_def routed_def o s option.case prod.case Let_def if_P [OF assms(2) [unfolded full_def]]
    using bufs_open [OF o]
    by (intro exI [of _ "c1\<lparr>transactionBuffers := map_del (bte_transaction_id event) (transactionBuffers c1)\<rparr>"]) simp
qed

section \<open>No record that fits crashes the collector\<close>

definition sized :: "EventCollector \<Rightarrow> bool" where
  "sized c \<longleftrightarrow> (\<forall>k buf. (k, buf) \<in> set (transactionBuffers c) \<longrightarrow> unat (mt_dataSize (tb_meta buf)) \<le> CHUNK_SIZE * MAX_CHUNKS)"

fun fits :: "collector_input \<Rightarrow> bool" where
  "fits (Record env raw) = (case main_of raw of None \<Rightarrow> True
     | Some event \<Rightarrow> unat (bte_data_size event) \<le> CHUNK_SIZE * MAX_CHUNKS \<and>
         unat (bte_chunk_index event) < 2 ^ 63 \<and> MAX_CHUNKS \<le> ce_slices env)"
| "fits (Tick env reader) = True"

lemma chunk_count:
  assumes "unat (d :: u64) \<le> CHUNK_SIZE * MAX_CHUNKS"
  shows "unat ((d + of_nat CHUNK_SIZE - 1) div of_nat CHUNK_SIZE) = (unat d + 1023) div 1024"
    and "(unat d + 1023) div 1024 \<le> MAX_CHUNKS"
proof -
  have "unat (1023 + d) = unat d + 1023"
    using assms by (subst unat_add_lem [THEN iffD1]) (simp_all add: CHUNK_SIZE_def MAX_CHUNKS_def)
  then show "unat ((d + of_nat CHUNK_SIZE - 1) div of_nat CHUNK_SIZE) = (unat d + 1023) div 1024"
    by (simp add: CHUNK_SIZE_def unat_div)
  show "(unat d + 1023) div 1024 \<le> MAX_CHUNKS" using assms by (simp add: CHUNK_SIZE_def MAX_CHUNKS_def)
qed

definition without_cookie :: "txMeta \<Rightarrow> txMeta" where
  "without_cookie meta = meta\<lparr>mt_cookie := 0\<rparr>"

lemma sint_small:
  assumes "unat (x :: u64) < 2 ^ 63"
  shows "sint x < int n \<longleftrightarrow> unat x < n" "int n < sint x \<longleftrightarrow> n < unat x"
proof -
  have "int (unat x) < 2 ^ 63" using assms by (metis of_nat_less_iff of_nat_numeral of_nat_power)
  moreover have "word_of_int (int (unat x)) = x" by simp
  ultimately have "sint x = int (unat x)"
    using sint_word_of_int_63 [of "int (unat x)"] by (metis neg_le_0_iff_le of_nat_0_le_iff order_trans zero_le_numeral zero_le_power)
  then show "sint x < int n \<longleftrightarrow> unat x < n" "int n < sint x \<longleftrightarrow> n < unat x" by (simp_all only: of_nat_less_iff)
qed

lemma open_buffer_fits:
  assumes "unat (bte_data_size event) \<le> CHUNK_SIZE * MAX_CHUNKS" "MAX_CHUNKS \<le> ce_slices env"
    and "map_of (transactionBuffers c) (bte_transaction_id event) = None"
  obtains buf c1 where "open_buffer env event c = Some (buf, c1)"
    "tb_chunks buf = replicate ((unat (bte_data_size event) + 1023) div 1024) None"
    "without_cookie (tb_meta buf) = without_cookie (meta_of event)" "tb_firstSeenNs buf = ce_now env 0"
proof -
  let ?tid = "bte_transaction_id event"
  let ?buf = "\<lambda>meta. \<lparr>tb_firstSeenNs = ce_now env 0,
    tb_chunks = replicate ((unat (bte_data_size event) + 1023) div 1024) None, tb_meta = meta\<rparr>"
  have n: "\<not> ce_slices env < (unat (bte_data_size event) + 1023) div 1024"
    using chunk_count(2) [OF assms(1)] assms(2) by simp
  note open_new = open_buffer_def assms(3) Let_def chunk_count(1) [OF assms(1)]
  show ?thesis
  proof (cases "mt_cookie (meta_of event) = 0 \<and> map_of (pendingCookieByTxid c) ?tid \<noteq> None")
    case True
    then obtain pe where "map_of (pendingCookieByTxid c) ?tid = Some pe" by auto
    then have "open_buffer env event c = Some (?buf ((meta_of event)\<lparr>mt_cookie := pc_cookie pe\<rparr>),
        c\<lparr>pendingCookieLRU := Remove (pc_listElem pe) (pendingCookieLRU c),
          pendingCookieByTxid := map_del ?tid (pendingCookieByTxid c)\<rparr>)"
      using n True by (simp add: open_new)
    then show ?thesis by (rule that) (simp_all add: without_cookie_def)
  next
    case False
    then have "open_buffer env event c = Some (?buf (meta_of event), c)"
      using n by (auto simp: open_new)
    then show ?thesis by (rule that) simp_all
  qed
qed

lemma store_chunk_fits:
  "unat (bte_chunk_index event) < 2 ^ 63 \<Longrightarrow>
     store_chunk event buf = Some (buf\<lparr>tb_chunks := (tb_chunks buf)[unat (bte_chunk_index event) := Some (bte_chunk_data event)]\<rparr>)"
  by (cases buf) (simp add: store_chunk_def sint_small not_less list_update_beyond)

lemma received_fits:
  assumes "unat (bte_data_size event) \<le> CHUNK_SIZE * MAX_CHUNKS" "MAX_CHUNKS \<le> ce_slices env"
    and "unat (bte_chunk_index event) < 2 ^ 63" and "sized c"
  obtains buf where "received env event c = Some buf" "unat (mt_dataSize (tb_meta buf)) \<le> CHUNK_SIZE * MAX_CHUNKS"
proof (cases "map_of (transactionBuffers c) (bte_transaction_id event)")
  case None
  obtain b c1 where o: "open_buffer env event c = Some (b, c1)" and m: "without_cookie (tb_meta b) = without_cookie (meta_of event)"
    using open_buffer_fits [OF assms(1,2) None] by metis
  have "mt_dataSize (tb_meta b) = bte_data_size event"
    using arg_cong [OF m, of mt_dataSize] by (simp add: without_cookie_def meta_of_def)
  then show ?thesis using that o assms(1) by (simp add: received_def store_chunk_fits [OF assms(3)])
next
  case (Some b)
  then have "unat (mt_dataSize (tb_meta b)) \<le> CHUNK_SIZE * MAX_CHUNKS"
    using assms(4) map_of_SomeD by (fastforce simp: sized_def)
  then show ?thesis using that Some by (simp add: received_def open_buffer_def store_chunk_fits [OF assms(3)])
qed

lemma sized_subset: "set (transactionBuffers c') \<subseteq> set (transactionBuffers c) \<Longrightarrow> sized c \<Longrightarrow> sized c'"
  by (auto simp: sized_def)

lemma sized_cleanup: "sized c \<Longrightarrow> sized (maybeCleanup env now c)"
  by (rule sized_subset [of _ c]) (use bufs_cleanup [of env now c] in auto)

lemma finish_buffer_fits:
  assumes "unat (mt_dataSize (tb_meta buf)) \<le> CHUNK_SIZE * MAX_CHUNKS"
  shows "finish_buffer env tid buf c \<noteq> None"
proof -
  have "unat (mt_dataSize (tb_meta buf)) < 2 ^ 63"
    using assms by (simp add: CHUNK_SIZE_def MAX_CHUNKS_def)
  then show ?thesis
    by (auto simp: sint_small finish_buffer_def Let_def split: option.splits prod.splits)
qed

lemma handleEvent_survives:
  assumes "unat (bte_data_size event) \<le> CHUNK_SIZE * MAX_CHUNKS" "MAX_CHUNKS \<le> ce_slices env"
    and "unat (bte_chunk_index event) < 2 ^ 63" and "sized c"
  shows "\<exists>c'. handleEvent env event c = Some c' \<and> sized c'"
proof -
  let ?tid = "bte_transaction_id event"
  obtain buf where r: "received env event c = Some buf" and d: "unat (mt_dataSize (tb_meta buf)) \<le> CHUNK_SIZE * MAX_CHUNKS"
    by (rule received_fits [OF assms])
  show ?thesis
  proof (cases "full buf")
    case False
    obtain e where "handleEvent env event c = Some (maybeCleanup env (ce_now env 0) e)"
      and "transactionBuffers e = map_put ?tid buf (transactionBuffers c)"
      using handleEvent_incomplete [OF r False] by auto
    moreover have "sized e" using calculation(2) d assms(4) by (auto simp: sized_def map_put_def)
    ultimately show ?thesis using sized_cleanup by blast
  next
    case True
    obtain e where h: "handleEvent env event c = (case finish_buffer env ?tid buf e of None \<Rightarrow> None
        | Some (None, c2) \<Rightarrow> Some (maybeCleanup env (ce_now env 0) c2)
        | Some (Some ev, c2) \<Rightarrow> Some (maybeCleanup env (ce_now env 0)
            (routeMainEvent ev (mt_cookie (tb_meta buf)) ?tid (ce_now env 0) c2)))"
      and e: "transactionBuffers e = map_del ?tid (transactionBuffers c)"
      using handleEvent_complete [OF r True] by auto
    obtain o1 c2 where f: "finish_buffer env ?tid buf e = Some (o1, c2)"
      using finish_buffer_fits [OF d, of env ?tid e] by auto
    have "sized c2"
      by (rule sized_subset [OF _ assms(4)]) (use bufs_finish [OF f] e set_map_del in fastforce)
    then have "sized (routeMainEvent ev k ?tid now c2)" for ev k now
      using sized_subset [of "routeMainEvent ev k ?tid now c2" c2] by (simp add: bufs)
    with \<open>sized c2\<close> show ?thesis using h f sized_cleanup by (cases o1) auto
  qed
qed

lemma step_survives:
  assumes "fits i" "sized c"
  shows "\<exists>c'. collector_step i c = Some c' \<and> sized c'"
proof (cases i)
  case (Tick env reader)
  then show ?thesis using sized_subset [of "sweepLoop_tick env reader c" c] assms(2) by (simp add: bufs)
next
  case (Record env raw)
  show ?thesis
  proof (cases raw env c rule: readLoop_record_cases)
    case (main event)
    then show ?thesis using handleEvent_survives [of event env c] assms Record by simp
  next
    case (cookie cs)
    have "sized (handleCookieSideband env cs c)"
      using bufs_cookie [of env cs c]
    proof
      assume "transactionBuffers (handleCookieSideband env cs c) = transactionBuffers c"
      then show ?thesis using assms(2) by (simp add: sized_def)
    next
      assume "\<exists>buf. map_of (transactionBuffers c) (bcs_transaction_id_hint cs) = Some buf \<and>
        transactionBuffers (handleCookieSideband env cs c) = map_put (bcs_transaction_id_hint cs)
          (buf\<lparr>tb_meta := (tb_meta buf)\<lparr>mt_cookie := bcs_cookie cs\<rparr>\<rparr>) (transactionBuffers c)"
      then show ?thesis using assms(2) by (auto simp: sized_def map_put_def dest!: map_of_SomeD)
    qed
    then show ?thesis using cookie Record by simp
  qed (use assms(2) Record in \<open>auto simp: bufs sized_def\<close>)
qed

lemma run_survives:
  assumes "\<forall>i\<in>set is. fits i" "sized c"
  shows "\<exists>c'. collector_run is c = Some c' \<and> sized c'"
  using assms
proof (induction "is" arbitrary: c)
  case (Cons i "is")
  then obtain c1 where "collector_step i c = Some c1" "sized c1" using step_survives [of i c] by auto
  then show ?case using Cons.IH [of c1] Cons.prems(1) by simp
qed simp

section \<open>Reassembly\<close>

text \<open>
  The chunks with the indices \<open>K\<close> of a transaction of \<open>n\<close> chunks have arrived, the first of them not
  before \<open>t0\<close>.
\<close>

definition pieces :: "nat \<Rightarrow> (nat \<Rightarrow> bytes) \<Rightarrow> nat set \<Rightarrow> bytes option list" where
  "pieces n data K = map (\<lambda>k. if k \<in> K then Some (data k) else None) [0..<n]"

definition holds_pieces :: "txMeta \<Rightarrow> int \<Rightarrow> nat \<Rightarrow> (nat \<Rightarrow> bytes) \<Rightarrow> nat set \<Rightarrow> txBuffer \<Rightarrow> bool" where
  "holds_pieces meta t0 n data K buf \<longleftrightarrow>
     t0 \<le> tb_firstSeenNs buf \<and> without_cookie (tb_meta buf) = meta \<and> tb_chunks buf = pieces n data K"

definition collecting :: "u64 \<Rightarrow> txMeta \<Rightarrow> int \<Rightarrow> nat \<Rightarrow> (nat \<Rightarrow> bytes) \<Rightarrow> nat set \<Rightarrow> EventCollector \<Rightarrow> bool" where
  "collecting tid meta t0 n data K c \<longleftrightarrow> distinct (map fst (transactionBuffers c)) \<and>
     (case map_of (transactionBuffers c) tid of None \<Rightarrow> K = {} | Some buf \<Rightarrow> holds_pieces meta t0 n data K buf)"

lemma pieces_simps:
  "length (pieces n data K) = n"
  "pieces n data {} = replicate n None"
  "j < n \<Longrightarrow> (pieces n data K)[j := Some (data j)] = pieces n data (insert j K)"
  "None \<notin> set (pieces n data K) \<longleftrightarrow> {..<n} \<subseteq> K"
  "{..<n} \<subseteq> K \<Longrightarrow> mergeChunks (pieces n data K) = concat (map data [0..<n])"
proof -
  show "pieces n data {} = replicate n None" by (simp add: pieces_def map_replicate_const)
  show "(pieces n data K)[j := Some (data j)] = pieces n data (insert j K)" if "j < n"
    using that by (auto simp: pieces_def intro!: nth_equalityI simp: nth_list_update)
  show "mergeChunks (pieces n data K) = concat (map data [0..<n])" if "{..<n} \<subseteq> K"
    unfolding mergeChunks_def pieces_def map_map using that
    by (intro arg_cong [where f = concat] map_cong) auto
qed (auto simp: pieces_def)

lemma full_pieces: "tb_chunks buf = pieces n data K \<Longrightarrow> full buf \<longleftrightarrow> {..<n} \<subseteq> K"
  using pieces_simps(4) [of n data K] unfolding full_def by metis

lemma map_of_filter_distinct:
  "distinct (map fst m) \<Longrightarrow> map_of (filter P m) k =
     (case map_of m k of None \<Rightarrow> None | Some v \<Rightarrow> if P (k, v) then Some v else None)"
proof (induction m)
  case (Cons x m)
  obtain j v where x: "x = (j, v)" by (cases x)
  show ?case
  proof (cases "j = k")
    case True
    then have "map_of m k = None" using Cons.prems x by (auto simp: map_of_eq_None_iff)
    then show ?thesis using Cons x True by simp
  qed (use Cons x in auto)
qed simp

lemma collecting_cong:
  assumes "map_of (transactionBuffers c') tid = map_of (transactionBuffers c) tid"
    and "distinct (map fst (transactionBuffers c'))"
  shows "collecting tid meta t0 n data K c \<Longrightarrow> collecting tid meta t0 n data K c'"
  using assms by (simp add: collecting_def)

lemma collecting_cleanup:
  assumes "collecting tid meta t0 n data K c" "now - staleBufferTTL \<le> t0"
  shows "collecting tid meta t0 n data K (maybeCleanup env now c)"
proof -
  have d: "distinct (map fst (transactionBuffers c))" using assms(1) by (simp add: collecting_def)
  show ?thesis
    using bufs_cleanup [of env now c] assms map_of_filter_distinct [OF d]
    by (auto simp: collecting_def holds_pieces_def distinct_map_filter split: option.splits)
qed

lemma received_collecting:
  assumes c: "collecting (bte_transaction_id event) meta t0 n data K c"
    and m: "without_cookie (meta_of event) = meta" and t: "t0 \<le> ce_now env 0"
    and d: "unat (bte_data_size event) \<le> CHUNK_SIZE * MAX_CHUNKS" "n = (unat (bte_data_size event) + 1023) div 1024"
    and s: "MAX_CHUNKS \<le> ce_slices env"
    and j: "unat (bte_chunk_index event) < n" "bte_chunk_data event = data (unat (bte_chunk_index event))"
  obtains buf where "received env event c = Some buf"
    "holds_pieces meta t0 n data (insert (unat (bte_chunk_index event)) K) buf"
proof -
  let ?j = "unat (bte_chunk_index event)"
  have "n \<le> 16" using chunk_count(2) [OF d(1)] d(2) by (simp add: MAX_CHUNKS_def)
  then have j63: "?j < 2 ^ 63" using j(1) by simp
  obtain b c1 where o: "open_buffer env event c = Some (b, c1)" and b: "holds_pieces meta t0 n data K b"
  proof (cases "map_of (transactionBuffers c) (bte_transaction_id event)")
    case None
    then have "K = {}" using c by (simp add: collecting_def)
    with None show ?thesis
      using open_buffer_fits [OF d(1) s None] that m t d(2) by (metis holds_pieces_def pieces_simps(2))
  next
    case (Some b)
    then show ?thesis using that [of b c] c by (simp add: open_buffer_def collecting_def)
  qed
  show ?thesis
    using that o b j(2) pieces_simps(3) [OF j(1), of data K]
    by (simp add: received_def store_chunk_fits [OF j63] holds_pieces_def)
qed

lemma map_of_map_del_other: "k \<noteq> j \<Longrightarrow> map_of (map_del j m) k = map_of m k"
  by (induction m) (auto simp: map_del_def)

lemma distinct_map_del: "distinct (map fst m) \<Longrightarrow> distinct (map fst (map_del j m))"
  by (simp add: map_del_def distinct_map_filter)

lemma collecting_other:
  assumes h: "handleEvent env event c = Some c'" and tid: "bte_transaction_id event \<noteq> tid"
    and c: "collecting tid meta t0 n data K c" and t: "ce_now env 0 - staleBufferTTL \<le> t0"
  shows "collecting tid meta t0 n data K c'"
proof -
  let ?k = "bte_transaction_id event"
  have d: "distinct (map fst (transactionBuffers c))" using c by (simp add: collecting_def)
  obtain buf where r: "received env event c = Some buf"
    using h by (auto simp: handleEvent_def received_def split: option.splits)
  show ?thesis
  proof (cases "full buf")
    case False
    obtain e where "c' = maybeCleanup env (ce_now env 0) e" "transactionBuffers e = map_put ?k buf (transactionBuffers c)"
      using handleEvent_incomplete [OF r False] h by auto
    then show ?thesis using collecting_cleanup [OF collecting_cong [OF _ _ c] t] tid d by simp
  next
    case True
    obtain e where he: "Some c' = (case finish_buffer env ?k buf e of None \<Rightarrow> None
        | Some (None, c2) \<Rightarrow> Some (maybeCleanup env (ce_now env 0) c2)
        | Some (Some ev, c2) \<Rightarrow> Some (maybeCleanup env (ce_now env 0)
            (routeMainEvent ev (mt_cookie (tb_meta buf)) ?k (ce_now env 0) c2)))"
      and e: "transactionBuffers e = map_del ?k (transactionBuffers c)"
      using handleEvent_complete [OF r True] h by auto
    obtain o1 c2 where f: "finish_buffer env ?k buf e = Some (o1, c2)" using he by (auto split: option.splits)
    have b: "transactionBuffers c2 = map_del ?k (transactionBuffers c)" using bufs_finish [OF f] e by simp
    have "map_of (transactionBuffers c2) tid = map_of (transactionBuffers c) tid" "distinct (map fst (transactionBuffers c2))"
      unfolding b using map_of_map_del_other [of tid ?k] tid distinct_map_del [OF d] by simp_all
    then have "collecting tid meta t0 n data K (routeMainEvent ev k ?k now c2)" "collecting tid meta t0 n data K c2" for ev k now
      using collecting_cong [OF _ _ c] by (simp_all add: bufs)
    then show ?thesis using he f collecting_cleanup [OF _ t] by (cases o1) auto
  qed
qed

lemma collecting_cookie:
  assumes c: "collecting tid meta t0 n data K c"
  shows "collecting tid meta t0 n data K (handleCookieSideband env cs c)"
  using bufs_cookie [of env cs c]
proof
  assume "transactionBuffers (handleCookieSideband env cs c) = transactionBuffers c"
  then show ?thesis using c by (simp add: collecting_def)
next
  assume "\<exists>buf. map_of (transactionBuffers c) (bcs_transaction_id_hint cs) = Some buf \<and>
    transactionBuffers (handleCookieSideband env cs c) = map_put (bcs_transaction_id_hint cs)
      (buf\<lparr>tb_meta := (tb_meta buf)\<lparr>mt_cookie := bcs_cookie cs\<rparr>\<rparr>) (transactionBuffers c)"
  then show ?thesis using c by (auto simp: collecting_def holds_pieces_def without_cookie_def)
qed

lemma collecting_chunk:
  assumes r: "received env event c = Some buf" and b: "holds_pieces meta t0 n data K buf" and K: "\<not> {..<n} \<subseteq> K"
    and d: "distinct (map fst (transactionBuffers c))" and t: "ce_now env 0 - staleBufferTTL \<le> t0"
    and h: "handleEvent env event c = Some c'"
  shows "collecting (bte_transaction_id event) meta t0 n data K c'"
proof -
  have "\<not> full buf" using full_pieces [of buf n data K] b K by (simp add: holds_pieces_def)
  then obtain e where "c' = maybeCleanup env (ce_now env 0) e"
      "transactionBuffers e = map_put (bte_transaction_id event) buf (transactionBuffers c)"
    using handleEvent_incomplete [OF r] h by auto
  moreover have "collecting (bte_transaction_id event) meta t0 n data K e"
    using calculation(2) b d by (simp add: collecting_def)
  ultimately show ?thesis using collecting_cleanup [OF _ t] by simp
qed

text \<open>The event that a complete buffer becomes, up to its stack trace.\<close>

lemma completed_event:
  assumes r: "received env event c = Some buf" and b: "holds_pieces meta t0 n data K buf" and K: "{..<n} \<subseteq> K"
    and n: "n = (unat (mt_dataSize meta) + 1023) div 1024" and sz: "0 < unat (mt_dataSize meta)"
      "unat (mt_dataSize meta) \<le> CHUNK_SIZE * MAX_CHUNKS"
    and len: "\<And>k. k < n \<Longrightarrow> length (data k) = 1024"
  shows "\<exists>ev k. routed env event c = Some (ev, k) \<and> k = mt_cookie (tb_meta buf) \<and>
    ev\<lparr>ev_StackTrace := None\<rparr> = payload_of (ce_now env 0) meta (take (unat (mt_dataSize meta)) (concat (map data [0..<n])))"
proof -
  have full: "full buf" using full_pieces [of buf n data K] b K by (simp add: holds_pieces_def)
  obtain e where e: "routed env event c = (case finish_buffer env (bte_transaction_id event) buf e of
        Some (Some ev, _) \<Rightarrow> Some (ev, mt_cookie (tb_meta buf)) | _ \<Rightarrow> None)"
    using handleEvent_complete [OF r full] by auto
  let ?d = "mt_dataSize meta"
  have m: "mergeChunks (tb_chunks buf) = concat (map data [0..<n])"
    using b pieces_simps(5) [OF K] by (simp add: holds_pieces_def)
  have l: "length (concat (map data [0..<n])) = n * 1024" using len by (rule length_concat_blocks)
  have "n \<le> 16" "1 \<le> n" "unat ?d \<le> n * 1024" using n sz by (auto simp: CHUNK_SIZE_def MAX_CHUNKS_def)
  then have ok: "\<not> n * 1024 \<le> 16" "\<not> n * 1024 > CHUNK_SIZE * MAX_CHUNKS" "\<not> unat ?d > n * 1024"
    by (auto simp: CHUNK_SIZE_def MAX_CHUNKS_def)
  have meta: "meta = without_cookie (tb_meta buf)" using b by (simp add: holds_pieces_def)
  have d: "mt_dataSize (tb_meta buf) = ?d" unfolding meta by (simp add: without_cookie_def)
  have "unat ?d < 2 ^ 63" using sz by (simp add: CHUNK_SIZE_def MAX_CHUNKS_def)
  then have "\<not> sint ?d > int (n * 1024)" using sint_small(2) ok(3) by blast
  moreover have "?d \<noteq> 0" using sz by auto
  moreover have "payload_of t (tb_meta buf) p = payload_of t meta p" for t p
    unfolding meta by (simp add: payload_of_def without_cookie_def)
  ultimately show ?thesis
    unfolding e finish_buffer_def Let_def m l d using ok
    by (cases "takePendingStack (bte_transaction_id event) e")
      (auto simp: payload_of_def split: option.split prod.split)
qed

text \<open>The main records of a transaction among the inputs of a run.\<close>

fun chunk_of :: "u64 \<Rightarrow> collector_input \<Rightarrow> binder_trace_event list" where
  "chunk_of tid (Record env raw) =
     (case main_of raw of None \<Rightarrow> [] | Some event \<Rightarrow> if bte_transaction_id event = tid then [event] else [])"
| "chunk_of tid (Tick env reader) = []"

definition chunks_of :: "u64 \<Rightarrow> collector_input list \<Rightarrow> binder_trace_event list" where
  "chunks_of tid is = concat (map (chunk_of tid) is)"

definition indices :: "binder_trace_event list \<Rightarrow> nat set" where
  "indices es = (\<lambda>e. unat (bte_chunk_index e)) ` set es"

definition belongs :: "txMeta \<Rightarrow> nat \<Rightarrow> (nat \<Rightarrow> bytes) \<Rightarrow> binder_trace_event \<Rightarrow> bool" where
  "belongs meta n data e \<longleftrightarrow> without_cookie (meta_of e) = meta \<and> unat (bte_chunk_index e) < n \<and>
     bte_chunk_data e = data (unat (bte_chunk_index e))"

definition in_window :: "int \<Rightarrow> collector_input \<Rightarrow> bool" where
  "in_window t0 i \<longleftrightarrow> t0 \<le> input_time i \<and> input_time i \<le> t0 + staleBufferTTL"

lemma belongs_size: "belongs meta n data e \<Longrightarrow> bte_data_size e = mt_dataSize meta"
  by (auto simp: belongs_def without_cookie_def meta_of_def)

lemma collecting_step:
  assumes c: "collecting tid meta t0 n data K c" and w: "in_window t0 i" and f: "fits i"
    and s: "collector_step i c = Some c'"
    and n: "n = (unat (mt_dataSize meta) + 1023) div 1024"
    and b: "\<forall>e\<in>set (chunk_of tid i). belongs meta n data e"
    and K: "\<not> {..<n} \<subseteq> K \<union> indices (chunk_of tid i)"
  shows "collecting tid meta t0 n data (K \<union> indices (chunk_of tid i)) c'"
proof (cases i)
  case (Tick env reader)
  then have "c' = sweepLoop_tick env reader c" using s by simp
  then show ?thesis using Tick collecting_cong [OF _ _ c] c by (simp add: bufs indices_def collecting_def)
next
  case (Record env raw)
  show ?thesis
  proof (cases raw env c rule: readLoop_record_cases)
    case (main event)
    have h: "handleEvent env event c = Some c'" and t: "ce_now env 0 - staleBufferTTL \<le> t0" "t0 \<le> ce_now env 0"
      using s main w Record by (auto simp: in_window_def)
    show ?thesis
    proof (cases "bte_transaction_id event = tid")
      case False
      then show ?thesis using collecting_other [OF h False c t(1)] main Record by (simp add: indices_def)
    next
      case True
      have e: "belongs meta n data event" using b Record main True by simp
      have d: "unat (bte_data_size event) \<le> CHUNK_SIZE * MAX_CHUNKS" "MAX_CHUNKS \<le> ce_slices env"
        using f Record main by simp_all
      let ?K = "insert (unat (bte_chunk_index event)) K"
      have K': "K \<union> indices (chunk_of tid i) = ?K" using Record main True by (simp add: indices_def)
      obtain buf where r: "received env event c = Some buf" and buf: "holds_pieces meta t0 n data ?K buf"
        using received_collecting [of event meta t0 n data K c env] c True e t(2) d n belongs_size [OF e]
        by (auto simp: belongs_def)
      have "distinct (map fst (transactionBuffers c))" using c by (simp add: collecting_def)
      from collecting_chunk [OF r buf _ this t(1) h] show ?thesis using K True unfolding K' by simp
    qed
  next
    case (cookie cs)
    then show ?thesis using collecting_cookie [OF c] Record s by (auto simp: indices_def)
  qed (use c s Record in \<open>auto simp: bufs indices_def collecting_def\<close>)
qed

lemma run_collecting:
  assumes "collecting tid meta t0 n data K c" "\<forall>i\<in>set is. in_window t0 i" "\<forall>i\<in>set is. fits i"
    and "collector_run is c = Some c'" "n = (unat (mt_dataSize meta) + 1023) div 1024"
    and "\<forall>e\<in>set (chunks_of tid is). belongs meta n data e" "\<not> {..<n} \<subseteq> K \<union> indices (chunks_of tid is)"
  shows "collecting tid meta t0 n data (K \<union> indices (chunks_of tid is)) c'"
  using assms
proof (induction "is" arbitrary: c K)
  case Nil
  then show ?case by (simp add: chunks_of_def indices_def)
next
  case (Cons i "is")
  obtain c1 where s: "collector_step i c = Some c1" and r: "collector_run is c1 = Some c'"
    using Cons.prems(4) by (auto split: option.splits)
  have I: "indices (chunks_of tid (i # is)) = indices (chunk_of tid i) \<union> indices (chunks_of tid is)"
    by (simp add: chunks_of_def indices_def image_Un)
  have S: "set (chunks_of tid (i # is)) = set (chunk_of tid i) \<union> set (chunks_of tid is)" by (simp add: chunks_of_def)
  have "collecting tid meta t0 n data (K \<union> indices (chunk_of tid i)) c1"
    by (rule collecting_step [OF Cons.prems(1) _ _ s Cons.prems(5)]) (use Cons.prems(2,3,6,7) in \<open>auto simp: I S\<close>)
  then show ?case
    using Cons.IH [OF _ _ _ r Cons.prems(5), of "K \<union> indices (chunk_of tid i)"] Cons.prems(2,3,6,7)
    by (simp add: I S Un_assoc)
qed

end
