(* ===== verification/BT_Pairing.thy ===== *)
theory BT_Pairing
  imports BT_CollectorBuffers
begin

text \<open>
  How the records of one transaction find each other in the collector: the event of the main records, the
  cookie record that gives its cookie, and the sideband record that carries the receiver.
\<close>

section \<open>Definitions\<close>

definition sync_request :: "BinderEventPayload \<Rightarrow> bool" where
  "sync_request ev \<longleftrightarrow> ev_IsReply ev = 0 \<and> ev_Flags ev AND txFlagOneWay = 0"

definition oneway_request :: "BinderEventPayload \<Rightarrow> bool" where
  "oneway_request ev \<longleftrightarrow> ev_IsReply ev = 0 \<and> ev_Flags ev AND txFlagOneWay \<noteq> 0"

definition with_sideband :: "BinderEventPayload \<Rightarrow> binder_sideband_event \<Rightarrow> BinderEventPayload" where
  "with_sideband ev sb =
     applySideband ev (sbe_kernel_debug_id sb) (sbe_to_pid sb) (sbe_to_uid sb) (sbe_to_uid_unsupported sb)"

text \<open>The cookie and the transaction id are new to the collector, and its tables have room.\<close>

definition unused :: "u64 \<Rightarrow> u64 \<Rightarrow> EventCollector \<Rightarrow> bool" where
  "unused cookie tid c \<longleftrightarrow> map_of (pendingMain c) cookie = None \<and> map_of (pendingMainByTxid c) tid = None \<and>
     map_of (pendingOneway c) cookie = None \<and> map_of (recentOneway c) cookie = None \<and>
     map_of (transactionBuffers c) tid = None"

definition has_room :: "EventCollector \<Rightarrow> bool" where
  "has_room c \<longleftrightarrow> length (pendingMainLRU c) < pendingMainCapacity \<and> length (pendingMainTxidLRU c) < pendingMainCapacity \<and>
     length (pendingOnewayLRU c) < pendingOnewayCapacity \<and> length (recentOnewayLRU c) < recentOnewayCapacity \<and>
     length (pendingCookieLRU c) < pendingCookieCapacity"

section \<open>Tables with room\<close>

lemma dup_same [simp]:
  "emitted (checkCookieDuplicate k c) = emitted c" "hasCallback (checkCookieDuplicate k c) = hasCallback c"
  "pendingMain (checkCookieDuplicate k c) = pendingMain c" "pendingMainLRU (checkCookieDuplicate k c) = pendingMainLRU c"
  "pendingMainByTxid (checkCookieDuplicate k c) = pendingMainByTxid c"
  "pendingOneway (checkCookieDuplicate k c) = pendingOneway c" "pendingOnewayLRU (checkCookieDuplicate k c) = pendingOnewayLRU c"
  "recentOneway (checkCookieDuplicate k c) = recentOneway c" "recentOnewayLRU (checkCookieDuplicate k c) = recentOnewayLRU c"
  "fresh (checkCookieDuplicate k c) = fresh c"
  "onewaySidebandLate (failures (checkCookieDuplicate k c)) = onewaySidebandLate (failures c)"
  by (simp_all add: checkCookieDuplicate_def Let_def)

lemma push_room:
  "length (pendingMainLRU c) < pendingMainCapacity \<Longrightarrow> push_pendingMain k pe c =
     ([], c\<lparr>fresh := fresh c + 1, pendingMain := map_put k (pe\<lparr>pm_listElem := fresh c\<rparr>) (pendingMain c),
        pendingMainLRU := PushFront (fresh c) k (pendingMainLRU c)\<rparr>)"
  "length (pendingMainTxidLRU c) < pendingMainCapacity \<Longrightarrow> push_pendingMainByTxid k pe c =
     ([], c\<lparr>fresh := fresh c + 1, pendingMainByTxid := map_put k (pe\<lparr>pm_listElem := fresh c\<rparr>) (pendingMainByTxid c),
        pendingMainTxidLRU := PushFront (fresh c) k (pendingMainTxidLRU c)\<rparr>)"
  by (simp_all add: push_pendingMain_def push_pendingMainByTxid_def evict_nothing PushFront_def Let_def)

lemma recent_room:
  "length (recentOnewayLRU c) < recentOnewayCapacity \<Longrightarrow> map_of (recentOneway c) k = None \<Longrightarrow>
     recordRecentOnewayEmit k now c =
       c\<lparr>fresh := fresh c + 1, recentOneway := map_put k \<lparr>ro_enqueuedNs = now, ro_listElem = fresh c\<rparr> (recentOneway c),
         recentOnewayLRU := PushFront (fresh c) k (recentOnewayLRU c)\<rparr>"
  by (simp add: recordRecentOnewayEmit_def evict_nothing PushFront_def Let_def)

lemma held_put_del: "map_of m k = None \<Longrightarrow> held (map_del k (map_put k e m)) = held m"
proof -
  have "map_del k (map_put k e m) = map_del k m" by (simp add: map_put_def map_del_def)
  then show "map_of m k = None \<Longrightarrow> held (map_del k (map_put k e m)) = held m" by (simp add: map_del_absent)
qed

section \<open>The orders of arrival\<close>

lemma main_then_sideband:
  assumes "hasCallback c" "has_room c" "unused (sbe_cookie sb) tid c" "sync_request ev" "sbe_cookie sb \<noteq> 0"
  shows "emitted (handleSideband e2 sb (routeMainEvent ev (sbe_cookie sb) tid now c)) = emitted c @ [with_sideband ev sb]"
    and "waiting (handleSideband e2 sb (routeMainEvent ev (sbe_cookie sb) tid now c)) = waiting c"
  using assms
  by (simp_all add: routeMainEvent_def sync_request_def has_room_def unused_def push_room handleSideband_def
      new_pendingMain_def flush_emitted with_sideband_def flushEmissions_def [of "[]"] waiting_def held_put_del Let_def)

lemma main_then_cookie_then_sideband:
  assumes "hasCallback c" "has_room c" "unused (sbe_cookie sb) tid c" "sync_request ev" "sbe_cookie sb \<noteq> 0" "tid \<noteq> 0"
    and "\<not> legacyCookieZeroSyncEmit c" "bcs_cookie cs = sbe_cookie sb" "bcs_transaction_id_hint cs = tid"
  shows "emitted (handleSideband e3 sb (handleCookieSideband e2 cs (routeMainEvent ev 0 tid now c))) = emitted c @ [with_sideband ev sb]"
    and "waiting (handleSideband e3 sb (handleCookieSideband e2 cs (routeMainEvent ev 0 tid now c))) = waiting c"
  using assms
  by (simp_all add: routeMainEvent_def sync_request_def has_room_def unused_def push_room handleSideband_def
      new_pendingMain_def flush_emitted with_sideband_def flushEmissions_def [of "[]"] waiting_def held_put_del
      handleCookieSideband_def drop_pendingMainByTxid_def drop_pendingMain_def Let_def)

lemma sideband_then_oneway:
  assumes "hasCallback c" "has_room c" "unused (sbe_cookie sb) tid c" "oneway_request ev" "sbe_cookie sb \<noteq> 0"
  shows "emitted (routeMainEvent ev (sbe_cookie sb) tid now (handleSideband e1 sb c)) = emitted c @ [with_sideband ev sb]"
    and "waiting (routeMainEvent ev (sbe_cookie sb) tid now (handleSideband e1 sb c)) = waiting c"
  using assms
  by (simp_all add: route_oneway oneway_request_def has_room_def unused_def handleSideband_def evict_nothing PushFront_def
      completed_def take_pendingOneway_def recent_room emit_def with_sideband_def waiting_def Let_def)

lemma oneway_then_sideband:
  assumes "hasCallback c" "has_room c" "unused (sbe_cookie sb) tid c" "oneway_request ev" "sbe_cookie sb \<noteq> 0"
  shows "emitted (handleSideband e2 sb (routeMainEvent ev (sbe_cookie sb) tid now c)) = emitted c @ [ev]"
    and "onewaySidebandLate (failures (handleSideband e2 sb (routeMainEvent ev (sbe_cookie sb) tid now c))) =
      onewaySidebandLate (failures c) + 1"
  using assms
  by (simp_all add: route_oneway oneway_request_def has_room_def unused_def handleSideband_def
      completed_def take_pendingOneway_def recent_room emit_def Let_def)

text \<open>A SYNC event does not look for a sideband that came before it.\<close>

lemma sideband_then_sync:
  assumes "hasCallback c" "has_room c" "unused (sbe_cookie sb) tid c" "sync_request ev" "sbe_cookie sb \<noteq> 0"
  shows "emitted (routeMainEvent ev (sbe_cookie sb) tid now (handleSideband e1 sb c)) = emitted c"
    and "waiting (routeMainEvent ev (sbe_cookie sb) tid now (handleSideband e1 sb c)) = add_mset ev (waiting c)"
  using assms
  by (simp_all add: routeMainEvent_def sync_request_def has_room_def unused_def push_room handleSideband_def evict_nothing
      PushFront_def new_pendingMain_def flushEmissions_def [of "[]"] waiting_def held_by_put map_del_absent Let_def)

text \<open>A cookie record before the first main record and between two of them.\<close>

lemma sweep_keeps_young:
  assumes "map_of m k = Some e" "\<not> old e" "distinct (map fst m)" "table_ok el cap n m l"
  shows "map_of (fst (sweep_entries old el m m l)) k = Some e"
proof -
  obtain m' l' out where r: "sweep_entries old el m m l = (m', l', out)" by (cases "sweep_entries old el m m l")
  have s: "set m' = {x \<in> set m. \<not> old (snd x)}" "table_ok el cap n m' l'" by (rule swept [OF assms(4) refl r])+
  have "(k, e) \<in> set m'" using s(1) assms(1,2) map_of_SomeD by force
  moreover have "distinct (map fst m')" using s(2) by (simp add: table_ok_def linked_def)
  ultimately show ?thesis using r by simp
qed

lemma stashed_cookie:
  assumes ok: "collector_ok c" and room: "length (pendingCookieLRU c) < pendingCookieCapacity"
    and t: "ce_now e1 1 - pendingCookieTTL \<le> ce_now e1 0"
  obtains pe where "map_of (pendingCookieByTxid (stash_cookie e1 tid cookie c)) tid = Some pe" "pc_cookie pe = cookie"
proof -
  let ?old = "\<lambda>p. pc_receivedNs p < ce_now e1 1 - pendingCookieTTL"
  have T: "table_ok pc_listElem pendingCookieCapacity (fresh c) (pendingCookieByTxid c) (pendingCookieLRU c)"
    using ok by (simp add: collector_ok_def)
  obtain pe m l n where s: "stash_cookie e1 tid cookie c = evictStalePendingCookies (ce_now e1 1)
        (c\<lparr>fresh := n, pendingCookieByTxid := m, pendingCookieLRU := l\<rparr>)"
    and m: "map_of m tid = Some pe" "pc_cookie pe = cookie" "\<not> ?old pe"
    and tab: "table_ok pc_listElem pendingCookieCapacity n m l"
  proof (cases "map_of (pendingCookieByTxid c) tid")
    case (Some old)
    define pe where "pe = old\<lparr>pc_cookie := cookie, pc_receivedNs := ce_now e1 0\<rparr>"
    have "table_ok pc_listElem pendingCookieCapacity (fresh c) (map_put tid pe (pendingCookieByTxid c))
        (MoveToFront (pc_listElem old) (pendingCookieLRU c))"
      by (rule table_ok_update [OF T Some]) (simp add: pe_def)
    then show ?thesis
      using that [of "MoveToFront (pc_listElem old) (pendingCookieLRU c)" "map_put tid pe (pendingCookieByTxid c)" "fresh c" pe] Some t
      by (simp add: stash_cookie_def pe_def evict_nothing table_ok_def)
  next
    case None
    define pe where "pe = \<lparr>pc_cookie = cookie, pc_receivedNs = ce_now e1 0, pc_listElem = fresh c\<rparr>"
    define c1 where "c1 = c\<lparr>fresh := fresh c + 1, pendingCookieByTxid := map_put tid pe (pendingCookieByTxid c)\<rparr>"
    have r: "evictLRUIfFullCollect pendingCookieCapacity evictPendingCookie (PushFront (fresh c) tid (pendingCookieLRU c)) c1 =
        ([], PushFront (fresh c) tid (pendingCookieLRU c), c1)"
      using room by (intro evict_nothing) (simp add: PushFront_def)
    have "table_ok pc_listElem pendingCookieCapacity (Suc (fresh c)) (map_put tid pe (pendingCookieByTxid c))
        (PushFront (fresh c) tid (pendingCookieLRU c))"
      using ev_cookie.push [OF T, of c1 tid pe, unfolded r prod.case] by (simp add: c1_def pe_def)
    then show ?thesis
      using that [of "PushFront (fresh c) tid (pendingCookieLRU c)" "map_put tid pe (pendingCookieByTxid c)" "Suc (fresh c)" pe] None r t
      by (simp add: stash_cookie_def pe_def c1_def)
  qed
  have "distinct (map fst m)" using tab by (simp add: table_ok_def linked_def)
  then have "map_of (fst (sweep_entries ?old pc_listElem m m l)) tid = Some pe"
    using sweep_keeps_young [where old = ?old, OF m(1,3) _ tab] by simp
  then show ?thesis
    using that [of pe] m(2) by (simp add: s evictStalePendingCookies_def Let_def case_prod_unfold)
qed

lemma cookie_then_main:
  assumes "collector_ok c" "has_room c" "unused (bcs_cookie cs) (bte_transaction_id event) c"
    and "bcs_cookie cs \<noteq> 0" "bcs_transaction_id_hint cs = bte_transaction_id event" "bte_transaction_id event \<noteq> 0"
    and "bte_cookie event = 0" "ce_now e1 1 - pendingCookieTTL \<le> ce_now e1 0"
    and "unat (bte_data_size event) \<le> CHUNK_SIZE * MAX_CHUNKS" "MAX_CHUNKS \<le> ce_slices env"
  shows "\<exists>buf c1. open_buffer env event (handleCookieSideband e1 cs c) = Some (buf, c1) \<and> mt_cookie (tb_meta buf) = bcs_cookie cs"
proof -
  let ?tid = "bte_transaction_id event"
  have h: "handleCookieSideband e1 cs c = stash_cookie e1 ?tid (bcs_cookie cs) c"
    using assms(3-6) by (simp add: handleCookieSideband_def unused_def drop_pendingMainByTxid_def)
  have b: "map_of (transactionBuffers (stash_cookie e1 ?tid (bcs_cookie cs) c)) ?tid = None"
    using assms(3) by (simp add: bufs unused_def)
  obtain pe where pe: "map_of (pendingCookieByTxid (stash_cookie e1 ?tid (bcs_cookie cs) c)) ?tid = Some pe"
      "pc_cookie pe = bcs_cookie cs"
    using stashed_cookie [OF assms(1) _ assms(8), of ?tid "bcs_cookie cs"] assms(2) by (auto simp: has_room_def)
  have "\<not> ce_slices env < (unat (bte_data_size event) + 1023) div 1024"
    using chunk_count(2) [OF assms(9)] assms(10) by simp
  moreover have "mt_cookie (meta_of event) = 0" using assms(7) by (simp add: meta_of_def)
  ultimately show ?thesis
    using pe b by (simp add: h open_buffer_def Let_def chunk_count(1) [OF assms(9)])
qed

lemma cookie_between_chunks:
  assumes "map_of (transactionBuffers c) (bte_transaction_id event) = Some buf" "mt_cookie (tb_meta buf) = 0"
    and "bcs_cookie cs \<noteq> 0" "bcs_transaction_id_hint cs = bte_transaction_id event" "bte_transaction_id event \<noteq> 0"
  shows "\<exists>buf c1. open_buffer env event (handleCookieSideband e1 cs c) = Some (buf, c1) \<and> mt_cookie (tb_meta buf) = bcs_cookie cs"
  using assms by (simp add: handleCookieSideband_def open_buffer_def)

section \<open>Properties\<close>


text \<open>Records of a transaction with the cookie 7 and the id 5.\<close>

definition sample_sideband :: binder_sideband_event where
  "sample_sideband = \<lparr>sbe_kind = EVT_KIND_SIDEBAND, sbe_to_uid_unsupported = 0, sbe_reserved0 = 0, sbe_reserved1 = 0,
     sbe_reserved2 = 0, sbe_cookie = 7, sbe_kernel_debug_id = 99, sbe_to_pid = 321, sbe_to_uid = 1001\<rparr>"

definition sample_cookie_record :: binder_cookie_sideband where
  "sample_cookie_record = \<lparr>bcs_kind = EVT_KIND_COOKIE, bcs_reserved0 = 0, bcs_reserved1 = 0, bcs_reserved2 = 0,
     bcs_reserved3 = 0, bcs_cookie = 7, bcs_transaction_id_hint = 5, bcs_tid = 42, bcs_reserved4 = 0\<rparr>"

definition sample_payload :: "u32 \<Rightarrow> BinderEventPayload" where
  "sample_payload flags = \<lparr>ev_Timestamp = 10, ev_Pid = 42, ev_Uid = 1000, ev_Code = 3, ev_Flags = flags, ev_DataSize = 1,
     ev_IsReply = 0, ev_BinderDev = 1, ev_TargetKind = 0, ev_ToPid = 0, ev_ToUid = 0, ev_TargetRef = 0, ev_PairId = 0,
     ev_ParcelData = [1], ev_StackTrace = None\<rparr>"

definition sample_record :: binder_trace_event where
  "sample_record = \<lparr>bte_kind = EVT_KIND_MAIN, bte_is_reply = 0, bte_binder_dev = 1, bte_target_kind = 0,
     bte_pid = 42, bte_uid = 1000, bte_code = 3, bte_flags = 0, bte_data_size = 1, bte_transaction_id = 5,
     bte_chunk_index = 0, bte_cookie = 0, bte_to_pid = 0, bte_to_uid = 0, bte_reserved2 = 0,
     bte_target_ref = 0, bte_pair_id = 0, bte_chunk_data = replicate 1024 1\<rparr>"

definition sample_clock :: "int \<Rightarrow> call_env" where
  "sample_clock t = \<lparr>ce_now = (\<lambda>_. t), ce_proc = (\<lambda>_ _. \<lparr>pe_now = t, pe_stat = Map.empty, pe_maps = Map.empty, pe_elf = Map.empty\<rparr>),
     ce_visit = (\<lambda>m. m), ce_slices = 65536\<rparr>"


text \<open>C35. A SYNC event whose cookie already waits in the table pushes the waiting event out unseen: it is neither
  emitted nor counted, and the list of the table keeps a node that no entry belongs to. The same clash
  between a parked event and a waiting one emits the waiting event.\<close>

theorem duplicate_cookie_loses_event:
  assumes "collector_ok c" "hasCallback c" "sync_request ev" "cookie \<noteq> 0" "map_of (pendingMain c) cookie = Some old"
    and "length (pendingMainLRU c) < pendingMainCapacity" "c' = routeMainEvent ev cookie tid now c"
  shows "emitted c' = emitted c \<and> entryEarlyReturn (failures c') = entryEarlyReturn (failures c) \<and>
    waiting c' + {#pm_event old#} = waiting c + {#ev#} \<and> \<not> synced pm_listElem (pendingMain c') (pendingMainLRU c') \<and>
    (bcs_transaction_id_hint cs \<noteq> 0 \<and> bcs_cookie cs = cookie \<and>
      map_of (transactionBuffers c) (bcs_transaction_id_hint cs) = None \<and>
      map_of (pendingMainByTxid c) (bcs_transaction_id_hint cs) \<noteq> None \<longrightarrow>
      emitted (handleCookieSideband env cs c) = emitted c @ [pm_event old])"
proof -
  have T: "table_ok pm_listElem pendingMainCapacity (fresh c) (pendingMain c) (pendingMainLRU c)"
    using assms(1) by (simp add: collector_ok_def)
  then have d: "distinct (map fst (pendingMain c))" by (simp add: table_ok_def linked_def)
  define pe where "pe = (new_pendingMain now ev)\<lparr>pm_listElem := fresh c\<rparr>"
  have c': "pendingMain c' = map_put cookie pe (pendingMain c)" "pendingMainLRU c' = PushFront (fresh c) cookie (pendingMainLRU c)"
    "emitted c' = emitted c" "pendingMainByTxid c' = pendingMainByTxid c" "failures c' = failures (checkCookieDuplicate cookie c)"
    using assms(3,4,6,7) by (simp_all add: routeMainEvent_def sync_request_def push_room flushEmissions_def pe_def)
  have e: "entryEarlyReturn (failures c') = entryEarlyReturn (failures c)"
    unfolding c'(5) by (simp add: checkCookieDuplicate_def Let_def)
  have w: "waiting c' + {#pm_event old#} = waiting c + {#ev#}"
    using held_by_del [OF d assms(5), of "\<lambda>e. [pm_event e]"]
    by (simp add: waiting_def c' held_by_put pe_def new_pendingMain_def)
  have old: "(pm_listElem old, cookie) \<in> set (pendingMainLRU c)"
    using T map_of_SomeD [OF assms(5)] by (force simp: table_ok_def linked_def)
  then have "pm_listElem old \<noteq> fresh c" using table_ok_fresh [OF T] by force
  then have "\<not> synced pm_listElem (pendingMain c') (pendingMainLRU c')"
    using old unfolding c' by (auto simp: synced_def PushFront_def map_put_del pe_def)
  moreover have "emitted (handleCookieSideband env cs c) = emitted c @ [pm_event old]"
    if "bcs_transaction_id_hint cs \<noteq> 0" "bcs_cookie cs = cookie" "map_of (transactionBuffers c) (bcs_transaction_id_hint cs) = None"
      and p: "map_of (pendingMainByTxid c) (bcs_transaction_id_hint cs) \<noteq> None"
    using that assms(2,4,5,6) length_Remove [of "pm_listElem old" "pendingMainLRU c"]
    by (auto simp: handleCookieSideband_def drop_pendingMainByTxid_def drop_pendingMain_def push_room flush_emitted add_early_def)
  ultimately show ?thesis using c'(3) e w by auto
qed

theorem duplicate_cookie_loses_event_witness:
  "let c = routeMainEvent (sample_payload 0) 7 5 10 started;
       c' = routeMainEvent ((sample_payload 0)\<lparr>ev_Code := 4\<rparr>) 7 6 11 c
   in emitted c' = [] \<and> waiting c' + {#sample_payload 0#} = waiting c + {#(sample_payload 0)\<lparr>ev_Code := 4\<rparr>#}"
proof -
  let ?c = "routeMainEvent (sample_payload 0) 7 5 10 started"
  have s: "sync_request (sample_payload 0)" "sync_request ((sample_payload 0)\<lparr>ev_Code := 4\<rparr>)"
    by (simp_all add: sync_request_def sample_payload_def)
  have k: "collector_ok ?c" "hasCallback ?c"
    using keeps_ok [OF routeMainEvent_keeps [OF started_ok(1,4) order_refl]] by blast+
  have f: "map_of (pendingMain ?c) 7 = Some \<lparr>pm_enqueuedNs = 10, pm_event = sample_payload 0, pm_cookie = 0, pm_listElem = 0\<rparr>"
    "length (pendingMainLRU ?c) < pendingMainCapacity" "emitted ?c = []"
    using s(1) by (simp_all add: routeMainEvent_def sync_request_def push_room started_def SetEventCallback_def NewEventCollector_def
        pendingMainCapacity_def PushFront_def new_pendingMain_def flushEmissions_def Let_def)
  show ?thesis
    using duplicate_cookie_loses_event [OF k s(2) _ f(1,2) refl, of 6 11] f(3) by (simp add: Let_def)
qed

end
