(* ===== verification/BT_CollectorProperties.thy ===== *)
theory BT_CollectorProperties
  imports BT_Pairing
begin

text \<open>
  The properties of the collector: no event is lost or invented, every event leaves the collector,
  chunks in any order give the payload, and the records of one transaction find each other in every
  order in which they can arrive.
\<close>

section \<open>Sample records\<close>

text \<open>The bytes of a main record, of a sideband record and of a cookie record.\<close>

definition raw_main :: "binder_trace_event \<Rightarrow> bytes" where
  "raw_main e = le_bytes 1 (bte_kind e) @ le_bytes 1 (bte_is_reply e) @ le_bytes 1 (bte_binder_dev e) @
     le_bytes 1 (bte_target_kind e) @ le_bytes 4 (bte_pid e) @ le_bytes 4 (bte_uid e) @ le_bytes 4 (bte_code e) @
     le_bytes 4 (bte_flags e) @ replicate 4 0 @ le_bytes 8 (bte_data_size e) @ le_bytes 8 (bte_transaction_id e) @
     le_bytes 8 (bte_chunk_index e) @ le_bytes 8 (bte_cookie e) @ le_bytes 4 (bte_to_pid e) @ le_bytes 4 (bte_to_uid e) @
     le_bytes 4 (bte_reserved2 e) @ replicate 4 0 @ le_bytes 8 (bte_target_ref e) @ le_bytes 8 (bte_pair_id e) @
     bte_chunk_data e"

lemma load_raw_main: "length (bte_chunk_data e) = 1024 \<Longrightarrow> load_trace_event (raw_main e) = e"
  by (simp add: load_trace_event_def raw_main_def trace_event_fetch slice_at_def of_le_le_bytes Let_def)

lemma hd_le_bytes: "0 < n \<Longrightarrow> hd (le_bytes n w) = ucast w"
  by (cases n) auto

lemma main_of_kind:
  assumes "hd raw = EVT_KIND_MAIN" "1112 \<le> length raw"
  shows "main_of raw = Some (load_trace_event raw)"
proof -
  have "of_le (take 8 raw) \<noteq> STACK_RECORD_MAGIC"
  proof
    assume "of_le (take 8 raw) = STACK_RECORD_MAGIC"
    then have "take 8 raw = le_bytes 8 STACK_RECORD_MAGIC"
      using le_bytes_of_le [of "take 8 raw" 8, where 'a = 64] assms(2) by simp
    then have "hd raw = hd (le_bytes 8 STACK_RECORD_MAGIC)" using assms(2) by (metis hd_take zero_less_numeral)
    then show False using assms(1) by (simp add: hd_le_bytes STACK_RECORD_MAGIC_def EVT_KIND_MAIN_def)
  qed
  moreover have "raw \<noteq> []" using assms(2) by auto
  ultimately show ?thesis using assms by (simp add: main_of_def trace_event_size)
qed

lemma length_raw_main: "length (raw_main e) = 88 + length (bte_chunk_data e)"
  by (simp add: raw_main_def)

lemma main_of_raw_main:
  assumes "bte_kind e = EVT_KIND_MAIN" "length (bte_chunk_data e) = 1024"
  shows "main_of (raw_main e) = Some e"
proof -
  have "hd (raw_main e) = EVT_KIND_MAIN" using assms(1) by (simp add: raw_main_def EVT_KIND_MAIN_def)
  then show ?thesis using main_of_kind [of "raw_main e"] assms(2) by (simp add: load_raw_main length_raw_main)
qed

text \<open>A chunk that is filled with one byte.\<close>

definition sample_main :: "nat \<Rightarrow> u64 \<Rightarrow> u64 \<Rightarrow> nat \<Rightarrow> u8 \<Rightarrow> binder_trace_event" where
  "sample_main d tid cookie k byte = \<lparr>bte_kind = EVT_KIND_MAIN, bte_is_reply = 0, bte_binder_dev = 1, bte_target_kind = 0,
     bte_pid = 42, bte_uid = 1000, bte_code = 3, bte_flags = 0, bte_data_size = of_nat d, bte_transaction_id = tid,
     bte_chunk_index = of_nat k, bte_cookie = cookie, bte_to_pid = 0, bte_to_uid = 0, bte_reserved2 = 0,
     bte_target_ref = 0, bte_pair_id = 0, bte_chunk_data = replicate 1024 byte\<rparr>"

lemma sample_main_of [simp]: "main_of (raw_main (sample_main d tid cookie k byte)) = Some (sample_main d tid cookie k byte)"
  by (rule main_of_raw_main) (simp_all add: sample_main_def)

lemma sample_fields [simp]:
  "bte_data_size (sample_main d tid cookie k byte) = of_nat d"
  "bte_chunk_index (sample_main d tid cookie k byte) = of_nat k"
  "bte_transaction_id (sample_main d tid cookie k byte) = tid"
  "ce_now (sample_clock t) = (\<lambda>_. t)" "ce_slices (sample_clock t) = 65536" "ce_visit (sample_clock t) m = m"
  by (simp_all add: sample_main_def sample_clock_def)

lemma sample_routed:
  "routed (sample_clock t) (sample_main 20 tid cookie 0 byte) started =
     Some (payload_of t (meta_of (sample_main 20 tid cookie 0 byte)) (replicate 20 byte), cookie)"
  by (simp add: routed_def open_buffer_def store_chunk_def finish_buffer_def started_def SetEventCallback_def
      NewEventCollector_def sample_clock_def CHUNK_SIZE_def MAX_CHUNKS_def mergeChunks_def takePendingStack_def
      Let_def sample_main_def meta_of_def)

definition sample_inputs :: "collector_input list" where
  "sample_inputs = [Record (sample_clock 10) (raw_main (sample_main 20 5 7 0 1)), Tick (sample_clock 20) (\<lambda>_. None)]"

lemma sample_inputs_facts:
  "\<forall>i\<in>set sample_inputs. fits i" "\<forall>i\<in>set sample_inputs. visits_ok i"
  "accepted sample_inputs started = [payload_of 10 (meta_of (sample_main 20 5 7 0 1)) (replicate 20 1)]"
  "overwritten_in sample_inputs started = {#}"
proof -
  let ?e = "sample_main 20 5 7 0 1"
  have f: "unat (bte_data_size ?e) \<le> CHUNK_SIZE * MAX_CHUNKS" "unat (bte_chunk_index ?e) < 2 ^ 63"
    by (simp_all add: sample_main_def CHUNK_SIZE_def MAX_CHUNKS_def)
  show "\<forall>i\<in>set sample_inputs. fits i"
    using f by (simp add: sample_inputs_def sample_clock_def MAX_CHUNKS_def)
  show "\<forall>i\<in>set sample_inputs. visits_ok i" by (simp add: sample_inputs_def sample_clock_def)
  show "accepted sample_inputs started = [payload_of 10 (meta_of ?e) (replicate 20 1)]"
    by (simp add: sample_inputs_def sample_routed split: option.split del: collector_step.simps)
  have "map_of (pendingMain started) k = None" for k
    by (simp add: started_def SetEventCallback_def NewEventCollector_def)
  then show "overwritten_in sample_inputs started = {#}"
    by (simp add: sample_inputs_def sample_routed overwritten_def split: option.split del: collector_step.simps)
qed

section \<open>Nothing is lost\<close>

lemma table_ok_length: "table_ok el cap n m l \<Longrightarrow> length m \<le> cap"
  using linked_length [of el m l] by (simp add: table_ok_def)

lemma collector_ok_lengths:
  assumes "collector_ok c"
  shows "length (pendingMain c) \<le> pendingMainCapacity" "length (pendingMainByTxid c) \<le> pendingMainCapacity"
    "length (pendingOneway c) \<le> pendingOnewayCapacity" "length (recentOneway c) \<le> recentOnewayCapacity"
    "length (pendingCookieByTxid c) \<le> pendingCookieCapacity"
  using assms unfolding collector_ok_def by (blast intro: table_ok_length)+

lemma times_bounded: obtains t where "\<forall>i\<in>set is. input_time i \<le> t"
proof
  show "\<forall>i\<in>set is. input_time i \<le> Max (insert 0 (input_time ` set is))" by simp
qed

lemma collector_run_append:
  "collector_run (is @ js) c = (case collector_run is c of None \<Rightarrow> None | Some c1 \<Rightarrow> collector_run js c1)"
  by (induction "is" arbitrary: c) (auto split: option.split)

lemma sized_started: "sized started"
  by (simp add: sized_def started_def SetEventCallback_def NewEventCollector_def)

text \<open>C3. On records that fit the tables of the BPF programs the collector never crashes, whatever the order of
  records and sweeps. Every event that was completed is then emitted or waiting, up to the fields that a
  sideband fills in, unless a SYNC event with the cookie of a waiting one has overwritten it; no event
  is emitted twice or invented. The tables stay within their capacities, and while nothing has been
  overwritten each map agrees with its list.\<close>

theorem collector_conserves:
  assumes "\<forall>i\<in>set is. fits i" "\<forall>i\<in>set is. visits_ok i"
  shows "\<exists>c. collector_run is started = Some c \<and>
    image_mset base (mset (emitted c) + waiting c) + overwritten_in is started = image_mset base (mset (accepted is started)) \<and>
    length (pendingMain c) \<le> pendingMainCapacity \<and> length (pendingMainByTxid c) \<le> pendingMainCapacity \<and>
    length (pendingOneway c) \<le> pendingOnewayCapacity \<and> length (recentOneway c) \<le> recentOnewayCapacity \<and>
    length (pendingCookieByTxid c) \<le> pendingCookieCapacity \<and>
    (overwritten_in is started = {#} \<longrightarrow> synced pm_listElem (pendingMain c) (pendingMainLRU c))"
proof -
  obtain c where r: "collector_run is started = Some c" using run_survives [OF assms(1) sized_started] by blast
  obtain t where "\<forall>i\<in>set is. input_time i \<le> t" by (rule times_bounded)
  then have K: "keeps t (image_mset base (mset (accepted is started))) (overwritten_in is started) started c"
    by (rule run_keeps [OF started_ok(1,4) assms(2) _ r])
  then have "collector_ok c" by (rule keeps_ok)
  note L = collector_ok_lengths [OF this]
  have "image_mset base (mset (emitted c) + waiting c) + overwritten_in is started = image_mset base (mset (accepted is started))"
    using K started_ok(3) by (simp add: keeps_def all_events_def)
  moreover have "overwritten_in is started = {#} \<longrightarrow> synced pm_listElem (pendingMain c) (pendingMainLRU c)"
    using K started_ok(2) by (simp add: keeps_def main_synced_def)
  ultimately show ?thesis using r L by blast
qed

theorem collector_conserves_witness:
  "\<exists>c. collector_run sample_inputs started = Some c \<and>
     image_mset base (mset (emitted c) + waiting c) = {#base (payload_of 10 (meta_of (sample_main 20 5 7 0 1)) (replicate 20 1))#}"
  using collector_conserves [of sample_inputs] sample_inputs_facts by auto

text \<open>C15. Every event leaves the collector: once a sweep runs more than five seconds after the last record,
  nothing waits any more and the events that were emitted are those that were completed, but for the
  overwritten ones and the fields of the sidebands.\<close>

theorem collector_flushes:
  assumes "\<forall>i\<in>set is. fits i" "\<forall>i\<in>set is. visits_ok i" "\<forall>m. mset (ce_visit env m) = mset m"
    and "\<forall>i\<in>set is. input_time i + pendingMainTTL < ce_now env 0"
  shows "\<exists>c. collector_run (is @ [Tick env reader]) started = Some c \<and> waiting c = {#} \<and>
    image_mset base (mset (emitted c)) + overwritten_in is started = image_mset base (mset (accepted is started))"
proof -
  obtain c where r: "collector_run is started = Some c" using run_survives [OF assms(1) sized_started] by blast
  define t where "t = ce_now env 0 - pendingMainTTL - 1"
  have "\<forall>i\<in>set is. input_time i \<le> t" using assms(4) by (force simp: t_def)
  then have K: "keeps t (image_mset base (mset (accepted is started))) (overwritten_in is started) started c"
    by (rule run_keeps [OF started_ok(1,4) assms(2) _ r])
  have st: "stamped t c" using K started_ok(5) by (simp add: keeps_def)
  have v: "mset (ce_visit env m) = mset m" for m using assms(3) by simp
  let ?d = "sweepLoop_tick env reader c"
  note T = tick_spec(1) [OF keeps_ok [OF K] v] tick_spec(2) [OF keeps_ok [OF K] v st]
  have w: "waiting ?d = {#}" by (rule T(2)) (simp add: t_def)
  have "collector_run (is @ [Tick env reader]) started = Some ?d"
    using r by (simp add: collector_run_append)
  moreover have "image_mset base (mset (emitted ?d)) + overwritten_in is started = image_mset base (mset (accepted is started))"
    using K T(1) [where reader = reader and t = t] w started_ok(3) by (simp add: keeps_def all_events_def)
  ultimately show ?thesis using w by blast
qed

theorem collector_flushes_witness:
  "\<exists>c. collector_run (sample_inputs @ [Tick (sample_clock (6 * second)) (\<lambda>_. None)]) started = Some c \<and> waiting c = {#} \<and>
     image_mset base (mset (emitted c)) = {#base (payload_of 10 (meta_of (sample_main 20 5 7 0 1)) (replicate 20 1))#}"
proof -
  have "\<forall>i\<in>set sample_inputs. input_time i + pendingMainTTL < ce_now (sample_clock (6 * second)) 0"
    by (simp add: sample_inputs_def sample_clock_def pendingMainTTL_def second_def)
  moreover have "\<forall>m. mset (ce_visit (sample_clock (6 * second)) m) = mset m" by (simp add: sample_clock_def)
  ultimately show ?thesis
    using collector_flushes [of sample_inputs "sample_clock (6 * second)" "\<lambda>_. None"] sample_inputs_facts by auto
qed

section \<open>Reassembly\<close>

lemma run_reassembles:
  assumes "collector_ok start" "sized start" "map_of (transactionBuffers start) tid = None"
    and "\<forall>i\<in>set inputs. fits i \<and> in_window since i" "fits (Record env raw)" "in_window since (Record env raw)"
    and "main_of raw = Some event" "bte_transaction_id event = tid"
    and "d = unat (mt_dataSize meta)" "0 < d" "d \<le> CHUNK_SIZE * MAX_CHUNKS" "n = (d + 1023) div 1024"
    and "\<forall>k<n. length (data k) = 1024"
    and "\<forall>e\<in>set (event # chunks_of tid inputs). belongs meta n data e"
    and "\<not> {..<n} \<subseteq> indices (chunks_of tid inputs)" "{..<n} \<subseteq> indices (event # chunks_of tid inputs)"
  shows "\<exists>c ev cookie. collector_run inputs start = Some c \<and> accepts (Record env raw) c = Some (ev, cookie) \<and>
    ev\<lparr>ev_StackTrace := None\<rparr> = payload_of (ce_now env 0) meta (take d (concat (map data [0..<n])))"
proof -
  let ?K = "indices (chunks_of tid inputs)"
  obtain c where r: "collector_run inputs start = Some c" using run_survives [of inputs start] assms(2,4) by blast
  have "collecting tid meta since n data {} start" using assms(1,3) by (simp add: collecting_def collector_ok_def)
  then have C: "collecting tid meta since n data ?K c"
    using run_collecting [OF _ _ _ r, of tid meta since n data "{}"] assms(4,9,12,14,15) by simp
  have e: "belongs meta n data event" using assms(14) by simp
  have "bte_data_size event = mt_dataSize meta" by (rule belongs_size [OF e])
  then obtain buf where b: "received env event c = Some buf"
      "holds_pieces meta since n data (insert (unat (bte_chunk_index event)) ?K) buf"
    using received_collecting [of event meta since n data ?K c env] C e assms(5-9,11,12)
    by (auto simp: belongs_def in_window_def)
  have K: "{..<n} \<subseteq> insert (unat (bte_chunk_index event)) ?K" using assms(16) by (simp add: indices_def)
  have "\<exists>ev k. routed env event c = Some (ev, k) \<and> k = mt_cookie (tb_meta buf) \<and>
      ev\<lparr>ev_StackTrace := None\<rparr> = payload_of (ce_now env 0) meta (take (unat (mt_dataSize meta)) (concat (map data [0..<n])))"
    by (rule completed_event [OF b K]) (use assms(9-13) in simp_all)
  then show ?thesis using r assms(7,9) by auto
qed

text \<open>C10. The chunks of a transaction may arrive in any order, more than once and among other records and
  sweeps: within five seconds, the record with which all chunks are there completes the event, and
  its parcel is the first \<open>d\<close> bytes of the chunks in the order of their indices. All other fields are
  those of the records.\<close>

theorem chunks_reassemble:
  assumes "collector_ok start" "sized start" "map_of (transactionBuffers start) tid = None"
    and "\<forall>i\<in>set inputs. fits i \<and> in_window since i" "fits (Record env raw)" "in_window since (Record env raw)"
    and "main_of raw = Some event" "bte_transaction_id event = tid"
    and "d = unat (mt_dataSize meta)" "0 < d" "d \<le> CHUNK_SIZE * MAX_CHUNKS" "n = (d + 1023) div 1024"
    and "\<forall>k<n. length (data k) = 1024"
    and "\<forall>e\<in>set (event # chunks_of tid inputs). belongs meta n data e"
    and "\<not> {..<n} \<subseteq> indices (chunks_of tid inputs)" "{..<n} \<subseteq> indices (event # chunks_of tid inputs)"
  shows "\<exists>c ev cookie. collector_run inputs start = Some c \<and> accepts (Record env raw) c = Some (ev, cookie) \<and>
    ev\<lparr>ev_StackTrace := None\<rparr> = payload_of (ce_now env 0) meta (take d (concat (map data [0..<n])))"
  using assms by (rule run_reassembles)

text \<open>Two chunks that arrive in reverse order, the second of them twice.\<close>

theorem chunks_reassemble_witness:
  "\<exists>c ev cookie. collector_run [Record (sample_clock 10) (raw_main (sample_main 1500 5 7 1 2)),
       Record (sample_clock 11) (raw_main (sample_main 1500 5 7 1 2))] started = Some c \<and>
     accepts (Record (sample_clock 12) (raw_main (sample_main 1500 5 7 0 1))) c = Some (ev, cookie) \<and>
     ev_ParcelData ev = replicate 1024 1 @ replicate 476 2"
proof -
  let ?is = "[Record (sample_clock 10) (raw_main (sample_main 1500 5 7 1 2)), Record (sample_clock 11) (raw_main (sample_main 1500 5 7 1 2))]"
  let ?meta = "without_cookie (meta_of (sample_main 1500 5 7 0 1))"
  let ?data = "\<lambda>k. replicate 1024 (if k = 0 then 1 else 2) :: bytes"
  have chs: "chunks_of 5 ?is = [sample_main 1500 5 7 1 2, sample_main 1500 5 7 1 2]"
    by (simp add: chunks_of_def)
  have d: "unat (mt_dataSize ?meta) = 1500" by (simp add: without_cookie_def meta_of_def sample_main_def)
  have two: "{..<2 :: nat} = {0, 1}" by auto
  have i: "indices [sample_main 1500 5 7 1 2, sample_main 1500 5 7 1 2] = {1}"
    "indices [sample_main 1500 5 7 0 1, sample_main 1500 5 7 1 2, sample_main 1500 5 7 1 2] = {0, 1}"
    by (auto simp: indices_def sample_main_def)
  have b: "belongs ?meta 2 ?data (sample_main 1500 5 7 1 2)" "belongs ?meta 2 ?data (sample_main 1500 5 7 0 1)"
    by (simp_all add: belongs_def without_cookie_def meta_of_def sample_main_def)
  have f: "fits (Record (sample_clock t) (raw_main (sample_main 1500 5 7 k x)))" if "k < 2" for t k x
    using that by (auto simp: CHUNK_SIZE_def MAX_CHUNKS_def less_2_cases_iff)
  have w: "in_window 10 (Record (sample_clock t) r)" if "t \<in> {10, 11, 12}" for t r
    using that by (auto simp: in_window_def sample_clock_def staleBufferTTL_def second_def)
  have "\<exists>c ev cookie. collector_run ?is started = Some c \<and>
      accepts (Record (sample_clock 12) (raw_main (sample_main 1500 5 7 0 1))) c = Some (ev, cookie) \<and>
      ev\<lparr>ev_StackTrace := None\<rparr> = payload_of (ce_now (sample_clock 12) 0) ?meta (take 1500 (concat (map ?data [0..<2])))"
  proof (rule chunks_reassemble [where start = started and inputs = ?is and event = "sample_main 1500 5 7 0 1" and tid = 5
        and since = 10 and data = ?data, OF started_ok(1) sized_started])
    show "map_of (transactionBuffers started) 5 = None" by (simp add: started_def SetEventCallback_def NewEventCollector_def)
    show "\<forall>i\<in>set ?is. fits i \<and> in_window 10 i" using w by (simp add: CHUNK_SIZE_def MAX_CHUNKS_def)
    show "\<forall>e\<in>set (sample_main 1500 5 7 0 1 # chunks_of 5 ?is). belongs ?meta 2 ?data e" using b by (simp only: chs) simp
    show "\<not> {..<2} \<subseteq> indices (chunks_of 5 ?is)" "{..<2} \<subseteq> indices (sample_main 1500 5 7 0 1 # chunks_of 5 ?is)"
      by (simp_all only: chs i two) simp_all
    show "1500 = unat (mt_dataSize ?meta)" using d by simp
  qed (use f w in \<open>simp_all only: sample_main_of sample_fields CHUNK_SIZE_def MAX_CHUNKS_def\<close>, simp_all)
  then obtain c ev cookie where "collector_run ?is started = Some c"
      "accepts (Record (sample_clock 12) (raw_main (sample_main 1500 5 7 0 1))) c = Some (ev, cookie)"
      and e: "ev\<lparr>ev_StackTrace := None\<rparr> = payload_of (ce_now (sample_clock 12) 0) ?meta (take 1500 (concat (map ?data [0..<2])))"
    by blast
  moreover have "ev_ParcelData ev = take 1500 (concat (map ?data [0..<2]))"
    using arg_cong [OF e, of ev_ParcelData] by (simp add: payload_of_def)
  ultimately show ?thesis by (simp add: upt_rec)
qed

end
