(* ===== verification/BT_EndToEnd.thy ===== *)
theory BT_EndToEnd
  imports BT_ProbeProperties BT_ProtocolProperties BT_CollectorProperties
begin

text \<open>
  What joins the parts: the records that the BPF program submits, as the read loop of the daemon
  sees them.
\<close>

section \<open>Records of the program in the collector\<close>

definition meta_of_locals :: "main_locals \<Rightarrow> txMeta" where
  "meta_of_locals l = \<lparr>mt_pid = ml_pid l, mt_uid = ml_uid l, mt_code = ml_code l, mt_flags = ml_flags l,
     mt_dataSize = ml_data_size l, mt_isReply = ml_is_reply l, mt_binderDev = ml_binder_dev l,
     mt_targetKind = TARGET_KIND_UNKNOWN, mt_toPid = 0, mt_toUid = 0, mt_targetRef = ml_target_ref l,
     mt_pairId = ml_pair_id l, mt_cookie = 0\<rparr>"

lemma chunk_record_meta: "without_cookie (meta_of (chunk_record env l i mem)) = meta_of_locals l"
  by (simp add: without_cookie_def meta_of_def chunk_record_def meta_of_locals_def Let_def)

lemma chunk_record_kind: "bte_kind (chunk_record env l i mem) = EVT_KIND_MAIN"
  by (simp add: chunk_record_def Let_def)

lemma hd_of_kind:
  assumes "bte_kind (load_trace_event raw) = k" "raw \<noteq> []"
  shows "hd raw = k"
proof -
  obtain x xs where "raw = x # xs" using assms(2) by (cases raw) auto
  then have "of_le [x] = k" using assms(1) by (simp add: load_trace_event_def trace_event_fetch slice_at_def Let_def)
  then show ?thesis using \<open>raw = x # xs\<close> by (simp add: ucast_id)
qed

lemma submitted_chunk_main:
  assumes "kernel_laws env" "raw \<in> set (submitted_chunks env l b m)"
  shows "main_of raw = Some (load_trace_event raw)"
proof -
  have len: "length raw = 1112"
    using assms length_fill_trace_event [OF assms(1)] kernel_lawsD [OF assms(1)] by (auto simp: submitted_chunks_def)
  obtain k where "load_trace_event raw = chunk_record env l (of_nat k) (ke_memory env (b + k) 1112)"
    using submitted_chunks_set [OF assms] by blast
  then have "hd raw = EVT_KIND_MAIN" using len by (intro hd_of_kind) (auto simp: chunk_record_kind)
  then show ?thesis using main_of_kind len by simp
qed

text \<open>The chunks of one run of the program, by their indices.\<close>

lemma program_chunks:
  assumes laws: "kernel_laws env" and tr: "traced env ctx st" and um: "reads_memory (ke_read_user env) um"
    and l: "l = tx_locals env ctx st" and d: "d = unat (ml_data_size l)" "d \<le> 16384"
    and a: "unat (untagged (ml_buffer l)) + d \<le> 2 ^ 56" and room: "\<forall>k n. ke_room env k n"
    and rs: "rs = new_records st (kprobe_binder_transaction env ctx st)" and n: "n = (d + 1023) div 1024"
  obtains data where "map load_trace_event (tl rs) = map (\<lambda>k. chunk_record env l (of_nat k) (ke_memory env (reserve_calls st + 1 + k) 1112)) [0..<n]"
    "\<And>raw. raw \<in> set (tl rs) \<Longrightarrow> main_of raw = Some (load_trace_event raw)"
    "\<And>k. k < n \<Longrightarrow> belongs (meta_of_locals l) n data (chunk_record env l (of_nat k) (ke_memory env (reserve_calls st + 1 + k) 1112))"
    "\<And>k. k < n \<Longrightarrow> unat (bte_chunk_index (chunk_record env l (of_nat k) (ke_memory env (reserve_calls st + 1 + k) 1112))) = k"
    "\<And>k. k < n \<Longrightarrow> length (data k) = 1024"
    "take d (concat (map data [0..<n])) = user_bytes um (untagged (ml_buffer l)) d"
proof -
  let ?b = "reserve_calls st + 1" and ?m = "unat (total_chunks (ml_data_size l))"
  let ?c = "\<lambda>k. chunk_record env l (of_nat k) (ke_memory env (?b + k) 1112)"
  have sz: "unat (ml_data_size l) \<le> 16384" using d by simp
  have m: "?m = n" "n \<le> 16" using unat_total_chunks_fits [OF sz] d n by simp_all
  have "tl rs = submitted_chunks env l ?b n"
    using main_new_records [OF tr] total_chunks_le_fits [OF sz] l room m(1) unfolding rs by (simp add: submitted_stack_def)
  note tl = this
  have chunks: "map load_trace_event (tl rs) = map ?c [0..<n]"
    unfolding tl using room by (intro submitted_chunks_room [OF laws]) blast
  have idx: "unat (bte_chunk_index (?c k)) = k" if "k < n" for k
    using that m(2) by (simp add: chunk_record_def Let_def unat_ucast_mod unat_of_nat)
  show ?thesis
  proof (rule that [where data = "\<lambda>k. bte_chunk_data (?c k)"])
    show "map load_trace_event (tl rs) = map ?c [0..<n]" by (rule chunks)
    show "main_of raw = Some (load_trace_event raw)" if "raw \<in> set (tl rs)" for raw
      using submitted_chunk_main [OF laws] that unfolding tl by blast
    show "belongs (meta_of_locals l) n (\<lambda>k. bte_chunk_data (?c k)) (?c k)" if "k < n" for k
      using that idx [OF that] by (simp add: belongs_def chunk_record_meta)
    show "unat (bte_chunk_index (?c k)) = k" if "k < n" for k using that by (rule idx)
    show "length (bte_chunk_data (?c k)) = 1024" if "k < n" for k
      using length_chunk_record [OF _ laws] kernel_lawsD [OF laws] by blast
    have "take d (concat (map bte_chunk_data (map load_trace_event (tl rs)))) = user_bytes um (untagged (ml_buffer l)) d"
      using submitted_payload [OF laws um _ sz refl, of ?b] a d room m(1) unfolding tl by simp
    then show "take d (concat (map (\<lambda>k. bte_chunk_data (?c k)) [0..<n])) = user_bytes um (untagged (ml_buffer l)) d"
      unfolding chunks by (simp add: comp_def)
  qed
qed

section \<open>Events in the app\<close>

lemma size_field_Encode: "size_field (Encode ev) = of_nat (length (ev_ParcelData ev))"
  using header_reads(8) [of ev "ext_flags ev"] by (simp add: Encode_bytes size_field_def Uint32_def)

lemma app_reads:
  assumes "event_fits ev" "length (Encode ev) \<le> MaxPayloadLen" "length (ev_ParcelData ev) \<le> 16384"
  shows "fromPayload utf8 (app_counters_of i g) (Encode ev) =
    Some (Some (app_event_of utf8 i ev), app_counters_of (i + 1) g)"
proof -
  have "unat (size_field (Encode ev)) = length (ev_ParcelData ev)"
    unfolding size_field_Encode using assms(3) by (intro unat_of_nat_32) simp
  then have "\<not> overflow_band (size_field (Encode ev))" using assms(3) by (simp add: overflow_band_def)
  then show ?thesis
    using fromPayload_agrees [OF assms(2), of utf8 i g] DecodeBinderEvent_Encode [OF assms(1), of g]
    by (simp add: app_event_of_def)
qed

end
