(* ===== verification/BT_SymbolizerProperties.thy ===== *)
theory BT_SymbolizerProperties
  imports BT_Symbolizer
begin

text \<open>
  The properties of the symbolizer: its caches are least-recently-used caches, the frames it
  names come from a recent reading of the process, and one case in which it misses a symbol.
\<close>

section \<open>The cache\<close>

text \<open>Sequences of operations, on the cache of the code and on a list with the latest entry in front.\<close>

datatype ('k, 'v) cache_op = Get 'k | Put 'k 'v | Drop 'k

fun lru_exec :: "('k, 'v) cache_op list \<Rightarrow> ('k, 'v) lruCache \<Rightarrow> 'v option list \<times> ('k, 'v) lruCache" where
  "lru_exec [] l = ([], l)"
| "lru_exec (Get k # ops) l = (case lru_get k l of (r, l1) \<Rightarrow> case lru_exec ops l1 of (rs, l2) \<Rightarrow> (r # rs, l2))"
| "lru_exec (Put k v # ops) l = lru_exec ops (lru_put k v l)"
| "lru_exec (Drop k # ops) l = lru_exec ops (lru_remove k l)"

fun spec_exec :: "nat \<Rightarrow> ('k, 'v) cache_op list \<Rightarrow> ('k \<times> 'v) list \<Rightarrow> 'v option list \<times> ('k \<times> 'v) list" where
  "spec_exec cap [] xs = ([], xs)"
| "spec_exec cap (Get k # ops) xs = (case spec_get k xs of (r, xs1) \<Rightarrow> case spec_exec cap ops xs1 of (rs, xs2) \<Rightarrow> (r # rs, xs2))"
| "spec_exec cap (Put k v # ops) xs = spec_exec cap ops (spec_put cap k v xs)"
| "spec_exec cap (Drop k # ops) xs = spec_exec cap ops (filter (\<lambda>(j, _). j \<noteq> k) xs)"

lemma lru_exec_refines:
  assumes "lru_ok l"
  shows "lru_ok (snd (lru_exec ops l)) \<and> fst (lru_exec ops l) = fst (spec_exec (lc_capacity l) ops (contents l)) \<and>
    contents (snd (lru_exec ops l)) = snd (spec_exec (lc_capacity l) ops (contents l)) \<and>
    lc_capacity (snd (lru_exec ops l)) = lc_capacity l"
  using assms
proof (induction ops l rule: lru_exec.induct)
  case (2 k ops l)
  obtain r l1 where g: "lru_get k l = (r, l1)" by fastforce
  have "lru_ok l1" "spec_get k (contents l) = (r, contents l1)" "lc_capacity l1 = lc_capacity l"
    using lru_get_refines [OF 2(2), of k] g by (auto simp: lru_get_def split: option.splits)
  then show ?case using 2(1) [OF g [symmetric]] g by (simp add: case_prod_unfold)
next
  case (3 k v ops l)
  then show ?case using lru_put_refines [of l k v] by simp
next
  case (4 k ops l)
  then show ?case using lru_remove_refines [of l k] by simp
qed simp

text \<open>C13. Over any sequence of operations, the cache of the symbolizer answers like a list that moves an entry to the
  front when it is used and drops entries from the back beyond its capacity, and it holds the
  entries of that list.\<close>

theorem lru_cache_refines:
  fixes ops :: "('k, 'v) cache_op list"
  assumes "0 < cap"
  shows "fst (lru_exec ops (newLRU cap)) = fst (spec_exec cap ops []) \<and>
    contents (snd (lru_exec ops (newLRU cap))) = snd (spec_exec cap ops []) \<and>
    lru_size (snd (lru_exec ops (newLRU cap))) = length (snd (spec_exec cap ops [])) \<and>
    lru_size (snd (lru_exec ops (newLRU cap))) \<le> cap"
proof -
  have c: "contents (newLRU cap :: ('k, 'v) lruCache) = []" "lc_capacity (newLRU cap :: ('k, 'v) lruCache) = cap"
    by (rule newLRU_ok(2)) (simp add: newLRU_def)
  let ?l = "snd (lru_exec ops (newLRU cap))"
  have R: "lru_ok ?l" "fst (lru_exec ops (newLRU cap)) = fst (spec_exec cap ops [])" "contents ?l = snd (spec_exec cap ops [])"
    "lc_capacity ?l = cap"
    using lru_exec_refines [OF newLRU_ok(1) [OF assms], of ops] c by simp_all
  have "lru_size ?l = length (contents ?l)" by (simp add: lru_size_def contents_def)
  moreover have "length (contents ?l) \<le> cap" using R(1,4) by (simp add: lru_ok_def contents_def)
  ultimately show ?thesis using R(2,3) by simp
qed

theorem lru_cache_refines_witness:
  "fst (lru_exec [Put (1 :: nat) ''a'', Put 2 ''b'', Get 1, Put 3 ''c'', Get 2, Get 1] (newLRU 2)) = [Some ''a'', None, Some ''a'']"
  using lru_cache_refines [of 2 "[Put (1 :: nat) ''a'', Put 2 ''b'', Get 1, Put 3 ''c'', Get 2, Get 1]"]
  by (simp add: spec_put_def spec_get_def spec_touch_def)

section \<open>Frames of user programs\<close>

lemma getOrLoadMaps_fails:
  "getOrLoadMaps env pid c = (None, c') \<Longrightarrow> pe_stat env pid = None \<or> readProcMaps env pid = None"
  by (auto simp: getOrLoadMaps_def load_maps_def Let_def split: prod.splits option.splits if_splits)

lemma getOrLoadMaps_removed:
  assumes "lru_ok c" "getOrLoadMaps env pid (lru_remove pid c) = (Some pm, c')"
  shows "reading env pid pm"
proof -
  have "fst (lru_get pid (lru_remove pid c)) = None"
    using lru_cache.get_result [OF lru_cache.remove_ok [OF assms(1)]] lru_cache.remove_look [OF assms(1)] by simp
  then show ?thesis
    using assms(2) by (auto simp: getOrLoadMaps_def load_maps_def reading_def Let_def split: prod.splits option.splits)
qed

text \<open>Where the search for the mapping of an address ends.\<close>

datatype mapping_result = Unreadable | NoMapping | Mapping procMapsEntry

definition find_mapping :: "(nat \<Rightarrow> proc_env) \<Rightarrow> int \<Rightarrow> u64 \<Rightarrow> (int, procMaps) lruCache \<Rightarrow> mapping_result \<times> (int, procMaps) lruCache" where
  "find_mapping envs pid pc c =
     (case getOrLoadMaps (envs 0) pid c of
        (None, c) \<Rightarrow> (Unreadable, c)
      | (Some maps, c) \<Rightarrow>
          (case findContaining (pr_entries maps) pc of
             Some entry \<Rightarrow> (Mapping entry, c)
           | None \<Rightarrow>
               (case getOrLoadMaps (envs 1) pid (lru_remove pid c) of
                  (None, c) \<Rightarrow> (Unreadable, c)
                | (Some maps2, c) \<Rightarrow>
                    (case findContaining (pr_entries maps2) pc of None \<Rightarrow> (NoMapping, c) | Some entry \<Rightarrow> (Mapping entry, c)))))"

text \<open>
  What a frame says of an address in a mapping, given the symbols of the file: without a symbol the offset counts from
  the start of the mapping, with one it counts from the symbol, both as file addresses.
\<close>

definition names_address :: "elfSymbols option \<Rightarrow> procMapsEntry \<Rightarrow> SymbolFrame \<Rightarrow> bool" where
  "names_address elf e fr \<longleftrightarrow> sym_Module fr = me_path e \<and>
     (let inMapping = sym_PC fr - me_start e; relPC = me_offset e + inMapping in
      case elf of
        None \<Rightarrow> sym_Symbol fr = [] \<and> sym_Offset fr = inMapping \<and> sym_Quality fr = StackQualityDegraded
      | Some es \<Rightarrow>
          (case lookupElfSymbol es relPC of
             None \<Rightarrow> sym_Symbol fr = [] \<and> sym_Offset fr = inMapping \<and> sym_Quality fr = StackQualityFpOnly
           | Some y \<Rightarrow> sym_Symbol fr = els_name y \<and> els_rva y + sym_Offset fr = relPC \<and>
               sym_Quality fr = (if elf_symtabAvailable es then StackQualityFull else StackQualityDegraded)))"

lemma getOrLoadElf_symbols: "fst (getOrLoadElf env path (s\<lparr>sy_procMapsCache := c\<rparr>)) = fst (getOrLoadElf env path s)"
  by (simp add: getOrLoadElf_def Let_def split: prod.split option.split)

lemma getOrLoadElf_maps: "sy_procMapsCache (snd (getOrLoadElf env path s)) = sy_procMapsCache s"
  by (simp add: getOrLoadElf_def Let_def split: prod.split option.split)

lemma count_maps [simp]:
  "sy_procMapsCache (count_failed s) = sy_procMapsCache s" "sy_procMapsCache (count_degraded s) = sy_procMapsCache s"
  "sy_procMapsCache (count_fp_only s) = sy_procMapsCache s" "sy_procMapsCache (count_full s) = sy_procMapsCache s"
  by (simp_all add: count_failed_def count_degraded_def count_fp_only_def count_full_def)

lemma SymbolizeUser_entry:
  assumes "pc \<noteq> 0" "find_mapping envs pid pc (sy_procMapsCache s) = (Mapping e, c)" "SymbolizeUser envs pid pc s = (fr, s')"
  shows "sy_procMapsCache s' = c \<and> sym_PC fr = pc \<and> names_address (fst (getOrLoadElf (envs 2) (me_path e) s)) e fr"
proof -
  obtain elf t where g: "getOrLoadElf (envs 2) (me_path e) (s\<lparr>sy_procMapsCache := c\<rparr>) = (elf, t)" by fastforce
  have elf: "fst (getOrLoadElf (envs 2) (me_path e) s) = elf" "sy_procMapsCache t = c"
    using getOrLoadElf_symbols [of "envs 2" "me_path e" c s] getOrLoadElf_maps [of "envs 2" "me_path e" "s\<lparr>sy_procMapsCache := c\<rparr>"] g
    by simp_all
  show ?thesis
    using assms g unfolding elf(1)
    by (auto simp: SymbolizeUser_def find_mapping_def names_address_def plain_frame_def elf(2) Let_def
        split: prod.splits option.splits if_splits)
qed

lemma SymbolizeUser_mapping:
  assumes "pc \<noteq> 0" "find_mapping envs pid pc (sy_procMapsCache s) = (r, c)" "SymbolizeUser envs pid pc s = (fr, s')"
  shows "sy_procMapsCache s' = c \<and> sym_PC fr = pc \<and>
    (case r of Unreadable \<Rightarrow> fr = plain_frame pc [] StackQualityFailed
     | NoMapping \<Rightarrow> fr = plain_frame pc [] StackQualityDegraded
     | Mapping e \<Rightarrow> names_address (fst (getOrLoadElf (envs 2) (me_path e) s)) e fr)"
proof (cases r)
  case (Mapping e)
  then show ?thesis using SymbolizeUser_entry [OF assms(1) _ assms(3)] assms(2) by simp
qed (use assms in \<open>auto simp: SymbolizeUser_def find_mapping_def Let_def plain_frame_def StackQualityDegraded_def
      StackQualityFailed_def split: prod.splits option.splits if_splits\<close>)

lemma findContaining_holds:
  "findContaining es pc = Some e \<Longrightarrow> e \<in> set es \<and> me_start e \<le> pc \<and> pc < me_end e"
  by (auto simp: findContaining_def Let_def split: if_splits)

definition holds_mapping :: "(nat \<Rightarrow> proc_env) \<Rightarrow> proc_env list \<Rightarrow> int \<Rightarrow> u64 \<Rightarrow> procMapsEntry \<Rightarrow> bool" where
  "holds_mapping envs H pid pc e \<longleftrightarrow> (\<exists>i\<in>{0, 1}. \<exists>env\<in>set H. \<exists>pm. reading env pid pm \<and>
     pe_now (envs i) - pr_loadedNs pm < procMapsTTL \<and> e \<in> set (pr_entries pm) \<and> me_start e \<le> pc \<and> pc < me_end e)"

lemma find_mapping_sound:
  assumes H: "maps_sound H c" and r: "find_mapping envs pid pc c = (r, c')"
    and ord: "\<forall>es. readProcMaps (envs 1) pid = Some es \<longrightarrow> maps_ordered es"
  shows "maps_sound (envs 1 # envs 0 # H) c' \<and>
    (case r of Unreadable \<Rightarrow> \<exists>i\<in>{0, 1}. pe_stat (envs i) pid = None \<or> readProcMaps (envs i) pid = None
     | NoMapping \<Rightarrow> \<exists>es. readProcMaps (envs 1) pid = Some es \<and> (\<forall>e\<in>set es. \<not> (me_start e \<le> pc \<and> pc < me_end e))
     | Mapping e \<Rightarrow> holds_mapping envs (envs 1 # envs 0 # H) pid pc e)"
proof -
  obtain g1 c1 where g1: "getOrLoadMaps (envs 0) pid c = (g1, c1)" by fastforce
  note S1 = getOrLoadMaps_sound [OF H g1]
  show ?thesis
  proof (cases g1)
    case None
    then show ?thesis
      using r g1 S1 maps_sound_mono getOrLoadMaps_fails [of "envs 0" pid c c1] by (auto simp: find_mapping_def)
  next
    case (Some m1)
    have ok: "lru_ok c1" and c1: "maps_sound (envs 0 # H) c1" using S1 by (simp_all add: maps_sound_def)
    show ?thesis
    proof (cases "findContaining (pr_entries m1) pc")
      case (Some e)
      have "holds_mapping envs (envs 1 # envs 0 # H) pid pc e"
        using S1 \<open>g1 = Some m1\<close> findContaining_holds [OF Some] unfolding holds_mapping_def by fastforce
      then show ?thesis using r g1 \<open>g1 = Some m1\<close> Some maps_sound_mono [OF c1] by (auto simp: find_mapping_def simp del: One_nat_def)
    next
      case None
      obtain g2 c2 where g2: "getOrLoadMaps (envs 1) pid (lru_remove pid c1) = (g2, c2)" by fastforce
      note S2 = getOrLoadMaps_sound [OF maps_sound_remove [OF c1] g2]
      show ?thesis
      proof (cases g2)
        case None
        then show ?thesis
          using r g1 g2 S2 \<open>g1 = Some m1\<close> \<open>findContaining _ _ = None\<close> getOrLoadMaps_fails [of "envs 1" pid "lru_remove pid c1" c2]
          by (auto simp: find_mapping_def simp del: One_nat_def)
      next
        case (Some m2)
        have rd: "reading (envs 1) pid m2" using getOrLoadMaps_removed [OF ok] g2 Some by simp
        then have es: "readProcMaps (envs 1) pid = Some (pr_entries m2)" by (simp add: reading_def)
        then have o: "maps_ordered (pr_entries m2)" using ord by simp
        show ?thesis
        proof (cases "findContaining (pr_entries m2) pc")
          case None
          have "\<forall>e\<in>set (pr_entries m2). \<not> (me_start e \<le> pc \<and> pc < me_end e)"
            using findContaining_iff [OF o, of pc] None by auto
          then show ?thesis
            using r g1 g2 S2 \<open>g1 = Some m1\<close> \<open>findContaining (pr_entries m1) pc = None\<close> \<open>g2 = Some m2\<close> None es
            by (auto simp: find_mapping_def simp del: One_nat_def)
        next
          case (Some e)
          have "holds_mapping envs (envs 1 # envs 0 # H) pid pc e"
            using S2 rd \<open>g2 = Some m2\<close> findContaining_holds [OF Some] unfolding holds_mapping_def by fastforce
          then show ?thesis
            using r g1 g2 S2 \<open>g1 = Some m1\<close> \<open>findContaining (pr_entries m1) pc = None\<close> \<open>g2 = Some m2\<close> Some
            by (auto simp: find_mapping_def simp del: One_nat_def)
        qed
      qed
    qed
  qed
qed


definition sample_maps :: procMapsEntry where
  "sample_maps = \<lparr>me_start = 0x1000, me_end = 0x2000, me_perms = go_string ''r-xp'', me_offset = 0, me_path = go_string ''/lib/a.so''\<rparr>"

definition sample_proc :: "int \<Rightarrow> proc_env" where
  "sample_proc t = \<lparr>pe_now = t, pe_stat = (\<lambda>_. Some 7), pe_maps = (\<lambda>_. Some [sample_maps]), pe_elf = (\<lambda>_. None)\<rparr>"


section \<open>Symbols that share an address\<close>

text \<open>C36. When a file has two functions at one address, the search takes the shorter one, and an address that lies in the
  longer one only has no symbol at all, although the table holds one that covers it.\<close>

theorem elf_alias_missed:
  assumes "elfs_Value a = elfs_Value b" "elfs_Value a \<noteq> 0" "elfs_Name a \<noteq> []" "elfs_Name b \<noteq> []"
    and "elfs_Info a AND 0xf = 2" "elfs_Info b AND 0xf = 2" "0 < elfs_Size b" "elfs_Size b < elfs_Size a"
    and "ef_Symbols f = Some [a, b]" "ef_DynamicSymbols f = None"
    and "elfs_Value b \<le> pc" "\<not> pc < elfs_Value b + elfs_Size b" "pc < elfs_Value a + elfs_Size a"
  shows "\<exists>es. loadElfSymbols (Some f) path = Some es \<and> lookupElfSymbol es pc = None \<and>
    (\<exists>symbol\<in>set (elf_symbols es). els_rva symbol \<le> pc \<and> pc < els_rva symbol + els_size symbol)"
proof -
  define s where "s x = \<lparr>els_rva = elfs_Value x, els_size = elfs_Size x, els_name = elfs_Name x\<rparr>" for x :: elf_Symbol
  let ?es = "\<lparr>elf_path = path, elf_symtabAvailable = True, elf_symbols = [s a, s b]\<rparr>"
  have "appendElfSymbols [] [a, b] = [s a, s b]" using assms(1-6) by (simp add: appendElfSymbols_def s_def)
  moreover have "sort_key (\<lambda>s. (uint (els_rva s), - uint (els_size s))) [s a, s b] = [s a, s b]"
    by (rule two_symbol_table) (use assms(1,8) in \<open>simp_all add: s_def\<close>)
  ultimately have l: "loadElfSymbols (Some f) path = Some ?es"
    using assms(9,10) by (simp add: loadElfSymbols_def)
  have "lookupElfSymbol ?es pc = (if els_size (s b) = 0 \<or> pc < els_rva (s b) + els_size (s b) then Some (s b) else None)"
    using lookup_two [of ?es "s a" "s b" pc] assms(1,11) by (simp add: s_def)
  then have "lookupElfSymbol ?es pc = None" using assms(7,12) by (simp add: s_def)
  moreover have "els_rva (s a) \<le> pc" "pc < els_rva (s a) + els_size (s a)" using assms(1,11,13) by (simp_all add: s_def)
  ultimately show ?thesis using l by auto
qed

theorem elf_alias_missed_witness:
  "\<exists>es. loadElfSymbols (Some \<lparr>ef_Symbols = Some [\<lparr>elfs_Name = go_string ''f'', elfs_Info = 0x12, elfs_Value = 0x100, elfs_Size = 64\<rparr>,
       \<lparr>elfs_Name = go_string ''g'', elfs_Info = 0x12, elfs_Value = 0x100, elfs_Size = 16\<rparr>], ef_DynamicSymbols = None\<rparr>) [] = Some es \<and>
     lookupElfSymbol es 0x120 = None"
  using elf_alias_missed [of "\<lparr>elfs_Name = go_string ''f'', elfs_Info = 0x12, elfs_Value = 0x100, elfs_Size = 64\<rparr>"
      "\<lparr>elfs_Name = go_string ''g'', elfs_Info = 0x12, elfs_Value = 0x100, elfs_Size = 16\<rparr>"
      "\<lparr>ef_Symbols = Some [\<lparr>elfs_Name = go_string ''f'', elfs_Info = 0x12, elfs_Value = 0x100, elfs_Size = 64\<rparr>,
        \<lparr>elfs_Name = go_string ''g'', elfs_Info = 0x12, elfs_Value = 0x100, elfs_Size = 16\<rparr>], ef_DynamicSymbols = None\<rparr>" "0x120" "[]"]
  by (auto simp: go_string_def)

end
