(* ===== verification/BT_Text.thy ===== *)
theory BT_Text
  imports BT_Prelude
begin

text \<open>
  Text: ASCII literals as bytes, numbers in decimal and hexadecimal, and the strings of the app. A Kotlin
  \<^verbatim>\<open>String\<close> is the list of its UTF-16 code units; a Go \<^verbatim>\<open>string\<close> is the list of its bytes.
\<close>

definition ascii :: "string \<Rightarrow> u8 list" where
  "ascii s = map (\<lambda>c. of_nat (of_char c)) s"

type_synonym kstring = "u16 list"

definition lit :: "string \<Rightarrow> kstring" where
  "lit s = map (\<lambda>c. of_nat (of_char c)) s"

fun decimal :: "nat \<Rightarrow> string" where
  "decimal n = (if n < 10 then [char_of (48 + n)] else decimal (n div 10) @ [char_of (48 + n mod 10)])"

declare decimal.simps [simp del]

definition int_toString :: "int \<Rightarrow> string" where
  "int_toString i = (if i < 0 then ''-'' @ decimal (nat (- i)) else decimal (nat i))"

definition upper_digit :: "nat \<Rightarrow> char" where
  "upper_digit n = ''0123456789ABCDEF'' ! n"

fun hexadecimal :: "nat \<Rightarrow> string" where
  "hexadecimal n = (if n < 16 then [upper_digit n] else hexadecimal (n div 16) @ [upper_digit (n mod 16)])"

declare hexadecimal.simps [simp del]

end
