(* ===== verification/BT_SocketClient.thy ===== *)
theory BT_SocketClient
  imports BT_Protocol BT_Text
begin

text \<open>
  The connection of the daemon to the app (\<^verbatim>\<open>daemon/socket_server.go\<close>), one operation at a time: the fields of
  \<^verbatim>\<open>SocketClient\<close>, dialling, the sections of each method that hold the mutex, and the handling of a command. A
  connection is the number under which it was opened. The handlers of the commands are a parameter that acts on a
  state of its own; the text of an error is the list of its bytes. Log output is not modelled.
\<close>

section \<open>State\<close>

definition DefaultListenAddr :: bytes where
  "DefaultListenAddr = ascii ''127.0.0.1:47291''"

definition connectRetryCount :: nat where
  "connectRetryCount = 10"

definition reconnectRetryCount :: nat where
  "reconnectRetryCount = 3"

definition eventChanCap :: nat where
  "eventChanCap = 1000"

record SocketClient =
  sc_serverAddr :: bytes
  sc_conn :: "nat option"
  sc_eventChan :: "BinderEventPayload option list"
  sc_sessionToken :: bytes
  sc_running :: bool
  sc_paused :: bool
  sc_reconnecting :: bool
  sc_eventLoopStarted :: bool
  sc_stopCh :: bool
  sc_droppedCount :: u64

text \<open>An element of the channel is a pointer, \<open>None\<close> for \<^verbatim>\<open>nil\<close>; \<open>sc_stopCh\<close> says that the channel is closed.\<close>

definition NewSocketClient :: "bytes \<Rightarrow> SocketClient" where
  "NewSocketClient serverAddr =
     \<lparr>sc_serverAddr = (if serverAddr = [] then DefaultListenAddr else serverAddr), sc_conn = None, sc_eventChan = [],
      sc_sessionToken = [], sc_running = False, sc_paused = False, sc_reconnecting = False,
      sc_eventLoopStarted = False, sc_stopCh = False, sc_droppedCount = 0\<rparr>"

definition SetSessionToken :: "bytes \<Rightarrow> SocketClient \<Rightarrow> SocketClient" where
  "SetSessionToken token s = s\<lparr>sc_sessionToken := token\<rparr>"

section \<open>Connecting\<close>

text \<open>The loop over the attempts \<open>i\<close>, \<open>i + 1\<close>, .., \<open>maxAttempts\<close>; \<open>dial i\<close> is the result of attempt \<open>i\<close>.\<close>

function connectWithRetry :: "(nat \<Rightarrow> nat option) \<Rightarrow> nat \<Rightarrow> nat \<Rightarrow> nat option" where
  "connectWithRetry dial maxAttempts i =
     (if i \<le> maxAttempts then
        case dial i of Some conn \<Rightarrow> Some conn | None \<Rightarrow> connectWithRetry dial maxAttempts (i + 1)
      else None)"
  by pat_completeness auto

termination
  by (relation "measure (\<lambda>(dial, n, i). Suc n - i)") auto

declare connectWithRetry.simps [simp del]

text \<open>Whether the event loop is to be started, and the connection for the reading loop.\<close>

definition Connect :: "(nat \<Rightarrow> nat option) \<Rightarrow> SocketClient \<Rightarrow> (bool \<times> nat \<times> SocketClient) option" where
  "Connect dial s =
     (case connectWithRetry dial connectRetryCount 1 of
        None \<Rightarrow> None
      | Some conn \<Rightarrow>
          Some (\<not> sc_eventLoopStarted s, conn,
            s\<lparr>sc_conn := Some conn, sc_running := True, sc_reconnecting := False, sc_eventLoopStarted := True\<rparr>))"

text \<open>The locked section of \<^verbatim>\<open>Stop\<close> and the connection that it closes afterwards.\<close>

definition Stop_locked :: "SocketClient \<Rightarrow> nat option \<times> SocketClient" where
  "Stop_locked s = (sc_conn s, s\<lparr>sc_running := False, sc_reconnecting := False, sc_conn := None\<rparr>)"

text \<open>The locked section of \<^verbatim>\<open>handleConnectionLoss\<close>: whether the caller closes the connection and reconnects.\<close>

definition handleConnectionLoss :: "nat \<Rightarrow> SocketClient \<Rightarrow> bool \<times> SocketClient" where
  "handleConnectionLoss failedConn s =
     (if \<not> sc_running s \<or> sc_conn s \<noteq> Some failedConn then (False, s)
      else if sc_reconnecting s then (False, s)
      else (True, s\<lparr>sc_reconnecting := True, sc_conn := None\<rparr>))"

text \<open>The locked sections of \<^verbatim>\<open>reconnectLoop\<close>: with a new connection, and after the last attempt.\<close>

definition reconnect_install :: "nat \<Rightarrow> SocketClient \<Rightarrow> bool \<times> SocketClient" where
  "reconnect_install conn s =
     (if \<not> sc_running s then (False, s) else (True, s\<lparr>sc_conn := Some conn, sc_reconnecting := False\<rparr>))"

definition reconnect_give_up :: "SocketClient \<Rightarrow> bool \<times> SocketClient" where
  "reconnect_give_up s =
     (if \<not> sc_running s then (False, s\<lparr>sc_reconnecting := False\<rparr>)
      else (True, s\<lparr>sc_reconnecting := False, sc_running := False\<rparr>))"

section \<open>Events\<close>

text \<open>The non-blocking send; a full channel counts the event as dropped.\<close>

definition offer_event :: "BinderEventPayload option \<Rightarrow> SocketClient \<Rightarrow> SocketClient" where
  "offer_event event s =
     (if length (sc_eventChan s) < eventChanCap then s\<lparr>sc_eventChan := sc_eventChan s @ [event]\<rparr>
      else s\<lparr>sc_droppedCount := sc_droppedCount s + 1\<rparr>)"

definition SendEvent :: "BinderEventPayload option \<Rightarrow> SocketClient \<Rightarrow> SocketClient" where
  "SendEvent event s =
     (if sc_paused s then s else if \<not> sc_running s then s else offer_event event s)"

section \<open>Commands\<close>

record 'd handlers =
  onSetTarget :: "(u32 \<Rightarrow> 'd \<Rightarrow> bytes option \<times> 'd) option"
  onPause :: "('d \<Rightarrow> bytes option \<times> 'd) option"
  onResume :: "('d \<Rightarrow> bytes option \<times> 'd) option"
  onShutdown :: bool

text \<open>A handler gives the text of its error, if any. The handler of \<^verbatim>\<open>Shutdown\<close> runs after the answer.\<close>

definition call_handler :: "('d \<Rightarrow> bytes option \<times> 'd) option \<Rightarrow> 'd \<Rightarrow> bytes option \<times> 'd" where
  "call_handler h d = (case h of None \<Rightarrow> (None, d) | Some f \<Rightarrow> f d)"

fun Error_text :: "proto_error \<Rightarrow> bytes" where
  "Error_text ErrInvalidMagic = ascii ''invalid frame magic''"
| "Error_text ErrPayloadTooLong = ascii ''payload too long''"
| "Error_text ErrInvalidFrame = ascii ''invalid frame''"
| "Error_text _ = []"

definition protoCap :: bytes where
  "protoCap = ascii ''proto=2;cap=is_reply,binder_dev,target_ref''"

definition target_set_msg :: "u32 \<Rightarrow> bytes" where
  "target_set_msg uid =
     [0xE7, 0x9B, 0xAE, 0xE6, 0xA0, 0x87, 0x55, 0x49, 0x44, 0xE8, 0xAE, 0xBE, 0xE7, 0xBD, 0xAE, 0xE4, 0xB8, 0xBA, 0x20]
     @ ascii (decimal (unat uid))"

definition set_target_msg :: "bytes \<Rightarrow> u32 \<Rightarrow> bytes" where
  "set_target_msg sessionToken uid =
     (if sessionToken \<noteq> [] then ascii ''session='' @ sessionToken @ ascii '';'' @ protoCap @ ascii '';'' @ target_set_msg uid
      else protoCap @ ascii '';'' @ target_set_msg uid)"

definition paused_msg :: bytes where
  "paused_msg = [0xE4, 0xBA, 0x8B, 0xE4, 0xBB, 0xB6, 0xE6, 0x8E, 0xA8, 0xE9, 0x80, 0x81, 0xE5, 0xB7, 0xB2, 0xE6, 0x9A, 0x82,
     0xE5, 0x81, 0x9C]"

definition resumed_msg :: bytes where
  "resumed_msg = [0xE4, 0xBA, 0x8B, 0xE4, 0xBB, 0xB6, 0xE6, 0x8E, 0xA8, 0xE9, 0x80, 0x81, 0xE5, 0xB7, 0xB2, 0xE6, 0x81, 0xA2,
     0xE5, 0xA4, 0x8D]"

definition closing_msg :: bytes where
  "closing_msg = [0xE6, 0xAD, 0xA3, 0xE5, 0x9C, 0xA8, 0xE5, 0x85, 0xB3, 0xE9, 0x97, 0xAD, 0x2E, 0x2E, 0x2E]"

definition unknown_msg :: "u8 \<Rightarrow> bytes" where
  "unknown_msg t =
     [0xE6, 0x9C, 0xAA, 0xE7, 0x9F, 0xA5, 0xE5, 0x91, 0xBD, 0xE4, 0xBB, 0xA4, 0xE7, 0xB1, 0xBB, 0xE5, 0x9E, 0x8B, 0x3A, 0x20]
     @ ascii (''0x'' @ [hex_digit (unat t div 16), hex_digit (unat t mod 16)])"

text \<open>What a command is answered with: the type and the payload of one frame, and whether the daemon shuts down.\<close>

record answer =
  an_type :: u8
  an_payload :: bytes
  an_shutdown :: bool

definition sendAck :: "bytes \<Rightarrow> answer" where
  "sendAck msg = \<lparr>an_type = MsgTypeAck, an_payload = EncodeAck \<lparr>ack_Success = True, ack_Message = msg\<rparr>, an_shutdown = False\<rparr>"

definition sendError :: "u32 \<Rightarrow> bytes \<Rightarrow> answer" where
  "sendError code msg = \<lparr>an_type = MsgTypeError, an_payload = EncodeError \<lparr>err_Code = code, err_Message = msg\<rparr>, an_shutdown = False\<rparr>"

definition ack_or_error :: "bytes \<Rightarrow> bytes option \<Rightarrow> answer" where
  "ack_or_error msg err = (case err of None \<Rightarrow> sendAck msg | Some e \<Rightarrow> sendError 1 e)"

definition handleCommand :: "'d handlers \<Rightarrow> Frame \<Rightarrow> SocketClient \<Rightarrow> 'd \<Rightarrow> (answer \<times> SocketClient \<times> 'd) option" where
  "handleCommand h frame s d =
     (if fr_Type frame = MsgTypeSetTarget then
        case DecodeSetTarget (fr_Payload frame) of
          None \<Rightarrow> None
        | Some (Inl e) \<Rightarrow> Some (sendError 1 (Error_text e), s, d)
        | Some (Inr uid) \<Rightarrow>
            (case call_handler (map_option (\<lambda>f. f uid) (onSetTarget h)) d of (err, d) \<Rightarrow>
               Some (ack_or_error (set_target_msg (sc_sessionToken s) uid) err, s, d))
      else if fr_Type frame = MsgTypePause then
        (case call_handler (onPause h) d of (err, d) \<Rightarrow> Some (ack_or_error paused_msg err, s\<lparr>sc_paused := True\<rparr>, d))
      else if fr_Type frame = MsgTypeResume then
        (case call_handler (onResume h) d of (err, d) \<Rightarrow> Some (ack_or_error resumed_msg err, s\<lparr>sc_paused := False\<rparr>, d))
      else if fr_Type frame = MsgTypeShutdown then Some ((sendAck closing_msg)\<lparr>an_shutdown := onShutdown h\<rparr>, s, d)
      else if fr_Type frame = MsgTypePing then Some (\<lparr>an_type = MsgTypePong, an_payload = [], an_shutdown = False\<rparr>, s, d)
      else Some (sendError 1 (unknown_msg (fr_Type frame)), s, d))"

end
