(* ===== verification/BT_SocketSystem.thy ===== *)
theory BT_SocketSystem
  imports BT_SocketClient "HOL-Library.Multiset" "HOL-Library.Sublist"
begin

text \<open>
  The goroutines of \<^verbatim>\<open>daemon/socket_server.go\<close> in any interleaving: a state is the client, the positions of the
  running goroutines, the connections and what was written to them, and a step moves one goroutine to its next
  access of shared state. The network decides how a dial, a read or a write ends; a connection on which a write
  failed or that was closed takes no more bytes. The last two fields record the events that entered the channel
  and the events that were written, for the statements about them.
\<close>

section \<open>Positions\<close>

datatype goroutine =
    Sending "BinderEventPayload option" nat
  | Reading nat | InRead nat | Handling nat Frame | Answering nat answer
  | Losing nat bool | Closing nat bool
  | Reconnecting nat | Dialing nat | Installing nat | GivingUp | Reporting
  | Selecting | Received "BinderEventPayload option" | Routing BinderEventPayload | Writing BinderEventPayload nat
  | StopCall | Stopping "nat option" | Exiting

text \<open>
  In order: the checks of \<^verbatim>\<open>SendEvent\<close>; \<^verbatim>\<open>readLoop\<close> at its head, in \<^verbatim>\<open>ReadFrame\<close>, in \<^verbatim>\<open>handleCommand\<close> and before
  its answer; \<^verbatim>\<open>handleConnectionLoss\<close> before and after its locked section, the flag telling the event loop from
  the reading loop; \<^verbatim>\<open>reconnectLoop\<close>; \<^verbatim>\<open>broadcastEvents\<close>; and the shutdown of the daemon, which calls \<^verbatim>\<open>Stop\<close> once.
\<close>

record 'd system =
  ds_client :: SocketClient
  ds_threads :: "goroutine multiset"
  ds_opened :: nat
  ds_closed :: "nat set"
  ds_broken :: "nat set"
  ds_out :: "nat \<Rightarrow> bytes"
  ds_state :: 'd
  ds_shutdown :: bool
  ds_exited :: bool
  ds_accepted :: "BinderEventPayload option list"
  ds_delivered :: "(nat \<times> BinderEventPayload) list"

section \<open>Writing\<close>

text \<open>
  A connection takes every byte, or, with a budget, that many bytes before a write fails. The budget of a write
  is the choice of the network, with the one restriction \<open>can_write\<close>, an assumption on \<^verbatim>\<open>net.Conn\<close>: after
  \<^verbatim>\<open>Close\<close>, and after a write of this connection failed, no later write puts bytes on it.
\<close>

definition conn_write :: "bytes \<times> nat option \<Rightarrow> bytes \<Rightarrow> (bytes \<times> nat option) \<times> bool" where
  "conn_write w bs =
     (case snd w of
        None \<Rightarrow> ((fst w @ bs, None), True)
      | Some k \<Rightarrow> if length bs \<le> k then ((fst w @ bs, Some (k - length bs)), True) else ((fst w @ take k bs, Some 0), False))"

definition can_write :: "nat option \<Rightarrow> nat \<Rightarrow> 'd system \<Rightarrow> bool" where
  "can_write budget c s \<longleftrightarrow> (c \<in> ds_broken s \<union> ds_closed s \<longrightarrow> budget = Some 0)"

text \<open>A whole frame is written under the write mutex, hence in one step.\<close>

definition safeWriteFrame :: "nat option \<Rightarrow> nat \<Rightarrow> u8 \<Rightarrow> bytes \<Rightarrow> 'd system \<Rightarrow> bool \<times> 'd system" where
  "safeWriteFrame budget c msgType payload s =
     (case WriteFrame conn_write (ds_out s c, budget) msgType payload of (w, err) \<Rightarrow>
        (err = None, s\<lparr>ds_out := (ds_out s)(c := fst w),
           ds_broken := (if err = None \<or> err = Some ErrPayloadTooLong then ds_broken s else insert c (ds_broken s))\<rparr>))"

section \<open>Steps\<close>

inductive send_step :: "'d system \<Rightarrow> 'd system \<Rightarrow> bool" where
  call: "\<not> ds_exited s \<Longrightarrow> send_step s (s\<lparr>ds_threads := add_mset (Sending ev 0) (ds_threads s)\<rparr>)"
| paused: "ds_threads s = add_mset (Sending ev 0) T \<Longrightarrow>
    send_step s (s\<lparr>ds_threads := (if sc_paused (ds_client s) then T else add_mset (Sending ev 1) T)\<rparr>)"
| running: "ds_threads s = add_mset (Sending ev 1) T \<Longrightarrow>
    send_step s (s\<lparr>ds_threads := (if sc_running (ds_client s) then add_mset (Sending ev 2) T else T)\<rparr>)"
| offer: "ds_threads s = add_mset (Sending ev 2) T \<Longrightarrow>
    send_step s (s\<lparr>ds_threads := T, ds_client := offer_event ev (ds_client s),
      ds_accepted := (if length (sc_eventChan (ds_client s)) < eventChanCap then ds_accepted s @ [ev] else ds_accepted s)\<rparr>)"

inductive reader_step :: "'d handlers \<Rightarrow> 'd system \<Rightarrow> 'd system \<Rightarrow> bool" for h where
  head: "ds_threads s = add_mset (Reading c) T \<Longrightarrow>
    reader_step h s (s\<lparr>ds_threads := (if sc_running (ds_client s) then add_mset (InRead c) T else T)\<rparr>)"
| frame: "ds_threads s = add_mset (InRead c) T \<Longrightarrow> reader_step h s (s\<lparr>ds_threads := add_mset (Handling c f) T\<rparr>)"
| error: "ds_threads s = add_mset (InRead c) T \<Longrightarrow> reader_step h s (s\<lparr>ds_threads := add_mset (Losing c False) T\<rparr>)"
| command: "ds_threads s = add_mset (Handling c f) T \<Longrightarrow>
    handleCommand h f (ds_client s) (ds_state s) = Some (a, cl, d) \<Longrightarrow>
    reader_step h s (s\<lparr>ds_threads := add_mset (Answering c a) T, ds_client := cl, ds_state := d\<rparr>)"
| answer: "ds_threads s = add_mset (Answering c a) T \<Longrightarrow> can_write b c s \<Longrightarrow>
    safeWriteFrame b c (an_type a) (an_payload a) s = (ok, s1) \<Longrightarrow>
    reader_step h s (s1\<lparr>ds_threads :=
        (if \<not> an_shutdown a then add_mset (Reading c) T else if ds_shutdown s then T else add_mset StopCall T),
      ds_shutdown := (ds_shutdown s \<or> an_shutdown a)\<rparr>)"

definition resume :: "bool \<Rightarrow> goroutine multiset \<Rightarrow> goroutine multiset" where
  "resume event_loop T = (if event_loop then add_mset Selecting T else T)"

inductive loss_step :: "'d system \<Rightarrow> 'd system \<Rightarrow> bool" where
  locked: "ds_threads s = add_mset (Losing c ev) T \<Longrightarrow> handleConnectionLoss c (ds_client s) = (act, cl) \<Longrightarrow>
    loss_step s (s\<lparr>ds_threads := (if act then add_mset (Closing c ev) T else resume ev T), ds_client := cl\<rparr>)"
| close: "ds_threads s = add_mset (Closing c ev) T \<Longrightarrow>
    loss_step s (s\<lparr>ds_threads := add_mset (Reconnecting 1) (resume ev T), ds_closed := insert c (ds_closed s)\<rparr>)"

inductive reconnect_step :: "'d system \<Rightarrow> 'd system \<Rightarrow> bool" where
  head: "ds_threads s = add_mset (Reconnecting i) T \<Longrightarrow>
    reconnect_step s (s\<lparr>ds_threads :=
      (if i \<le> reconnectRetryCount then if sc_running (ds_client s) then add_mset (Dialing i) T else T
       else add_mset GivingUp T)\<rparr>)"
| dialled: "ds_threads s = add_mset (Dialing i) T \<Longrightarrow>
    reconnect_step s (s\<lparr>ds_threads := add_mset (Installing (ds_opened s)) T, ds_opened := Suc (ds_opened s)\<rparr>)"
| refused: "ds_threads s = add_mset (Dialing i) T \<Longrightarrow>
    reconnect_step s (s\<lparr>ds_threads := add_mset (Reconnecting (i + 1)) T\<rparr>)"
| install: "ds_threads s = add_mset (Installing c) T \<Longrightarrow> reconnect_install c (ds_client s) = (ok, cl) \<Longrightarrow>
    reconnect_step s (s\<lparr>ds_threads := (if ok then add_mset (Reading c) T else T), ds_client := cl,
      ds_closed := (if ok then ds_closed s else insert c (ds_closed s))\<rparr>)"
| give_up: "ds_threads s = add_mset GivingUp T \<Longrightarrow> reconnect_give_up (ds_client s) = (report, cl) \<Longrightarrow>
    reconnect_step s (s\<lparr>ds_threads := (if report then add_mset Reporting T else T), ds_client := cl\<rparr>)"

inductive event_step :: "'d system \<Rightarrow> 'd system \<Rightarrow> bool" where
  stop: "ds_threads s = add_mset Selecting T \<Longrightarrow> sc_stopCh (ds_client s) \<Longrightarrow> event_step s (s\<lparr>ds_threads := T\<rparr>)"
| receive: "ds_threads s = add_mset Selecting T \<Longrightarrow> sc_eventChan (ds_client s) = ev # rest \<Longrightarrow>
    event_step s (s\<lparr>ds_threads := add_mset (Received ev) T, ds_client := (ds_client s)\<lparr>sc_eventChan := rest\<rparr>\<rparr>)"
| inspect: "ds_threads s = add_mset (Received ev) T \<Longrightarrow>
    event_step s (s\<lparr>ds_threads := add_mset
      (case ev of None \<Rightarrow> Selecting | Some e \<Rightarrow> if sc_paused (ds_client s) then Selecting else Routing e) T\<rparr>)"
| route: "ds_threads s = add_mset (Routing e) T \<Longrightarrow>
    event_step s (s\<lparr>ds_threads := add_mset
      (case sc_conn (ds_client s) of None \<Rightarrow> Selecting | Some c \<Rightarrow> Writing e c) T\<rparr>)"
| push: "ds_threads s = add_mset (Writing e c) T \<Longrightarrow> can_write b c s \<Longrightarrow>
    safeWriteFrame b c MsgTypeBinderEvent (Encode e) s = (ok, s1) \<Longrightarrow>
    event_step s (s1\<lparr>ds_threads := add_mset (if ok then Selecting else Losing c True) T,
      ds_delivered := (if ok then ds_delivered s @ [(c, e)] else ds_delivered s)\<rparr>)"

inductive stop_step :: "'d system \<Rightarrow> 'd system \<Rightarrow> bool" where
  signal: "\<not> ds_exited s \<Longrightarrow> \<not> ds_shutdown s \<Longrightarrow>
    stop_step s (s\<lparr>ds_threads := add_mset StopCall (ds_threads s), ds_shutdown := True\<rparr>)"
| report: "ds_threads s = add_mset Reporting T \<Longrightarrow>
    stop_step s (s\<lparr>ds_threads := (if ds_shutdown s then T else add_mset StopCall T), ds_shutdown := True\<rparr>)"
| locked: "ds_threads s = add_mset StopCall T \<Longrightarrow> Stop_locked (ds_client s) = (c, cl) \<Longrightarrow>
    stop_step s (s\<lparr>ds_threads := add_mset (Stopping c) T, ds_client := cl\<rparr>)"
| close: "ds_threads s = add_mset (Stopping c) T \<Longrightarrow>
    stop_step s (s\<lparr>ds_threads := add_mset Exiting T, ds_closed := ds_closed s \<union> set_option c,
      ds_client := (ds_client s)\<lparr>sc_stopCh := True\<rparr>\<rparr>)"
| exit: "ds_threads s = add_mset Exiting T \<Longrightarrow> stop_step s (s\<lparr>ds_threads := {#}, ds_exited := True\<rparr>)"

definition system_step :: "'d handlers \<Rightarrow> 'd system \<Rightarrow> 'd system \<Rightarrow> bool" where
  "system_step h s s' \<longleftrightarrow> send_step s s' \<or> reader_step h s s' \<or> loss_step s s' \<or> reconnect_step s s' \<or>
     event_step s s' \<or> stop_step s s'"

text \<open>The state after \<^verbatim>\<open>Connect\<close> on a new client, whose connection has the number 0.\<close>

definition connected :: "SocketClient \<Rightarrow> 'd \<Rightarrow> 'd system" where
  "connected cl d =
     \<lparr>ds_client = cl, ds_threads = {#Selecting, Reading 0#}, ds_opened = 1, ds_closed = {}, ds_broken = {},
      ds_out = (\<lambda>_. []), ds_state = d, ds_shutdown = False, ds_exited = False, ds_accepted = [], ds_delivered = []\<rparr>"

inductive reachable :: "'d handlers \<Rightarrow> 'd system \<Rightarrow> bool" for h where
  start: "Connect dial (SetSessionToken token (NewSocketClient addr)) = Some (True, 0, cl) \<Longrightarrow> reachable h (connected cl d)"
| step: "reachable h s \<Longrightarrow> system_step h s s' \<Longrightarrow> reachable h s'"

end
