(* ===== verification/BT_SocketInv.thy ===== *)
theory BT_SocketInv
  imports BT_SocketSystem
begin

text \<open>
  The invariant of the goroutines of the socket client: a running client has a connection that is being read, or one
  goroutine that reconnects; every open connection is the current one or about to be closed; and one event loop runs
  until the client is stopped.
\<close>

section \<open>Counting goroutines\<close>

fun reads :: "nat \<Rightarrow> goroutine \<Rightarrow> bool" where
  "reads c (Reading c') \<longleftrightarrow> c' = c"
| "reads c (InRead c') \<longleftrightarrow> c' = c"
| "reads c (Handling c' f) \<longleftrightarrow> c' = c"
| "reads c (Answering c' a) \<longleftrightarrow> c' = c"
| "reads c (Losing c' ev) \<longleftrightarrow> c' = c \<and> \<not> ev"
| "reads c _ \<longleftrightarrow> False"

fun reconnects :: "goroutine \<Rightarrow> bool" where
  "reconnects (Closing c ev) \<longleftrightarrow> True"
| "reconnects (Reconnecting i) \<longleftrightarrow> True"
| "reconnects (Dialing i) \<longleftrightarrow> True"
| "reconnects (Installing c) \<longleftrightarrow> True"
| "reconnects GivingUp \<longleftrightarrow> True"
| "reconnects _ \<longleftrightarrow> False"

fun sends :: "goroutine \<Rightarrow> bool" where
  "sends Selecting \<longleftrightarrow> True"
| "sends (Received ev) \<longleftrightarrow> True"
| "sends (Routing e) \<longleftrightarrow> True"
| "sends (Writing e c) \<longleftrightarrow> True"
| "sends (Losing c ev) \<longleftrightarrow> ev"
| "sends (Closing c ev) \<longleftrightarrow> ev"
| "sends _ \<longleftrightarrow> False"

text \<open>The goroutine closes the connection with its next step, or makes it the current one.\<close>

fun owns :: "nat \<Rightarrow> goroutine \<Rightarrow> bool" where
  "owns c (Closing c' ev) \<longleftrightarrow> c' = c"
| "owns c (Installing c') \<longleftrightarrow> c' = c"
| "owns c (Stopping c') \<longleftrightarrow> c' = Some c"
| "owns c _ \<longleftrightarrow> False"

fun attempt_ok :: "goroutine \<Rightarrow> bool" where
  "attempt_ok (Reconnecting i) \<longleftrightarrow> 1 \<le> i \<and> i \<le> reconnectRetryCount + 1"
| "attempt_ok (Dialing i) \<longleftrightarrow> 1 \<le> i \<and> i \<le> reconnectRetryCount"
| "attempt_ok _ \<longleftrightarrow> True"

definition number :: "(goroutine \<Rightarrow> bool) \<Rightarrow> 'd system \<Rightarrow> nat" where
  "number P s = size (filter_mset P (ds_threads s))"

section \<open>The invariant\<close>

text \<open>A running client has a connection or one goroutine that reconnects; a stopped one has neither flag.\<close>

definition link_inv :: "'d system \<Rightarrow> bool" where
  "link_inv s \<longleftrightarrow>
     (let cl = ds_client s in
      if \<not> sc_running cl then sc_conn cl = None \<and> number reconnects s \<le> 1 \<and> (ds_shutdown s \<or> Reporting \<in># ds_threads s)
      else if sc_reconnecting cl then sc_conn cl = None \<and> number reconnects s = 1
      else sc_conn cl \<noteq> None \<and> number reconnects s = 0)"

definition reader_inv :: "'d system \<Rightarrow> bool" where
  "reader_inv s \<longleftrightarrow> (\<forall>c. sc_conn (ds_client s) = Some c \<longrightarrow>
     c < ds_opened s \<and> c \<notin> ds_closed s \<and> (ds_shutdown s \<or> (\<exists>g\<in>#ds_threads s. reads c g)))"

definition owner_inv :: "'d system \<Rightarrow> bool" where
  "owner_inv s \<longleftrightarrow>
     (\<forall>c. Installing c \<in># ds_threads s \<longrightarrow> c < ds_opened s \<and> c \<notin> ds_closed s) \<and>
     (\<forall>c. Stopping (Some c) \<in># ds_threads s \<longrightarrow> \<not> sc_running (ds_client s) \<and> number reconnects s = 0) \<and>
     (\<forall>c<ds_opened s. c \<notin> ds_closed s \<longrightarrow> sc_conn (ds_client s) = Some c \<or> (\<exists>g\<in>#ds_threads s. owns c g)) \<and>
     ds_closed s \<subseteq> {..<ds_opened s} \<and> (\<forall>g\<in>#ds_threads s. \<forall>c. owns c g \<longrightarrow> c < ds_opened s)"

definition loop_inv :: "'d system \<Rightarrow> bool" where
  "loop_inv s \<longleftrightarrow> number sends s \<le> 1 \<and> (sc_stopCh (ds_client s) \<or> number sends s = 1) \<and> (\<forall>g\<in>#ds_threads s. attempt_ok g) \<and>
     (StopCall \<in># ds_threads s \<longrightarrow> ds_shutdown s)"

definition system_inv :: "'d system \<Rightarrow> bool" where
  "system_inv s \<longleftrightarrow> (if ds_exited s then ds_threads s = {#}
     else link_inv s \<and> reader_inv s \<and> owner_inv s \<and> loop_inv s)"

lemmas inv_defs = link_inv_def reader_inv_def owner_inv_def loop_inv_def number_def Let_def

lemma number_add [simp]: "number P (s\<lparr>ds_threads := add_mset g T\<rparr>) = (if P g then 1 else 0) + size (filter_mset P T)"
  by (simp add: number_def)

lemma no_reconnects: "number reconnects s = 0 \<longleftrightarrow> (\<forall>g\<in>#ds_threads s. \<not> reconnects g)"
  by (auto simp: number_def filter_mset_eq_conv)

lemma Connect_new:
  "Connect dial (SetSessionToken token (NewSocketClient addr)) = Some (b, c, cl) \<Longrightarrow>
   b \<and> sc_conn cl = Some c \<and> sc_running cl \<and> \<not> sc_reconnecting cl \<and> \<not> sc_stopCh cl \<and> \<not> sc_paused cl \<and> sc_eventChan cl = []"
  by (auto simp: Connect_def SetSessionToken_def NewSocketClient_def split: option.splits)

lemma connected_inv:
  "Connect dial (SetSessionToken token (NewSocketClient addr)) = Some (b, 0, cl) \<Longrightarrow> system_inv (connected cl d)"
  by (drule Connect_new) (simp add: system_inv_def connected_def inv_defs)

text \<open>
  Most steps replace some goroutines by others that play the same part, and leave the connections alone.
\<close>

definition same_links :: "'d system \<Rightarrow> 'd system \<Rightarrow> bool" where
  "same_links s s' \<longleftrightarrow>
     sc_conn (ds_client s') = sc_conn (ds_client s) \<and> sc_running (ds_client s') = sc_running (ds_client s) \<and>
     sc_reconnecting (ds_client s') = sc_reconnecting (ds_client s) \<and> sc_stopCh (ds_client s') = sc_stopCh (ds_client s) \<and>
     ds_opened s' = ds_opened s \<and> ds_closed s' = ds_closed s \<and> ds_exited s' = ds_exited s \<and>
     (ds_shutdown s \<longrightarrow> ds_shutdown s')"

fun holds_conn :: "goroutine \<Rightarrow> bool" where
  "holds_conn (Installing c) \<longleftrightarrow> True"
| "holds_conn (Stopping c) \<longleftrightarrow> True"
| "holds_conn Reporting \<longleftrightarrow> True"
| "holds_conn (Closing c ev) \<longleftrightarrow> True"
| "holds_conn _ \<longleftrightarrow> False"

lemma owns_holds: "owns c g \<Longrightarrow> holds_conn g"
  by (cases g) auto

lemma swap_inv:
  assumes inv: "system_inv s" and "same_links s s'" "ds_threads s = A + T" "ds_threads s' = B + T"
    and r: "size (filter_mset reconnects B) = size (filter_mset reconnects A)"
    and e: "size (filter_mset sends B) = size (filter_mset sends A) \<or>
      sc_stopCh (ds_client s) \<and> size (filter_mset sends B) \<le> size (filter_mset sends A)"
    and rd: "\<And>c g. g \<in># A \<Longrightarrow> reads c g \<Longrightarrow> sc_conn (ds_client s) = Some c \<Longrightarrow> ds_shutdown s' \<or> (\<exists>g\<in>#B. reads c g)"
    and h: "\<forall>g\<in>#A. \<not> holds_conn g" "\<forall>g\<in>#B. \<not> holds_conn g \<and> attempt_ok g"
    and ex: "ds_exited s \<Longrightarrow> A = {#} \<Longrightarrow> B = {#}" and st: "StopCall \<in># B \<longrightarrow> ds_shutdown s'"
  shows "system_inv s'"
proof (cases "ds_exited s")
  case True
  then show ?thesis using assms by (auto simp: system_inv_def same_links_def)
next
  case False
  note lk = assms(2) [unfolded same_links_def] and th = assms(3,4)
  have i: "link_inv s" "reader_inv s" "owner_inv s" "loop_inv s" using inv False by (auto simp: system_inv_def)
  have hold: "holds_conn g \<Longrightarrow> g \<in># ds_threads s' \<longleftrightarrow> g \<in># ds_threads s" for g using h th by auto
  have nr: "number reconnects s' = number reconnects s" using r th by (simp add: number_def)
  have "link_inv s'" using i(1) nr hold [of Reporting] lk by (auto simp: link_inv_def Let_def split: if_splits)
  moreover have "reader_inv s'"
    unfolding reader_inv_def
  proof (intro allI impI)
    fix c
    assume "sc_conn (ds_client s') = Some c"
    then have c: "sc_conn (ds_client s) = Some c" using lk by simp
    then have "c < ds_opened s" "c \<notin> ds_closed s" "ds_shutdown s \<or> (\<exists>g\<in>#ds_threads s. reads c g)"
      using i(2) by (auto simp: reader_inv_def)
    then show "c < ds_opened s' \<and> c \<notin> ds_closed s' \<and> (ds_shutdown s' \<or> (\<exists>g\<in>#ds_threads s'. reads c g))"
      using lk th rd [OF _ _ c] by auto
  qed
  moreover have "owner_inv s'"
    unfolding owner_inv_def
  proof (intro conjI allI impI ballI)
    fix c
    show "c < ds_opened s'" "c \<notin> ds_closed s'" if "Installing c \<in># ds_threads s'"
      using that i(3) hold [of "Installing c"] lk unfolding owner_inv_def by auto
    show "\<not> sc_running (ds_client s')" "number reconnects s' = 0" if "Stopping (Some c) \<in># ds_threads s'"
      using that i(3) hold [of "Stopping (Some c)"] lk nr unfolding owner_inv_def by auto
    show "sc_conn (ds_client s') = Some c \<or> (\<exists>g\<in>#ds_threads s'. owns c g)" if "c < ds_opened s'" "c \<notin> ds_closed s'"
    proof -
      have "sc_conn (ds_client s) = Some c \<or> (\<exists>g\<in>#ds_threads s. owns c g)" using that i(3) lk by (simp add: owner_inv_def)
      then show ?thesis using lk hold owns_holds by metis
    qed
  next
    show "ds_closed s' \<subseteq> {..<ds_opened s'}" using i(3) lk by (simp add: owner_inv_def)
  next
    fix g c
    assume "g \<in># ds_threads s'" "owns c g"
    then have "g \<in># ds_threads s" "owns c g" using hold owns_holds by auto
    then have "c < ds_opened s" using i(3) unfolding owner_inv_def by blast
    then show "c < ds_opened s'" using lk by simp
  qed
  moreover have "loop_inv s'"
  proof -
    have n: "number sends s' = number sends s \<or> sc_stopCh (ds_client s) \<and> number sends s' \<le> number sends s"
      using e unfolding number_def th by auto
    have "sc_stopCh (ds_client s') = sc_stopCh (ds_client s)" using lk by simp
    moreover have "number sends s \<le> 1 \<and> (sc_stopCh (ds_client s) \<or> number sends s = 1)"
      using i(4) by (simp add: loop_inv_def)
    ultimately have "number sends s' \<le> 1 \<and> (sc_stopCh (ds_client s') \<or> number sends s' = 1)"
      using n by linarith
    moreover have "\<forall>g\<in>#ds_threads s'. attempt_ok g" using i(4) h(2) unfolding loop_inv_def th by auto
    moreover have "StopCall \<in># ds_threads s \<longrightarrow> ds_shutdown s" "ds_shutdown s \<longrightarrow> ds_shutdown s'"
      using i(4) lk by (simp_all add: loop_inv_def)
    then have "StopCall \<in># ds_threads s' \<longrightarrow> ds_shutdown s'" using st unfolding th by auto
    ultimately show ?thesis by (simp add: loop_inv_def)
  qed
  ultimately show ?thesis using False lk by (simp add: system_inv_def)
qed

lemma spawn_inv:
  assumes "system_inv s" "same_links s s'" "\<not> ds_exited s" "ds_threads s' = add_mset g (ds_threads s)"
    and "\<not> reconnects g" "\<not> sends g" "\<not> holds_conn g" "attempt_ok g" "g = StopCall \<longrightarrow> ds_shutdown s'"
  shows "system_inv s'"
  by (rule swap_inv [OF assms(1,2), where A = "{#}" and B = "{#g#}" and T = "ds_threads s"]) (use assms in simp_all)

lemma move_inv:
  assumes "system_inv s" "same_links s s'" "ds_threads s = add_mset g T" "ds_threads s' = add_mset g' T"
    and "reconnects g' = reconnects g" "sends g' = sends g" "\<not> holds_conn g" "\<not> holds_conn g'" "attempt_ok g'" "g' = StopCall \<longrightarrow> ds_shutdown s'"
    and "\<And>c. reads c g \<Longrightarrow> sc_conn (ds_client s) = Some c \<Longrightarrow> ds_shutdown s' \<or> reads c g'"
  shows "system_inv s'"
  by (rule swap_inv [OF assms(1,2), where A = "{#g#}" and B = "{#g'#}" and T = T]) (use assms in simp_all)

lemma leave_inv:
  assumes "system_inv s" "same_links s s'" "ds_threads s = add_mset g T" "ds_threads s' = T"
    and "\<not> reconnects g" "sends g \<longrightarrow> sc_stopCh (ds_client s)" "\<not> holds_conn g"
    and "\<And>c. reads c g \<Longrightarrow> sc_conn (ds_client s) = Some c \<Longrightarrow> ds_shutdown s'"
  shows "system_inv s'"
  by (rule swap_inv [OF assms(1,2), where A = "{#g#}" and B = "{#}" and T = T]) (use assms in simp_all)

lemma send_step_inv: "send_step s s' \<Longrightarrow> system_inv s \<Longrightarrow> system_inv s'"
proof (induction rule: send_step.induct)
  case (call s ev)
  show ?case by (rule spawn_inv [OF call.prems _ call.hyps, where g = "Sending ev 0"]) (simp_all add: same_links_def)
next
  case (paused s ev T)
  show ?case
  proof (cases "sc_paused (ds_client s)")
    case True
    then show ?thesis by (intro leave_inv [OF paused.prems _ paused.hyps]) (simp_all add: same_links_def)
  next
    case False
    then show ?thesis
      by (intro move_inv [OF paused.prems _ paused.hyps, where g' = "Sending ev 1"]) (simp_all add: same_links_def)
  qed
next
  case (running s ev T)
  show ?case
  proof (cases "sc_running (ds_client s)")
    case True
    then show ?thesis
      by (intro move_inv [OF running.prems _ running.hyps, where g' = "Sending ev 2"]) (simp_all add: same_links_def)
  next
    case False
    then show ?thesis by (intro leave_inv [OF running.prems _ running.hyps]) (simp_all add: same_links_def)
  qed
next
  case (offer s ev T)
  show ?case by (rule leave_inv [OF offer.prems _ offer.hyps]) (simp_all add: same_links_def offer_event_def)
qed

lemma reading_conn:
  "system_inv s \<Longrightarrow> \<not> sc_running (ds_client s) \<Longrightarrow> ds_threads s \<noteq> {#} \<Longrightarrow> sc_conn (ds_client s) = None"
  by (auto simp: system_inv_def link_inv_def Let_def split: if_splits)

lemma handleCommand_links:
  assumes "handleCommand h f cl d = Some (a, cl', d')"
  shows "sc_conn cl' = sc_conn cl" "sc_running cl' = sc_running cl" "sc_reconnecting cl' = sc_reconnecting cl"
    "sc_stopCh cl' = sc_stopCh cl" "sc_eventChan cl' = sc_eventChan cl" "an_type a \<in> {MsgTypeAck, MsgTypeError, MsgTypePong}"
  using assms
  by (auto simp: handleCommand_def ack_or_error_def sendAck_def sendError_def split: if_splits option.splits sum.splits prod.splits)

lemma safeWriteFrame_frame:
  assumes "safeWriteFrame b c t p s = (ok, s1)"
  shows "ds_client s1 = ds_client s" "ds_opened s1 = ds_opened s" "ds_closed s1 = ds_closed s" "ds_exited s1 = ds_exited s"
    "ds_threads s1 = ds_threads s" "ds_shutdown s1 = ds_shutdown s" "ds_accepted s1 = ds_accepted s"
    "ds_delivered s1 = ds_delivered s" "ds_state s1 = ds_state s"
  using assms by (auto simp: safeWriteFrame_def split: prod.splits)

lemma reader_step_inv: "reader_step h s s' \<Longrightarrow> system_inv s \<Longrightarrow> system_inv s'"
proof (induction rule: reader_step.induct)
  case (head s c T)
  show ?case
  proof (cases "sc_running (ds_client s)")
    case True
    then show ?thesis
      by (intro move_inv [OF head.prems _ head.hyps, where g' = "InRead c"]) (simp_all add: same_links_def)
  next
    case False
    then show ?thesis using reading_conn [OF head.prems False] head.hyps
      by (intro leave_inv [OF head.prems _ head.hyps]) (simp_all add: same_links_def)
  qed
next
  case (frame s c T f)
  show ?case by (rule move_inv [OF frame.prems _ frame.hyps, where g' = "Handling c f"]) (simp_all add: same_links_def)
next
  case (error s c T)
  show ?case by (rule move_inv [OF error.prems _ error.hyps, where g' = "Losing c False"]) (simp_all add: same_links_def)
next
  case (command s c f T a cl d)
  note links = handleCommand_links [OF command.hyps(2)]
  show ?case
    by (rule move_inv [OF command.prems _ command.hyps(1), where g' = "Answering c a"]) (simp_all add: same_links_def links)
next
  case (answer s c a T b ok s1)
  note fr = safeWriteFrame_frame [OF answer.hyps(3)]
  consider "\<not> an_shutdown a" | "an_shutdown a" "ds_shutdown s" | "an_shutdown a" "\<not> ds_shutdown s" by blast
  then show ?case
  proof cases
    case 1
    then show ?thesis
      by (intro move_inv [OF answer.prems _ answer.hyps(1), where g' = "Reading c"]) (simp_all add: same_links_def fr)
  next
    case 2
    then show ?thesis
      by (intro leave_inv [OF answer.prems _ answer.hyps(1)]) (simp_all add: same_links_def fr)
  next
    case 3
    then show ?thesis
      by (intro move_inv [OF answer.prems _ answer.hyps(1), where g' = StopCall]) (simp_all add: same_links_def fr)
  qed
qed

lemma event_step_inv: "event_step s s' \<Longrightarrow> system_inv s \<Longrightarrow> system_inv s'"
proof (induction rule: event_step.induct)
  case (stop s T)
  show ?case by (rule leave_inv [OF stop.prems _ stop.hyps(1)]) (simp_all add: same_links_def stop.hyps)
next
  case (receive s T ev rest)
  show ?case
    by (rule move_inv [OF receive.prems _ receive.hyps(1), where g' = "Received ev"]) (simp_all add: same_links_def)
next
  case (inspect s ev T)
  show ?case
    by (rule move_inv [OF inspect.prems _ inspect.hyps, where
          g' = "case ev of None \<Rightarrow> Selecting | Some e \<Rightarrow> if sc_paused (ds_client s) then Selecting else Routing e"])
      (simp_all add: same_links_def split: option.split)
next
  case (route s e T)
  show ?case
    by (rule move_inv [OF route.prems _ route.hyps, where
          g' = "case sc_conn (ds_client s) of None \<Rightarrow> Selecting | Some c \<Rightarrow> Writing e c"])
      (simp_all add: same_links_def split: option.split)
next
  case (push s e c T b ok s1)
  show ?case
    by (rule move_inv [OF push.prems _ push.hyps(1), where g' = "if ok then Selecting else Losing c True"])
      (simp_all add: same_links_def safeWriteFrame_frame [OF push.hyps(3)])
qed

text \<open>The steps that change the connection, conjunct by conjunct.\<close>

lemma inv_parts:
  assumes "system_inv s" "ds_threads s = add_mset g T"
  shows "\<not> ds_exited s" "link_inv s" "reader_inv s" "owner_inv s" "loop_inv s"
  using assms by (auto simp: system_inv_def split: if_splits)

lemma system_invI:
  "\<not> ds_exited s \<Longrightarrow> link_inv s \<Longrightarrow> reader_inv s \<Longrightarrow> owner_inv s \<Longrightarrow> loop_inv s \<Longrightarrow> system_inv s"
  by (simp add: system_inv_def)

lemma none_reconnects:
  "size (filter_mset reconnects T) = 0 \<Longrightarrow> g \<in># T \<Longrightarrow> \<not> reconnects g"
  by (auto simp: filter_mset_eq_conv)

lemma loss_step_inv: "loss_step s s' \<Longrightarrow> system_inv s \<Longrightarrow> system_inv s'"
proof (induction rule: loss_step.induct)
  case (locked s c ev T act cl)
  note p = inv_parts [OF locked.prems locked.hyps(1)]
  show ?case
  proof (cases act)
    case False
    then have cl: "cl = ds_client s" and n: "sc_conn (ds_client s) \<noteq> Some c"
      using locked.hyps(2) p(2) by (auto simp: handleConnectionLoss_def link_inv_def Let_def split: if_splits)
    show ?thesis
    proof (cases ev)
      case True
      then show ?thesis using False cl
        by (intro move_inv [OF locked.prems _ locked.hyps(1), where g' = Selecting]) (simp_all add: same_links_def resume_def)
    next
      case noev: False
      then show ?thesis using False cl n
        by (intro leave_inv [OF locked.prems _ locked.hyps(1)]) (auto simp: same_links_def resume_def)
    qed
  next
    case True
    then have st: "sc_running (ds_client s)" "sc_conn (ds_client s) = Some c" "\<not> sc_reconnecting (ds_client s)"
      and cl: "cl = (ds_client s)\<lparr>sc_reconnecting := True, sc_conn := None\<rparr>"
      using locked.hyps(2) by (auto simp: handleConnectionLoss_def split: if_splits)
    have n: "size (filter_mset reconnects T) = 0" using p(2) st locked.hyps(1) by (simp add: link_inv_def number_def Let_def)
    have "c < ds_opened s" using p(3) st by (simp add: reader_inv_def)
    then show ?thesis using True cl
    proof (intro system_invI)
      show "owner_inv (s\<lparr>ds_threads := if act then add_mset (Closing c ev) T else resume ev T, ds_client := cl\<rparr>)"
        using p(4) st n True cl locked.hyps(1) none_reconnects [OF n] \<open>c < ds_opened s\<close>
        by (auto simp: owner_inv_def)
    qed (use p n st locked.hyps(1) in \<open>simp_all add: link_inv_def reader_inv_def loop_inv_def number_def Let_def split: if_splits\<close>)
  qed
next
  case (close s c ev T)
  note p = inv_parts [OF close.prems close.hyps(1)]
  have none: "sc_conn (ds_client s) = None" and n: "size (filter_mset reconnects T) = 0"
    using p(2) close.hyps by (auto simp: link_inv_def number_def Let_def split: if_splits)
  have c: "c < ds_opened s" using p(4) close.hyps by (simp add: owner_inv_def)
  have "Installing c \<notin># T" using none_reconnects [OF n, of "Installing c"] by auto
  then show ?case
  proof (intro system_invI)
    show "owner_inv (s\<lparr>ds_threads := add_mset (Reconnecting 1) (resume ev T), ds_closed := insert c (ds_closed s)\<rparr>)"
      using p(4) n close.hyps \<open>Installing c \<notin># T\<close> c none by (auto simp: owner_inv_def number_def resume_def)
  qed (use p n none close.hyps in \<open>simp_all add: link_inv_def reader_inv_def loop_inv_def number_def Let_def resume_def reconnectRetryCount_def split: if_splits\<close>)
qed

lemma reconnect_step_inv: "reconnect_step s s' \<Longrightarrow> system_inv s \<Longrightarrow> system_inv s'"
proof (induction rule: reconnect_step.induct)
  case (head s i T)
  note p = inv_parts [OF head.prems head.hyps]
  show ?case
  proof (cases "i \<le> reconnectRetryCount \<and> \<not> sc_running (ds_client s)")
    case True
    have n: "size (filter_mset reconnects T) = 0"
      using p(2) head.hyps True by (simp add: link_inv_def number_def Let_def)
    show ?thesis
      using p head.hyps True n by (intro system_invI) (simp_all add: inv_defs del: size_eq_0_iff_empty)
  next
    case False
    then show ?thesis
      using p(5) head.hyps
      by (intro move_inv [OF head.prems _ head.hyps, where g' = "if i \<le> reconnectRetryCount then Dialing i else GivingUp"])
        (auto simp: same_links_def loop_inv_def)
  qed
next
  case (dialled s i T)
  note p = inv_parts [OF dialled.prems dialled.hyps]
  have n: "size (filter_mset reconnects T) = 0" and none: "sc_conn (ds_client s) = None"
    using p(2) dialled.hyps by (auto simp: link_inv_def number_def Let_def split: if_splits)
  show ?case
  proof (rule system_invI)
    show "owner_inv (s\<lparr>ds_threads := add_mset (Installing (ds_opened s)) T, ds_opened := Suc (ds_opened s)\<rparr>)"
      using p(4) n none dialled.hyps by (auto simp: owner_inv_def number_def less_Suc_eq)
  qed (use p n none dialled.hyps in \<open>simp_all add: link_inv_def reader_inv_def loop_inv_def number_def Let_def split: if_splits\<close>)
next
  case (refused s i T)
  show ?case
    using inv_parts(5) [OF refused.prems refused.hyps] refused.hyps
    by (intro move_inv [OF refused.prems _ refused.hyps, where g' = "Reconnecting (i + 1)"])
      (auto simp: same_links_def loop_inv_def)
next
  case (install s c T ok cl)
  note p = inv_parts [OF install.prems install.hyps(1)]
  have n: "size (filter_mset reconnects T) = 0" and none: "sc_conn (ds_client s) = None"
    using p(2) install.hyps(1) by (auto simp: link_inv_def number_def Let_def split: if_splits)
  have c: "c < ds_opened s" "c \<notin> ds_closed s" using p(4) install.hyps(1) by (auto simp: owner_inv_def)
  have inst: "Installing c' \<notin># T" for c' using none_reconnects [OF n, of "Installing c'"] by auto
  show ?case
  proof (rule system_invI)
    show "link_inv (s\<lparr>ds_threads := if ok then add_mset (Reading c) T else T, ds_client := cl,
        ds_closed := if ok then ds_closed s else insert c (ds_closed s)\<rparr>)"
      using p(2) n install.hyps by (auto simp: link_inv_def number_def Let_def reconnect_install_def simp del: size_eq_0_iff_empty split: if_splits)
    show "reader_inv (s\<lparr>ds_threads := if ok then add_mset (Reading c) T else T, ds_client := cl,
        ds_closed := if ok then ds_closed s else insert c (ds_closed s)\<rparr>)"
      using p(3) none c install.hyps(2) by (auto simp: reader_inv_def reconnect_install_def split: if_splits)
    show "owner_inv (s\<lparr>ds_threads := if ok then add_mset (Reading c) T else T, ds_client := cl,
        ds_closed := if ok then ds_closed s else insert c (ds_closed s)\<rparr>)"
      using p(4) n none inst c install.hyps by (auto simp: owner_inv_def number_def reconnect_install_def split: if_splits)
  qed (use p install.hyps in \<open>auto simp: loop_inv_def number_def reconnect_install_def split: if_splits\<close>)
next
  case (give_up s T report cl)
  note p = inv_parts [OF give_up.prems give_up.hyps(1)]
  have n: "size (filter_mset reconnects T) = 0" and none: "sc_conn (ds_client s) = None"
    using p(2) give_up.hyps(1) by (auto simp: link_inv_def number_def Let_def split: if_splits)
  show ?case
  proof (rule system_invI)
    show "owner_inv (s\<lparr>ds_threads := if report then add_mset Reporting T else T, ds_client := cl\<rparr>)"
      using p(4) n none give_up.hyps by (auto simp: owner_inv_def number_def reconnect_give_up_def split: if_splits)
  qed (use p n none give_up.hyps in
      \<open>auto simp: link_inv_def reader_inv_def loop_inv_def number_def Let_def reconnect_give_up_def
        simp del: size_eq_0_iff_empty split: if_splits\<close>)
qed

lemma stop_step_inv: "stop_step s s' \<Longrightarrow> system_inv s \<Longrightarrow> system_inv s'"
proof (induction rule: stop_step.induct)
  case (signal s)
  show ?case by (rule spawn_inv [OF signal.prems _ signal.hyps(1), where g = StopCall]) (simp_all add: same_links_def)
next
  case (report s T)
  note p = inv_parts [OF report.prems report.hyps]
  show ?case
  proof (rule system_invI)
    show "owner_inv (s\<lparr>ds_threads := if ds_shutdown s then T else add_mset StopCall T, ds_shutdown := True\<rparr>)"
      using p(4) report.hyps by (auto simp: owner_inv_def number_def)
  qed (use p report.hyps in
      \<open>auto simp: link_inv_def reader_inv_def loop_inv_def number_def Let_def split: if_splits\<close>)
next
  case (locked s T c cl)
  note p = inv_parts [OF locked.prems locked.hyps(1)]
  have cl: "c = sc_conn (ds_client s)"
    "cl = (ds_client s)\<lparr>sc_running := False, sc_reconnecting := False, sc_conn := None\<rparr>"
    using locked.hyps(2) by (simp_all add: Stop_locked_def)
  have n: "size (filter_mset reconnects T) \<le> 1" "c \<noteq> None \<Longrightarrow> size (filter_mset reconnects T) = 0"
    using p(2) locked.hyps(1) cl(1)
    by (auto simp: link_inv_def number_def Let_def simp del: size_eq_0_iff_empty split: if_splits)
  show ?case
  proof (rule system_invI)
    show "owner_inv (s\<lparr>ds_threads := add_mset (Stopping c) T, ds_client := cl\<rparr>)"
      using p(3,4) n(2) cl locked.hyps(1)
      by (cases "sc_conn (ds_client s)") (auto simp: owner_inv_def reader_inv_def number_def)
  qed (use p n cl locked.hyps(1) in
      \<open>auto simp: link_inv_def reader_inv_def loop_inv_def number_def Let_def split: if_splits\<close>)
next
  case (close s c T)
  note p = inv_parts [OF close.prems close.hyps]
  have inst: "c = None" if "Installing c' \<in># T" for c'
    using p(4) close.hyps that none_reconnects [of T "Installing c'"] by (cases c) (auto simp: owner_inv_def number_def)
  show ?case
  proof (rule system_invI)
    show "reader_inv (s\<lparr>ds_threads := add_mset Exiting T, ds_closed := ds_closed s \<union> set_option c,
        ds_client := (ds_client s)\<lparr>sc_stopCh := True\<rparr>\<rparr>)"
      using p(2,3,4) close.hyps by (cases c) (auto simp: reader_inv_def owner_inv_def link_inv_def Let_def)
    show "owner_inv (s\<lparr>ds_threads := add_mset Exiting T, ds_closed := ds_closed s \<union> set_option c,
        ds_client := (ds_client s)\<lparr>sc_stopCh := True\<rparr>\<rparr>)"
      using p(4) inst close.hyps by (cases c) (auto simp: owner_inv_def number_def)
  qed (use p close.hyps in \<open>auto simp: link_inv_def loop_inv_def number_def Let_def split: if_splits\<close>)
next
  case (exit s T)
  then show ?case by (simp add: system_inv_def)
qed

lemma reachable_inv: "reachable h s \<Longrightarrow> system_inv s"
proof (induction rule: reachable.induct)
  case (start dial token addr cl d)
  then show ?case by (rule connected_inv)
next
  case (step s s')
  from step.hyps(2) step.IH show ?case
    unfolding system_step_def
    by (auto intro: send_step_inv reader_step_inv loss_step_inv reconnect_step_inv event_step_inv stop_step_inv)
qed

end
