(* ===== verification/BT_SocketDelivery.thy ===== *)
theory BT_SocketDelivery
  imports BT_SocketInv
begin

text \<open>
  What reaches the app over the connections of the socket client: frames are written whole or cut at the end of a
  connection that is given up, and the events among them are events that entered the channel, in their order.
\<close>

section \<open>Writing a frame\<close>

lemma frame_writes:
  "writes [(0, [FrameMagic]), (1, [t]), (2, be_bytes 4 w)] (replicate FrameHeaderLen 0) =
     [FrameMagic, t] @ be_bytes 4 (w :: u32)"
  using WriteFrame_buffer [of "\<lparr>fr_Type = t, fr_Payload = []\<rparr>" "[]"]
  by (simp add: writes_zeroed FrameHeaderLen_def)

definition header_bytes_of :: "u8 \<Rightarrow> bytes \<Rightarrow> bytes" where
  "header_bytes_of t p = [FrameMagic, t] @ be_bytes 4 (of_nat (length p) :: u32)"

lemma length_header_bytes_of: "length (header_bytes_of t p) = 6"
  by (simp add: header_bytes_of_def)

lemma frame_bytes_split: "frame_bytes \<lparr>fr_Type = t, fr_Payload = p\<rparr> = header_bytes_of t p @ p"
  by (simp add: frame_bytes_def header_bytes_of_def)

lemma WriteFrame_split:
  "length p \<le> MaxPayloadLen \<Longrightarrow> WriteFrame wr w t p =
     (case wr w (header_bytes_of t p) of
        (w1, False) \<Rightarrow> (w1, Some ErrWriteHeader)
      | (w1, True) \<Rightarrow>
          if length p > 0 then
            (case wr w1 p of (w2, False) \<Rightarrow> (w2, Some ErrWritePayload) | (w2, True) \<Rightarrow> (w2, None))
          else (w1, None))"
  unfolding WriteFrame_def Let_def header_bytes_of_def frame_writes by (simp add: leD del: length_greater_0_conv)

lemma WriteFrame_conn:
  assumes "length p \<le> MaxPayloadLen"
  shows "WriteFrame conn_write (w, None) t p = ((w @ frame_bytes \<lparr>fr_Type = t, fr_Payload = p\<rparr>, None), None)"
    and "k < length p + 6 \<Longrightarrow> \<exists>b e. WriteFrame conn_write (w, Some k) t p =
      ((w @ take k (frame_bytes \<lparr>fr_Type = t, fr_Payload = p\<rparr>), b), Some e) \<and> e \<noteq> ErrPayloadTooLong"
    and "length p + 6 \<le> k \<Longrightarrow> \<exists>b. WriteFrame conn_write (w, Some k) t p =
      ((w @ frame_bytes \<lparr>fr_Type = t, fr_Payload = p\<rparr>, b), None)"
  using assms
  by (auto simp: WriteFrame_split conn_write_def frame_bytes_split length_header_bytes_of)

abbreviation fits_frame :: "Frame \<Rightarrow> bool" where
  "fits_frame f \<equiv> length (fr_Payload f) \<le> MaxPayloadLen"

lemma safeWriteFrame_cases:
  assumes "safeWriteFrame b c t p s = (ok, s1)" "can_write b c s" "f = \<lparr>fr_Type = t, fr_Payload = p\<rparr>"
  obtains (written) "ok" "fits_frame f" "c \<notin> ds_broken s" "ds_out s1 = (ds_out s)(c := ds_out s c @ frame_bytes f)"
      "ds_broken s1 = ds_broken s"
    | (cut) n where "\<not> ok" "fits_frame f" "n < length (frame_bytes f)" "c \<in> ds_broken s \<longrightarrow> n = 0"
      "ds_out s1 = (ds_out s)(c := ds_out s c @ take n (frame_bytes f))" "ds_broken s1 = insert c (ds_broken s)"
    | (too_long) "\<not> ok" "\<not> fits_frame f" "ds_out s1 = ds_out s" "ds_broken s1 = ds_broken s"
proof (cases "length p \<le> MaxPayloadLen")
  case False
  then show thesis using assms too_long by (auto simp: safeWriteFrame_def WriteFrame_def)
next
  case fit: True
  show thesis
  proof (cases b)
    case None
    then show thesis
      using assms written fit WriteFrame_conn(1) [OF fit] by (auto simp: safeWriteFrame_def can_write_def)
  next
    case (Some k)
    show thesis
    proof (cases "k < length p + 6")
      case True
      then obtain b' e where "WriteFrame conn_write (ds_out s c, Some k) t p =
          ((ds_out s c @ take k (frame_bytes f), b'), Some e)" "e \<noteq> ErrPayloadTooLong"
        using WriteFrame_conn(2) [OF fit True] assms(3) by blast
      then show thesis using assms True Some fit cut [of k] by (auto simp: safeWriteFrame_def can_write_def)
    next
      case False
      then obtain b' where "WriteFrame conn_write (ds_out s c, Some k) t p = ((ds_out s c @ frame_bytes f, b'), None)"
        using WriteFrame_conn(3) [OF fit, of k] assms(3) by auto
      then show thesis using assms False Some fit written by (auto simp: safeWriteFrame_def can_write_def)
    qed
  qed
qed

section \<open>Frames on a connection\<close>

definition event_frame :: "BinderEventPayload \<Rightarrow> Frame" where
  "event_frame e = \<lparr>fr_Type = MsgTypeBinderEvent, fr_Payload = Encode e\<rparr>"

definition is_event :: "Frame \<Rightarrow> bool" where
  "is_event f \<longleftrightarrow> fr_Type f = MsgTypeBinderEvent"

definition events_on :: "nat \<Rightarrow> (nat \<times> BinderEventPayload) list \<Rightarrow> BinderEventPayload list" where
  "events_on c ds = map snd (filter (\<lambda>(c', _). c' = c) ds)"

definition cut_frame :: "bytes \<Rightarrow> bool" where
  "cut_frame rest \<longleftrightarrow> (\<exists>f n. fits_frame f \<and> n < length (frame_bytes f) \<and> rest = take n (frame_bytes f))"

definition wire_ok :: "'d system \<Rightarrow> nat \<Rightarrow> bool" where
  "wire_ok s c \<longleftrightarrow> (\<exists>fs rest. ds_out s c = concat (map frame_bytes fs) @ rest \<and> list_all fits_frame fs \<and>
     cut_frame rest \<and> (c \<notin> ds_broken s \<longrightarrow> rest = []) \<and> filter is_event fs = map event_frame (events_on c (ds_delivered s)))"

definition wire_inv :: "'d system \<Rightarrow> bool" where
  "wire_inv s \<longleftrightarrow> (\<forall>c. wire_ok s c) \<and> (\<forall>c a. Answering c a \<in># ds_threads s \<longrightarrow> an_type a \<noteq> MsgTypeBinderEvent)"

lemma cut_frame_Nil: "cut_frame []"
  unfolding cut_frame_def by (rule exI [of _ "\<lparr>fr_Type = 0, fr_Payload = []\<rparr>"], rule exI [of _ 0]) simp

text \<open>One write, of an event or of an answer.\<close>

lemma write_wire_ok:
  assumes "safeWriteFrame b c t p s = (ok, s1)" "can_write b c s" "wire_ok s c'"
    and "is_event \<lparr>fr_Type = t, fr_Payload = p\<rparr> \<longrightarrow> p = Encode e"
    and "ds_out s2 = ds_out s1" "ds_broken s2 = ds_broken s1"
    and "ds_delivered s2 = (if ok \<and> is_event \<lparr>fr_Type = t, fr_Payload = p\<rparr> then ds_delivered s @ [(c, e)] else ds_delivered s)"
  shows "wire_ok s2 c'"
proof -
  let ?f = "\<lparr>fr_Type = t, fr_Payload = p\<rparr>"
  obtain fs rest where w: "ds_out s c' = concat (map frame_bytes fs) @ rest" "list_all fits_frame fs" "cut_frame rest"
      "c' \<notin> ds_broken s \<longrightarrow> rest = []" "filter is_event fs = map event_frame (events_on c' (ds_delivered s))"
    using assms(3) unfolding wire_ok_def by blast
  from assms(1,2) refl show ?thesis
  proof (cases rule: safeWriteFrame_cases)
    case written
    show ?thesis
    proof (cases "c' = c")
      case True
      have "?f = event_frame e" if "is_event ?f" using that assms(4) by (simp add: is_event_def event_frame_def)
      then show ?thesis
        unfolding wire_ok_def using w True written assms(5-7) cut_frame_Nil
        by (intro exI [of _ "fs @ [?f]"] exI [of _ "[]"]) (auto simp: events_on_def)
    next
      case False
      then show ?thesis
        unfolding wire_ok_def using w written assms(5-7)
        by (intro exI [of _ fs] exI [of _ rest]) (auto simp: events_on_def)
    qed
  next
    case (cut n)
    show ?thesis
    proof (cases "c' = c")
      case True
      have "cut_frame (take n (frame_bytes ?f))" unfolding cut_frame_def using cut(2,3) by blast
      then have "cut_frame (rest @ take n (frame_bytes ?f))"
        using w(3,4) cut(4) True by (cases "c \<in> ds_broken s") simp_all
      then show ?thesis
        unfolding wire_ok_def using w True cut assms(5-7)
        by (intro exI [of _ fs] exI [of _ "rest @ take n (frame_bytes ?f)"]) simp
    next
      case False
      then show ?thesis
        unfolding wire_ok_def using w cut assms(5-7) by (intro exI [of _ fs] exI [of _ rest]) simp
    qed
  next
    case too_long
    then show ?thesis
      unfolding wire_ok_def using w assms(5-7) by (intro exI [of _ fs] exI [of _ rest]) simp
  qed
qed

lemma wire_keep:
  assumes "wire_inv s" "ds_out s' = ds_out s" "ds_broken s' = ds_broken s" "ds_delivered s' = ds_delivered s"
    and "\<And>c a. Answering c a \<in># ds_threads s' \<Longrightarrow> Answering c a \<in># ds_threads s \<or> an_type a \<noteq> MsgTypeBinderEvent"
  shows "wire_inv s'"
  using assms unfolding wire_inv_def wire_ok_def by metis

lemma quiet_steps_wire:
  "send_step s s' \<Longrightarrow> wire_inv s \<Longrightarrow> wire_inv s'"
  "loss_step s s' \<Longrightarrow> wire_inv s \<Longrightarrow> wire_inv s'"
  "reconnect_step s s' \<Longrightarrow> wire_inv s \<Longrightarrow> wire_inv s'"
  "stop_step s s' \<Longrightarrow> wire_inv s \<Longrightarrow> wire_inv s'"
  subgoal by (induction rule: send_step.induct) (erule wire_keep; auto split: if_splits)+
  subgoal by (induction rule: loss_step.induct) (erule wire_keep; auto simp: resume_def split: if_splits)+
  subgoal by (induction rule: reconnect_step.induct) (erule wire_keep; auto split: if_splits)+
  subgoal by (induction rule: stop_step.induct) (erule wire_keep; auto split: if_splits)+
  done

lemma answering_rest:
  "wire_inv s \<Longrightarrow> ds_threads s = add_mset g T \<Longrightarrow> Answering c a \<in># T \<Longrightarrow> an_type a \<noteq> MsgTypeBinderEvent"
  by (simp add: wire_inv_def)

lemma reader_step_wire: "reader_step h s s' \<Longrightarrow> wire_inv s \<Longrightarrow> wire_inv s'"
proof (induction rule: reader_step.induct)
  case (command s c f T a cl d)
  have "an_type a \<noteq> MsgTypeBinderEvent"
    using handleCommand_links(6) [OF command.hyps(2)]
    by (auto simp: MsgTypeAck_def MsgTypeError_def MsgTypePong_def MsgTypeBinderEvent_def)
  then show ?case by (intro wire_keep [OF command.prems]) (auto simp: command.hyps(1))
next
  case (answer s c a T b ok s1)
  have ty: "an_type a \<noteq> MsgTypeBinderEvent" and ok: "wire_ok s c'" for c'
    using answer.prems answer.hyps(1) unfolding wire_inv_def by simp_all
  show ?case
    unfolding wire_inv_def
  proof (intro conjI allI impI)
    fix c'
    show "wire_ok (s1\<lparr>ds_threads := if \<not> an_shutdown a then add_mset (Reading c) T else if ds_shutdown s then T
        else add_mset StopCall T, ds_shutdown := ds_shutdown s \<or> an_shutdown a\<rparr>) c'"
      by (rule write_wire_ok [OF answer.hyps(3,2) ok])
        (simp_all add: is_event_def ty safeWriteFrame_frame(8) [OF answer.hyps(3)])
  qed (use answering_rest [OF answer.prems answer.hyps(1)] in \<open>auto split: if_splits\<close>)
qed (erule wire_keep; auto split: if_splits)+

lemma event_step_wire: "event_step s s' \<Longrightarrow> wire_inv s \<Longrightarrow> wire_inv s'"
proof (induction rule: event_step.induct)
  case (push s e c T b ok s1)
  have ok: "wire_ok s c'" for c' using push.prems unfolding wire_inv_def by blast
  show ?case
    unfolding wire_inv_def
  proof (intro conjI allI impI)
    fix c'
    show "wire_ok (s1\<lparr>ds_threads := add_mset (if ok then Selecting else Losing c True) T,
        ds_delivered := if ok then ds_delivered s @ [(c, e)] else ds_delivered s\<rparr>) c'"
      by (rule write_wire_ok [OF push.hyps(3,2) ok, where e = e]) (simp_all add: is_event_def)
  qed (use answering_rest [OF push.prems push.hyps(1)] in \<open>auto split: if_splits\<close>)
qed (erule wire_keep; auto split: if_splits option.splits)+

lemma connected_wire: "wire_inv (connected cl d)"
  unfolding wire_inv_def wire_ok_def
  by (intro conjI allI exI [of _ "[]"]) (auto simp: connected_def events_on_def cut_frame_Nil)

lemma reachable_wire: "reachable h s \<Longrightarrow> wire_inv s"
proof (induction rule: reachable.induct)
  case (start dial token addr cl d)
  show ?case by (rule connected_wire)
next
  case (step s s')
  from step.hyps(2) step.IH show ?case
    unfolding system_step_def by (auto intro: quiet_steps_wire reader_step_wire event_step_wire)
qed

section \<open>The order of events\<close>

fun holding :: "goroutine \<Rightarrow> BinderEventPayload option list" where
  "holding (Received ev) = [ev]"
| "holding (Routing e) = [Some e]"
| "holding (Writing e c) = [Some e]"
| "holding _ = []"

text \<open>What entered the channel was taken from it, is in the hands of the event loop, or is still there.\<close>

definition order_inv :: "'d system \<Rightarrow> bool" where
  "order_inv s \<longleftrightarrow> (\<exists>taken held. ds_accepted s = taken @ held @ sc_eventChan (ds_client s) \<and>
     subseq (map (\<lambda>(c, e). Some e) (ds_delivered s)) taken \<and> (\<forall>g\<in>#ds_threads s. sends g \<longrightarrow> held = holding g))"

lemma order_keep:
  assumes "order_inv s" "ds_accepted s' = ds_accepted s" "sc_eventChan (ds_client s') = sc_eventChan (ds_client s)"
    and "ds_delivered s' = ds_delivered s"
    and "\<And>g'. g' \<in># ds_threads s' \<Longrightarrow> sends g' \<Longrightarrow> \<exists>g\<in>#ds_threads s. sends g \<and> holding g = holding g'"
  shows "order_inv s'"
  using assms unfolding order_inv_def by metis

lemma only_sender:
  assumes "system_inv s" "ds_threads s = add_mset g T" "sends g" "g' \<in># T"
  shows "\<not> sends g'"
  using inv_parts(5) [OF assms(1,2)] assms(2-4) by (auto simp: loop_inv_def number_def)

text \<open>A step of the event loop from position \<open>g\<close> to \<open>g'\<close>.\<close>

lemma order_move:
  assumes "order_inv s" "system_inv s" "ds_threads s = add_mset g T" "sends g" "ds_threads s' = add_mset g' T"
    and "ds_accepted s' = ds_accepted s"
    and "\<And>taken. subseq (map (\<lambda>(c, e). Some e) (ds_delivered s)) taken \<Longrightarrow>
      \<exists>taken'. taken' @ holding g' @ sc_eventChan (ds_client s') = taken @ holding g @ sc_eventChan (ds_client s) \<and>
        subseq (map (\<lambda>(c, e). Some e) (ds_delivered s')) taken'"
  shows "order_inv s'"
proof -
  obtain taken held where o: "ds_accepted s = taken @ held @ sc_eventChan (ds_client s)"
      "subseq (map (\<lambda>(c, e). Some e) (ds_delivered s)) taken" "\<forall>g\<in>#ds_threads s. sends g \<longrightarrow> held = holding g"
    using assms(1) unfolding order_inv_def by blast
  have "held = holding g" using o(3) assms(3,4) by simp
  moreover obtain taken' where "taken' @ holding g' @ sc_eventChan (ds_client s') = taken @ holding g @ sc_eventChan (ds_client s)"
      "subseq (map (\<lambda>(c, e). Some e) (ds_delivered s')) taken'"
    using assms(7) [OF o(2)] by blast
  moreover have "\<forall>k\<in>#ds_threads s'. sends k \<longrightarrow> holding g' = holding k"
    using only_sender [OF assms(2-4)] assms(5) by auto
  ultimately show ?thesis using o(1) assms(6) unfolding order_inv_def by metis
qed

lemma send_step_order: "send_step s s' \<Longrightarrow> order_inv s \<Longrightarrow> order_inv s'"
proof (induction rule: send_step.induct)
  case (offer s ev T)
  obtain taken held where o: "ds_accepted s = taken @ held @ sc_eventChan (ds_client s)"
      "subseq (map (\<lambda>(c, e). Some e) (ds_delivered s)) taken" "\<forall>g\<in>#ds_threads s. sends g \<longrightarrow> held = holding g"
    using offer.prems unfolding order_inv_def by blast
  then show ?case
    unfolding order_inv_def using offer.hyps
    by (intro exI [of _ taken] exI [of _ held]) (auto simp: offer_event_def)
qed (erule order_keep; auto split: if_splits)+

lemma quiet_steps_order:
  "reader_step h s s' \<Longrightarrow> order_inv s \<Longrightarrow> order_inv s'"
  "loss_step s s' \<Longrightarrow> order_inv s \<Longrightarrow> order_inv s'"
  "reconnect_step s s' \<Longrightarrow> order_inv s \<Longrightarrow> order_inv s'"
  "stop_step s s' \<Longrightarrow> order_inv s \<Longrightarrow> order_inv s'"
  subgoal by (induction rule: reader_step.induct)
      (erule order_keep; auto simp: handleCommand_links safeWriteFrame_frame split: if_splits)+
  subgoal by (induction rule: loss_step.induct)
      (erule order_keep; auto simp: resume_def handleConnectionLoss_def split: if_splits)+
  subgoal by (induction rule: reconnect_step.induct)
      (erule order_keep; auto simp: reconnect_install_def reconnect_give_up_def split: if_splits)+
  subgoal by (induction rule: stop_step.induct) (erule order_keep; auto simp: Stop_locked_def split: if_splits)+
  done

lemma event_step_order: "event_step s s' \<Longrightarrow> order_inv s \<Longrightarrow> system_inv s \<Longrightarrow> order_inv s'"
proof (induction rule: event_step.induct)
  case (stop s T)
  then show ?case by (intro order_keep [OF stop.prems(1)]) auto
next
  case (receive s T ev rest)
  show ?case by (rule order_move [OF receive.prems receive.hyps(1)]) (auto simp: receive.hyps(2))
next
  case (inspect s ev T)
  show ?case
    by (rule order_move [OF inspect.prems inspect.hyps]) (auto split: option.split intro: list_emb_append2 subseq_order.order_trans)
next
  case (route s e T)
  show ?case by (rule order_move [OF route.prems route.hyps]) (auto split: option.split)
next
  case (push s e c T b ok s1)
  note fr = safeWriteFrame_frame [OF push.hyps(3)]
  show ?case
    by (rule order_move [OF push.prems push.hyps(1), where g' = "if ok then Selecting else Losing c True"]) (auto simp: fr)
qed

lemma connected_order:
  "Connect dial (SetSessionToken token (NewSocketClient addr)) = Some (b, c, cl) \<Longrightarrow> order_inv (connected cl d)"
  by (drule Connect_new) (simp add: order_inv_def connected_def)

lemma reachable_order: "reachable h s \<Longrightarrow> order_inv s"
proof (induction rule: reachable.induct)
  case (start dial token addr cl d)
  then show ?case by (rule connected_order)
next
  case (step s s')
  from step.hyps(2) step.IH reachable_inv [OF step.hyps(1)] show ?case
    unfolding system_step_def by (auto intro: send_step_order quiet_steps_order event_step_order)
qed

section \<open>What the app reads\<close>

lemma read_cut_stream:
  assumes "list_all fits_frame fs" "cut_frame rest" "n \<le> length (concat (map frame_bytes fs) @ rest)"
  shows "\<exists>k e. read_frames (take n (concat (map frame_bytes fs) @ rest)) = (take k fs, Some e) \<and>
    e \<in> {ErrEOF, ErrUnexpectedEOF} \<and> (length (concat (map frame_bytes fs)) \<le> n \<longrightarrow> length fs \<le> k)"
proof -
  obtain f m where f: "fits_frame f" "m < length (frame_bytes f)" "rest = take m (frame_bytes f)"
    using assms(2) unfolding cut_frame_def by blast
  let ?all = "concat (map frame_bytes (fs @ [f]))"
  have eq: "take n (concat (map frame_bytes fs) @ rest) = take n ?all" and n: "n < length ?all"
    using assms(3) f by (auto simp: min_def)
  have "list_all fits_frame (fs @ [f])" using assms(1) f(1) by simp
  from read_frames_cut [OF this less_imp_le [OF n]] obtain k e where
    k: "read_frames (take n ?all) = (take k (fs @ [f]), Some e)" "k \<le> length (fs @ [f])" "e \<in> {ErrEOF, ErrUnexpectedEOF}"
      "length (concat (map frame_bytes (take k (fs @ [f])))) \<le> n"
      "k = length (fs @ [f]) \<or> n < length (concat (map frame_bytes (take (Suc k) (fs @ [f]))))"
    by blast
  have "k \<noteq> length (fs @ [f])" using k(4) n by auto
  then have le: "k \<le> length fs" using k(2) by simp
  moreover have "length fs \<le> k" if "length (concat (map frame_bytes fs)) \<le> n"
  proof (rule ccontr)
    assume "\<not> length fs \<le> k"
    then have "take (Suc k) (fs @ [f]) = take (Suc k) fs" by simp
    moreover have "length (concat (map frame_bytes (take (Suc k) fs))) \<le> length (concat (map frame_bytes fs))"
      by (metis append_take_drop_id concat_append length_append le_add1 map_append)
    ultimately show False using k(5) \<open>k \<noteq> length (fs @ [f])\<close> that by simp
  qed
  ultimately show ?thesis using k(1,3) eq by auto
qed

end
