(* ===== verification/BT_SocketProperties.thy ===== *)
theory BT_SocketProperties
  imports BT_SocketDelivery
begin

text \<open>
  The properties of the socket client over every interleaving of its goroutines: it is never without a connection
  unless it reconnects or reports the loss, reconnecting ends, and what the app reads are events in the order in
  which they were sent.
\<close>

section \<open>Reconnecting\<close>

fun rank :: "goroutine \<Rightarrow> nat" where
  "rank (Reconnecting i) = 2 * (4 - i) + 2"
| "rank (Dialing i) = 2 * (4 - i) + 1"
| "rank (Installing c) = 1"
| "rank GivingUp = 1"
| "rank _ = 0"

definition total_rank :: "'d system \<Rightarrow> nat" where
  "total_rank s = sum_mset (image_mset rank (ds_threads s))"

lemma reconnect_rank: "reconnect_step s s' \<Longrightarrow> system_inv s \<Longrightarrow> total_rank s' < total_rank s"
proof (induction rule: reconnect_step.induct)
  case (dialled s i T)
  then show ?case using inv_parts(5) [OF dialled.prems dialled.hyps]
    by (simp add: total_rank_def loop_inv_def reconnectRetryCount_def)
next
  case (refused s i T)
  then have "i \<le> 3" using inv_parts(5) [OF refused.prems refused.hyps]
    by (simp add: loop_inv_def reconnectRetryCount_def)
  then show ?case using refused by (simp add: total_rank_def)
qed (simp_all add: total_rank_def reconnectRetryCount_def)

lemma rank_reconnects: "\<not> reconnects g \<Longrightarrow> rank g = 0"
  by (cases g) simp_all

lemma rank_attempt: "attempt_ok g \<Longrightarrow> rank g \<le> 8"
  by (cases g) (auto simp: reconnectRetryCount_def)

lemma total_rank_le:
  assumes "system_inv s"
  shows "total_rank s \<le> 8"
proof (cases "ds_exited s")
  case True
  then show ?thesis using assms by (simp add: system_inv_def total_rank_def)
next
  case False
  have n: "size (filter_mset reconnects (ds_threads s)) \<le> 1" and a: "\<forall>g\<in>#ds_threads s. attempt_ok g"
    using assms False
    by (auto simp: system_inv_def link_inv_def loop_inv_def number_def Let_def simp del: size_eq_0_iff_empty split: if_splits)
  have "total_rank s = sum_mset (image_mset rank (filter_mset reconnects (ds_threads s))) +
      sum_mset (image_mset rank (filter_mset (\<lambda>g. \<not> reconnects g) (ds_threads s)))"
    unfolding total_rank_def by (subst multiset_partition [of _ reconnects]) (simp only: image_mset_union sum_mset.union)
  also have "sum_mset (image_mset rank (filter_mset (\<lambda>g. \<not> reconnects g) (ds_threads s))) = 0"
    by (auto simp: rank_reconnects)
  finally have t: "total_rank s = sum_mset (image_mset rank (filter_mset reconnects (ds_threads s)))" by simp
  show ?thesis
  proof (cases "filter_mset reconnects (ds_threads s) = {#}")
    case True
    then show ?thesis by (simp only: t image_mset_empty sum_mset.empty le0)
  next
    case False
    then have "0 < size (filter_mset reconnects (ds_threads s))" by (simp only: nonempty_has_size)
    then have "size (filter_mset reconnects (ds_threads s)) = 1" using n by linarith
    then obtain g where g: "filter_mset reconnects (ds_threads s) = {#g#}" by (rule size_1_singleton_mset [THEN exE])
    then have "g \<in># filter_mset reconnects (ds_threads s)" by (simp only: set_mset_single singletonI)
    then have "g \<in># ds_threads s" by (simp only: set_mset_filter mem_Collect_eq)
    then show ?thesis using t g a rank_attempt by simp
  qed
qed

lemma reconnect_run:
  assumes "system_inv s" "(reconnect_step ^^ n) s s'"
  shows "system_inv s' \<and> n + total_rank s' \<le> total_rank s"
  using assms(2)
proof (induction n arbitrary: s')
  case 0
  then show ?case using assms(1) by simp
next
  case (Suc n)
  then obtain t where "(reconnect_step ^^ n) s t" "reconnect_step t s'" by auto
  then show ?case using Suc.IH [of t] reconnect_step_inv [of t s'] reconnect_rank [of t s'] by auto
qed

text \<open>A goroutine that reconnects can move, once the lost connection is closed.\<close>

lemma reconnect_progress:
  assumes "g \<in># ds_threads s" "reconnects g" "\<forall>c ev. g \<noteq> Closing c ev"
  shows "\<exists>s'. reconnect_step s s'"
proof -
  obtain T where T: "ds_threads s = add_mset g T" using assms(1) by (metis mset_add)
  show ?thesis
  proof (cases g)
    case (Reconnecting i)
    then show ?thesis using reconnect_step.head T by blast
  next
    case (Dialing i)
    then show ?thesis using reconnect_step.refused T by blast
  next
    case (Installing c)
    obtain ok cl where "reconnect_install c (ds_client s) = (ok, cl)" by (rule prod.exhaust)
    then show ?thesis using reconnect_step.install T Installing by blast
  next
    case GivingUp
    obtain report cl where u: "reconnect_give_up (ds_client s) = (report, cl)" by (rule prod.exhaust)
    show ?thesis using reconnect_step.give_up [OF _ u] T GivingUp by blast
  qed (use assms in simp_all)
qed

section \<open>Properties\<close>

text \<open>C4. The daemon is never silently cut off: in every reachable state before the exit, a running client has an open
  connection that is not being replaced and that a goroutine reads (unless the shutdown has begun), or exactly one
  goroutine that reconnects; a client that stopped running was shut down or is reporting the loss. One event loop
  runs until the stop, and every connection but the current one is closed or in the hands of a goroutine that closes
  or installs it next.\<close>

theorem client_never_stranded:
  assumes "reachable h s" "\<not> ds_exited s" "cl = ds_client s"
  shows "(case sc_conn cl of
      Some c \<Rightarrow> sc_running cl \<and> \<not> sc_reconnecting cl \<and> number reconnects s = 0 \<and> c < ds_opened s \<and> c \<notin> ds_closed s \<and>
        (ds_shutdown s \<or> (\<exists>g\<in>#ds_threads s. reads c g))
    | None \<Rightarrow> if sc_running cl then sc_reconnecting cl \<and> number reconnects s = 1
        else ds_shutdown s \<or> Reporting \<in># ds_threads s) \<and>
    number sends s \<le> 1 \<and> (sc_stopCh cl \<or> number sends s = 1) \<and>
    (\<forall>c<ds_opened s. c \<notin> ds_closed s \<longrightarrow> sc_conn cl = Some c \<or> (\<exists>g\<in>#ds_threads s. owns c g))"
proof -
  have i: "link_inv s" "reader_inv s" "owner_inv s" "loop_inv s"
    using reachable_inv [OF assms(1)] assms(2) by (simp_all add: system_inv_def)
  have "number sends s \<le> 1 \<and> (sc_stopCh cl \<or> number sends s = 1)" using i(4) assms(3) by (simp add: loop_inv_def)
  moreover have "\<forall>c<ds_opened s. c \<notin> ds_closed s \<longrightarrow> sc_conn cl = Some c \<or> (\<exists>g\<in>#ds_threads s. owns c g)"
    using i(3) assms(3) by (simp add: owner_inv_def)
  ultimately show ?thesis
    using i(1,2) assms(3) by (auto simp: link_inv_def reader_inv_def Let_def split: option.split if_splits)
qed

text \<open>C20. Reconnecting ends: from any reachable state the reconnecting goroutine makes at most eight steps, whatever
  the dials return, and when it can make no more, a client that still runs has a connection again or has one lost
  connection yet to close.\<close>

theorem reconnecting_ends:
  assumes "reachable h s" "(reconnect_step ^^ n) s s'"
  shows "n \<le> 8 \<and> ((\<nexists>s''. reconnect_step s' s'') \<longrightarrow> \<not> ds_exited s' \<longrightarrow> sc_running (ds_client s') \<longrightarrow>
    sc_conn (ds_client s') \<noteq> None \<or> (\<exists>c ev. Closing c ev \<in># ds_threads s'))"
proof -
  have inv: "system_inv s" using assms(1) by (rule reachable_inv)
  have run: "system_inv s'" "n + total_rank s' \<le> total_rank s" using reconnect_run [OF inv assms(2)] by simp_all
  have "sc_conn (ds_client s') \<noteq> None \<or> (\<exists>c ev. Closing c ev \<in># ds_threads s')"
    if stuck: "\<nexists>s''. reconnect_step s' s''" and "\<not> ds_exited s'" "sc_running (ds_client s')"
  proof (rule disjCI)
    assume "\<not> (\<exists>c ev. Closing c ev \<in># ds_threads s')"
    then have none: "\<not> reconnects g" if "g \<in># ds_threads s'" for g
      using reconnect_progress [of g s'] that stuck by blast
    then have "number reconnects s' = 0" by (simp add: no_reconnects)
    then show "sc_conn (ds_client s') \<noteq> None"
      using run(1) that(2,3) by (auto simp: system_inv_def link_inv_def Let_def split: if_splits)
  qed
  then show ?thesis using run(2) total_rank_le [OF inv] by auto
qed

text \<open>C5. What the app reads: however many bytes of a connection arrive, they split into whole frames and an unfinished
  rest, and the events among the frames are the first of the events that were written to the connection, all of
  them when all bytes arrived. Over all connections the events written are a subsequence of the events that entered
  the channel, each once and in their order.\<close>

theorem events_arrive_in_order:
  assumes "reachable h s" "n \<le> length (ds_out s c)"
  shows "\<exists>frames e. read_frames (take n (ds_out s c)) = (frames, Some e) \<and> e \<in> {ErrEOF, ErrUnexpectedEOF} \<and>
    prefix (filter is_event frames) (map event_frame (events_on c (ds_delivered s))) \<and>
    (n = length (ds_out s c) \<longrightarrow> filter is_event frames = map event_frame (events_on c (ds_delivered s))) \<and>
    subseq (map (\<lambda>(c, e). Some e) (ds_delivered s)) (ds_accepted s)"
proof -
  obtain fs rest where w: "ds_out s c = concat (map frame_bytes fs) @ rest" "list_all fits_frame fs" "cut_frame rest"
      "filter is_event fs = map event_frame (events_on c (ds_delivered s))"
    using reachable_wire [OF assms(1)] unfolding wire_inv_def wire_ok_def by blast
  obtain k e where k: "read_frames (take n (ds_out s c)) = (take k fs, Some e)" "e \<in> {ErrEOF, ErrUnexpectedEOF}"
      "length (concat (map frame_bytes fs)) \<le> n \<longrightarrow> length fs \<le> k"
    using read_cut_stream [OF w(2,3)] assms(2) w(1) by metis
  have "prefix (filter is_event (take k fs)) (filter is_event fs)"
    by (metis append_take_drop_id filter_append prefixI)
  moreover have "take k fs = fs" if "n = length (ds_out s c)" using that k(3) w(1) by simp
  moreover have "subseq (map (\<lambda>(c, e). Some e) (ds_delivered s)) (ds_accepted s)"
    using reachable_order [OF assms(1)] unfolding order_inv_def by (auto intro: list_emb_append2 subseq_order.trans)
  ultimately show ?thesis using k w(4) by auto
qed

section \<open>Examples\<close>

definition sample_client :: SocketClient where
  "sample_client = (SetSessionToken (ascii ''token'') (NewSocketClient []))\<lparr>sc_conn := Some 0, sc_running := True,
     sc_eventLoopStarted := True\<rparr>"

definition sample_handlers :: "unit handlers" where
  "sample_handlers = \<lparr>onSetTarget = None, onPause = None, onResume = None, onShutdown = True\<rparr>"

text \<open>The second attempt to connect succeeds.\<close>

lemma sample_start: "reachable sample_handlers (connected sample_client ())"
proof (rule reachable.start)
  have "connectWithRetry (\<lambda>i. if i = 2 then Some 0 else None) 10 1 = Some 0"
    by (simp add: connectWithRetry.simps)
  then show "Connect (\<lambda>i. if i = 2 then Some 0 else None) (SetSessionToken (ascii ''token'') (NewSocketClient [])) =
      Some (True, 0, sample_client)"
    by (simp add: Connect_def connectRetryCount_def sample_client_def SetSessionToken_def NewSocketClient_def)
qed

definition lost_state :: "unit system" where
  "lost_state = (connected sample_client ())\<lparr>ds_threads := {#Reconnecting 1, Selecting#},
     ds_client := sample_client\<lparr>sc_reconnecting := True, sc_conn := None\<rparr>, ds_closed := {0}\<rparr>"

lemma sample_lost: "reachable sample_handlers lost_state"
proof -
  let ?s = "connected sample_client ()"
  have r1: "reachable sample_handlers (?s\<lparr>ds_threads := {#InRead 0, Selecting#}\<rparr>)"
    using reachable.step [OF sample_start] reader_step.head [of ?s 0 "{#Selecting#}" sample_handlers]
    by (simp add: system_step_def connected_def sample_client_def add_mset_commute)
  have r2: "reachable sample_handlers (?s\<lparr>ds_threads := {#Losing 0 False, Selecting#}\<rparr>)"
    using reachable.step [OF r1] reader_step.error [of "?s\<lparr>ds_threads := {#InRead 0, Selecting#}\<rparr>" 0 "{#Selecting#}"]
    by (simp add: system_step_def)
  have r3: "reachable sample_handlers (?s\<lparr>ds_threads := {#Closing 0 False, Selecting#},
      ds_client := sample_client\<lparr>sc_reconnecting := True, sc_conn := None\<rparr>\<rparr>)"
    using reachable.step [OF r2] loss_step.locked [of "?s\<lparr>ds_threads := {#Losing 0 False, Selecting#}\<rparr>" 0 False "{#Selecting#}" True
        "sample_client\<lparr>sc_reconnecting := True, sc_conn := None\<rparr>"]
    by (simp add: system_step_def handleConnectionLoss_def connected_def sample_client_def SetSessionToken_def NewSocketClient_def)
  show ?thesis
    using reachable.step [OF r3] loss_step.close [of "?s\<lparr>ds_threads := {#Closing 0 False, Selecting#},
        ds_client := sample_client\<lparr>sc_reconnecting := True, sc_conn := None\<rparr>\<rparr>" 0 False "{#Selecting#}"]
    by (simp add: system_step_def lost_state_def resume_def connected_def)
qed

theorem client_never_stranded_witness:
  "reachable sample_handlers lost_state \<and> sc_conn (ds_client lost_state) = None \<and> number reconnects lost_state = 1 \<and>
   number sends lost_state = 1"
  using client_never_stranded [OF sample_lost _ refl] sample_lost
  by (simp add: lost_state_def connected_def sample_client_def SetSessionToken_def NewSocketClient_def)

theorem reconnecting_ends_witness:
  "\<exists>s'. (reconnect_step ^^ 1) lost_state s' \<and> (1 :: nat) \<le> 8 \<and> Dialing 1 \<in># ds_threads s'"
proof -
  let ?s = "lost_state\<lparr>ds_threads := {#Dialing 1, Selecting#}\<rparr>"
  have t: "ds_threads lost_state = add_mset (Reconnecting 1) {#Selecting#}" and "sc_running (ds_client lost_state)"
    by (simp_all add: lost_state_def sample_client_def)
  then have "reconnect_step lost_state ?s"
    using reconnect_step.head [OF t] by (simp add: reconnectRetryCount_def)
  then have "(reconnect_step ^^ 1) lost_state ?s" by (simp only: relpowp_1)
  with reconnecting_ends [OF sample_lost this] show ?thesis by auto
qed

definition sample_payload_event :: BinderEventPayload where
  "sample_payload_event = \<lparr>ev_Timestamp = 5, ev_Pid = 7, ev_Uid = 1000, ev_Code = 3, ev_Flags = 0, ev_DataSize = 0,
     ev_IsReply = 0, ev_BinderDev = 1, ev_TargetKind = 0, ev_ToPid = 8, ev_ToUid = 1001, ev_TargetRef = 0, ev_PairId = 9,
     ev_ParcelData = [], ev_StackTrace = None\<rparr>"

definition sent_state :: "unit system" where
  "sent_state = (connected sample_client ())\<lparr>ds_out := (\<lambda>_. [])(0 := frame_bytes (event_frame sample_payload_event)),
     ds_accepted := [Some sample_payload_event], ds_delivered := [(0, sample_payload_event)]\<rparr>"

text \<open>An event that is sent to an idle client enters the channel and can be written by the event loop.\<close>

lemma idle_client_queues:
  assumes "reachable h s" "\<not> ds_exited s" "ds_client s = cl" "sc_running cl" "\<not> sc_paused cl" "sc_eventChan cl = []"
  shows "reachable h (s\<lparr>ds_threads := ds_threads s, ds_client := cl\<lparr>sc_eventChan := [Some e]\<rparr>,
    ds_accepted := ds_accepted s @ [Some e]\<rparr>)"
proof -
  note [simp] = assms(2-6)
  let ?at = "\<lambda>i. s\<lparr>ds_threads := add_mset (Sending (Some e) i) (ds_threads s)\<rparr>"
  have st: "reachable h u" if "reachable h t" "send_step t u" for t u
    using reachable.step [OF that(1)] that(2) unfolding system_step_def by blast
  have r1: "reachable h (?at 0)" by (rule st [OF assms(1)]) (simp add: send_step.call)
  have r2: "reachable h (?at 1)"
    using st [OF r1] send_step.paused [of "?at 0" "Some e" "ds_threads s"] by simp
  have r3: "reachable h (?at 2)"
    using st [OF r2] send_step.running [of "?at 1" "Some e" "ds_threads s"] by simp
  show ?thesis
    using st [OF r3] send_step.offer [of "?at 2" "Some e" "ds_threads s"] by (simp add: offer_event_def eventChanCap_def)
qed

lemma idle_client_delivers:
  assumes "reachable h s" "\<not> ds_exited s" "ds_threads s = add_mset Selecting T" "ds_client s = cl"
    and "sc_running cl" "\<not> sc_paused cl" "sc_eventChan cl = []" "sc_conn cl = Some c"
    and "c \<notin> ds_broken s \<union> ds_closed s" "length (Encode e) \<le> MaxPayloadLen"
  shows "reachable h (s\<lparr>ds_out := (ds_out s)(c := ds_out s c @ frame_bytes (event_frame e)),
    ds_accepted := ds_accepted s @ [Some e], ds_delivered := ds_delivered s @ [(c, e)]\<rparr>)"
proof -
  note [simp] = assms(2-8)
  have [simp]: "cl\<lparr>sc_eventChan := []\<rparr> = cl" using assms(7) by (cases cl) simp
  let ?go = "\<lambda>g cl. s\<lparr>ds_threads := add_mset g T, ds_client := cl, ds_accepted := ds_accepted s @ [Some e]\<rparr>"
  let ?queued = "cl\<lparr>sc_eventChan := [Some e]\<rparr>"
  have st: "reachable h u" if "reachable h t" "event_step t u" for t u
    using reachable.step [OF that(1)] that(2) unfolding system_step_def by blast
  have r4: "reachable h (?go Selecting ?queued)"
    using idle_client_queues [OF assms(1,2,4-7), of e] by simp
  have r5: "reachable h (?go (Received (Some e)) cl)"
  proof -
    have "event_step (?go Selecting ?queued) ((?go Selecting ?queued)\<lparr>ds_threads := add_mset (Received (Some e)) T,
        ds_client := ?queued\<lparr>sc_eventChan := []\<rparr>\<rparr>)"
      using event_step.receive [of "?go Selecting ?queued" T "Some e" "[]"] by simp
    moreover have "(?go Selecting ?queued)\<lparr>ds_threads := add_mset (Received (Some e)) T,
        ds_client := ?queued\<lparr>sc_eventChan := []\<rparr>\<rparr> = ?go (Received (Some e)) cl" by (cases s) simp
    ultimately have "event_step (?go Selecting ?queued) (?go (Received (Some e)) cl)" by (simp only:)
    then show ?thesis using st [OF r4] by blast
  qed
  have go: "reachable h (?go g' cl)"
    if "reachable h (?go g cl)" "event_step (?go g cl) ((?go g cl)\<lparr>ds_threads := add_mset g' T\<rparr>)" for g g'
  proof -
    have "(?go g cl)\<lparr>ds_threads := add_mset g' T\<rparr> = ?go g' cl" by (cases s) simp
    with that(2) have "event_step (?go g cl) (?go g' cl)" by (simp only:)
    then show ?thesis using st [OF that(1)] by blast
  qed
  have r6: "reachable h (?go (Routing e) cl)"
    by (rule go [OF r5]) (use event_step.inspect [of "?go (Received (Some e)) cl" "Some e" T] in simp)
  have r7: "reachable h (?go (Writing e c) cl)"
    by (rule go [OF r6]) (use event_step.route [of "?go (Routing e) cl" e T] in simp)
  let ?out = "(ds_out s)(c := ds_out s c @ frame_bytes (event_frame e))"
  have w: "safeWriteFrame None c MsgTypeBinderEvent (Encode e) (?go (Writing e c) cl) =
      (True, (?go (Writing e c) cl)\<lparr>ds_out := ?out, ds_broken := ds_broken s\<rparr>)"
    using WriteFrame_conn(1) [OF assms(10)] by (simp add: safeWriteFrame_def event_frame_def)
  have "can_write None c (?go (Writing e c) cl)" using assms(9) by (auto simp: can_write_def)
  from event_step.push [OF _ this w, of T]
  have "event_step (?go (Writing e c) cl) ((?go (Writing e c) cl)\<lparr>ds_out := ?out, ds_broken := ds_broken s,
      ds_threads := add_mset Selecting T, ds_delivered := ds_delivered s @ [(c, e)]\<rparr>)" by simp
  moreover have "(?go (Writing e c) cl)\<lparr>ds_out := ?out, ds_broken := ds_broken s,
      ds_threads := add_mset Selecting T, ds_delivered := ds_delivered s @ [(c, e)]\<rparr> =
      s\<lparr>ds_out := ?out, ds_accepted := ds_accepted s @ [Some e], ds_delivered := ds_delivered s @ [(c, e)]\<rparr>"
    using assms(3,4) by (cases s) simp
  ultimately have "event_step (?go (Writing e c) cl)
      (s\<lparr>ds_out := ?out, ds_accepted := ds_accepted s @ [Some e], ds_delivered := ds_delivered s @ [(c, e)]\<rparr>)"
    by (simp only:)
  then show ?thesis using st [OF r7] by blast
qed

lemma sample_sent: "reachable sample_handlers sent_state"
proof -
  have "length (Encode sample_payload_event) \<le> MaxPayloadLen"
    by (simp add: Encode_bytes tlv_bytes_def sample_payload_event_def MaxPayloadLen_def)
  then have "reachable sample_handlers ((connected sample_client ())
      \<lparr>ds_out := (ds_out (connected sample_client ()))(0 := ds_out (connected sample_client ()) 0 @ frame_bytes (event_frame sample_payload_event)),
       ds_accepted := ds_accepted (connected sample_client ()) @ [Some sample_payload_event],
       ds_delivered := ds_delivered (connected sample_client ()) @ [(0, sample_payload_event)]\<rparr>)"
    by (intro idle_client_delivers [OF sample_start, where T = "{#Reading 0#}" and cl = sample_client])
      (simp_all add: connected_def sample_client_def SetSessionToken_def NewSocketClient_def)
  then show ?thesis by (simp add: sent_state_def connected_def)
qed

theorem events_arrive_in_order_witness:
  "\<exists>frames e. read_frames (ds_out sent_state 0) = (frames, Some e) \<and> filter is_event frames = [event_frame sample_payload_event]"
proof -
  have "ds_delivered sent_state = [(0, sample_payload_event)]" by (simp add: sent_state_def)
  then show ?thesis
    using events_arrive_in_order [OF sample_sent le_refl, of 0] by (auto simp: events_on_def)
qed

end
