(* ===== verification/BT_Daemon.thy ===== *)
theory BT_Daemon
  imports BT_SocketClient BT_ProbeProperties "HOL-Library.Sublist"
begin

text \<open>
  The daemon between the app and the programs in the kernel: the handlers that \<^verbatim>\<open>daemon/daemon.go\<close> gives to the socket
  client and \<^verbatim>\<open>SetTargetUid\<close> of \<^verbatim>\<open>daemon/event_collector.go\<close>, which writes the configuration map that the programs
  read. The error of the map update is a parameter.
\<close>

section \<open>Target\<close>

text \<open>The fields of the collector that a command changes; \<open>dm_objs\<close> is \<open>None\<close> when the programs could not be loaded.\<close>

record daemon_state =
  dm_targetUid :: u32
  dm_objs :: "bpf_state option"

definition TraceConfigMap_Put :: "u32 \<Rightarrow> trace_config \<Rightarrow> bpf_state \<Rightarrow> bpf_state" where
  "TraceConfigMap_Put key conf st = st\<lparr>trace_config_map := (trace_config_map st)(key \<mapsto> conf)\<rparr>"

definition SetTargetUid :: "bytes option \<Rightarrow> u32 \<Rightarrow> daemon_state \<Rightarrow> bytes option \<times> daemon_state" where
  "SetTargetUid put_error uid d =
     (let d = d\<lparr>dm_targetUid := uid\<rparr> in
      case dm_objs d of
        None \<Rightarrow> (None, d)
      | Some st \<Rightarrow>
          (case put_error of
             Some e \<Rightarrow> (Some e, d)
           | None \<Rightarrow> (None, d\<lparr>dm_objs := Some (TraceConfigMap_Put 0 \<lparr>tc_uid = uid\<rparr> st)\<rparr>)))"

section \<open>Handlers\<close>

definition handleSetTarget :: "bytes option \<Rightarrow> u32 \<Rightarrow> daemon_state \<Rightarrow> bytes option \<times> daemon_state" where
  "handleSetTarget put_error uid d = SetTargetUid put_error uid d"

definition handlePause :: "daemon_state \<Rightarrow> bytes option \<times> daemon_state" where
  "handlePause d = (None, d)"

definition handleResume :: "daemon_state \<Rightarrow> bytes option \<times> daemon_state" where
  "handleResume d = (None, d)"

definition daemon_handlers :: "bytes option \<Rightarrow> daemon_state handlers" where
  "daemon_handlers put_error =
     \<lparr>onSetTarget = Some (handleSetTarget put_error), onPause = Some handlePause, onResume = Some handleResume, onShutdown = True\<rparr>"

section \<open>Commands and filters\<close>

lemma length_decimal: "n < 10 ^ Suc k \<Longrightarrow> length (decimal n) \<le> Suc k"
proof (induction k arbitrary: n)
  case 0
  then show ?case by (simp add: decimal.simps)
next
  case (Suc k)
  then have "n div 10 < 10 ^ Suc k" by (simp add: less_mult_imp_div_less)
  from Suc.IH [OF this] show ?case by (subst decimal.simps) simp
qed

lemma length_set_target_msg: "length (set_target_msg token uid) \<le> length token + 100"
proof -
  have "unat uid < 10 ^ Suc 9" using unsigned_less [where 'a = nat and w = uid] by simp
  from length_decimal [OF this] show ?thesis
    by (simp add: set_target_msg_def target_set_msg_def protoCap_def ascii_def)
qed

lemma set_target_command:
  assumes "dm_objs d = Some st"
  shows "handleCommand (daemon_handlers None) \<lparr>fr_Type = MsgTypeSetTarget, fr_Payload = EncodeSetTarget uid\<rparr> s d =
    Some (sendAck (set_target_msg (sc_sessionToken s) uid), s,
      \<lparr>dm_targetUid = uid, dm_objs = Some (TraceConfigMap_Put 0 \<lparr>tc_uid = uid\<rparr> st)\<rparr>)"
  using assms
  by (simp add: handleCommand_def DecodeSetTarget_Encode daemon_handlers_def call_handler_def handleSetTarget_def
      SetTargetUid_def ack_or_error_def Let_def)

text \<open>
  What the programs do under a configured number: a request is admitted by the upper half of
  \<^verbatim>\<open>bpf_get_current_uid_gid\<close>, a reply by the effective user that sent the transaction it answers.
\<close>

definition admits :: "u32 \<Rightarrow> u32 \<Rightarrow> bool" where
  "admits target n \<longleftrightarrow> target = 0 \<or> target = n"

lemma configured_traced:
  assumes "st' = TraceConfigMap_Put 0 \<lparr>tc_uid = uid\<rparr> st"
  shows "traced env ctx st' \<longleftrightarrow> admits uid (effective_uid env ctx) \<and> PT_REGS PARM3 ctx \<noteq> 0"
  using assms by (auto simp: traced_def filtered_out_def TraceConfigMap_Put_def admits_def)

lemma configured_silent:
  assumes "st' = TraceConfigMap_Put 0 \<lparr>tc_uid = uid\<rparr> st" "\<not> admits uid (effective_uid env ctx)"
  shows "new_records st' (kprobe_binder_transaction env ctx st') = []"
    and "tid_to_txid_map (kprobe_binder_transaction env ctx st') = tid_to_txid_map st'"
proof -
  have "\<not> traced env ctx st'" using configured_traced [OF assms(1)] assms(2) by simp
  then show "new_records st' (kprobe_binder_transaction env ctx st') = []"
    "tid_to_txid_map (kprobe_binder_transaction env ctx st') = tid_to_txid_map st'"
    using kprobe_untraced [of env ctx st'] by (simp_all add: new_records_def)
qed

lemma configured_cookie:
  assumes "st' = TraceConfigMap_Put 0 \<lparr>tc_uid = uid\<rparr> st" "\<not> admits uid (high32 (ke_uid_gid env))"
  shows "kprobe_binder_transaction_cookie env ctx st' = st'"
  using assms
  by (auto simp: filtered_out_def TraceConfigMap_Put_def kprobe_binder_transaction_cookie_def bpf_map_lookup_elem_def
      admits_def)

text \<open>C6. A target that the app sets takes effect in the kernel. The frame of the app is read and answered by an
  acknowledgement that names the session when there is one; the target is then in the configuration map. From then on
  a request is admitted when the target is 0 or the upper half of \<^verbatim>\<open>bpf_get_current_uid_gid\<close>, which is the sender's group
  and not its user, and a reply when the target is 0 or the effective user that sent the transaction it answers. Of a
  call that is not admitted the main program submits no record, and for a request that is not admitted it leaves the
  published transaction ids and the cookie program leaves the whole state as it is. An admitted request with
  transaction data publishes its transaction id, and one of at most 16 chunks submits all its records when the ring
  buffer has room.\<close>

theorem target_command_filters:
  assumes "dm_objs d = Some st" "length (sc_sessionToken s) \<le> 1000"
    and "frame = \<lparr>fr_Type = MsgTypeSetTarget, fr_Payload = EncodeSetTarget uid\<rparr>"
  shows "\<exists>a msg d' st'. ReadFrame (frame_bytes frame @ rest) = Some (Inr (frame, rest)) \<and>
    handleCommand (daemon_handlers None) frame s d = Some (a, s, d') \<and> dm_objs d' = Some st' \<and> dm_targetUid d' = uid \<and>
    an_type a = MsgTypeAck \<and> DecodeAck (an_payload a) = Some (Inr \<lparr>ack_Success = True, ack_Message = msg\<rparr>) \<and>
    (sc_sessionToken s \<noteq> [] \<longrightarrow> prefix (ascii ''session='' @ sc_sessionToken s @ ascii '';'') msg) \<and>
    (\<forall>env ctx. is_request ctx \<and> \<not> admits uid (high32 (ke_uid_gid env)) \<longrightarrow>
      new_records st' (kprobe_binder_transaction env ctx st') = [] \<and>
      tid_to_txid_map (kprobe_binder_transaction env ctx st') = tid_to_txid_map st' \<and>
      kprobe_binder_transaction_cookie env ctx st' = st') \<and>
    (\<forall>env ctx. is_request ctx \<and> admits uid (high32 (ke_uid_gid env)) \<and> PT_REGS PARM3 ctx \<noteq> 0 \<longrightarrow>
      tid_to_txid_map (kprobe_binder_transaction env ctx st') (low32 (ke_pid_tgid env)) = Some (ke_ktime env (ktime_calls st')) \<and>
      (\<forall>n. kernel_laws env \<and> (\<forall>k n. ke_room env k n) \<and> n = total_chunks (ml_data_size (tx_locals env ctx st')) \<and> n \<le> 16 \<longrightarrow>
        length (new_records st' (kprobe_binder_transaction env ctx st')) = Suc (unat n))) \<and>
    (\<forall>env ctx. \<not> is_request ctx \<and> \<not> admits uid (snd (reply_origin env (PT_REGS PARM2 ctx))) \<longrightarrow>
      new_records st' (kprobe_binder_transaction env ctx st') = [])"
proof -
  define st' where "st' = TraceConfigMap_Put 0 \<lparr>tc_uid = uid\<rparr> st"
  let ?msg = "set_target_msg (sc_sessionToken s) uid"
  have eff: "effective_uid env ctx = (if is_request ctx then high32 (ke_uid_gid env) else snd (reply_origin env (PT_REGS PARM2 ctx)))"
    for env ctx by (simp add: effective_uid_def is_request_def)
  have "ReadFrame (frame_bytes frame @ rest) = Some (Inr (frame, rest))"
    using assms(3) by (intro ReadFrame_frame) (simp add: EncodeSetTarget_bytes MaxPayloadLen_def)
  moreover have "handleCommand (daemon_handlers None) frame s d =
      Some (sendAck ?msg, s, \<lparr>dm_targetUid = uid, dm_objs = Some st'\<rparr>)"
    using set_target_command [OF assms(1)] assms(3) by (simp add: st'_def)
  moreover have "DecodeAck (an_payload (sendAck ?msg)) = Some (Inr \<lparr>ack_Success = True, ack_Message = ?msg\<rparr>)"
    using DecodeAck_Encode [of "\<lparr>ack_Success = True, ack_Message = ?msg\<rparr>"]
      length_set_target_msg [of "sc_sessionToken s" uid] assms(2) by (simp add: sendAck_def MaxPayloadLen_def)
  moreover have "prefix (ascii ''session='' @ sc_sessionToken s @ ascii '';'') ?msg" if "sc_sessionToken s \<noteq> []"
    using that by (simp add: set_target_msg_def)
  moreover have "tid_to_txid_map (kprobe_binder_transaction env ctx st') (low32 (ke_pid_tgid env)) = Some (ke_ktime env (ktime_calls st')) \<and>
      (\<forall>n. kernel_laws env \<and> (\<forall>k n. ke_room env k n) \<and> n = total_chunks (ml_data_size (tx_locals env ctx st')) \<and> n \<le> 16 \<longrightarrow>
        length (new_records st' (kprobe_binder_transaction env ctx st')) = Suc (unat n))"
    if "is_request ctx" "admits uid (high32 (ke_uid_gid env))" "PT_REGS PARM3 ctx \<noteq> 0" for env ctx
  proof -
    have tr: "traced env ctx st'" using that configured_traced [OF st'_def] by (simp add: eff)
    show ?thesis
      using kprobe_tid_map [OF tr] lru.lookup_update [of "ke_evict env" "tid_to_txid_map st'" "low32 (ke_pid_tgid env)"]
        main_chunk_records(1) [OF _ tr _ refl] that(1)
      by (simp add: bpf_map_lookup_elem_def)
  qed
  moreover have "new_records st' (kprobe_binder_transaction env ctx st') = []"
      "tid_to_txid_map (kprobe_binder_transaction env ctx st') = tid_to_txid_map st'"
      "kprobe_binder_transaction_cookie env ctx st' = st'"
    if "is_request ctx" "\<not> admits uid (high32 (ke_uid_gid env))" for env ctx
    using that configured_silent [OF st'_def, of env ctx] configured_cookie [OF st'_def, of env ctx] by (simp_all add: eff)
  moreover have "new_records st' (kprobe_binder_transaction env ctx st') = []"
    if "\<not> is_request ctx" "\<not> admits uid (snd (reply_origin env (PT_REGS PARM2 ctx)))" for env ctx
    using that configured_silent(1) [OF st'_def, of env ctx] by (simp add: eff)
  moreover have "an_type (sendAck ?msg) = MsgTypeAck" "dm_objs \<lparr>dm_targetUid = uid, dm_objs = Some st'\<rparr> = Some st'"
      "dm_targetUid \<lparr>dm_targetUid = uid, dm_objs = Some st'\<rparr> = uid"
    by (simp_all add: sendAck_def)
  ultimately show ?thesis
    by (intro exI [of _ "sendAck ?msg"] exI [of _ ?msg] exI [of _ "\<lparr>dm_targetUid = uid, dm_objs = Some st'\<rparr>"] exI [of _ st'])
      (intro conjI allI impI; (elim conjE)?; blast)
qed

text \<open>The sample sender has the user 2000 and the group 1000: under the target 2000 its request is not admitted.\<close>

theorem target_command_filters_witness:
  "\<exists>a d' st'. handleCommand (daemon_handlers None) \<lparr>fr_Type = MsgTypeSetTarget, fr_Payload = EncodeSetTarget 2000\<rparr>
      (SetSessionToken (ascii ''token'') (NewSocketClient [])) \<lparr>dm_targetUid = 0, dm_objs = Some (sample_state 0)\<rparr> =
      Some (a, SetSessionToken (ascii ''token'') (NewSocketClient []), d') \<and>
    dm_objs d' = Some st' \<and> dm_targetUid d' = 2000 \<and> an_type a = MsgTypeAck \<and>
    new_records st' (kprobe_binder_transaction (sample_env 8) (sample_ctx 0) st') = [] \<and>
    kprobe_binder_transaction_cookie (sample_env 8) (sample_ctx 0) st' = st'"
proof -
  have gid: "is_request (sample_ctx 0)" "\<not> admits 2000 (high32 (ke_uid_gid (sample_env 8)))"
    by (simp_all add: is_request_def admits_def)
  have token: "length (sc_sessionToken (SetSessionToken (ascii ''token'') (NewSocketClient []))) \<le> 1000"
    by (simp add: SetSessionToken_def ascii_def)
  have objs: "dm_objs \<lparr>dm_targetUid = 0, dm_objs = Some (sample_state 0)\<rparr> = Some (sample_state 0)" by simp
  show ?thesis
    using target_command_filters [OF objs token refl, of 2000 "[]"] gid by fastforce
qed

end
