(* ===== verification/BT_TransactionPairer.thy ===== *)
theory BT_TransactionPairer
  imports BT_AppEvent BT_GoContainers BT_Text
begin

text \<open>
  The pairing of replies with requests in the app (\<^verbatim>\<open>parser/TransactionPairer.kt\<close>): the fields that
  parsing adds to an event (\<^verbatim>\<open>model/BinderEvent.kt\<close>), the two tables of pending requests, their
  eviction by age and by size, and the lookup for a reply. A table is an association list with
  distinct keys; the order in which a \<^verbatim>\<open>ConcurrentHashMap\<close> visits its entries is a parameter. A
  method runs without interleaving. A \<^verbatim>\<open>Long\<close> is an integer that arithmetic wraps to 64 bits. The lemmas show that a request stays in
  its table for five seconds unless newer requests fill the table, and that a reply finds
  nothing else.
\<close>

section \<open>Parsed events\<close>

datatype DecodeSource = REPLY | SPECIAL_CODE | AIDL_Q | AIDL_P | AIDL_O | HIDL_DESCRIPTOR | RAW_ASCII | TARGET_REF

record parsed_event = "kstring BinderEvent" +
  pe_interfaceName :: "kstring option"
  pe_methodName :: "kstring option"
  pe_resolveCandidates :: "kstring list"
  pe_decodeSource :: "DecodeSource option"

definition interfaceName :: "parsed_event \<Rightarrow> kstring" where
  "interfaceName e = (case pe_interfaceName e of None \<Rightarrow> lit ''Unknown'' | Some s \<Rightarrow> s)"

definition methodName :: "parsed_event \<Rightarrow> kstring" where
  "methodName e = (case pe_methodName e of None \<Rightarrow> lit (''code='' @ int_toString (be_code e)) | Some s \<Rightarrow> s)"

section \<open>The pairer\<close>

definition TTL_MS :: int where
  "TTL_MS = 5000"

definition MAX_ENTRIES :: nat where
  "MAX_ENTRIES = 4096"

record PairResult =
  pres_interfaceName :: "kstring option"
  pres_methodName :: "kstring option"
  pres_code :: int
  pres_resolveCandidates :: "kstring list"
  pres_decodeSource :: "DecodeSource option"

record PendingRequest =
  rq_result :: PairResult
  rq_enqueuedAtMs :: int

type_synonym requests = "(int, PendingRequest) gomap"

record TransactionPairer =
  clientRequests :: requests
  serverRequests :: requests

definition newPairer :: TransactionPairer where
  "newPairer = \<lparr>clientRequests = [], serverRequests = []\<rparr>"

definition to_long :: "int \<Rightarrow> int" where
  "to_long i = sint (word_of_int i :: u64)"

definition takeIf :: "('a \<Rightarrow> bool) \<Rightarrow> 'a \<Rightarrow> 'a option" where
  "takeIf P x = (if P x then Some x else None)"

definition pair_result :: "parsed_event \<Rightarrow> PairResult" where
  "pair_result event =
     \<lparr>pres_interfaceName = takeIf (\<lambda>s. s \<noteq> lit ''Unknown'') (interfaceName event),
      pres_methodName = takeIf (\<lambda>s. s \<noteq> lit (''code='' @ int_toString (be_code event))) (methodName event),
      pres_code = be_code event, pres_resolveCandidates = pe_resolveCandidates event,
      pres_decodeSource = pe_decodeSource event\<rparr>"

definition putAndEvict :: "(requests \<Rightarrow> requests) \<Rightarrow> requests \<Rightarrow> int \<Rightarrow> PendingRequest \<Rightarrow> int \<Rightarrow> requests" where
  "putAndEvict visit table pairId entry now =
     (let table = map_put pairId entry table;
          cutoff = to_long (now - TTL_MS);
          table = filter (\<lambda>(_, e). \<not> rq_enqueuedAtMs e < cutoff) table
      in if length table > MAX_ENTRIES then
           let sorted = sort_key (\<lambda>(_, e). rq_enqueuedAtMs e) (visit table);
               excess = length table - MAX_ENTRIES
           in fold (\<lambda>i t. map_del (fst (sorted ! i)) t) [0..<excess] table
         else table)"

definition recordRequest ::
  "(requests \<Rightarrow> requests) \<Rightarrow> int \<Rightarrow> parsed_event \<Rightarrow> int \<Rightarrow> TransactionPairer \<Rightarrow> TransactionPairer" where
  "recordRequest visit now event targetUid p =
     (if be_isReply event then p
      else if be_pairId event = 0 then p
      else if targetUid \<le> 0 then p
      else
        let senderHit = (be_uid event = targetUid);
            toHit = (be_toUid event \<noteq> 0 \<and> be_toUid event = targetUid)
        in if \<not> senderHit \<and> \<not> toHit then p
           else
             let entry = \<lparr>rq_result = pair_result event, rq_enqueuedAtMs = now\<rparr>
             in if senderHit
                then p\<lparr>clientRequests := putAndEvict visit (clientRequests p) (be_pairId event) entry now\<rparr>
                else p\<lparr>serverRequests := putAndEvict visit (serverRequests p) (be_pairId event) entry now\<rparr>)"

text \<open>\<^verbatim>\<open>ConcurrentHashMap.remove\<close>: the value that the key had, and the table without it.\<close>

definition chm_remove :: "int \<Rightarrow> requests \<Rightarrow> PendingRequest option \<times> requests" where
  "chm_remove k t = (map_of t k, map_del k t)"

definition tryMatchReply ::
  "int \<Rightarrow> parsed_event \<Rightarrow> int \<Rightarrow> TransactionPairer \<Rightarrow> PairResult option \<times> TransactionPairer" where
  "tryMatchReply now event targetUid p =
     (if \<not> be_isReply event then (None, p)
      else if be_pairId event = 0 then (None, p)
      else if targetUid \<le> 0 then (None, p)
      else
        let senderHit = (be_uid event = targetUid);
            toHit = (be_toUid event \<noteq> 0 \<and> be_toUid event = targetUid);
            (pending, p) =
              (if toHit then
                 let (r, t) = chm_remove (be_pairId event) (clientRequests p) in (r, p\<lparr>clientRequests := t\<rparr>)
               else if senderHit then
                 let (r, t) = chm_remove (be_pairId event) (serverRequests p) in (r, p\<lparr>serverRequests := t\<rparr>)
               else
                 let (r, t) = chm_remove (be_pairId event) (clientRequests p) in (r, p\<lparr>clientRequests := t\<rparr>))
        in case pending of
             None \<Rightarrow> (None, p)
           | Some pending \<Rightarrow>
               if to_long (now - rq_enqueuedAtMs pending) > TTL_MS then (None, p) else (Some (rq_result pending), p))"

section \<open>Histories\<close>

text \<open>The calls of the two methods, with the clock and the visiting order of each.\<close>

datatype pairer_op =
    Request "requests \<Rightarrow> requests" int parsed_event int
  | Reply int parsed_event int

fun pairer_step :: "pairer_op \<Rightarrow> TransactionPairer \<Rightarrow> TransactionPairer" where
  "pairer_step (Request visit now event uid) p = recordRequest visit now event uid p"
| "pairer_step (Reply now event uid) p = snd (tryMatchReply now event uid p)"

definition pairer_run :: "pairer_op list \<Rightarrow> TransactionPairer \<Rightarrow> TransactionPairer" where
  "pairer_run ops p = fold pairer_step ops p"

fun op_ok :: "pairer_op \<Rightarrow> bool" where
  "op_ok (Request visit now _ _) \<longleftrightarrow> (\<forall>t. mset (visit t) = mset t) \<and> 0 \<le> now \<and> now < 2 ^ 63"
| "op_ok (Reply now _ _) \<longleftrightarrow> 0 \<le> now \<and> now < 2 ^ 63"

text \<open>The table that a request is stored in, and the table that a reply is looked up in.\<close>

datatype side = Client | Server

fun table :: "side \<Rightarrow> TransactionPairer \<Rightarrow> requests" where
  "table Client p = clientRequests p"
| "table Server p = serverRequests p"

definition usable :: "parsed_event \<Rightarrow> int \<Rightarrow> bool" where
  "usable e uid \<longleftrightarrow> be_pairId e \<noteq> 0 \<and> 0 < uid"

definition receives :: "parsed_event \<Rightarrow> int \<Rightarrow> bool" where
  "receives e uid \<longleftrightarrow> be_toUid e \<noteq> 0 \<and> be_toUid e = uid"

definition request_side :: "parsed_event \<Rightarrow> int \<Rightarrow> side option" where
  "request_side e uid =
     (if be_isReply e \<or> \<not> usable e uid then None
      else if be_uid e = uid then Some Client else if receives e uid then Some Server else None)"

definition reply_side :: "parsed_event \<Rightarrow> int \<Rightarrow> side option" where
  "reply_side e uid =
     (if \<not> be_isReply e \<or> \<not> usable e uid then None
      else if \<not> receives e uid \<and> be_uid e = uid then Some Server else Some Client)"

fun touches :: "side \<Rightarrow> int \<Rightarrow> pairer_op \<Rightarrow> bool" where
  "touches s k (Request _ _ e uid) \<longleftrightarrow> request_side e uid = Some s \<and> be_pairId e = k"
| "touches s k (Reply _ e uid) \<longleftrightarrow> reply_side e uid = Some s \<and> be_pairId e = k"

fun adds_since :: "side \<Rightarrow> int \<Rightarrow> pairer_op \<Rightarrow> bool" where
  "adds_since s t (Request _ now e uid) \<longleftrightarrow> request_side e uid = Some s \<and> t \<le> now"
| "adds_since s t (Reply _ _ _) \<longleftrightarrow> False"

fun op_time :: "pairer_op \<Rightarrow> int" where
  "op_time (Request _ now _ _) = now"
| "op_time (Reply now _ _) = now"

definition recent :: "int \<Rightarrow> requests \<Rightarrow> nat" where
  "recent t m = length (filter (\<lambda>(_, e). t \<le> rq_enqueuedAtMs e) m)"

lemma record_table:
  "table s (recordRequest visit now e uid p) =
     (if request_side e uid = Some s
      then putAndEvict visit (table s p) (be_pairId e) \<lparr>rq_result = pair_result e, rq_enqueuedAtMs = now\<rparr> now
      else table s p)"
  by (cases s) (auto simp: recordRequest_def request_side_def usable_def receives_def Let_def)

lemma match_table:
  "table s (snd (tryMatchReply now e uid p)) =
     (if reply_side e uid = Some s then map_del (be_pairId e) (table s p) else table s p)"
  by (cases s) (auto simp: tryMatchReply_def reply_side_def usable_def receives_def chm_remove_def Let_def split: option.split)

lemma match_result:
  "fst (tryMatchReply now e uid p) =
     (case reply_side e uid of None \<Rightarrow> None
      | Some s \<Rightarrow> (case map_of (table s p) (be_pairId e) of None \<Rightarrow> None
          | Some r \<Rightarrow> if to_long (now - rq_enqueuedAtMs r) > TTL_MS then None else Some (rq_result r)))"
  by (auto simp: tryMatchReply_def reply_side_def usable_def receives_def chm_remove_def Let_def split: option.split)

section \<open>Eviction\<close>

lemma to_long_id: "- (2 ^ 63) \<le> i \<Longrightarrow> i < 2 ^ 63 \<Longrightarrow> to_long i = i"
  by (simp add: to_long_def sint_word_of_int_63)

lemma fold_map_del: "fold (\<lambda>i t. map_del (f i) t) is t = filter (\<lambda>(k, _). k \<notin> f ` set is) t"
  by (induction "is" arbitrary: t) (auto simp: map_del_def intro!: filter_cong)

definition expired_out :: "int \<Rightarrow> requests \<Rightarrow> requests" where
  "expired_out now t = filter (\<lambda>(_, e). \<not> rq_enqueuedAtMs e < to_long (now - TTL_MS)) t"

definition oldest :: "(requests \<Rightarrow> requests) \<Rightarrow> requests \<Rightarrow> int set" where
  "oldest visit t = fst ` set (take (length t - MAX_ENTRIES) (sort_key (\<lambda>(_, e). rq_enqueuedAtMs e) (visit t)))"

text \<open>What eviction keeps, as one filter over the table.\<close>

lemma putAndEvict_filter:
  assumes "mset (visit (expired_out now (map_put k e t))) = mset (expired_out now (map_put k e t))"
  shows "putAndEvict visit t k e now =
    filter (\<lambda>(j, _). j \<notin> oldest visit (expired_out now (map_put k e t))) (expired_out now (map_put k e t))"
proof -
  define T where "T = expired_out now (map_put k e t)"
  define S where "S = sort_key (\<lambda>(_, e). rq_enqueuedAtMs e) (visit T)"
  have "length S = length T"
    using assms by (metis S_def T_def mset_sort size_mset)
  then have "nth S ` {0..<length T - MAX_ENTRIES} = set (take (length T - MAX_ENTRIES) S)"
    by (intro nth_image) simp
  then have keys: "(\<lambda>i. fst (S ! i)) ` set [0..<length T - MAX_ENTRIES] = oldest visit T"
    by (simp only: oldest_def S_def [symmetric] set_upt flip: image_image [of fst "nth S"])
  have "putAndEvict visit t k e now =
      (if length T > MAX_ENTRIES then fold (\<lambda>i t. map_del (fst (S ! i)) t) [0..<length T - MAX_ENTRIES] T else T)"
    by (simp only: putAndEvict_def Let_def T_def S_def expired_out_def)
  also have "\<dots> = filter (\<lambda>(j, _). j \<notin> oldest visit T) T"
    unfolding fold_map_del keys by (auto simp: oldest_def intro!: sym [OF filter_True])
  finally show ?thesis by (simp only: T_def)
qed

lemma recent_mono:
  "recent a (filter P m) \<le> recent a m"
  by (induction m) (auto simp: recent_def)

lemma recent_put: "recent a (map_put k e m) \<le> recent a m + (if a \<le> rq_enqueuedAtMs e then 1 else 0)"
  using recent_mono [of a "\<lambda>(j, _). j \<noteq> k" m] by (auto simp: map_put_def recent_def)

text \<open>Only entries that are at most as new as \<open>a\<close> precede an entry of age \<open>a\<close> in the sorted table.\<close>

lemma oldest_spares:
  assumes "mset (visit t) = mset t" "(k, e) \<in> set t" "distinct (map fst t)" "recent (rq_enqueuedAtMs e) t \<le> MAX_ENTRIES"
  shows "k \<notin> oldest visit t"
proof
  define f where "f = (\<lambda>(_ :: int, e :: PendingRequest). rq_enqueuedAtMs e)"
  define S where "S = sort_key f (visit t)"
  define n where "n = length t - MAX_ENTRIES"
  have m: "mset S = mset t" using assms(1) by (simp add: S_def)
  assume "k \<in> oldest visit t"
  then obtain i where i: "i < n" "i < length S" "fst (S ! i) = k"
    by (auto simp: oldest_def S_def n_def f_def in_set_conv_nth)
  have "S ! i \<in> set t" using nth_mem [OF i(2)] mset_eq_setD [OF m] by simp
  then have "(k, snd (S ! i)) \<in> set t" using i(3) by (simp flip: i(3))
  then have Si: "S ! i = (k, e)"
    using eq_key_imp_eq_value [OF assms(3) _ assms(2)] i(3) by (simp add: prod_eq_iff)
  have "rq_enqueuedAtMs e \<le> f x" if x: "x \<in> set (drop i S)" for x
  proof -
    obtain j where "j < length S - i" "x = S ! (i + j)" 
      using x i(2) by (auto simp: in_set_conv_nth)
    then have "map f S ! i \<le> map f S ! (i + j)"
      by (intro sorted_nth_mono) (auto simp: S_def)
    then show ?thesis using \<open>j < _\<close> i Si \<open>x = _\<close> by (simp add: f_def)
  qed
  then have "filter (\<lambda>x. rq_enqueuedAtMs e \<le> f x) (drop i S) = drop i S" by (intro filter_True) simp
  moreover have "filter P S = filter P (take i S) @ filter P (drop i S)" for P
    by (simp flip: filter_append)
  ultimately have "length S - i \<le> length (filter (\<lambda>x. rq_enqueuedAtMs e \<le> f x) S)" by simp
  also have "\<dots> = length (filter (\<lambda>x. rq_enqueuedAtMs e \<le> f x) t)"
    by (rule mset_eq_length) (simp only: mset_filter m)
  also have "\<dots> = recent (rq_enqueuedAtMs e) t" by (simp add: recent_def f_def case_prod_beta')
  finally have "length S - i \<le> MAX_ENTRIES" using assms(4) by simp
  moreover have "length S = length t" using m by (rule mset_eq_length)
  ultimately show False using i by (simp add: n_def)
qed



lemma putAndEvict_keeps:
  assumes "\<forall>t. mset (visit t) = mset t" "distinct (map fst t)" "map_of (map_put k e t) j = Some r"
    and "to_long (now - TTL_MS) \<le> rq_enqueuedAtMs r" "recent (rq_enqueuedAtMs r) (map_put k e t) \<le> MAX_ENTRIES"
  shows "map_of (putAndEvict visit t k e now) j = Some r"
proof -
  let ?T = "expired_out now (map_put k e t)"
  have d: "distinct (map fst (map_put k e t))" using assms(2) by simp
  then have dT: "distinct (map fst ?T)" by (simp add: expired_out_def distinct_map_filter)
  have i: "(j, r) \<in> set ?T"
    using map_of_SomeD [OF assms(3)] assms(4) by (simp add: expired_out_def)
  have "recent (rq_enqueuedAtMs r) ?T \<le> MAX_ENTRIES"
    using recent_mono assms(5) unfolding expired_out_def by (rule le_trans)
  then have "j \<notin> oldest visit ?T" using oldest_spares [OF _ i dT] assms(1) by simp
  then have "(j, r) \<in> set (putAndEvict visit t k e now)"
    using i assms(1) by (simp add: putAndEvict_filter)
  moreover have "distinct (map fst (putAndEvict visit t k e now))"
    using dT assms(1) by (simp add: putAndEvict_filter distinct_map_filter)
  ultimately show ?thesis by simp
qed

lemma putAndEvict_subset:
  assumes "\<forall>t. mset (visit t) = mset t"
  shows "set (putAndEvict visit t k e now) \<subseteq> set (map_put k e t)"
  using assms by (auto simp: putAndEvict_filter expired_out_def)

lemma putAndEvict_distinct:
  assumes "\<forall>t. mset (visit t) = mset t" "distinct (map fst t)"
  shows "distinct (map fst (putAndEvict visit t k e now))"
proof -
  have "distinct (map fst (map_put k e t))" using assms(2) by simp
  then show ?thesis using assms(1) by (simp add: putAndEvict_filter expired_out_def distinct_map_filter)
qed

lemma recent_putAndEvict:
  assumes "\<forall>t. mset (visit t) = mset t"
  shows "recent a (putAndEvict visit t k e now) \<le> recent a t + (if a \<le> rq_enqueuedAtMs e then 1 else 0)"
proof -
  have "recent a (putAndEvict visit t k e now) \<le> recent a (map_put k e t)"
    using assms by (simp add: putAndEvict_filter expired_out_def recent_mono)
  then show ?thesis using recent_put [of a k e t] by simp
qed

lemma length_without:
  assumes "distinct (map fst t)" "K \<subseteq> fst ` set t" "finite K"
  shows "length (filter (\<lambda>(j, _). j \<notin> K) t) = length t - card K"
proof -
  let ?in = "filter (\<lambda>(j, _). j \<in> K) t"
  have "distinct (map fst ?in)" using assms(1) by (rule distinct_map_filter)
  then have "length ?in = card (set (map fst ?in))" by (simp only: distinct_card length_map)
  also have "set (map fst ?in) = fst ` set t \<inter> K" by (induction t) auto
  also have "\<dots> = K" using assms(2) by blast
  finally have k: "length ?in = card K" .
  have e: "filter (\<lambda>x. \<not> (case x of (j, _) \<Rightarrow> j \<in> K)) t = filter (\<lambda>(j, _). j \<notin> K) t"
    by (rule filter_cong) auto
  have "card K + length (filter (\<lambda>(j, _). j \<notin> K) t) = length t"
    by (rule sum_length_filter_compl [of "\<lambda>(j, _). j \<in> K" t, unfolded e k])
  then show ?thesis by arith
qed

lemma putAndEvict_bounded:
  assumes "\<forall>t. mset (visit t) = mset t" "distinct (map fst t)"
  shows "length (putAndEvict visit t k e now) \<le> MAX_ENTRIES"
proof -
  define T where "T = expired_out now (map_put k e t)"
  define U where "U = sort_key (\<lambda>(_, e). rq_enqueuedAtMs e) (visit T)"
  define S where "S = take (length T - MAX_ENTRIES) U"
  have "distinct (map fst (map_put k e t))" using assms(2) by simp
  then have dT: "distinct (map fst T)" by (simp add: T_def expired_out_def distinct_map_filter)
  have m: "mset U = mset T" using assms(1) by (simp add: U_def)
  then have "mset (map fst U) = mset (map fst T)" by (simp only: mset_map)
  then have "distinct (map fst U)" using dT mset_eq_imp_distinct_iff by blast
  then have "distinct (map fst S)" by (simp add: S_def take_map [symmetric])
  then have c: "card (fst ` set S) = length S" using distinct_card [of "map fst S"] by (simp only: length_map set_map)
  have l: "length S = length T - MAX_ENTRIES" using mset_eq_length [OF m] by (simp add: S_def)
  have "set S \<subseteq> set T" unfolding S_def mset_eq_setD [OF m, symmetric] by (rule set_take_subset)
  then have "length (filter (\<lambda>(j, _). j \<notin> fst ` set S) T) = length T - card (fst ` set S)"
    by (intro length_without [OF dT] image_mono finite_imageI finite_set)
  moreover have "oldest visit T = fst ` set S" by (simp only: oldest_def S_def U_def)
  then have "putAndEvict visit t k e now = filter (\<lambda>(j, _). j \<notin> fst ` set S) T"
    using putAndEvict_filter [of visit now k e t] assms(1) by (simp only: T_def [symmetric])
  ultimately have "length (putAndEvict visit t k e now) = length T - (length T - MAX_ENTRIES)"
    by (simp only: c l)
  then show ?thesis by simp
qed

section \<open>Requests across a history\<close>

definition pairer_ok :: "TransactionPairer \<Rightarrow> bool" where
  "pairer_ok p \<longleftrightarrow> (\<forall>s. distinct (map fst (table s p)) \<and> length (table s p) \<le> MAX_ENTRIES)"

lemma table_newPairer: "table s newPairer = []"
  by (cases s) (simp_all add: newPairer_def)

lemma newPairer_ok: "pairer_ok newPairer"
  by (simp add: pairer_ok_def table_newPairer)

lemma step_table:
  "table s (pairer_step (Request visit now e uid) p) =
     (if touches s (be_pairId e) (Request visit now e uid)
      then putAndEvict visit (table s p) (be_pairId e) \<lparr>rq_result = pair_result e, rq_enqueuedAtMs = now\<rparr> now
      else table s p)"
  "table s (pairer_step (Reply now e uid) p) =
     (if touches s (be_pairId e) (Reply now e uid) then map_del (be_pairId e) (table s p) else table s p)"
  by (simp_all add: record_table match_table)

lemma length_map_del: "length (map_del k m) \<le> length m"
  by (simp add: map_del_def)

lemma step_ok: "op_ok op \<Longrightarrow> pairer_ok p \<Longrightarrow> pairer_ok (pairer_step op p)"
  by (cases op) (auto simp: pairer_ok_def step_table putAndEvict_distinct putAndEvict_bounded
      simp del: pairer_step.simps intro: le_trans [OF length_map_del])

lemma run_ok: "\<forall>op\<in>set ops. op_ok op \<Longrightarrow> pairer_ok p \<Longrightarrow> pairer_ok (pairer_run ops p)"
  by (induction ops arbitrary: p) (auto simp: pairer_run_def step_ok)

text \<open>One step keeps an entry that is young enough and not outnumbered by newer ones.\<close>

lemma step_keeps_entry:
  assumes "op_ok op" "pairer_ok p" "map_of (table s p) k = Some r" "\<not> touches s k op"
    and "op_time op \<le> rq_enqueuedAtMs r + TTL_MS" "a = rq_enqueuedAtMs r"
    and "recent a (table s p) + (if adds_since s a op then 1 else 0) \<le> MAX_ENTRIES"
  shows "map_of (table s (pairer_step op p)) k = Some r \<and>
    recent a (table s (pairer_step op p)) \<le> recent a (table s p) + (if adds_since s a op then 1 else 0)"
proof (cases op)
  case (Request visit now e uid)
  note [simp del] = pairer_step.simps
  let ?e = "\<lparr>rq_result = pair_result e, rq_enqueuedAtMs = now\<rparr>"
  show ?thesis
  proof (cases "request_side e uid = Some s")
    case True
    have vis: "\<forall>t. mset (visit t) = mset t" and d: "distinct (map fst (table s p))" and t: "0 \<le> now" "now < 2 ^ 63"
      using assms(1,2) Request by (auto simp: pairer_ok_def)
    have k: "map_of (map_put (be_pairId e) ?e (table s p)) k = Some r"
      using assms(3,4) Request True by simp
    have "recent a (map_put (be_pairId e) ?e (table s p)) \<le> MAX_ENTRIES"
      using recent_put [of a "be_pairId e" ?e "table s p"] assms(7) Request True by (simp split: if_splits)
    moreover have "to_long (now - TTL_MS) \<le> rq_enqueuedAtMs r"
      using assms(5) Request t by (simp add: to_long_id TTL_MS_def)
    ultimately have "map_of (putAndEvict visit (table s p) (be_pairId e) ?e now) k = Some r"
      using putAndEvict_keeps [OF vis d k] assms(6) by simp
    then show ?thesis
      using Request True recent_putAndEvict [OF vis, of a "table s p" "be_pairId e" ?e now] by (simp add: step_table)
  next
    case False
    then show ?thesis using Request assms(3) by (simp add: step_table)
  qed
next
  case (Reply now e uid)
  then show ?thesis
    using assms(3,4) recent_mono [of a "\<lambda>(j, _). j \<noteq> be_pairId e" "table s p"]
    by (auto simp: step_table map_del_def [symmetric] simp del: pairer_step.simps)
qed

lemma run_keeps_entry:
  assumes "\<forall>op\<in>set ops. op_ok op \<and> \<not> touches s k op \<and> op_time op \<le> rq_enqueuedAtMs r + TTL_MS"
    and "pairer_ok p" "map_of (table s p) k = Some r"
    and "recent (rq_enqueuedAtMs r) (table s p) + length (filter (adds_since s (rq_enqueuedAtMs r)) ops) \<le> MAX_ENTRIES"
  shows "map_of (table s (pairer_run ops p)) k = Some r"
  using assms
proof (induction ops arbitrary: p)
  case Nil
  then show ?case by (simp add: pairer_run_def)
next
  case (Cons op ops)
  let ?a = "rq_enqueuedAtMs r"
  let ?n = "(if adds_since s ?a op then 1 else 0) :: nat"
  have op: "op_ok op" "\<not> touches s k op" "op_time op \<le> ?a + TTL_MS" using Cons.prems(1) by simp_all
  have "length (filter (adds_since s ?a) (op # ops)) = ?n + length (filter (adds_since s ?a) ops)" by simp
  then have n: "recent ?a (table s p) + ?n + length (filter (adds_since s ?a) ops) \<le> MAX_ENTRIES"
    using Cons.prems(4) by linarith
  have step: "map_of (table s (pairer_step op p)) k = Some r \<and>
      recent ?a (table s (pairer_step op p)) \<le> recent ?a (table s p) + ?n"
    by (rule step_keeps_entry [OF op(1) Cons.prems(2,3) op(2,3) refl]) (use n in linarith)
  have "map_of (table s (pairer_run ops (pairer_step op p))) k = Some r"
  proof (rule Cons.IH)
    show "recent ?a (table s (pairer_step op p)) + length (filter (adds_since s ?a) ops) \<le> MAX_ENTRIES"
      using step n by linarith
  qed (use Cons.prems(1,2) op step in \<open>simp_all add: step_ok\<close>)
  then show ?case by (simp add: pairer_run_def)
qed

text \<open>Every entry was stored by a request, and nothing has touched its key since.\<close>

definition stored_by :: "pairer_op list \<Rightarrow> side \<Rightarrow> int \<Rightarrow> PendingRequest \<Rightarrow> bool" where
  "stored_by ops s k r \<longleftrightarrow> (\<exists>before visit t e uid after.
     ops = before @ Request visit t e uid # after \<and> request_side e uid = Some s \<and> be_pairId e = k \<and>
     r = \<lparr>rq_result = pair_result e, rq_enqueuedAtMs = t\<rparr> \<and> (\<forall>op\<in>set after. \<not> touches s k op))"

lemma stored_by_snoc: "stored_by ops s k r \<Longrightarrow> \<not> touches s k op \<Longrightarrow> stored_by (ops @ [op]) s k r"
  unfolding stored_by_def by (elim exE conjE) (rule exI, rule exI, rule exI, rule exI, rule exI, rule exI, auto)

lemma stored_by_last:
  "request_side e uid = Some s \<Longrightarrow> be_pairId e = k \<Longrightarrow>
   stored_by (ops @ [Request visit t e uid]) s k \<lparr>rq_result = pair_result e, rq_enqueuedAtMs = t\<rparr>"
  unfolding stored_by_def by force

lemma run_stored_by:
  "\<forall>op\<in>set ops. op_ok op \<Longrightarrow> (k, r) \<in> set (table s (pairer_run ops newPairer)) \<Longrightarrow> stored_by ops s k r"
proof (induction ops arbitrary: k r rule: rev_induct)
  case Nil
  then show ?case by (simp add: pairer_run_def table_newPairer)
next
  case (snoc op ops)
  let ?p = "pairer_run ops newPairer"
  have run: "pairer_run (ops @ [op]) newPairer = pairer_step op ?p" by (simp add: pairer_run_def)
  have IH: "(k, r) \<in> set (table s ?p) \<Longrightarrow> \<not> touches s k op \<Longrightarrow> stored_by (ops @ [op]) s k r"
    using snoc by (auto intro: stored_by_snoc)
  note i = snoc.prems(2) [unfolded run]
  show ?case
  proof (cases op)
    case (Request visit t e uid)
    show ?thesis
    proof (cases "request_side e uid = Some s")
      case True
      have vis: "\<forall>t. mset (visit t) = mset t" using snoc.prems(1) Request by simp
      have "(k, r) \<in> set (putAndEvict visit (table s ?p) (be_pairId e) \<lparr>rq_result = pair_result e, rq_enqueuedAtMs = t\<rparr> t)"
        using i Request True by (simp add: step_table del: pairer_step.simps)
      then have "(k, r) \<in> set (map_put (be_pairId e) \<lparr>rq_result = pair_result e, rq_enqueuedAtMs = t\<rparr> (table s ?p))"
        by (rule subsetD [OF putAndEvict_subset [OF vis]])
      then show ?thesis using IH Request True by (auto simp: map_put_def stored_by_last)
    next
      case False
      then show ?thesis using i Request IH by (simp add: step_table del: pairer_step.simps)
    qed
  next
    case (Reply t e uid)
    then show ?thesis using i IH by (auto simp: step_table simp del: pairer_step.simps split: if_splits)
  qed
qed

lemma request_stays:
  assumes "pairer_ok p" "request_side request uid = Some s" "op_ok (Request visit t request uid)"
    and "\<forall>op\<in>set ops. op_ok op \<and> \<not> touches s (be_pairId request) op \<and> op_time op \<le> t + TTL_MS"
    and "recent t (table s p) + 1 + length (filter (adds_since s t) ops) \<le> MAX_ENTRIES"
  shows "map_of (table s (pairer_run (Request visit t request uid # ops) p)) (be_pairId request) =
    Some \<lparr>rq_result = pair_result request, rq_enqueuedAtMs = t\<rparr>"
proof -
  let ?r = "\<lparr>rq_result = pair_result request, rq_enqueuedAtMs = t\<rparr>"
  let ?p = "recordRequest visit t request uid p"
  let ?k = "be_pairId request"
  have ok: "\<forall>t. mset (visit t) = mset t" "0 \<le> t" "t < 2 ^ 63" "distinct (map fst (table s p))"
    using assms(1,3) by (simp_all add: pairer_ok_def)
  have tab: "table s ?p = putAndEvict visit (table s p) ?k ?r t"
    using assms(2) by (simp add: record_table)
  have n: "recent t (map_put ?k ?r (table s p)) \<le> MAX_ENTRIES" "recent t (table s ?p) \<le> recent t (table s p) + 1"
    using recent_put [of t ?k ?r "table s p"] recent_putAndEvict [OF ok(1), of t "table s p" ?k ?r t] assms(5)
    by (simp_all add: tab)
  have "map_of (table s ?p) ?k = Some ?r"
    unfolding tab by (rule putAndEvict_keeps [OF ok(1,4)]) (use ok n in \<open>simp_all add: to_long_id TTL_MS_def\<close>)
  moreover have "pairer_ok ?p" using step_ok [OF assms(3,1)] by simp
  ultimately have "map_of (table s (pairer_run ops ?p)) ?k = Some ?r"
    using assms(4,5) n by (intro run_keeps_entry) simp_all
  then show ?thesis by (simp add: pairer_run_def)
qed

section \<open>Properties\<close>

text \<open>C19. A reply finds its request: after a request was recorded for the target, whatever other calls
  follow within five seconds, as long as they do not use the pair id in the same table and at most 4096 requests
  of the table are as new as this one, a reply with the pair id gets the interface, the method, the code and the
  candidates of the request, and a second reply gets nothing.\<close>

theorem reply_finds_request:
  assumes "pairer_ok p" "request_side request uid = Some s" "reply_side reply uid = Some s"
    and "be_pairId reply = be_pairId request" "op_ok (Request visit t request uid)"
    and "0 \<le> t'" "t' < 2 ^ 63" "t' \<le> t + TTL_MS"
    and "\<forall>op\<in>set ops. op_ok op \<and> \<not> touches s (be_pairId request) op \<and> op_time op \<le> t + TTL_MS"
    and "recent t (table s p) + 1 + length (filter (adds_since s t) ops) \<le> MAX_ENTRIES"
    and "p' = pairer_run (Request visit t request uid # ops) p"
  shows "fst (tryMatchReply t' reply uid p') = Some (pair_result request) \<and>
    fst (tryMatchReply t'' reply uid (snd (tryMatchReply t' reply uid p'))) = None"
proof -
  have "map_of (table s p') (be_pairId request) = Some \<lparr>rq_result = pair_result request, rq_enqueuedAtMs = t\<rparr>"
    unfolding assms(11) by (rule request_stays [OF assms(1,2,5,9,10)])
  then show ?thesis
    using assms(3-8) by (simp add: match_result match_table to_long_id TTL_MS_def)
qed

text \<open>C21. Nothing else is found: after any calls on a new pairer, a reply gets the data of the last request with
  its pair id in the table of its direction, at most five seconds old and not claimed by an earlier reply, and
  both tables hold at most 4096 requests.\<close>

theorem match_has_request:
  assumes "\<forall>op\<in>set ops. op_ok op" "0 \<le> t'" "t' < 2 ^ 63" "p = pairer_run ops newPairer"
    and "fst (tryMatchReply t' reply uid p) = Some result"
  shows "(\<exists>before visit t request uid' after s.
      ops = before @ Request visit t request uid' # after \<and> request_side request uid' = Some s \<and>
      reply_side reply uid = Some s \<and> be_pairId request = be_pairId reply \<and> result = pair_result request \<and>
      t' \<le> t + TTL_MS \<and> (\<forall>op\<in>set after. \<not> touches s (be_pairId reply) op)) \<and>
    length (clientRequests p) \<le> MAX_ENTRIES \<and> length (serverRequests p) \<le> MAX_ENTRIES"
proof -
  obtain s r where r: "reply_side reply uid = Some s" "map_of (table s p) (be_pairId reply) = Some r"
      "to_long (t' - rq_enqueuedAtMs r) \<le> TTL_MS" "result = rq_result r"
    using assms(5) by (auto simp: match_result split: option.splits if_splits)
  have "stored_by ops s (be_pairId reply) r"
    using run_stored_by [OF assms(1)] map_of_SomeD [OF r(2)] assms(4) by blast
  then obtain before visit t request uid' after where
    st: "ops = before @ Request visit t request uid' # after" "request_side request uid' = Some s"
      "be_pairId request = be_pairId reply" "r = \<lparr>rq_result = pair_result request, rq_enqueuedAtMs = t\<rparr>"
      "\<forall>op\<in>set after. \<not> touches s (be_pairId reply) op"
    unfolding stored_by_def by blast
  have "0 \<le> t" "t < 2 ^ 63" using assms(1) st(1) by simp_all
  then have "t' \<le> t + TTL_MS" using r(3) st(4) assms(2,3) by (simp add: to_long_id)
  moreover have "pairer_ok p" using run_ok [OF assms(1) newPairer_ok] assms(4) by simp
  then have "length (clientRequests p) \<le> MAX_ENTRIES" "length (serverRequests p) \<le> MAX_ENTRIES"
    unfolding pairer_ok_def by (metis table.simps)+
  moreover have "result = pair_result request" using r(4) st(4) by simp
  ultimately show ?thesis using st(1-3,5) r(1) by blast
qed

section \<open>Examples\<close>

definition sample_request :: parsed_event where
  "sample_request = \<lparr>be_id = 1, be_timestamp = 0, be_pid = 700, be_uid = 10123, be_code = 3, be_flags = 0,
     be_rawParcel = [], be_isReply = False, be_binderDev = BinderDev_fromByte 1, be_targetKind = TargetKind_fromByte 0,
     be_toPid = 900, be_toUid = 1000, be_targetRef = 0, be_pairId = 77, be_stackTrace = None,
     pe_interfaceName = Some (lit ''android.app.IActivityManager''), pe_methodName = Some (lit ''getTasks''),
     pe_resolveCandidates = [], pe_decodeSource = Some AIDL_Q\<rparr>"

definition sample_reply :: parsed_event where
  "sample_reply = sample_request\<lparr>be_isReply := True, be_uid := 1000, be_toUid := 10123\<rparr>"

text \<open>Another request of the target, recorded a second later.\<close>

definition other_request :: parsed_event where
  "other_request = sample_request\<lparr>be_pairId := 78\<rparr>"

lemmas pairer_samples = sample_request_def sample_reply_def other_request_def request_side_def reply_side_def
  usable_def receives_def

theorem reply_finds_request_witness:
  "fst (tryMatchReply 6000 sample_reply 10123
     (pairer_run [Request id 1000 sample_request 10123, Request rev 2000 other_request 10123] newPairer)) =
   Some (pair_result sample_request)"
  using reply_finds_request [of newPairer sample_request 10123 Client sample_reply id 1000 6000
      "[Request rev 2000 other_request 10123]" _ 6000] newPairer_ok
  by (simp add: pairer_samples TTL_MS_def MAX_ENTRIES_def recent_def newPairer_def)

theorem match_has_request_witness:
  "fst (tryMatchReply 6000 sample_reply 10123
     (pairer_run [Request id 1000 sample_request 10123] newPairer)) = Some (pair_result sample_request) \<and>
   length (clientRequests (pairer_run [Request id 1000 sample_request 10123] newPairer)) \<le> MAX_ENTRIES"
proof -
  let ?ops = "[Request id 1000 sample_request 10123]"
  have m: "fst (tryMatchReply 6000 sample_reply 10123 (pairer_run ?ops newPairer)) = Some (pair_result sample_request)"
    by (simp add: pairer_run_def match_result record_table pairer_samples table_newPairer putAndEvict_def map_put_def
        to_long_id TTL_MS_def MAX_ENTRIES_def Let_def)
  show ?thesis
    using match_has_request [OF _ _ _ refl m] m by simp
qed

end
