(* ===== verification/BT_ReplyParser.thy ===== *)
theory BT_ReplyParser
  imports BT_TransactionPairer
begin

text \<open>
  The structured reading of replies in the app (\<^verbatim>\<open>parser/ReplyParser.kt\<close>): the exception code behind its headers, the
  messages of exceptions and the returned values. A \<^verbatim>\<open>ByteBuffer\<close> in little-endian order is the list of its remaining
  bytes; a thrown exception is \<open>None\<close>. The lemmas give what is read from a reply with the layout of an Android parcel.
\<close>

section \<open>Little-endian buffers\<close>

definition lb_short :: "bytes \<Rightarrow> (u16 \<times> bytes) option" where
  "lb_short r = map_option (\<lambda>(b, r'). (of_le b, r')) (bb_get 2 r)"

definition lb_int :: "bytes \<Rightarrow> (u32 \<times> bytes) option" where
  "lb_int r = map_option (\<lambda>(b, r'). (of_le b, r')) (bb_get 4 r)"

definition lb_long :: "bytes \<Rightarrow> (u64 \<times> bytes) option" where
  "lb_long r = map_option (\<lambda>(b, r'). (of_le b, r')) (bb_get 8 r)"

section \<open>Constants and results\<close>

definition RAW_HEX_HINT_BYTES :: nat where "RAW_HEX_HINT_BYTES = 32"
definition EX_SECURITY :: int where "EX_SECURITY = - 1"
definition EX_BAD_PARCELABLE :: int where "EX_BAD_PARCELABLE = - 2"
definition EX_ILLEGAL_ARGUMENT :: int where "EX_ILLEGAL_ARGUMENT = - 3"
definition EX_NULL_POINTER :: int where "EX_NULL_POINTER = - 4"
definition EX_ILLEGAL_STATE :: int where "EX_ILLEGAL_STATE = - 5"
definition EX_NETWORK_MAIN_THREAD :: int where "EX_NETWORK_MAIN_THREAD = - 6"
definition EX_UNSUPPORTED_OPERATION :: int where "EX_UNSUPPORTED_OPERATION = - 7"
definition EX_SERVICE_SPECIFIC :: int where "EX_SERVICE_SPECIFIC = - 8"
definition EX_PARCELABLE :: int where "EX_PARCELABLE = - 9"
definition EX_HAS_NOTED_APPOPS_REPLY_HEADER :: int where "EX_HAS_NOTED_APPOPS_REPLY_HEADER = - 127"
definition EX_HAS_STRICTMODE_REPLY_HEADER :: int where "EX_HAS_STRICTMODE_REPLY_HEADER = - 128"
definition MAX_REPLY_HEADER_BYTES :: int where "MAX_REPLY_HEADER_BYTES = 65536"

lemmas ex_defs = EX_SECURITY_def EX_BAD_PARCELABLE_def EX_ILLEGAL_ARGUMENT_def EX_NULL_POINTER_def EX_ILLEGAL_STATE_def
  EX_NETWORK_MAIN_THREAD_def EX_UNSUPPORTED_OPERATION_def EX_SERVICE_SPECIFIC_def EX_PARCELABLE_def

lemmas header_defs = EX_HAS_NOTED_APPOPS_REPLY_HEADER_def EX_HAS_STRICTMODE_REPLY_HEADER_def MAX_REPLY_HEADER_BYTES_def

record ReplyDecodeResult =
  rr_exception :: "kstring option"
  rr_value :: "kstring option"
  rr_rawHexHint :: "kstring option"

datatype StringReadResult = Success kstring | NullValue | Failure

section \<open>Reading\<close>

definition hex2 :: "u8 \<Rightarrow> string" where
  "hex2 b = [upper_digit (unat b div 16), upper_digit (unat b mod 16)]"

fun spaced :: "string list \<Rightarrow> string" where
  "spaced [] = []"
| "spaced [x] = x"
| "spaced (x # y # xs) = x @ '' '' @ spaced (y # xs)"

text \<open>The summary of a longer parcel ends with a space and the ellipsis character.\<close>

definition rawHexHint :: "bytes \<Rightarrow> kstring" where
  "rawHexHint parcel =
     (if parcel = [] then []
      else let limit = min (length parcel) RAW_HEX_HINT_BYTES in
        lit (spaced (map hex2 (take limit parcel))) @ (if length parcel > limit then [0x20, 0x2026] else []))"

definition raw_result :: "bytes \<Rightarrow> ReplyDecodeResult" where
  "raw_result parcel = \<lparr>rr_exception = None, rr_value = None, rr_rawHexHint = Some (rawHexHint parcel)\<rparr>"

definition value_result :: "kstring \<Rightarrow> ReplyDecodeResult" where
  "value_result v = \<lparr>rr_exception = None, rr_value = Some v, rr_rawHexHint = None\<rparr>"

primrec read_chars :: "nat \<Rightarrow> bytes \<Rightarrow> (kstring \<times> bytes) option" where
  "read_chars 0 buffer = Some ([], buffer)"
| "read_chars (Suc n) buffer = do {
     (c, buffer) \<leftarrow> lb_short buffer;
     (cs, buffer) \<leftarrow> read_chars n buffer;
     Some (c # cs, buffer)
   }"

definition readUtf16String :: "bytes \<Rightarrow> (StringReadResult \<times> bytes) option" where
  "readUtf16String buffer =
     (if length buffer < 4 then Some (Failure, buffer)
      else do {
        (w, buffer) \<leftarrow> lb_int buffer;
        let len = sint w;
        if len = - 1 then Some (NullValue, buffer)
        else if len < 0 then Some (Failure, buffer)
        else if len > 4096 then Some (Failure, buffer)
        else if int (length buffer) < len * 2 + 2 then Some (Failure, buffer)
        else do {
          (chars, buffer) \<leftarrow> read_chars (nat len) buffer;
          (_, buffer) \<leftarrow> lb_short buffer;
          Some (Success chars, buffer)
        }
      })"

text \<open>\<open>n\<close> is the number of rounds that \<^verbatim>\<open>repeat\<close> has left; the inner \<open>None\<close> is the \<^verbatim>\<open>null\<close> of the code.\<close>

fun readExceptionCode :: "nat \<Rightarrow> bytes \<Rightarrow> ((int \<times> bytes) option) option" where
  "readExceptionCode 0 buffer = Some None"
| "readExceptionCode (Suc n) buffer =
     (if length buffer < 4 then Some None
      else do {
        (w, buffer) \<leftarrow> lb_int buffer;
        let code = sint w;
        if code \<noteq> EX_HAS_STRICTMODE_REPLY_HEADER \<and> code \<noteq> EX_HAS_NOTED_APPOPS_REPLY_HEADER then Some (Some (code, buffer))
        else if length buffer < 4 then Some None
        else do {
          (w, buffer) \<leftarrow> lb_int buffer;
          let headerLen = sint w;
          if headerLen < 0 \<or> headerLen > MAX_REPLY_HEADER_BYTES then Some None
          else if int (length buffer) < headerLen then Some None
          else readExceptionCode n (drop (nat headerLen) buffer)
        }
      })"

section \<open>Exceptions\<close>

definition exceptionTag :: "int \<Rightarrow> string option" where
  "exceptionTag code =
     (if code = EX_SECURITY then Some ''SecurityException''
      else if code = EX_BAD_PARCELABLE then Some ''BadParcelableException''
      else if code = EX_ILLEGAL_ARGUMENT then Some ''IllegalArgumentException''
      else if code = EX_NULL_POINTER then Some ''NullPointerException''
      else if code = EX_ILLEGAL_STATE then Some ''IllegalStateException''
      else if code = EX_NETWORK_MAIN_THREAD then Some ''NetworkOnMainThreadException''
      else if code = EX_UNSUPPORTED_OPERATION then Some ''UnsupportedOperationException''
      else if code = EX_SERVICE_SPECIFIC then Some ''ServiceSpecificException''
      else if code = EX_PARCELABLE then Some ''ParcelableException''
      else None)"

definition readMessageField :: "bytes \<Rightarrow> (kstring option \<times> bytes) option" where
  "readMessageField buffer = do {
     (r, buffer) \<leftarrow> readUtf16String buffer;
     Some (case r of Success s \<Rightarrow> Some s | NullValue \<Rightarrow> None | Failure \<Rightarrow> None, buffer)
   }"

definition decodeException :: "bytes \<Rightarrow> int \<Rightarrow> kstring option option" where
  "decodeException buffer code =
     (case exceptionTag code of
        None \<Rightarrow> Some None
      | Some tag \<Rightarrow> do {
          (message, buffer) \<leftarrow> (if length buffer < 4 then Some (None, buffer) else readMessageField buffer);
          if code = EX_SERVICE_SPECIFIC then do {
            errorCode \<leftarrow> (if length buffer \<ge> 4 then map_option (\<lambda>(w, _). Some (sint w)) (lb_int buffer) else Some None);
            Some (Some (case (errorCode, message) of
                (Some e, Some m) \<Rightarrow> lit (''ServiceSpecificException('' @ int_toString e @ ''): '') @ m
              | (Some e, None) \<Rightarrow> lit (''ServiceSpecificException('' @ int_toString e @ '')'')
              | (None, Some m) \<Rightarrow> lit ''ServiceSpecificException: '' @ m
              | (None, None) \<Rightarrow> lit ''ServiceSpecificException''))
          }
          else Some (Some (case message of
              None \<Rightarrow> lit tag
            | Some m \<Rightarrow> if m = [] then lit tag else lit (tag @ '': '') @ m))
        })"

section \<open>Values\<close>

definition canonicalReturnType :: "kstring \<Rightarrow> kstring" where
  "canonicalReturnType returnType =
     (if returnType \<in> {lit ''int'', lit ''Integer'', lit ''java.lang.Integer''} then lit ''int''
      else if returnType \<in> {lit ''long'', lit ''Long'', lit ''java.lang.Long''} then lit ''long''
      else if returnType \<in> {lit ''boolean'', lit ''Boolean'', lit ''java.lang.Boolean''} then lit ''boolean''
      else if returnType \<in> {lit ''void'', lit ''Void'', lit ''java.lang.Void''} then lit ''void''
      else if returnType \<in> {lit ''String'', lit ''java.lang.String''} then lit ''String''
      else if returnType \<in> {lit ''CharSequence'', lit ''java.lang.CharSequence''} then lit ''CharSequence''
      else returnType)"

definition readIntValue :: "bytes \<Rightarrow> bytes \<Rightarrow> ReplyDecodeResult option" where
  "readIntValue buffer parcel =
     (if length buffer < 4 then Some (raw_result parcel)
      else map_option (\<lambda>(w, _). value_result (lit (int_toString (sint w)))) (lb_int buffer))"

definition readLongValue :: "bytes \<Rightarrow> bytes \<Rightarrow> ReplyDecodeResult option" where
  "readLongValue buffer parcel =
     (if length buffer < 8 then Some (raw_result parcel)
      else map_option (\<lambda>(w, _). value_result (lit (int_toString (sint w)))) (lb_long buffer))"

definition readBooleanValue :: "bytes \<Rightarrow> bytes \<Rightarrow> ReplyDecodeResult option" where
  "readBooleanValue buffer parcel =
     (if length buffer < 4 then Some (raw_result parcel)
      else map_option (\<lambda>(w, _). value_result (lit (if w \<noteq> 0 then ''true'' else ''false''))) (lb_int buffer))"

definition readStringValue :: "bytes \<Rightarrow> bytes \<Rightarrow> ReplyDecodeResult option" where
  "readStringValue buffer parcel = do {
     (r, _) \<leftarrow> readUtf16String buffer;
     Some (case r of Success s \<Rightarrow> value_result s | NullValue \<Rightarrow> value_result (lit ''null'') | Failure \<Rightarrow> raw_result parcel)
   }"

definition readCharSequenceValue :: "bytes \<Rightarrow> bytes \<Rightarrow> ReplyDecodeResult option" where
  "readCharSequenceValue buffer parcel =
     (if length buffer < 4 then Some (raw_result parcel)
      else do {
        (kind, buffer) \<leftarrow> lb_int buffer;
        if kind = 0 then readStringValue buffer parcel
        else if kind = 1 \<or> kind = 2 then Some (value_result (lit ''<spanned charsequence>''))
        else Some (raw_result parcel)
      })"

definition read_value :: "kstring \<Rightarrow> bytes \<Rightarrow> bytes \<Rightarrow> ReplyDecodeResult option" where
  "read_value returnType buffer parcel =
     (let t = canonicalReturnType returnType in
      if t = lit ''void'' then Some \<lparr>rr_exception = None, rr_value = None, rr_rawHexHint = None\<rparr>
      else if t = lit ''int'' then readIntValue buffer parcel
      else if t = lit ''long'' then readLongValue buffer parcel
      else if t = lit ''boolean'' then readBooleanValue buffer parcel
      else if t = lit ''String'' then readStringValue buffer parcel
      else if t = lit ''CharSequence'' then readCharSequenceValue buffer parcel
      else Some (raw_result parcel))"

definition decodeJavaAidlReply :: "bytes \<Rightarrow> kstring option \<Rightarrow> ReplyDecodeResult option" where
  "decodeJavaAidlReply parcel returnType =
     (if length parcel < 4 then Some (raw_result parcel)
      else do {
        code \<leftarrow> readExceptionCode 4 parcel;
        (case code of
           None \<Rightarrow> Some (raw_result parcel)
         | Some (exceptionCode, buffer) \<Rightarrow>
             if exceptionCode \<noteq> 0 then do {
               summary \<leftarrow> decodeException buffer exceptionCode;
               Some (case summary of
                   None \<Rightarrow> raw_result parcel
                 | Some s \<Rightarrow> \<lparr>rr_exception = Some s, rr_value = None, rr_rawHexHint = None\<rparr>)
             }
             else (case returnType of None \<Rightarrow> Some (raw_result parcel) | Some t \<Rightarrow> read_value t buffer parcel))
      })"

section \<open>No exception\<close>

lemma bb_get_append: "length b = n \<Longrightarrow> bb_get n (b @ r) = Some (b, r)"
  by (simp add: bb_get_def)

lemma lb_enough:
  "2 \<le> length r \<Longrightarrow> lb_short r = Some (of_le (take 2 r), drop 2 r)"
  "4 \<le> length r \<Longrightarrow> lb_int r = Some (of_le (take 4 r), drop 4 r)"
  "8 \<le> length r \<Longrightarrow> lb_long r = Some (of_le (take 8 r), drop 8 r)"
  by (simp_all add: lb_short_def lb_int_def lb_long_def bb_get_def)

lemma read_chars_enough: "2 * n \<le> length r \<Longrightarrow> \<exists>cs. read_chars n r = Some (cs, drop (2 * n) r)"
proof (induction n arbitrary: r)
  case (Suc n)
  then obtain cs where "read_chars n (drop 2 r) = Some (cs, drop (2 * n) (drop 2 r))"
    using Suc.IH [of "drop 2 r"] Suc.prems by (metis add_Suc_right diff_add_inverse diff_le_mono length_drop mult_Suc_right numeral_2_eq_2 plus_1_eq_Suc)
  then show ?case using Suc.prems by (simp add: lb_enough(1) add.commute)
qed simp

lemma readUtf16String_total: "\<exists>x. readUtf16String buffer = Some x"
proof (cases "length buffer < 4")
  case False
  define len where "len = sint (of_le (take 4 buffer) :: u32)"
  have "\<exists>cs. read_chars (nat len) (drop 4 buffer) = Some (cs, drop (2 * nat len) (drop 4 buffer)) \<and>
      2 \<le> length (drop (2 * nat len) (drop 4 buffer))" if "0 \<le> len" "\<not> int (length (drop 4 buffer)) < len * 2 + 2"
    using that read_chars_enough [of "nat len" "drop 4 buffer"] by auto
  then show ?thesis using False by (fastforce simp: readUtf16String_def lb_enough Let_def len_def)
qed (simp add: readUtf16String_def)

lemma readExceptionCode_total: "\<exists>x. readExceptionCode n buffer = Some x"
proof (induction n arbitrary: buffer)
  case (Suc n)
  then show ?case
    by (cases "length buffer < 4"; cases "length (drop 4 buffer) < 4") (simp_all add: lb_enough Let_def del: length_drop)
qed simp

lemma decodeException_total: "\<exists>x. decodeException buffer code = Some x"
proof -
  have "\<exists>m b. readMessageField buffer = Some (m, b)"
    using readUtf16String_total [of buffer] by (auto simp: readMessageField_def split_beta)
  then show ?thesis by (cases "exceptionTag code") (auto simp: decodeException_def Let_def lb_enough)
qed

lemma read_value_total: "\<exists>x. read_value t buffer parcel = Some x"
proof -
  have "\<exists>x. readStringValue b parcel = Some x" for b
    using readUtf16String_total [of b] by (auto simp: readStringValue_def split_beta)
  then show ?thesis
    by (simp add: read_value_def Let_def readIntValue_def readLongValue_def readBooleanValue_def readCharSequenceValue_def
        lb_enough)
qed

lemma decodeJavaAidlReply_total: "\<exists>x. decodeJavaAidlReply parcel t = Some x"
proof -
  obtain code where code: "readExceptionCode 4 parcel = Some code" using readExceptionCode_total by blast
  show ?thesis
  proof (cases code)
    case None
    then show ?thesis using code by (simp add: decodeJavaAidlReply_def)
  next
    case (Some cb)
    obtain e b where cb: "cb = (e, b)" by fastforce
    obtain x where "decodeException b e = Some x" using decodeException_total by blast
    moreover obtain y where "\<forall>t'. t = Some t' \<longrightarrow> read_value t' b parcel = Some y"
      using read_value_total [of "the t" b parcel] by (cases t) auto
    ultimately show ?thesis using code Some cb by (cases t) (simp_all add: decodeJavaAidlReply_def)
  qed
qed

section \<open>The layout of a parcel\<close>

definition utf16 :: "kstring \<Rightarrow> bytes" where
  "utf16 s = concat (map (le_bytes 2) s)"

definition string_pad :: "kstring \<Rightarrow> bytes" where
  "string_pad s = (if even (length s) then [0, 0] else [])"

definition parcel_string :: "kstring \<Rightarrow> bytes" where
  "parcel_string s = le_bytes 4 (of_nat (length s) :: u32) @ utf16 s @ [0, 0] @ string_pad s"

definition reply_header :: "bool \<times> bytes \<Rightarrow> bytes" where
  "reply_header h = le_bytes 4 (if fst h then - 128 else - 127 :: u32) @ le_bytes 4 (of_nat (length (snd h)) :: u32) @ snd h"

definition reply_parcel :: "(bool \<times> bytes) list \<Rightarrow> u32 \<Rightarrow> bytes \<Rightarrow> bytes" where
  "reply_parcel headers code body = concat (map reply_header headers) @ le_bytes 4 code @ body"

datatype reply_value = VInt u32 | VLong u64 | VBoolean bool | VString "kstring option"

fun value_bytes :: "reply_value \<Rightarrow> bytes" where
  "value_bytes (VInt w) = le_bytes 4 w"
| "value_bytes (VLong w) = le_bytes 8 w"
| "value_bytes (VBoolean b) = le_bytes 4 (if b then 1 else 0 :: u32)"
| "value_bytes (VString None) = le_bytes 4 (- 1 :: u32)"
| "value_bytes (VString (Some s)) = parcel_string s"

fun value_type :: "reply_value \<Rightarrow> kstring" where
  "value_type (VInt w) = lit ''int''"
| "value_type (VLong w) = lit ''long''"
| "value_type (VBoolean b) = lit ''boolean''"
| "value_type (VString s) = lit ''String''"

fun value_text :: "reply_value \<Rightarrow> kstring" where
  "value_text (VInt w) = lit (int_toString (sint w))"
| "value_text (VLong w) = lit (int_toString (sint w))"
| "value_text (VBoolean b) = lit (if b then ''true'' else ''false'')"
| "value_text (VString None) = lit ''null''"
| "value_text (VString (Some s)) = s"

fun value_fits :: "reply_value \<Rightarrow> bool" where
  "value_fits (VString (Some s)) = (length s \<le> 4096)"
| "value_fits _ = True"

lemma lb_written [simp]:
  "lb_short (le_bytes 2 c @ r) = Some (c, r)" "lb_int (le_bytes 4 w @ r) = Some (w, r)" "lb_long (le_bytes 8 v @ r) = Some (v, r)"
  by (simp_all add: lb_short_def lb_int_def lb_long_def bb_get_append of_le_le_bytes)

lemma length_utf16 [simp]: "length (utf16 s) = 2 * length s"
  by (induction s) (simp_all add: utf16_def)

lemma read_chars_utf16: "read_chars (length s) (utf16 s @ r) = Some (s, r)"
  by (induction s) (simp_all add: utf16_def)

lemma sint_of_nat_32: "n < 2 ^ 31 \<Longrightarrow> sint (of_nat n :: u32) = int n"
  by (simp add: signed_of_nat signed_take_bit_int_eq_self)

lemma readUtf16String_written:
  assumes "length s \<le> 4096"
  shows "readUtf16String (parcel_string s @ r) = Some (Success s, string_pad s @ r)"
proof -
  have "lb_short ([0, 0] @ t) = Some (0, t)" for t :: bytes by (simp add: lb_short_def bb_get_def)
  then show ?thesis
    using assms by (simp add: readUtf16String_def parcel_string_def sint_of_nat_32 read_chars_utf16 Let_def)
qed

lemma readExceptionCode_written:
  assumes "length headers < n" "\<forall>h\<in>set headers. length (snd h) \<le> 65536" "sint code \<notin> {- 127, - 128}"
  shows "readExceptionCode n (reply_parcel headers code body) = Some (Some (sint code, body))"
  using assms
proof (induction headers arbitrary: n)
  case Nil
  then show ?case by (cases n) (simp_all add: reply_parcel_def header_defs Let_def)
next
  case (Cons h headers)
  then obtain k where k: "n = Suc k" "length headers < k" by (cases n) auto
  have "reply_parcel (h # headers) code body =
      le_bytes 4 (if fst h then - 128 else - 127 :: u32) @ le_bytes 4 (of_nat (length (snd h)) :: u32) @ snd h
        @ reply_parcel headers code body"
    by (simp add: reply_parcel_def reply_header_def)
  then show ?case
    using Cons k by (simp add: header_defs Let_def sint_of_nat_32)
qed

lemma readExceptionCode_too_many:
  assumes "n \<le> length headers" "\<forall>h\<in>set headers. length (snd h) \<le> 65536"
  shows "readExceptionCode n (reply_parcel headers code body) = Some None"
  using assms
proof (induction headers arbitrary: n)
  case (Cons h headers)
  have "reply_parcel (h # headers) code body =
      le_bytes 4 (if fst h then - 128 else - 127 :: u32) @ le_bytes 4 (of_nat (length (snd h)) :: u32) @ snd h
        @ reply_parcel headers code body"
    by (simp add: reply_parcel_def reply_header_def)
  then show ?case using Cons by (cases n) (simp_all add: header_defs Let_def sint_of_nat_32)
qed simp

lemma read_value_written:
  assumes "value_fits v"
  shows "read_value (value_type v) (value_bytes v @ r) parcel = Some (value_result (value_text v))"
  using assms
  by (cases v rule: value_bytes.cases)
    (simp_all add: read_value_def canonicalReturnType_def lit_def Let_def readIntValue_def readLongValue_def
      readBooleanValue_def readStringValue_def readUtf16String_written, simp_all add: readUtf16String_def Let_def lit_def)

lemma reply_value_read:
  assumes "length headers < 4" "\<forall>h\<in>set headers. length (snd h) \<le> 65536" "value_fits v"
  shows "decodeJavaAidlReply (reply_parcel headers 0 (value_bytes v @ r)) (Some (value_type v)) =
    Some (value_result (value_text v))"
proof -
  have "4 \<le> length (reply_parcel headers 0 (value_bytes v @ r))" by (simp add: reply_parcel_def)
  then show ?thesis
    using readExceptionCode_written [of headers 4 0 "value_bytes v @ r"] assms
    by (simp add: decodeJavaAidlReply_def read_value_written)
qed

lemma reply_raw_read:
  assumes "4 \<le> length headers" "\<forall>h\<in>set headers. length (snd h) \<le> 65536"
  shows "decodeJavaAidlReply (reply_parcel headers code body) t = Some (raw_result (reply_parcel headers code body))"
proof -
  have "4 \<le> length (reply_parcel headers code body)" by (simp add: reply_parcel_def)
  then show ?thesis using readExceptionCode_too_many [OF assms] by (simp add: decodeJavaAidlReply_def)
qed

section \<open>Error codes of services\<close>

lemma of_le_shifted: "(of_le (0 # 0 # take 2 (le_bytes 4 (w :: u32))) :: u32) = push_bit 16 w"
proof (rule bit_word_eqI)
  fix i
  assume "i < LENGTH(32)"
  then have i: "i < 32" by simp
  show "bit (of_le (0 # 0 # take 2 (le_bytes 4 w)) :: u32) i \<longleftrightarrow> bit (push_bit 16 w) i"
  proof (cases "i < 16")
    case True
    then have "i div 8 = 0 \<or> i div 8 = 1" by auto
    then show ?thesis using True i by (auto simp: bit_of_le bit_push_bit_iff)
  next
    case False
    define j where "j = i - 16"
    have j: "i = j + 16" "j < 16" using False i by (simp_all add: j_def)
    have "(j + 16) mod 8 = j mod 8" using mod_mult_self1 [of j 2 8] by simp
    moreover have "(j + 16) div 8 = Suc (Suc (j div 8))" "j div 8 < 2" using j(2) by simp_all
    ultimately show ?thesis using j by (simp add: bit_of_le bit_push_bit_iff bit_le_bytes_nth)
  qed
qed

text \<open>C37. In the reply of a service with an error code of its own, the code is read right after the message, although
  the string before it is padded to four bytes: it comes out right when the number of characters is odd, and shifted
  by sixteen bits when it is even.\<close>

theorem service_error_code_misread:
  assumes "length headers < 4" "\<forall>h\<in>set headers. length (snd h) \<le> 65536" "length msg \<le> 4096"
    and "shown = (if even (length msg) then push_bit 16 errorCode else errorCode :: u32)"
  shows "decodeJavaAidlReply (reply_parcel headers (- 8) (parcel_string msg @ le_bytes 4 errorCode @ rest)) t =
    Some \<lparr>rr_exception = Some (lit (''ServiceSpecificException('' @ int_toString (sint shown) @ ''): '') @ msg),
      rr_value = None, rr_rawHexHint = None\<rparr>"
proof -
  let ?body = "parcel_string msg @ le_bytes 4 errorCode @ rest"
  have "4 \<le> length (reply_parcel headers (- 8) ?body)" by (simp add: reply_parcel_def)
  moreover have "readMessageField ?body = Some (Some msg, string_pad msg @ le_bytes 4 errorCode @ rest)"
    using assms(3) by (simp add: readMessageField_def readUtf16String_written)
  moreover have "\<exists>r. lb_int (string_pad msg @ le_bytes 4 errorCode @ rest) = Some (shown, r)"
    using assms(4) by (simp add: string_pad_def lb_int_def bb_get_def of_le_shifted of_le_le_bytes del: of_le.simps)
  moreover have "4 \<le> length ?body" by (simp add: parcel_string_def)
  ultimately show ?thesis
    using readExceptionCode_written [of headers 4 "- 8" ?body] assms(1,2)
    by (auto simp: decodeJavaAidlReply_def decodeException_def exceptionTag_def ex_defs Let_def)
qed

theorem service_error_code_misread_witness:
  "decodeJavaAidlReply (reply_parcel [] (- 8) (parcel_string (lit ''no'') @ le_bytes 4 (5 :: u32) @ [])) None =
    Some \<lparr>rr_exception = Some (lit ''ServiceSpecificException(327680): no''), rr_value = None, rr_rawHexHint = None\<rparr>"
proof -
  have "sint (push_bit 16 5 :: u32) = 327680" by simp
  moreover have "int_toString 327680 = ''327680''" by (simp add: int_toString_def decimal.simps char_of_def bit_0)
  ultimately have shown_text: "lit (''ServiceSpecificException('' @ int_toString (sint (push_bit 16 5 :: u32)) @ ''): '') @ lit ''no'' =
      lit ''ServiceSpecificException(327680): no''"
    by (simp only:) (simp add: lit_def)
  have n: "length (lit ''no'') = 2" by (simp add: lit_def)
  have len: "length (lit ''no'') \<le> 4096" "push_bit 16 5 = (if even (length (lit ''no'')) then push_bit 16 5 else 5 :: u32)"
    by (simp_all only: n) simp_all
  show ?thesis
    using service_error_code_misread [OF _ _ len, of "[]" "[]" None] unfolding shown_text by simp
qed

end
