(* ===== verification/BT_ParcelParser.thy ===== *)
theory BT_ParcelParser
  imports BT_ReplyParser
begin

text \<open>
  The pipeline of decoders that names an event in the app (\<^verbatim>\<open>parser/ParcelParser.kt\<close> and \<^verbatim>\<open>parser/decoders\<close>): replies by
  their request, reserved codes, the interface tokens of three Android versions, descriptors of hardware services,
  plain ASCII and the reference of the target. A decoder that throws is \<open>None\<close>; the inner \<open>None\<close> is its \<^verbatim>\<open>null\<close>. The
  lookup of method signatures by reflection and the table of binder handles are parameters. The lemmas show that
  the pipeline always answers and what it answers for tokens and for replies.
\<close>

section \<open>Results\<close>

datatype Confidence = HIGH | MEDIUM | LOW

record DecodeResult =
  dr_interfaceName :: kstring
  dr_methodHint :: "kstring option"
  dr_payloadStart :: int
  dr_source :: DecodeSource
  dr_confidence :: Confidence

section \<open>Replies\<close>

text \<open>The arrow before the word \<^verbatim>\<open>reply\<close> is the character U+2190.\<close>

definition larrow :: kstring where "larrow = [0x2190]"

text \<open>The resolver is absent or gives the return type of a method; the outer \<open>None\<close> of its answer is an exception.\<close>

type_synonym resolver = "(kstring \<Rightarrow> int \<Rightarrow> kstring list \<Rightarrow> kstring option option) option"

definition java_source :: "DecodeSource option \<Rightarrow> bool" where
  "java_source s \<longleftrightarrow> s \<in> {Some AIDL_Q, Some AIDL_P, Some AIDL_O}"

definition reply_hint :: "kstring option \<Rightarrow> ReplyDecodeResult option \<Rightarrow> kstring \<times> Confidence" where
  "reply_hint baseMethod replyResult =
     (let methodLabel = (case baseMethod of None \<Rightarrow> larrow @ lit '' reply'' | Some m \<Rightarrow> m);
          matched = (case baseMethod of None \<Rightarrow> larrow @ lit '' reply (matched)'' | Some m \<Rightarrow> m @ lit '' (reply)'')
      in case replyResult of
           None \<Rightarrow> (matched, HIGH)
         | Some r \<Rightarrow>
             (case rr_exception r of
                Some e \<Rightarrow> (methodLabel @ lit '' '' @ larrow @ lit '' reply (exception: '' @ e @ lit '')'', MEDIUM)
              | None \<Rightarrow>
                  (case rr_value r of
                     Some v \<Rightarrow> (methodLabel @ lit '' '' @ larrow @ lit '' reply = '' @ v, HIGH)
                   | None \<Rightarrow> (matched, HIGH))))"

text \<open>A decoder also gives the value that it stores into \<^verbatim>\<open>parsedReply\<close>, if any.\<close>

definition decodeWithInheritance :: "resolver \<Rightarrow> parsed_event \<Rightarrow> PairResult \<Rightarrow> DecodeResult \<times> ReplyDecodeResult option" where
  "decodeWithInheritance methodResolver event matched =
     (let interfaceName = (case pres_interfaceName matched of None \<Rightarrow> lit ''(reply)'' | Some i \<Rightarrow> i);
          baseMethod = pres_methodName matched
      in case (methodResolver, pres_interfaceName matched) of
           (Some getMethodSignature, Some i) \<Rightarrow>
             (let isJavaAidl = (be_binderDev event = DEV_BINDER \<and> java_source (pres_decodeSource matched));
                  returnType =
                    (if isJavaAidl
                     then case getMethodSignature i (pres_code matched) (pres_resolveCandidates matched) of
                            None \<Rightarrow> None | Some t \<Rightarrow> t
                     else None);
                  replyResult =
                    (if isJavaAidl then decodeJavaAidlReply (be_rawParcel event) returnType
                     else Some (raw_result (be_rawParcel event)));
                  (hint, confidence) = reply_hint baseMethod replyResult
              in (\<lparr>dr_interfaceName = interfaceName, dr_methodHint = Some hint, dr_payloadStart = - 1, dr_source = REPLY,
                   dr_confidence = confidence\<rparr>, replyResult))
         | _ \<Rightarrow>
             (\<lparr>dr_interfaceName = interfaceName, dr_methodHint = Some (fst (reply_hint baseMethod None)),
               dr_payloadStart = - 1, dr_source = REPLY, dr_confidence = HIGH\<rparr>, None))"

definition ReplyDecoder ::
  "resolver \<Rightarrow> int \<Rightarrow> int \<Rightarrow> parsed_event \<Rightarrow> TransactionPairer \<Rightarrow>
    (DecodeResult \<times> ReplyDecodeResult option) option \<times> TransactionPairer" where
  "ReplyDecoder methodResolver now targetUid event pairer =
     (if \<not> be_isReply event then (None, pairer)
      else let (matched, pairer) =
             (if be_pairId event \<noteq> 0 then tryMatchReply now event targetUid pairer else (None, pairer))
        in case matched of
             Some m \<Rightarrow> (Some (decodeWithInheritance methodResolver event m), pairer)
           | None \<Rightarrow>
               (let replyResult =
                      (if be_binderDev event = DEV_BINDER then decodeJavaAidlReply (be_rawParcel event) None
                       else Some (raw_result (be_rawParcel event)));
                    hint = larrow @ (if be_pairId event = 0 then lit '' reply (orphan)'' else lit '' reply'')
                in (Some (\<lparr>dr_interfaceName = lit ''(reply)'', dr_methodHint = Some hint, dr_payloadStart = - 1,
                      dr_source = REPLY, dr_confidence = HIGH\<rparr>, replyResult), pairer)))"

section \<open>Reserved codes\<close>

definition asciiCode :: "char \<Rightarrow> char \<Rightarrow> char \<Rightarrow> char \<Rightarrow> int" where
  "asciiCode a b c d =
     sint (push_bit 24 (of_nat (of_char a)) OR push_bit 16 (of_nat (of_char b)) OR push_bit 8 (of_nat (of_char c))
       OR of_nat (of_char d) :: u32)"

definition SPECIAL_CODES :: "(int \<times> string) list" where
  "SPECIAL_CODES =
     [(asciiCode (CHR ''_'') (CHR ''P'') (CHR ''N'') (CHR ''G''), ''PING_TRANSACTION''),
      (asciiCode (CHR ''_'') (CHR ''D'') (CHR ''M'') (CHR ''P''), ''DUMP_TRANSACTION''),
      (asciiCode (CHR ''_'') (CHR ''C'') (CHR ''M'') (CHR ''D''), ''SHELL_COMMAND_TRANSACTION''),
      (asciiCode (CHR ''_'') (CHR ''N'') (CHR ''T'') (CHR ''F''), ''INTERFACE_TRANSACTION''),
      (asciiCode (CHR ''_'') (CHR ''S'') (CHR ''P'') (CHR ''R''), ''SYSPROPS_TRANSACTION''),
      (asciiCode (CHR ''_'') (CHR ''E'') (CHR ''X'') (CHR ''T''), ''EXTENSION_TRANSACTION''),
      (0x00FFFFFE, ''HIDL_GET_DESCRIPTOR_TRANSACTION''),
      (0x00FFFFFD, ''HIDL_DESCRIPTOR_CHAIN_TRANSACTION''),
      (0x00FFFFFC, ''HIDL_PING_TRANSACTION''),
      (0x00FFFFFF, ''HIDL_LINK_TO_DEATH_TRANSACTION'')]"

definition SpecialCodeDecoder :: "parsed_event \<Rightarrow> DecodeResult option option" where
  "SpecialCodeDecoder event =
     Some (map_option (\<lambda>name. \<lparr>dr_interfaceName = lit ''<protocol>'', dr_methodHint = Some (lit name), dr_payloadStart = - 1,
       dr_source = SPECIAL_CODE, dr_confidence = HIGH\<rparr>) (map_of SPECIAL_CODES (be_code event)))"

section \<open>Interface tokens\<close>

definition MAX_INTERFACE_NAME_CHARS :: int where "MAX_INTERFACE_NAME_CHARS = 4096"
definition MIN_LENGTH :: int where "MIN_LENGTH = 1"
definition SYST_MAGIC :: u32 where "SYST_MAGIC = 0x53595354"

definition name_char :: "u16 \<Rightarrow> bool" where
  "name_char c \<longleftrightarrow> c = 0x2E \<or> c = 0x5F \<or> c = 0x24 \<or>
     (0x30 \<le> c \<and> c \<le> 0x39) \<or> (0x61 \<le> c \<and> c \<le> 0x7A) \<or> (0x41 \<le> c \<and> c \<le> 0x5A)"

definition isLikelyInterfaceNameRelaxed :: "kstring \<Rightarrow> bool" where
  "isLikelyInterfaceNameRelaxed s \<longleftrightarrow> s \<noteq> [] \<and> list_all name_char s"

definition isLikelyInterfaceName :: "kstring \<Rightarrow> bool" where
  "isLikelyInterfaceName s \<longleftrightarrow> isLikelyInterfaceNameRelaxed s \<and> 0x2E \<in> set s"

text \<open>\<^verbatim>\<open>getInt\<close> at an offset throws outside the array.\<close>

definition getInt :: "bytes \<Rightarrow> nat \<Rightarrow> u32 option" where
  "getInt data i = map_option fst (lb_int (drop i data))"

definition padded4 :: "int \<Rightarrow> int" where
  "padded4 n = (n + 3) AND NOT 3"

definition readUtf16NameAt :: "bytes \<Rightarrow> nat \<Rightarrow> bool \<Rightarrow> (kstring \<times> int) option option" where
  "readUtf16NameAt data lenOffset requireDot =
     (if lenOffset + 4 > length data then Some None
      else do {
        w \<leftarrow> getInt data lenOffset;
        let len = sint w;
        if len < MIN_LENGTH \<or> len > MAX_INTERFACE_NAME_CHARS then Some None
        else let charsBytes = (len + 1) * 2; charsStart = int lenOffset + 4 in
          if charsStart + charsBytes > int (length data) then Some None
          else do {
            (name, _) \<leftarrow> read_chars (nat len) (slice_at (nat charsStart) (nat (len * 2)) data);
            let ok = (if requireDot then isLikelyInterfaceName name else isLikelyInterfaceNameRelaxed name);
            Some (if ok then Some (name, charsStart + padded4 charsBytes) else None)
          }
      })"

definition token_result :: "DecodeSource \<Rightarrow> Confidence \<Rightarrow> kstring \<times> int \<Rightarrow> DecodeResult" where
  "token_result source confidence r =
     \<lparr>dr_interfaceName = fst r, dr_methodHint = None, dr_payloadStart = snd r, dr_source = source, dr_confidence = confidence\<rparr>"

definition AidlQDecoder :: "parsed_event \<Rightarrow> DecodeResult option option" where
  "AidlQDecoder event =
     (let data = be_rawParcel event in
      if length data < 16 then Some None
      else do {
        magic \<leftarrow> getInt data 8;
        if magic \<noteq> SYST_MAGIC then Some None
        else map_option (map_option (token_result AIDL_Q HIGH)) (readUtf16NameAt data 12 False)
      })"

definition AidlPDecoder :: "parsed_event \<Rightarrow> DecodeResult option option" where
  "AidlPDecoder event =
     (let data = be_rawParcel event in
      if length data < 12 then Some None
      else map_option (map_option (token_result AIDL_P MEDIUM)) (readUtf16NameAt data 8 True))"

definition AidlODecoder :: "parsed_event \<Rightarrow> DecodeResult option option" where
  "AidlODecoder event =
     (let data = be_rawParcel event in
      if length data < 8 then Some None
      else map_option (map_option (token_result AIDL_O MEDIUM)) (readUtf16NameAt data 4 True))"

section \<open>Descriptors in ASCII\<close>

definition MAX_DESCRIPTOR_LEN :: nat where "MAX_DESCRIPTOR_LEN = 256"
definition MIN_DESCRIPTOR_LEN :: nat where "MIN_DESCRIPTOR_LEN = 8"
definition MIN_LEN :: nat where "MIN_LEN = 8"
definition MAX_LEN :: nat where "MAX_LEN = 256"

fun str_contains :: "kstring \<Rightarrow> kstring \<Rightarrow> bool" where
  "str_contains pat [] = (pat = [])"
| "str_contains pat (c # cs) = (take (length pat) (c # cs) = pat \<or> str_contains pat cs)"

definition readAsciiUntilNul :: "bytes \<Rightarrow> nat \<Rightarrow> kstring" where
  "readAsciiUntilNul data maxLen = map ucast (takeWhile (\<lambda>b. 0x20 \<le> b \<and> b \<le> 0x7E) (take maxLen data))"

definition HidlDescriptorDecoder :: "parsed_event \<Rightarrow> DecodeResult option option" where
  "HidlDescriptorDecoder event =
     (let data = be_rawParcel event in
      if data = [] then Some None
      else let ascii = readAsciiUntilNul data MAX_DESCRIPTOR_LEN;
               hasShape = (0x40 \<in> set ascii \<and> str_contains (lit ''::'') ascii);
               devHint = (be_binderDev event = DEV_HWBINDER)
        in if \<not> devHint \<and> \<not> hasShape then Some None
           else if length ascii < MIN_DESCRIPTOR_LEN \<or> \<not> hasShape then Some None
           else Some (Some \<lparr>dr_interfaceName = ascii, dr_methodHint = None, dr_payloadStart = - 1,
                  dr_source = HIDL_DESCRIPTOR, dr_confidence = (if devHint then HIGH else MEDIUM)\<rparr>))"

definition RawAsciiHeuristicDecoder :: "parsed_event \<Rightarrow> DecodeResult option option" where
  "RawAsciiHeuristicDecoder event =
     (let data = be_rawParcel event in
      if length data < MIN_LEN then Some None
      else let sb = map ucast (takeWhile (\<lambda>b. 0x21 \<le> b \<and> b \<le> 0x7E) (take MAX_LEN data)) :: kstring
        in if length sb < MIN_LEN then Some None
           else if 0x2E \<notin> set sb then Some None
           else Some (Some \<lparr>dr_interfaceName = sb, dr_methodHint = None, dr_payloadStart = - 1,
                  dr_source = RAW_ASCII, dr_confidence = LOW\<rparr>))"

section \<open>The target\<close>

definition long_toString16 :: "int \<Rightarrow> string" where
  "long_toString16 i = (if i < 0 then ''-'' @ hexadecimal (nat (- i)) else hexadecimal (nat i))"

text \<open>\<open>lookup\<close> gives the process name for a sender and a handle.\<close>

definition TargetRefDecoder :: "(int \<Rightarrow> int \<Rightarrow> kstring option) option \<Rightarrow> parsed_event \<Rightarrow> DecodeResult" where
  "TargetRefDecoder lookup event =
     (let ifaceName =
        (if be_targetRef event = 0 then lit ''unknown''
         else let raw = lit (''target@0x'' @ long_toString16 (be_targetRef event)) in
           case (case lookup of None \<Rightarrow> None | Some f \<Rightarrow> f (be_pid event) (be_targetRef event)) of
             Some processName \<Rightarrow> raw @ [0x20, 0x2192, 0x20] @ processName
           | None \<Rightarrow> raw)
      in \<lparr>dr_interfaceName = ifaceName, dr_methodHint = Some (lit (''code='' @ int_toString (be_code event))),
           dr_payloadStart = - 1, dr_source = TARGET_REF, dr_confidence = LOW\<rparr>)"

section \<open>The pipeline\<close>

text \<open>The first decoder that neither throws nor gives \<^verbatim>\<open>null\<close>; the last one always answers.\<close>

fun first_hit :: "(parsed_event \<Rightarrow> DecodeResult option option) list \<Rightarrow> parsed_event \<Rightarrow> DecodeResult option" where
  "first_hit [] event = None"
| "first_hit (d # ds) event = (case d event of Some (Some r) \<Rightarrow> Some r | _ \<Rightarrow> first_hit ds event)"

definition decodePipeline ::
  "resolver \<Rightarrow> (int \<Rightarrow> int \<Rightarrow> kstring option) option \<Rightarrow> int \<Rightarrow> int \<Rightarrow> parsed_event \<Rightarrow> TransactionPairer \<Rightarrow>
    (DecodeResult \<times> ReplyDecodeResult option) option \<times> TransactionPairer" where
  "decodePipeline methodResolver lookup now targetUid event pairer =
     (case ReplyDecoder methodResolver now targetUid event pairer of
        (Some r, pairer) \<Rightarrow> (Some r, pairer)
      | (None, pairer) \<Rightarrow>
          (map_option (\<lambda>r. (r, None))
             (first_hit [SpecialCodeDecoder, AidlQDecoder, AidlPDecoder, AidlODecoder, HidlDescriptorDecoder,
                RawAsciiHeuristicDecoder, \<lambda>e. Some (Some (TargetRefDecoder lookup e))] event), pairer))"

definition recordParsedRequest ::
  "(requests \<Rightarrow> requests) \<Rightarrow> int \<Rightarrow> int \<Rightarrow> parsed_event \<Rightarrow> TransactionPairer \<Rightarrow> TransactionPairer" where
  "recordParsedRequest visit now currentTargetUid event pairer = recordRequest visit now event currentTargetUid pairer"

section \<open>No exception\<close>

lemma getInt_written: "getInt (pre @ le_bytes 4 w @ r) (length pre) = Some w"
  by (simp add: getInt_def)

lemma getInt_inside: "i + 4 \<le> length data \<Longrightarrow> \<exists>w. getInt data i = Some w"
  by (simp add: getInt_def lb_enough)

lemma readUtf16NameAt_total: "\<exists>x. readUtf16NameAt data i dot = Some x"
proof (cases "i + 4 \<le> length data")
  case True
  then obtain w where w: "getInt data i = Some w" using getInt_inside by blast
  have "\<exists>cs. read_chars (nat n) (slice_at (nat (int i + 4)) (nat (n * 2)) data) = Some (cs, [])"
    if "0 \<le> n" "int i + 4 + (n + 1) * 2 \<le> int (length data)" for n
  proof -
    have "length (slice_at (nat (int i + 4)) (nat (n * 2)) data) = 2 * nat n" using that by (simp add: slice_at_def)
    then show ?thesis
      using read_chars_enough [of "nat n" "slice_at (nat (int i + 4)) (nat (n * 2)) data"] by simp
  qed
  note chars = this [of "sint w"]
  show ?thesis
  proof (cases "sint w < MIN_LENGTH \<or> sint w > MAX_INTERFACE_NAME_CHARS")
    case len: False
    show ?thesis
    proof (cases "int i + 4 + (sint w + 1) * 2 > int (length data)")
      case False
      then obtain cs where "read_chars (nat (sint w)) (slice_at (nat (int i + 4)) (nat (sint w * 2)) data) = Some (cs, [])"
        using chars len by (auto simp: MIN_LENGTH_def)
      then show ?thesis using True w len False by (simp add: readUtf16NameAt_def)
    qed (use True w len in \<open>simp add: readUtf16NameAt_def\<close>)
  qed (use True w in \<open>simp add: readUtf16NameAt_def\<close>)
qed (simp add: readUtf16NameAt_def)

text \<open>No decoder throws, so the handler of the pipeline for exceptions is never needed.\<close>

lemma decoders_total:
  "\<exists>x. SpecialCodeDecoder event = Some x" "\<exists>x. AidlQDecoder event = Some x" "\<exists>x. AidlPDecoder event = Some x"
  "\<exists>x. AidlODecoder event = Some x" "\<exists>x. HidlDescriptorDecoder event = Some x" "\<exists>x. RawAsciiHeuristicDecoder event = Some x"
proof -
  have name: "\<exists>x. map_option (map_option f) (readUtf16NameAt data i dot) = Some x" for f :: "_ \<Rightarrow> DecodeResult" and data i dot
    using readUtf16NameAt_total [of data i dot] by auto
  have "\<exists>w. getInt data 8 = Some w" if "\<not> length data < 16" for data
    using that getInt_inside [of 8 data] by simp
  note magic = this [of "be_rawParcel event"]
  show "\<exists>x. AidlQDecoder event = Some x"
  proof (cases "length (be_rawParcel event) < 16")
    case False
    then obtain w where "getInt (be_rawParcel event) 8 = Some w" using magic by blast
    then show ?thesis
      using False name [of "token_result AIDL_Q HIGH" "be_rawParcel event" 12 False]
      by (simp add: AidlQDecoder_def Let_def)
  qed (simp add: AidlQDecoder_def)
  show "\<exists>x. AidlPDecoder event = Some x" "\<exists>x. AidlODecoder event = Some x"
    using name by (simp_all add: AidlPDecoder_def AidlODecoder_def Let_def del: map_option_eq_Some)
qed (simp_all add: SpecialCodeDecoder_def HidlDescriptorDecoder_def RawAsciiHeuristicDecoder_def Let_def)

lemma first_hit_answers: "\<exists>r. first_hit (ds @ [\<lambda>e. Some (Some (f e))]) event = Some r"
  by (induction ds) (auto split: option.split)

lemma pipeline_answers: "\<exists>r p'. decodePipeline resolver lookup now uid event p = (Some r, p')"
proof -
  obtain r where "first_hit ([SpecialCodeDecoder, AidlQDecoder, AidlPDecoder, AidlODecoder, HidlDescriptorDecoder,
      RawAsciiHeuristicDecoder] @ [\<lambda>e. Some (Some (TargetRefDecoder lookup e))]) event = Some r"
    using first_hit_answers by blast
  then show ?thesis
    by (simp add: decodePipeline_def del: first_hit.simps split: prod.split option.split)
qed

section \<open>Interface tokens\<close>

lemma padded4_eq: "padded4 n = (n + 3) div 4 * 4"
proof -
  have "bit (a AND NOT (mask 2)) k = bit (push_bit 2 (drop_bit 2 a)) k" for a :: int and k
    by (cases "k < 2") (simp_all add: bit_simps flip: numeral_2_eq_2 add_2_eq_Suc')
  then have "a AND NOT (mask 2) = push_bit 2 (drop_bit 2 a)" for a :: int by (simp add: bit_eq_iff)
  then show ?thesis by (simp add: padded4_def mask_eq_exp_minus_1 push_bit_eq_mult drop_bit_eq_div)
qed

lemma length_parcel_string: "int (length (parcel_string s)) = 4 + padded4 ((int (length s) + 1) * 2)"
proof (cases "even (length s)")
  case True
  then obtain k where "length s = 2 * k" by blast
  then show ?thesis by (simp add: parcel_string_def string_pad_def padded4_eq)
next
  case False
  then obtain k where "length s = 2 * k + 1" by (rule oddE)
  then show ?thesis by (simp add: parcel_string_def string_pad_def padded4_eq)
qed

lemma readUtf16NameAt_written:
  assumes "name \<noteq> []" "length name \<le> 4096" "data = pre @ parcel_string name @ args"
  shows "readUtf16NameAt data (length pre) dot =
    Some (if (if dot then isLikelyInterfaceName name else isLikelyInterfaceNameRelaxed name)
      then Some (name, int (length pre + length (parcel_string name))) else None)"
proof -
  let ?n = "length name"
  have word: "getInt data (length pre) = Some (of_nat ?n)"
    using getInt_written [of pre "of_nat ?n"] assms(3) by (simp add: parcel_string_def)
  have chars: "slice_at (length pre + 4) (?n * 2) data = utf16 name"
    using assms(3) by (simp add: parcel_string_def slice_at_def)
  have "length pre + 4 + (?n + 1) * 2 \<le> length data" using assms(3) by (simp add: parcel_string_def)
  moreover have "nat (int (length pre) + 4) = length pre + 4" "nat (int ?n * 2) = ?n * 2" by simp_all
  moreover have "read_chars ?n (utf16 name) = Some (name, [])" using read_chars_utf16 [of name "[]"] by simp
  moreover have "1 \<le> ?n" using assms(1) by (cases name) auto
  ultimately show ?thesis
    using assms(1,2) word chars
    by (simp add: readUtf16NameAt_def sint_of_nat_32 MIN_LENGTH_def MAX_INTERFACE_NAME_CHARS_def length_parcel_string Let_def)
qed

lemma first_miss:
  "\<not> be_isReply e \<Longrightarrow> map_of SPECIAL_CODES (be_code e) = None \<Longrightarrow>
   decodePipeline resolver lookup now uid e p =
     (map_option (\<lambda>r. (r, None)) (first_hit [AidlQDecoder, AidlPDecoder, AidlODecoder, HidlDescriptorDecoder,
        RawAsciiHeuristicDecoder, \<lambda>e. Some (Some (TargetRefDecoder lookup e))] e), p)"
  by (simp add: decodePipeline_def ReplyDecoder_def SpecialCodeDecoder_def)

text \<open>Two characters of a name, read as a number, are neither the magic number nor a possible length.\<close>

lemma of_le_two: "(of_le (le_bytes 2 (a :: u16) @ le_bytes 2 (b :: u16)) :: u32) = push_bit 16 (ucast b) OR ucast a"
proof (rule bit_word_eqI)
  fix i
  assume "i < LENGTH(32)"
  then have i: "i < 32" by simp
  show "bit (of_le (le_bytes 2 a @ le_bytes 2 b) :: u32) i \<longleftrightarrow> bit (push_bit 16 (ucast b) OR ucast a :: u32) i"
  proof (cases "i < 16")
    case True
    then have "i div 8 < 2" by simp
    then show ?thesis using True by (simp add: bit_of_le bit_simps nth_append bit_le_bytes_nth)
  next
    case False
    define j where "j = i - 16"
    have j: "i = j + 16" "j < 16" using False i by (simp_all add: j_def)
    have "(j + 16) mod 8 = j mod 8" using mod_mult_self1 [of j 2 8] by simp
    moreover have "(j + 16) div 8 = Suc (Suc (j div 8))" "j div 8 < 2" using j(2) by simp_all
    moreover have "\<not> bit a (j + 16)" using bit_imp_le_length [of a "j + 16"] by auto
    ultimately show ?thesis using j by (simp add: bit_of_le bit_simps nth_append bit_le_bytes_nth)
  qed
qed

lemma two_chars:
  assumes "name_char a" "name_char b"
  shows "(push_bit 16 (ucast b) OR ucast a :: u32) \<noteq> SYST_MAGIC" "4096 < sint (push_bit 16 (ucast b) OR ucast a :: u32)"
proof -
  have b: "0x24 \<le> uint b" "uint b \<le> 0x7A" using assms(2) by (auto simp: name_char_def word_le_def word_less_def)
  have a: "uint a < 2 ^ 23" using unsigned_less [where 'a = int and w = a] by simp
  have "uint (push_bit 16 (ucast b) :: u32) = 65536 * uint b"
    unfolding unsigned_push_bit_eq using b by (simp add: unsigned_ucast_eq push_bit_eq_mult take_bit_int_eq_self)
  moreover have "uint (ucast a :: u32) = uint a" using a by (simp add: unsigned_ucast_eq take_bit_int_eq_self)
  ultimately have w: "uint (push_bit 16 (ucast b) OR ucast a :: u32) = 65536 * uint b OR uint a"
    by (simp add: unsigned_or_eq)
  have lo: "65536 * uint b \<le> 65536 * uint b OR uint a" by (rule or_greater_eq) simp
  have hi: "65536 * uint b OR uint a < 2 ^ 23" using b a by (intro OR_upper) simp_all
  show "(push_bit 16 (ucast b) OR ucast a :: u32) \<noteq> SYST_MAGIC"
    using w hi by (auto simp: SYST_MAGIC_def dest: arg_cong [where f = uint])
  show "4096 < sint (push_bit 16 (ucast b) OR ucast a :: u32)"
    unfolding sint_uint w using lo hi b by (simp add: signed_take_bit_int_eq_self)
qed

text \<open>The header of a token: two words and the magic number, two words, or one word.\<close>

datatype token_version = TokenQ u32 u32 | TokenP u32 u32 | TokenO u32

fun token_header :: "token_version \<Rightarrow> bytes" where
  "token_header (TokenQ policy workSource) = le_bytes 4 policy @ le_bytes 4 workSource @ le_bytes 4 SYST_MAGIC"
| "token_header (TokenP policy workSource) = le_bytes 4 policy @ le_bytes 4 workSource"
| "token_header (TokenO policy) = le_bytes 4 policy"

fun token_source :: "token_version \<Rightarrow> DecodeSource \<times> Confidence" where
  "token_source (TokenQ _ _) = (AIDL_Q, HIGH)"
| "token_source (TokenP _ _) = (AIDL_P, MEDIUM)"
| "token_source (TokenO _) = (AIDL_O, MEDIUM)"

fun token_name :: "token_version \<Rightarrow> kstring \<Rightarrow> bool" where
  "token_name (TokenQ _ _) name = isLikelyInterfaceNameRelaxed name"
| "token_name (TokenP _ _) name = isLikelyInterfaceName name"
| "token_name (TokenO _) name = (isLikelyInterfaceName name \<and> 2 \<le> length name)"

lemma token_Q:
  assumes "be_rawParcel e = token_header (TokenQ policy source) @ parcel_string name @ args"
    and "isLikelyInterfaceNameRelaxed name" "length name \<le> 4096"
  shows "AidlQDecoder e = Some (Some (token_result AIDL_Q HIGH (name, int (12 + length (parcel_string name)))))"
proof -
  have "getInt (be_rawParcel e) 8 = Some SYST_MAGIC"
    using getInt_written [of "le_bytes 4 policy @ le_bytes 4 source" SYST_MAGIC "parcel_string name @ args"] assms(1) by simp
  moreover have "readUtf16NameAt (be_rawParcel e) 12 False = Some (Some (name, int (12 + length (parcel_string name))))"
    using readUtf16NameAt_written [of name "be_rawParcel e" "token_header (TokenQ policy source)" args False] assms
    by (simp add: isLikelyInterfaceNameRelaxed_def)
  moreover have "\<not> length (be_rawParcel e) < 16" using assms(1) by (simp add: parcel_string_def)
  ultimately show ?thesis by (simp add: AidlQDecoder_def Let_def)
qed

lemma token_P:
  assumes "be_rawParcel e = token_header (TokenP policy source) @ parcel_string name @ args"
    and "isLikelyInterfaceName name" "length name \<le> 4096"
  shows "AidlQDecoder e = Some None"
    and "AidlPDecoder e = Some (Some (token_result AIDL_P MEDIUM (name, int (8 + length (parcel_string name)))))"
proof -
  have "getInt (be_rawParcel e) 8 = Some (of_nat (length name))"
    using getInt_written [of "le_bytes 4 policy @ le_bytes 4 source" "of_nat (length name)"] assms(1)
    by (simp add: parcel_string_def)
  moreover have "(of_nat (length name) :: u32) \<noteq> SYST_MAGIC"
  proof
    assume "of_nat (length name) = SYST_MAGIC"
    then have "sint (of_nat (length name) :: u32) = sint SYST_MAGIC" by simp
    then show False using assms(3) by (simp add: sint_of_nat_32 SYST_MAGIC_def)
  qed
  ultimately show "AidlQDecoder e = Some None" by (simp add: AidlQDecoder_def Let_def)
  have "readUtf16NameAt (be_rawParcel e) 8 True = Some (Some (name, int (8 + length (parcel_string name))))"
    using readUtf16NameAt_written [of name "be_rawParcel e" "token_header (TokenP policy source)" args True] assms
    by (simp add: isLikelyInterfaceName_def isLikelyInterfaceNameRelaxed_def)
  moreover have "\<not> length (be_rawParcel e) < 12" using assms(1) by (simp add: parcel_string_def)
  ultimately show "AidlPDecoder e = Some (Some (token_result AIDL_P MEDIUM (name, int (8 + length (parcel_string name)))))"
    by (simp add: AidlPDecoder_def Let_def)
qed

lemma token_O:
  assumes "be_rawParcel e = token_header (TokenO policy) @ parcel_string name @ args"
    and "isLikelyInterfaceName name" "2 \<le> length name" "length name \<le> 4096"
  shows "AidlQDecoder e = Some None" "AidlPDecoder e = Some None"
    and "AidlODecoder e = Some (Some (token_result AIDL_O MEDIUM (name, int (4 + length (parcel_string name)))))"
proof -
  obtain a b cs where name: "name = a # b # cs" using assms(3) by (metis Suc_le_length_iff numeral_2_eq_2)
  have ab: "name_char a" "name_char b"
    using assms(2) name by (simp_all add: isLikelyInterfaceName_def isLikelyInterfaceNameRelaxed_def)
  define w :: u32 where "w = push_bit 16 (ucast b) OR ucast a"
  have "drop 8 (be_rawParcel e) = (le_bytes 2 a @ le_bytes 2 b) @ utf16 cs @ [0, 0] @ string_pad name @ args"
    using assms(1) by (simp add: parcel_string_def utf16_def name)
  then have int: "getInt (be_rawParcel e) 8 = Some w"
    by (simp add: getInt_def lb_int_def bb_get_def of_le_two w_def)
  show "AidlQDecoder e = Some None" using int two_chars(1) [OF ab] by (simp add: AidlQDecoder_def Let_def w_def)
  show "AidlPDecoder e = Some None"
    using int two_chars(2) [OF ab]
    by (simp add: AidlPDecoder_def readUtf16NameAt_def MAX_INTERFACE_NAME_CHARS_def w_def Let_def)
  have "readUtf16NameAt (be_rawParcel e) 4 True = Some (Some (name, int (4 + length (parcel_string name))))"
    using readUtf16NameAt_written [of name "be_rawParcel e" "token_header (TokenO policy)" args True] assms
    by (simp add: isLikelyInterfaceName_def isLikelyInterfaceNameRelaxed_def)
  moreover have "\<not> length (be_rawParcel e) < 8" using assms(1) by (simp add: parcel_string_def)
  ultimately show "AidlODecoder e = Some (Some (token_result AIDL_O MEDIUM (name, int (4 + length (parcel_string name)))))"
    by (simp add: AidlODecoder_def Let_def)
qed

section \<open>Properties\<close>

text \<open>C9. The interface token of a request is read in each of the three layouts of Android: the pipeline gives the
  name, the decoder of the right layout, and the offset at which the arguments begin, and it leaves the pairing of
  replies as it is. A name without a package is accepted in the newest layout only.\<close>

theorem interface_token_decodes:
  assumes "\<not> be_isReply e" "map_of SPECIAL_CODES (be_code e) = None"
    and "be_rawParcel e = token_header v @ parcel_string name @ args" "token_name v name" "length name \<le> 4096"
  shows "\<exists>r. decodePipeline resolver lookup now uid e p = (Some (r, None), p) \<and> dr_interfaceName r = name \<and>
    (dr_source r, dr_confidence r) = token_source v \<and> drop (nat (dr_payloadStart r)) (be_rawParcel e) = args"
proof (cases v)
  case (TokenQ policy source)
  then show ?thesis
    using first_miss [OF assms(1,2)] token_Q [of e policy source name args] assms(3-5) by (simp add: token_result_def)
next
  case (TokenP policy source)
  then show ?thesis
    using first_miss [OF assms(1,2)] token_P [of e policy source name args] assms(3-5) by (simp add: token_result_def)
next
  case (TokenO policy)
  then show ?thesis
    using first_miss [OF assms(1,2)] token_O [of e policy name args] assms(3-5) by (simp add: token_result_def)
qed

text \<open>C8. A reply is shown with its request and its value. Take a request of a Java interface with a known method, a reply
  on the same device that finds it, and a parcel of the reply that holds no exception and a value whose type the
  resolver gives as \<^verbatim>\<open>int\<close>, \<^verbatim>\<open>long\<close>, \<^verbatim>\<open>boolean\<close> or \<^verbatim>\<open>String\<close>, the string being null or at most 4096 characters long, behind
  reply headers of at most 65536 bytes each. Then the reply is named by the interface and the method of the request.
  Behind at most three headers it shows the value; behind more it shows no value and keeps the hexadecimal summary
  of the parcel.\<close>

theorem reply_shows_result:
  assumes "pairer_ok p" "request_side request uid = Some s" "reply_side reply uid = Some s"
    and "be_pairId reply = be_pairId request" "op_ok (Request visit t request uid)"
    and "0 \<le> t'" "t' < 2 ^ 63" "t' \<le> t + TTL_MS"
    and "\<forall>op\<in>set ops. op_ok op \<and> \<not> touches s (be_pairId request) op \<and> op_time op \<le> t + TTL_MS"
    and "recent t (table s p) + 1 + length (filter (adds_since s t) ops) \<le> MAX_ENTRIES"
    and "p' = pairer_run (Request visit t request uid # ops) p"
    and "pe_interfaceName request = Some i" "i \<noteq> lit ''Unknown''" "java_source (pe_decodeSource request)"
    and "pe_methodName request = Some m" "m \<noteq> lit (''code='' @ int_toString (be_code request))"
    and "getMethodSignature i (be_code request) (pe_resolveCandidates request) = Some (Some (value_type v))"
    and "be_binderDev reply = DEV_BINDER" "be_rawParcel reply = reply_parcel headers 0 (value_bytes v @ rest)"
    and "\<forall>h\<in>set headers. length (snd h) \<le> 65536" "value_fits v"
  shows "fst (decodePipeline (Some getMethodSignature) lookup t' uid reply p') =
    Some (\<lparr>dr_interfaceName = i,
      dr_methodHint = Some (m @ (if length headers \<le> 3 then lit '' '' @ larrow @ lit '' reply = '' @ value_text v else lit '' (reply)'')),
      dr_payloadStart = - 1, dr_source = REPLY, dr_confidence = HIGH\<rparr>,
      Some (if length headers \<le> 3 then value_result (value_text v) else raw_result (be_rawParcel reply)))"
proof -
  have "map_of (table s p') (be_pairId request) = Some \<lparr>rq_result = pair_result request, rq_enqueuedAtMs = t\<rparr>"
    unfolding assms(11) by (rule request_stays [OF assms(1,2,5,9,10)])
  then have found: "fst (tryMatchReply t' reply uid p') = Some (pair_result request)"
    using assms(3-8) by (simp add: match_result to_long_id TTL_MS_def)
  have reply: "be_isReply reply" "be_pairId reply \<noteq> 0"
    using assms(3) by (auto simp: reply_side_def usable_def split: if_splits)
  have pair: "pres_interfaceName (pair_result request) = Some i" "pres_methodName (pair_result request) = Some m"
      "pres_code (pair_result request) = be_code request" "pres_decodeSource (pair_result request) = pe_decodeSource request"
      "pres_resolveCandidates (pair_result request) = pe_resolveCandidates request"
    using assms(12,13,15,16) by (simp_all add: pair_result_def takeIf_def interfaceName_def methodName_def)
  have "decodeJavaAidlReply (be_rawParcel reply) (Some (value_type v)) =
      Some (if length headers \<le> 3 then value_result (value_text v) else raw_result (be_rawParcel reply))"
    using reply_value_read [OF _ assms(20,21)] reply_raw_read [OF _ assms(20)] unfolding assms(19) by simp
  then have "decodeWithInheritance (Some getMethodSignature) reply (pair_result request) =
      (\<lparr>dr_interfaceName = i,
        dr_methodHint = Some (m @ (if length headers \<le> 3 then lit '' '' @ larrow @ lit '' reply = '' @ value_text v else lit '' (reply)'')),
        dr_payloadStart = - 1, dr_source = REPLY, dr_confidence = HIGH\<rparr>,
        Some (if length headers \<le> 3 then value_result (value_text v) else raw_result (be_rawParcel reply)))"
    using assms(14,17,18) pair
    by (simp add: decodeWithInheritance_def reply_hint_def value_result_def raw_result_def Let_def)
  then show ?thesis
    using found reply by (cases "tryMatchReply t' reply uid p'") (simp add: decodePipeline_def ReplyDecoder_def)
qed

section \<open>Examples\<close>

definition token_event :: parsed_event where
  "token_event = sample_request\<lparr>be_rawParcel := token_header (TokenO 0) @ parcel_string (lit ''a.IFoo'') @ [1, 2]\<rparr>"

theorem interface_token_decodes_witness:
  "\<exists>r. decodePipeline None None 0 0 token_event newPairer = (Some (r, None), newPairer) \<and>
    dr_interfaceName r = lit ''a.IFoo'' \<and> (dr_source r, dr_confidence r) = (AIDL_O, MEDIUM) \<and>
    drop (nat (dr_payloadStart r)) (be_rawParcel token_event) = [1, 2]"
proof -
  have "\<not> be_isReply token_event" "be_code token_event = 3" by (simp_all add: token_event_def sample_request_def)
  moreover have "map_of SPECIAL_CODES 3 = None" by (simp add: SPECIAL_CODES_def asciiCode_def)
  moreover have "be_rawParcel token_event = token_header (TokenO 0) @ parcel_string (lit ''a.IFoo'') @ [1, 2]"
    by (simp add: token_event_def)
  moreover have "token_name (TokenO 0) (lit ''a.IFoo'')"
    by (simp add: isLikelyInterfaceName_def isLikelyInterfaceNameRelaxed_def name_char_def lit_def)
  moreover have "length (lit ''a.IFoo'') \<le> 4096" by (simp add: lit_def)
  ultimately show ?thesis
    using interface_token_decodes [of token_event "TokenO 0" "lit ''a.IFoo''" "[1, 2]" None None 0 0 newPairer] by simp
qed

definition value_reply :: parsed_event where
  "value_reply = sample_reply\<lparr>be_rawParcel := reply_parcel [(True, [9])] 0 (value_bytes (VBoolean True) @ [])\<rparr>"

theorem reply_shows_result_witness:
  "fst (decodePipeline (Some (\<lambda>_ _ _. Some (Some (lit ''boolean'')))) None 6000 10123 value_reply
      (pairer_run [Request id 1000 sample_request 10123] newPairer)) =
    Some (\<lparr>dr_interfaceName = lit ''android.app.IActivityManager'',
      dr_methodHint = Some (lit ''getTasks'' @ lit '' '' @ larrow @ lit '' reply = '' @ lit ''true''), dr_payloadStart = - 1,
      dr_source = REPLY, dr_confidence = HIGH\<rparr>, Some (value_result (lit ''true'')))"
proof -
  have sides: "request_side sample_request 10123 = Some Client" "reply_side value_reply 10123 = Some Client"
    by (simp_all add: value_reply_def pairer_samples)
  have ids: "be_pairId value_reply = be_pairId sample_request" "be_binderDev value_reply = DEV_BINDER"
      "be_rawParcel value_reply = reply_parcel [(True, [9])] 0 (value_bytes (VBoolean True) @ [])"
    by (simp_all add: value_reply_def sample_reply_def sample_request_def BinderDev_fromByte_def)
  have names: "pe_interfaceName sample_request = Some (lit ''android.app.IActivityManager'')"
      "pe_methodName sample_request = Some (lit ''getTasks'')" "java_source (pe_decodeSource sample_request)"
      "lit ''android.app.IActivityManager'' \<noteq> lit ''Unknown''"
      "lit ''getTasks'' \<noteq> lit (''code='' @ int_toString (be_code sample_request))"
    by (simp_all add: sample_request_def java_source_def lit_def)
  have room: "recent 1000 (table Client newPairer) + 1 + length (filter (adds_since Client 1000) []) \<le> MAX_ENTRIES"
    by (simp add: newPairer_def recent_def MAX_ENTRIES_def)
  show ?thesis
    using reply_shows_result [OF newPairer_ok sides ids(1) _ _ _ _ _ room refl names(1,4,3,2,5) _ ids(2,3), of id 6000
        "\<lambda>_ _ _. Some (Some (lit ''boolean''))" None]
    by (simp add: TTL_MS_def)
qed

end
