(* ===== verification/Spec2Isabelle.thy ===== *)
theory Spec2Isabelle
  imports BT_BpfEndian BT_EndToEnd BT_SymbolizerProperties BT_SocketProperties BT_Daemon BT_ParcelParser
begin

text \<open>
  BinderTracer records the Binder transactions of an Android device: programs in the kernel copy the data of a
  transaction into a ring buffer, a daemon joins the records to events and sends them to an app, and the app decodes
  and names them. This development models the path of a transaction from the sender's buffer to the text that the
  app shows. Paths below are relative to \<^verbatim>\<open>src/\<close>; \<^verbatim>\<open>app/\<close> stands for \<^verbatim>\<open>app/src/main/java/com/btrace/viewer/\<close>.

  \<^bold>\<open>Foundations.\<close> \<^verbatim>\<open>BT_Prelude\<close> has the integer types, the byte codecs and the shared lemmas; \<^verbatim>\<open>BT_Text\<close> the strings;
  \<^verbatim>\<open>BT_GoContainers\<close> Go's maps (association lists), lists and binary search, with the locale \<open>evictor\<close> for a table that
  removes its oldest entries, interpreted on the five tables of the collector in \<^verbatim>\<open>BT_CollectorInv\<close>; \<^verbatim>\<open>BT_CTypes\<close> the
  layout of C types.

  \<^bold>\<open>Headers of the programs\<close> (\<^verbatim>\<open>daemon/headers\<close>). \<^verbatim>\<open>BT_BpfEndian\<close>, \<^verbatim>\<open>BT_BpfTracing\<close>, \<^verbatim>\<open>BT_BpfHelpers\<close>, \<^verbatim>\<open>BT_HelperDefs\<close>,
  \<^verbatim>\<open>BT_Vmlinux\<close> and \<^verbatim>\<open>BT_CoreRead\<close> model the macros of \<^verbatim>\<open>bpf_endian.h\<close>, \<^verbatim>\<open>bpf_tracing.h\<close>, \<^verbatim>\<open>bpf_helpers.h\<close>, the
  declarations of \<^verbatim>\<open>bpf_helper_defs.h\<close>, the kernel types of \<^verbatim>\<open>vmlinux.h\<close> that the programs reach, and the relocatable
  reads of \<^verbatim>\<open>bpf_core_read.h\<close>. The lemmas show that accessors stay inside their objects, that relocated reads follow the
  chain of pointers on any kernel that has the members, that bit-fields hold what was written, and that helper numbers
  agree between the headers.

  \<^bold>\<open>The programs.\<close> \<^verbatim>\<open>BT_Records\<close> has the structs of the ring buffer and \<^verbatim>\<open>BT_Runtime\<close> the maps, the helper calls and the
  kernel, which is a record of functions (\<open>kenv\<close>) with its documented laws (\<open>kernel_laws\<close>); the LRU maps meet the locale
  \<open>evicting_map\<close>. \<^verbatim>\<open>BT_MainProbe\<close>, \<^verbatim>\<open>BT_CookieProbe\<close> and \<^verbatim>\<open>BT_RawTp\<close> are \<^verbatim>\<open>kprobe_binder_transaction\<close>
  (\<^verbatim>\<open>binder_transaction.byte.c\<close>), \<^verbatim>\<open>kprobe_binder_transaction_cookie\<close> and \<^verbatim>\<open>raw_tp_binder_transaction\<close>, each as one
  function of the state. \<^verbatim>\<open>BT_ProbeTrace\<close> has sequences of runs on any threads, \<^verbatim>\<open>BT_Sample\<close> a concrete kernel, and
  \<^verbatim>\<open>BT_ProbeProperties\<close> the theorems: the records carry the sender's bytes, the three records of a transaction are
  linked by transaction id and cookie, sidebands never exceed the cookies allocated, and the branches of each program.

  \<^bold>\<open>The daemon.\<close> \<^verbatim>\<open>BT_LruCache\<close> and \<^verbatim>\<open>BT_Symbolizer\<close> model \<^verbatim>\<open>daemon/symbolizer.go\<close>; the cache refines a bounded list in
  order of use, through the locale \<open>cache\<close>, and \<^verbatim>\<open>BT_SymbolizerProperties\<close> shows which mapping and which symbol a user frame names.
  Where \<^verbatim>\<open>sort.Slice\<close> leaves the order of equal elements open, the model sorts stably. \<^verbatim>\<open>BT_Collector\<close> models
  \<^verbatim>\<open>daemon/event_collector.go\<close>, one definition per handler; \<^verbatim>\<open>BT_CollectorInv\<close>, \<^verbatim>\<open>BT_CollectorSteps\<close>, \<^verbatim>\<open>BT_CollectorRun\<close>,
  \<^verbatim>\<open>BT_CollectorBuffers\<close>, \<^verbatim>\<open>BT_Pairing\<close> and \<^verbatim>\<open>BT_CollectorProperties\<close> show its table invariants, the conservation of
  events, the reassembly of chunks in any order, what becomes of the main, cookie and sideband records of a transaction in each
  order of their arrival, and the flush by a sweep more than five seconds after the last input. \<^verbatim>\<open>BT_Protocol\<close> is \<^verbatim>\<open>daemon/protocol.go\<close>; \<^verbatim>\<open>BT_ProtocolProperties\<close> has its round trips, the absence of panics and
  the agreement with the decoder of the app. \<^verbatim>\<open>BT_SocketClient\<close> has the operations of \<^verbatim>\<open>daemon/socket_server.go\<close>, a TCP
  client, and \<^verbatim>\<open>BT_SocketSystem\<close> its goroutines as a step relation in which one goroutine moves to its next access of
  shared state; \<^verbatim>\<open>BT_SocketInv\<close>, \<^verbatim>\<open>BT_SocketDelivery\<close> and \<^verbatim>\<open>BT_SocketProperties\<close> show for every reachable state that the
  client is connected, reconnecting or reported lost, that reconnecting ends, and that events arrive whole and in order.
  \<^verbatim>\<open>BT_Daemon\<close> has the command handlers of \<^verbatim>\<open>daemon/daemon.go\<close> and \<^verbatim>\<open>SetTargetUid\<close>, and shows that a command of the app
  changes what the programs trace: requests are compared by the group of the sender, replies by the user of the request.

  \<^bold>\<open>The app.\<close> \<^verbatim>\<open>BT_AppEvent\<close> decodes events (\<^verbatim>\<open>app/model/BinderEvent.kt\<close>, \<^verbatim>\<open>StackTraceCodec.kt\<close>). \<^verbatim>\<open>BT_TransactionPairer\<close>
  (\<^verbatim>\<open>app/parser/TransactionPairer.kt\<close>) joins replies to requests. \<^verbatim>\<open>BT_ReplyParser\<close> (\<^verbatim>\<open>app/parser/ReplyParser.kt\<close>) reads
  exceptions and returned values, and \<^verbatim>\<open>BT_ParcelParser\<close> (\<^verbatim>\<open>app/parser/ParcelParser.kt\<close> and \<^verbatim>\<open>app/parser/decoders\<close>) is
  the pipeline that names an event. The theorems show which request a reply finds, that interface tokens of all three
  layouts are read, and what is shown for a reply.

  \<^bold>\<open>End to end.\<close> \<^verbatim>\<open>BT_EndToEnd\<close> and this theory join the programs, the collector, the protocol and the decoder of the
  app: the bytes that a sender hands to the driver are the parcel of the event that the app decodes.

  \<^bold>\<open>Conventions.\<close> A panic of Go and an exception of Kotlin are \<open>None\<close>, errors are values of a sum type, machine integers
  are words with their wrap-around. Clocks, the order in which maps are visited, the results of dials, reads and writes,
  and the eviction of LRU maps are arguments over which the theorems quantify. Times of the daemon are unbounded integers
  where the code has \<^verbatim>\<open>int64\<close> nanoseconds. Of \<^verbatim>\<open>net.Conn\<close> the model assumes (\<open>can_write\<close>) that no bytes are put on a
  connection after it was closed or after a write on it failed.

  \<^bold>\<open>Bounds.\<close> The chunk loop runs at most \<open>MAX_CHUNKS\<close> (16) times and the loop over reply headers four times, as in the
  code. Every other loop recurses over its data or has a termination proof; no model runs out of fuel.

  \<^bold>\<open>Not modelled.\<close> Loading of the programs and the goroutines of the collector (\<^verbatim>\<open>Start\<close> and \<^verbatim>\<open>Stop\<close>, calls of a library); the
  text of \<^verbatim>\<open>/proc\<close> files, which the symbolizer gets as parsed lines; flags, the pid file, signals and logging of the
  daemon; the two unused headers; in the app the resolution of methods by reflection, the guess of argument types,
  storage, services, root shells and the user interface, which live in the Android runtime; tests and build scripts.
  The handlers of the collector and the methods of the pairer run one after the other, as their locks order them.
\<close>

section \<open>From the sender to the app\<close>

lemma remaining_chunks:
  assumes c: "map load_trace_event rs = map f [0..<n]" and idx: "\<And>k. k < n \<Longrightarrow> unat (bte_chunk_index (f k)) = k"
    and raw: "raw \<in> set rs" and rest: "set es = set (map load_trace_event rs) - {load_trace_event raw}"
  shows "\<not> {..<n} \<subseteq> indices es" "{..<n} \<subseteq> indices (load_trace_event raw # es)"
    "\<forall>e\<in>set (load_trace_event raw # es). \<exists>k<n. e = f k"
proof -
  have all: "set (map load_trace_event rs) = f ` {..<n}" unfolding c by auto
  have "load_trace_event raw \<in> f ` {..<n}" using raw unfolding all [symmetric] by simp
  then obtain j where j: "j < n" "load_trace_event raw = f j" by auto
  have "e \<noteq> f j" if "e \<in> set es" for e using that rest j by auto
  then have "k \<noteq> j" if "k < n" "f k \<in> set es" for k using that by auto
  moreover have "\<exists>k<n. e = f k" if "e \<in> set es" for e using that rest all by auto
  ultimately have "j \<notin> indices es" using idx by (fastforce simp: indices_def)
  then show "\<not> {..<n} \<subseteq> indices es" using j(1) by auto
  show "\<forall>e\<in>set (load_trace_event raw # es). \<exists>k<n. e = f k" using rest all j by auto
  show "{..<n} \<subseteq> indices (load_trace_event raw # es)"
  proof
    fix k assume "k \<in> {..<n}"
    then have "f k \<in> set (load_trace_event raw # es)" "unat (bte_chunk_index (f k)) = k" using rest all idx by auto
    then show "k \<in> indices (load_trace_event raw # es)" unfolding indices_def by (metis imageI)
  qed
qed

lemma base_fields:
  assumes "base a = base b"
  shows "ev_ParcelData a = ev_ParcelData b" "ev_Pid a = ev_Pid b" "ev_Code a = ev_Code b"
  using arg_cong [OF assms, of ev_ParcelData] arg_cong [OF assms, of ev_Pid] arg_cong [OF assms, of ev_Code]
  by (simp_all add: base_def)

text \<open>C1. The bytes that a process sends reach the app. When the main program runs for a traced transaction of at most
  16384 bytes and its records have room in the ring buffer, the record that brings the last missing chunk to
  the daemon completes an event, whatever other records and sweeps come in between within
  five seconds. The event carries the numbers that the program read from the kernel and, as its parcel,
  the bytes of the sender's buffer, and the app decodes the event, with or without the sideband's
  fields, with these bytes as its raw parcel.\<close>

theorem sender_bytes_reach_app:
  assumes "kernel_laws env" "traced env ctx st" "reads_memory (ke_read_user env) um"
    and "l = tx_locals env ctx st" "d = unat (ml_data_size l)" "0 < d" "d \<le> 16384"
    and "unat (untagged (ml_buffer l)) + d \<le> 2 ^ 56" "\<forall>k n. ke_room env k n"
    and "rs = new_records st (kprobe_binder_transaction env ctx st)"
    and "collector_ok start" "sized start" "map_of (transactionBuffers start) (ml_transaction_id l) = None"
    and "\<forall>i\<in>set inputs. fits i \<and> in_window since i"
    and "raw \<in> set (tl rs)" "in_window since (Record call raw)" "MAX_CHUNKS \<le> ce_slices call"
    and "set (chunks_of (ml_transaction_id l) inputs) = set (map load_trace_event (tl rs)) - {load_trace_event raw}"
  shows "\<exists>c ev cookie. collector_run inputs start = Some c \<and> accepts (Record call raw) c = Some (ev, cookie) \<and>
    ev\<lparr>ev_StackTrace := None\<rparr> = payload_of (ce_now call 0) (meta_of_locals l) (user_bytes um (untagged (ml_buffer l)) d) \<and>
    (\<forall>ev' utf8 i g. base ev' = base ev \<and> event_fits ev' \<and> length (Encode ev') \<le> MaxPayloadLen \<longrightarrow>
      (\<exists>be. fromPayload utf8 (app_counters_of i g) (Encode ev') = Some (Some be, app_counters_of (i + 1) g) \<and>
        be_rawParcel be = user_bytes um (untagged (ml_buffer l)) d \<and> be_pid be = sint (ml_pid l) \<and> be_code be = sint (ml_code l)))"
proof -
  define n where "n = (d + 1023) div 1024"
  define f where "f k = chunk_record env l (of_nat k) (ke_memory env (reserve_calls st + 1 + k) 1112)" for k
  obtain data where c: "map load_trace_event (tl rs) = map f [0..<n]"
    and m: "\<And>raw. raw \<in> set (tl rs) \<Longrightarrow> main_of raw = Some (load_trace_event raw)"
    and b: "\<And>k. k < n \<Longrightarrow> belongs (meta_of_locals l) n data (f k)"
    and idx: "\<And>k. k < n \<Longrightarrow> unat (bte_chunk_index (f k)) = k"
    and len: "\<And>k. k < n \<Longrightarrow> length (data k) = 1024"
    and p: "take d (concat (map data [0..<n])) = user_bytes um (untagged (ml_buffer l)) d"
    by (rule program_chunks [OF assms(1-5,7-10) n_def, folded f_def]) (rule that; assumption)
  let ?e = "load_trace_event raw" and ?tid = "ml_transaction_id l"
  note R = remaining_chunks [OF c idx assms(15,18)]
  obtain j where j: "j < n" "?e = f j" using R(3) by auto
  have e: "main_of raw = Some ?e" "bte_transaction_id ?e = ?tid" "bte_data_size ?e = ml_data_size l"
    using m assms(15) j(2) by (simp_all add: f_def chunk_record_def Let_def)
  have "n \<le> 16" using assms(7) by (simp add: n_def)
  then have "fits (Record call raw)"
    using e idx [OF j(1)] j assms(5,7,17) by (simp add: CHUNK_SIZE_def MAX_CHUNKS_def)
  then have "\<exists>c ev cookie. collector_run inputs start = Some c \<and> accepts (Record call raw) c = Some (ev, cookie) \<and>
      ev\<lparr>ev_StackTrace := None\<rparr> = payload_of (ce_now call 0) (meta_of_locals l) (take d (concat (map data [0..<n])))"
    using R b len assms(5-7,11-14,16) e
    by (intro run_reassembles [where event = ?e and tid = ?tid and n = n and since = since])
      (auto simp: n_def meta_of_locals_def CHUNK_SIZE_def MAX_CHUNKS_def)
  then obtain c ev cookie where ev: "collector_run inputs start = Some c" "accepts (Record call raw) c = Some (ev, cookie)"
    "ev\<lparr>ev_StackTrace := None\<rparr> = payload_of (ce_now call 0) (meta_of_locals l) (user_bytes um (untagged (ml_buffer l)) d)"
    unfolding p by blast
  have fields: "ev_ParcelData ev = user_bytes um (untagged (ml_buffer l)) d" "ev_Pid ev = ml_pid l" "ev_Code ev = ml_code l"
    using arg_cong [OF ev(3), of ev_ParcelData] arg_cong [OF ev(3), of ev_Pid] arg_cong [OF ev(3), of ev_Code]
    by (simp_all add: payload_of_def meta_of_locals_def)
  have "\<exists>be. fromPayload utf8 (app_counters_of i g) (Encode ev') = Some (Some be, app_counters_of (i + 1) g) \<and>
        be_rawParcel be = user_bytes um (untagged (ml_buffer l)) d \<and> be_pid be = sint (ml_pid l) \<and> be_code be = sint (ml_code l)"
    if "base ev' = base ev" "event_fits ev'" "length (Encode ev') \<le> MaxPayloadLen" for ev' utf8 i g
    using app_reads [OF that(2,3), of utf8 i g] base_fields [OF that(1)] fields assms(7)
    by (simp add: app_event_of_def length_user_bytes)
  then show ?thesis using ev by blast
qed

text \<open>The two records of a transaction of 1500 bytes.\<close>

theorem sender_bytes_reach_app_witness:
  "\<exists>rs c ev cookie. new_records (sample_state 1000) (kprobe_binder_transaction (sample_env 1500) (sample_ctx 0) (sample_state 1000)) = rs \<and>
     collector_run [Record (sample_clock 10) (tl rs ! 0)] started = Some c \<and>
     accepts (Record (sample_clock 11) (tl rs ! 1)) c = Some (ev, cookie) \<and>
     ev_ParcelData ev = user_bytes sample_user_memory 8192 1500"
proof -
  let ?env = "sample_env 1500" and ?ctx = "sample_ctx 0" and ?st = "sample_state 1000"
  define l where "l = tx_locals ?env ?ctx ?st"
  define rs where "rs = new_records ?st (kprobe_binder_transaction ?env ?ctx ?st)"
  define f where "f k = chunk_record ?env l (of_nat k) (ke_memory ?env (reserve_calls ?st + 1 + k) 1112)" for k
  have v: "1500 = unat (ml_data_size l)" "ml_buffer l = 8192" by (simp_all add: l_def)
  then have a: "unat (untagged (ml_buffer l)) + 1500 \<le> 2 ^ 56" "(2 :: nat) = (1500 + 1023) div 1024" by (simp_all add: untagged_def)
  have room: "\<forall>k n. ke_room ?env k n" and le: "(1500 :: nat) \<le> 16384" by simp_all
  obtain data :: "nat \<Rightarrow> bytes" where c: "map load_trace_event (tl rs) = map f [0..<2]"
    and m: "\<And>raw. raw \<in> set (tl rs) \<Longrightarrow> main_of raw = Some (load_trace_event raw)"
    and idx: "\<And>k. k < 2 \<Longrightarrow> unat (bte_chunk_index (f k)) = k"
    by (rule program_chunks [OF sample_laws sample_traced(1) sample_reads_memory l_def v(1) le a(1) room rs_def a(2), folded f_def])
      (rule that; assumption)
  obtain r0 r1 where tl: "tl rs = [r0, r1]" using c by (auto simp: upt_rec map_eq_Cons_conv)
  have r: "load_trace_event r0 = f 0" "load_trace_event r1 = f 1" using c by (simp_all add: tl upt_rec)
  have ne: "f 0 \<noteq> f 1" using idx [of 0] idx [of 1] by auto
  have tid: "bte_transaction_id (f k) = ml_transaction_id l" "bte_data_size (f k) = ml_data_size l" for k
    by (simp_all add: f_def chunk_record_def Let_def)
  have "chunks_of (ml_transaction_id l) [Record (sample_clock 10) r0] = [f 0]"
    using m [of r0] tid by (simp add: chunks_of_def tl r)
  then have rest: "set (chunks_of (ml_transaction_id l) [Record (sample_clock 10) r0]) = set (map load_trace_event (tl rs)) - {load_trace_event r1}"
    using ne by (auto simp: tl r)
  have w: "in_window 10 (Record (sample_clock t) x)" if "t \<in> {10, 11}" for t x
    using that by (auto simp: in_window_def sample_clock_def staleBufferTTL_def second_def)
  have fit: "\<forall>i\<in>set [Record (sample_clock 10) r0]. fits i \<and> in_window 10 i"
    using m [of r0] w idx [of 0] v(1) by (simp add: tl r tid CHUNK_SIZE_def MAX_CHUNKS_def sample_clock_def)
  have new: "map_of (transactionBuffers started) (ml_transaction_id l) = None" "MAX_CHUNKS \<le> ce_slices (sample_clock 11)"
    by (simp_all add: started_def SetEventCallback_def NewEventCollector_def sample_clock_def MAX_CHUNKS_def)
  have r1: "r1 \<in> set (tl rs)" by (simp add: tl)
  obtain c ev cookie where "collector_run [Record (sample_clock 10) r0] started = Some c"
      "accepts (Record (sample_clock 11) r1) c = Some (ev, cookie)"
    and ev: "ev\<lparr>ev_StackTrace := None\<rparr> = payload_of (ce_now (sample_clock 11) 0) (meta_of_locals l)
      (user_bytes sample_user_memory (untagged (ml_buffer l)) 1500)"
    using sender_bytes_reach_app [OF sample_laws sample_traced(1) sample_reads_memory l_def v(1) _ le a(1) room rs_def
        started_ok(1) sized_started new(1) fit r1 w new(2) rest] by auto
  moreover have "ev_ParcelData ev = user_bytes sample_user_memory 8192 1500"
    using arg_cong [OF ev, of ev_ParcelData] v(2) by (simp add: payload_of_def untagged_def)
  ultimately show ?thesis using rs_def by (simp add: tl) (metis list.sel(3) nth_Cons_0 nth_Cons_Suc tl)
qed

end
